(* ===== verification/Dain_Prelude.thy ===== *)
theory Dain_Prelude
  imports Complex_Main "HOL-Library.AList" "HOL-Library.Char_ord" "HOL-Library.List_Lexorder"
    "HOL-Library.Product_Lexorder" "HOL-Library.Multiset"
begin

text \<open>
  Shared base of the DAIN development: the Python values the components compute with and the
  generic lemmas their proofs share.

  \<^item> An exception is a value: a fallible operation returns \<open>py_error + 'a\<close> and \<open>rbind\<close> sequences
    two of them. The exception classes are those the sources raise and catch.
  \<^item> A \<open>dict\<close> is an association list in insertion order. \<open>AList.update\<close> is Python's
    \<open>d[k] = v\<close>: an existing key keeps its place, a new one goes to the end.
  \<^item> A Python \<open>float\<close> is a \<open>rat\<close>. Every finite double is a rational; arithmetic is exact, so the
    rounding of single floating-point operations, infinities and NaN are not modelled.
  \<^item> A Python \<open>str\<close> is a \<open>string\<close>, compared lexicographically by code as \<open>sorted\<close> does.
\<close>

subsection \<open>Automation shared by the components\<close>

named_theorems res_simps \<open>inversion of the error monad\<close>
named_theorems dict_simps \<open>facts on dictionaries\<close>

subsection \<open>Exceptions as values\<close>

datatype py_error =
    ValueError string
  | RuntimeError string
  | KeyError string
  | StopIteration
  | ZeroDivisionError
  | TypeError string
  | OSError string
  | AuthenticationError string
  | NodeUnavailableError string
  | ShardExecutionError string
  | NodeRejectedError string
  | HTTPError string
  | HTTPException int string
  | ModelSpecUnavailable string
  | AttributeError string
  | IndexError string
  | IndexNotReadyError string
  | EmbeddingUnavailableError string
  | InferenceUnavailableError string
  | BenchUnavailableError string
  | DainError string

type_synonym 'a res = "py_error + 'a"

text \<open>\<open>str(exc)\<close>, and the \<open>except\<close> clauses that name a class with subclasses in the sources.\<close>

primrec err_text :: "py_error \<Rightarrow> string" where
  "err_text (ValueError m) = m"
| "err_text (RuntimeError m) = m"
| "err_text (KeyError k) = [CHR 0x27] @ k @ [CHR 0x27]"
| "err_text StopIteration = []"
| "err_text ZeroDivisionError = ''division by zero''"
| "err_text (TypeError m) = m"
| "err_text (OSError m) = m"
| "err_text (AuthenticationError m) = m"
| "err_text (NodeUnavailableError m) = m"
| "err_text (ShardExecutionError m) = m"
| "err_text (NodeRejectedError m) = m"
| "err_text (HTTPError m) = m"
| "err_text (HTTPException code m) = m"
| "err_text (ModelSpecUnavailable m) = m"
| "err_text (AttributeError m) = m"
| "err_text (IndexError m) = m"
| "err_text (IndexNotReadyError m) = m"
| "err_text (EmbeddingUnavailableError m) = m"
| "err_text (InferenceUnavailableError m) = m"
| "err_text (BenchUnavailableError m) = m"
| "err_text (DainError m) = m"

text \<open>\<open>repr\<close> of a text with nothing to escape.\<close>

definition py_repr :: "string \<Rightarrow> string" where
  "py_repr s = [CHR 0x27] @ s @ [CHR 0x27]"

definition is_runtime_error :: "py_error \<Rightarrow> bool" where
  "is_runtime_error e \<longleftrightarrow> (case e of RuntimeError _ \<Rightarrow> True | AuthenticationError _ \<Rightarrow> True
     | NodeUnavailableError _ \<Rightarrow> True | ShardExecutionError _ \<Rightarrow> True | NodeRejectedError _ \<Rightarrow> True
     | ModelSpecUnavailable _ \<Rightarrow> True | IndexNotReadyError _ \<Rightarrow> True
     | EmbeddingUnavailableError _ \<Rightarrow> True | InferenceUnavailableError _ \<Rightarrow> True
     | BenchUnavailableError _ \<Rightarrow> True | DainError _ \<Rightarrow> True | _ \<Rightarrow> False)"

definition is_value_error :: "py_error \<Rightarrow> bool" where
  "is_value_error e \<longleftrightarrow> (case e of ValueError _ \<Rightarrow> True | _ \<Rightarrow> False)"

definition is_type_error :: "py_error \<Rightarrow> bool" where
  "is_type_error e \<longleftrightarrow> (case e of TypeError _ \<Rightarrow> True | _ \<Rightarrow> False)"

text \<open>A handler \<open>try: m except ...\<close>; the handler passes on what its clauses do not name.\<close>

primrec rcatch :: "('e + 'a) \<Rightarrow> ('e \<Rightarrow> 'e + 'a) \<Rightarrow> 'e + 'a" where
  "rcatch (Inl e) h = h e"
| "rcatch (Inr x) h = Inr x"

lemma rcatch_eq_Inr [res_simps]: "rcatch m h = Inr y \<longleftrightarrow> m = Inr y \<or> (\<exists>e. m = Inl e \<and> h e = Inr y)"
  by (cases m) auto

lemma rcatch_eq_Inl [res_simps]: "rcatch m h = Inl e \<longleftrightarrow> (\<exists>e'. m = Inl e' \<and> h e' = Inl e)"
  by (cases m) auto

primrec rbind :: "'e + 'a \<Rightarrow> ('a \<Rightarrow> 'e + 'b) \<Rightarrow> 'e + 'b" where
  "rbind (Inl e) f = Inl e"
| "rbind (Inr x) f = f x"

lemma rbind_eq_Inr [res_simps]: "rbind m f = Inr y \<longleftrightarrow> (\<exists>x. m = Inr x \<and> f x = Inr y)"
  by (cases m) auto

lemma rbind_eq_Inl [res_simps]:
  "rbind m f = Inl e \<longleftrightarrow> m = Inl e \<or> (\<exists>x. m = Inr x \<and> f x = Inl e)"
  by (cases m) auto

lemma Inr_eq_rbind [res_simps]: "Inr y = rbind m f \<longleftrightarrow> (\<exists>x. m = Inr x \<and> f x = Inr y)"
  by (cases m) auto

lemma Inl_eq_rbind [res_simps]:
  "Inl e = rbind m f \<longleftrightarrow> m = Inl e \<or> (\<exists>x. m = Inr x \<and> f x = Inl e)"
  by (cases m) auto

lemma rbind_assoc: "rbind (rbind m f) g = rbind m (\<lambda>x. rbind (f x) g)"
  by (cases m) auto

lemma rbind_cong [fundef_cong]:
  "m = m' \<Longrightarrow> (\<And>x. m' = Inr x \<Longrightarrow> f x = f' x) \<Longrightarrow> rbind m f = rbind m' f'"
  by (cases m') auto

text \<open>Running a fallible step over a list, stopping at the first exception.\<close>

fun rmapM :: "('a \<Rightarrow> 'e + 'b) \<Rightarrow> 'a list \<Rightarrow> 'e + 'b list" where
  "rmapM f [] = Inr []"
| "rmapM f (x # xs) = rbind (f x) (\<lambda>y. rbind (rmapM f xs) (\<lambda>ys. Inr (y # ys)))"

text \<open>A comprehension whose condition may raise.\<close>

fun rfilterM :: "('a \<Rightarrow> 'e + bool) \<Rightarrow> 'a list \<Rightarrow> 'e + 'a list" where
  "rfilterM p [] = Inr []"
| "rfilterM p (x # xs) =
     rbind (p x) (\<lambda>b. rbind (rfilterM p xs) (\<lambda>ys. Inr (if b then x # ys else ys)))"

lemma rfilterM_ok:
  assumes "\<And>x. x \<in> set xs \<Longrightarrow> p x = Inr (q x)"
  shows "rfilterM p xs = Inr (filter q xs)"
  using assms by (induction xs) auto

lemma rmapM_ok:
  assumes "\<And>x. x \<in> set xs \<Longrightarrow> f x = Inr (g x)"
  shows "rmapM f xs = Inr (map g xs)"
  using assms by (induction xs) auto

lemma rmapM_Inr_mem: "rmapM f xs = Inr ys \<Longrightarrow> x \<in> set xs \<Longrightarrow> \<exists>y \<in> set ys. f x = Inr y"
  by (induction xs arbitrary: ys) (auto simp: rbind_eq_Inr)

lemma rmapM_total:
  assumes "\<And>x. x \<in> set xs \<Longrightarrow> \<exists>y. f x = Inr y"
  shows "\<exists>ys. rmapM f xs = Inr ys"
  using assms by (induction xs) fastforce+

subsection \<open>Dictionaries\<close>

type_synonym ('k, 'v) dict = "('k \<times> 'v) list"

abbreviation keys :: "('k, 'v) dict \<Rightarrow> 'k list" where
  "keys d \<equiv> map fst d"

text \<open>\<open>d[k]\<close>, raising \<open>KeyError\<close>; the message is the key's text.\<close>

definition dict_get :: "(string, 'v) dict \<Rightarrow> string \<Rightarrow> 'v res" where
  "dict_get d k = (case map_of d k of None \<Rightarrow> Inl (KeyError k) | Some v \<Rightarrow> Inr v)"

text \<open>A dict comprehension \<open>{k: v for ...}\<close>: later entries overwrite earlier ones in place.\<close>

definition dict_of :: "('k \<times> 'v) list \<Rightarrow> ('k, 'v) dict" where
  "dict_of ps = fold (\<lambda>(k, v) d. AList.update k v d) ps []"

lemma dict_get_Inr [res_simps]: "dict_get d k = Inr v \<longleftrightarrow> map_of d k = Some v"
  by (auto simp: dict_get_def split: option.splits)

lemma fold_update_map_of:
  "map_of (fold (\<lambda>(k, v) d. AList.update k v d) ps d) = map_of d ++ map_of (rev ps)"
  by (induction ps arbitrary: d) (auto simp: update_conv' fun_eq_iff map_add_def split: option.splits)

lemma map_of_dict_of: "map_of (dict_of ps) = map_of (rev ps)"
  by (simp add: dict_of_def fold_update_map_of)

lemma fold_update_distinct:
  "distinct (keys d) \<Longrightarrow> distinct (keys (fold (\<lambda>(k, v) d. AList.update k v d) ps d))"
  by (induction ps arbitrary: d) (auto simp: distinct_update)

lemma distinct_dict_of [simp]: "distinct (keys (dict_of ps))"
  by (simp add: dict_of_def fold_update_distinct)

lemma map_of_rev_distinct: "distinct (keys ps) \<Longrightarrow> map_of (rev ps) = map_of ps"
  by (metis distinct_map distinct_rev map_of_inject_set rev_map set_rev)

lemma map_of_dict_of_distinct: "distinct (keys ps) \<Longrightarrow> map_of (dict_of ps) = map_of ps"
  by (simp add: map_of_dict_of map_of_rev_distinct)

lemma set_keys_update [dict_simps]: "set (keys (AList.update k v d)) = insert k (set (keys d))"
  by (auto simp: update_keys)

lemma keys_update_mem [simp]: "k \<in> set (keys d) \<Longrightarrow> keys (AList.update k v d) = keys d"
  by (simp add: update_keys)

lemma keys_update_new [simp]: "k \<notin> set (keys d) \<Longrightarrow> keys (AList.update k v d) = keys d @ [k]"
  by (simp add: update_keys)

lemma update_new: "k \<notin> set (keys d) \<Longrightarrow> AList.update k v d = d @ [(k, v)]"
  by (induction d) auto

subsection \<open>Sums over the values of a dictionary\<close>

lemma sum_list_update_dict:
  fixes f :: "'v \<Rightarrow> 'n::ab_group_add"
  assumes "distinct (keys d)" and "map_of d k = Some v"
  shows "(\<Sum>p\<leftarrow>AList.update k w d. f (snd p)) = (\<Sum>p\<leftarrow>d. f (snd p)) - f v + f w"
  using assms
proof (induction d)
  case Nil
  then show ?case by simp
next
  case (Cons p d)
  show ?case
  proof (cases "fst p = k")
    case True
    then have "snd p = v" using Cons.prems by (cases p) auto
    with True show ?thesis by (cases p) simp
  next
    case False
    then have "map_of d k = Some v" using Cons.prems by (cases p) auto
    with Cons False show ?thesis by (cases p) (simp add: algebra_simps)
  qed
qed

lemma sum_list_mono_strict_split:
  fixes f g :: "'a \<Rightarrow> int"
  assumes "\<And>x. x \<in> set xs \<Longrightarrow> f x \<le> g x" and "y \<in> set xs" and "f y < g y"
  shows "sum_list (map f xs) < sum_list (map g xs)"
  using assms
proof (induction xs)
  case Nil
  then show ?case by simp
next
  case (Cons x xs)
  have le: "sum_list (map f xs) \<le> sum_list (map g xs)"
    using Cons.prems(1) by (intro sum_list_mono) auto
  show ?case
  proof (cases "y \<in> set xs")
    case True
    with Cons have "sum_list (map f xs) < sum_list (map g xs)" by auto
    moreover have "f x \<le> g x" using Cons.prems(1) by simp
    ultimately show ?thesis by simp
  next
    case False
    then have "f x < g x" using Cons.prems by auto
    with le show ?thesis by simp
  qed
qed

lemma member_le_sum_list_rat:
  fixes f :: "'a \<Rightarrow> rat"
  assumes "\<And>x. x \<in> set xs \<Longrightarrow> 0 \<le> f x" and "y \<in> set xs"
  shows "f y \<le> sum_list (map f xs)"
  using assms
proof (induction xs)
  case (Cons x xs)
  then have "0 \<le> sum_list (map f xs)" by (intro sum_list_nonneg) auto
  with Cons show ?case by fastforce
qed simp

lemma sort_sum_list:
  fixes f :: "'a::linorder \<Rightarrow> 'n::comm_monoid_add"
  shows "(\<Sum>n\<leftarrow>sort xs. f n) = (\<Sum>n\<leftarrow>xs. f n)"
  by (metis mset_map mset_sort sum_mset_sum_list)

lemma sum_list_pos:
  fixes f :: "'a \<Rightarrow> rat"
  assumes "xs \<noteq> []" "\<And>x. x \<in> set xs \<Longrightarrow> 0 < f x"
  shows "0 < sum_list (map f xs)"
proof -
  obtain y ys where xs: "xs = y # ys" using assms(1) by (cases xs) auto
  have "0 < f y" using assms(2) xs by simp
  moreover have "0 \<le> sum_list (map f ys)"
    by (rule sum_list_nonneg) (use assms(2) xs in \<open>auto simp: less_imp_le\<close>)
  ultimately show ?thesis using xs by simp
qed

lemma map_sort_key_eq: "map f (sort_key f xs) = sort (map f xs)"
  by (rule properties_for_sort[symmetric]) simp_all

lemma filter_head: "filter P xs = y # ys \<Longrightarrow> y \<in> set xs \<and> P y"
  by (metis filter_set list.set_intros(1) mem_Collect_eq set_filter)

subsection \<open>Numbers: rounding and printing\<close>

text \<open>Python's \<open>round(x)\<close>: to the nearest integer, ties to the even one.\<close>

definition py_round :: "rat \<Rightarrow> int" where
  "py_round x = (let f = \<lfloor>x\<rfloor>; d = x - of_int f in
     if d < 1/2 then f else if d > 1/2 then f + 1 else if even f then f else f + 1)"

text \<open>\<open>round(x, n)\<close> for \<open>n\<close> decimal places.\<close>

definition py_round_n :: "nat \<Rightarrow> rat \<Rightarrow> rat" where
  "py_round_n n x = of_int (py_round (x * 10 ^ n)) / 10 ^ n"

lemma py_round_error: "\<bar>of_int (py_round x) - x\<bar> \<le> 1/2"
proof -
  have "of_int \<lfloor>x\<rfloor> \<le> x" "x < of_int \<lfloor>x\<rfloor> + 1" by linarith+
  then show ?thesis unfolding py_round_def Let_def by auto
qed

lemma py_round_of_int [simp]: "py_round (of_int i) = i"
  by (simp add: py_round_def)

lemma py_round_mono: assumes "x \<le> y" shows "py_round x \<le> py_round y"
proof (cases "\<lfloor>x\<rfloor> = \<lfloor>y\<rfloor>")
  case True
  with assms show ?thesis unfolding py_round_def Let_def by auto
next
  case False
  with assms have "\<lfloor>x\<rfloor> + 1 \<le> \<lfloor>y\<rfloor>" using floor_mono[OF assms] by simp
  moreover have "py_round x \<le> \<lfloor>x\<rfloor> + 1" "\<lfloor>y\<rfloor> \<le> py_round y" by (auto simp: py_round_def Let_def)
  ultimately show ?thesis by simp
qed

lemma py_round_nonneg: "0 \<le> x \<Longrightarrow> 0 \<le> py_round x"
  using py_round_mono[of 0 x] py_round_of_int[of 0] by simp

lemma py_round_n_error: "\<bar>py_round_n n x - x\<bar> \<le> 1 / (2 * 10 ^ n)"
proof -
  have "\<bar>of_int (py_round (x * 10 ^ n)) - x * 10 ^ n\<bar> \<le> 1/2" by (rule py_round_error)
  then have "\<bar>of_int (py_round (x * 10 ^ n)) - x * 10 ^ n\<bar> / 10 ^ n \<le> (1/2) / 10 ^ n"
    by (intro divide_right_mono) auto
  moreover have "\<bar>of_int (py_round (x * 10 ^ n)) - x * 10 ^ n\<bar> / 10 ^ n =
      \<bar>of_int (py_round (x * 10 ^ n)) / 10 ^ n - x\<bar>"
    by (simp add: abs_div_pos diff_divide_distrib)
  ultimately show ?thesis by (simp add: py_round_n_def)
qed

definition digit_char :: "nat \<Rightarrow> char" where
  "digit_char d = char_of (48 + d)"

fun str_nat :: "nat \<Rightarrow> string" where
  "str_nat n = (if n < 10 then [digit_char n] else str_nat (n div 10) @ [digit_char (n mod 10)])"

declare str_nat.simps [simp del]

definition str_int :: "int \<Rightarrow> string" where
  "str_int i = (if i < 0 then ''-'' @ str_nat (nat (- i)) else str_nat (nat i))"

text \<open>\<open>sep.join(parts)\<close>.\<close>

fun str_join :: "string \<Rightarrow> string list \<Rightarrow> string" where
  "str_join sep [] = []"
| "str_join sep [x] = x"
| "str_join sep (x # y # ys) = x @ sep @ str_join sep (y # ys)"

text \<open>
  \<open>str.strip\<close>, \<open>rstrip(chars)\<close>, \<open>startswith\<close>, \<open>partition(sep)\<close> for a one-character separator, and
  ASCII lower-casing. White space and case are those of ASCII.
\<close>

definition py_space :: "char \<Rightarrow> bool" where
  "py_space c \<longleftrightarrow> of_char c \<in> set ([9, 10, 11, 12, 13, 28, 29, 30, 31, 32] :: int list)"

definition rstrip_while :: "('a \<Rightarrow> bool) \<Rightarrow> 'a list \<Rightarrow> 'a list" where
  "rstrip_while p s = rev (dropWhile p (rev s))"

definition py_strip :: "string \<Rightarrow> string" where
  "py_strip s = rstrip_while py_space (dropWhile py_space s)"

definition starts_with :: "string \<Rightarrow> string \<Rightarrow> bool" where
  "starts_with p s \<longleftrightarrow> take (length p) s = p"

definition is_digit_char :: "char \<Rightarrow> bool" where
  "is_digit_char c \<longleftrightarrow> 48 \<le> (of_char c :: int) \<and> (of_char c :: int) \<le> 57"

definition py_isdigit :: "string \<Rightarrow> bool" where
  "py_isdigit s \<longleftrightarrow> s \<noteq> [] \<and> list_all is_digit_char s"

definition lower_char :: "char \<Rightarrow> char" where
  "lower_char c = (if 65 \<le> (of_char c :: int) \<and> (of_char c :: int) \<le> 90 then char_of ((of_char c :: int) + 32) else c)"

definition py_lower :: "string \<Rightarrow> string" where
  "py_lower s = map lower_char s"

definition py_partition :: "char \<Rightarrow> string \<Rightarrow> string \<times> string \<times> string" where
  "py_partition c s =
     (let h = takeWhile (\<lambda>x. x \<noteq> c) s; r = dropWhile (\<lambda>x. x \<noteq> c) s
      in (h, take 1 r, drop 1 r))"

text \<open>\<open>s.split(c)\<close> for a one-character separator.\<close>

fun py_split :: "char \<Rightarrow> string \<Rightarrow> string list" where
  "py_split c [] = [[]]"
| "py_split c (x # s) = (if x = c then [] # py_split c s
     else (case py_split c s of [] \<Rightarrow> [[x]] | w # ws \<Rightarrow> (x # w) # ws))"

text \<open>\<open>str.splitlines()\<close> at the ASCII line boundaries; a final boundary opens no further line.\<close>

definition line_break :: "char \<Rightarrow> bool" where
  "line_break c \<longleftrightarrow> of_char c \<in> set ([10, 11, 12, 13, 28, 29, 30] :: int list)"

fun split_lines :: "string \<Rightarrow> string \<Rightarrow> string list" where
  "split_lines acc [] = (if acc = [] then [] else [rev acc])"
| "split_lines acc (c # s) =
     (if line_break c
      then rev acc # split_lines [] (if c = CHR 0x0D \<and> take 1 s = [CHR 0x0A] then drop 1 s else s)
      else split_lines (c # acc) s)"

definition splitlines :: "string \<Rightarrow> string list" where
  "splitlines s = split_lines [] s"

text \<open>\<open>s.rsplit(maxsplit=1)\<close>: the last word and what precedes it, if there is both.\<close>

definition rsplit1 :: "string \<Rightarrow> string list" where
  "rsplit1 s =
     (let t = rev (py_strip s);
          w = takeWhile (\<lambda>c. \<not> py_space c) t;
          r = dropWhile py_space (dropWhile (\<lambda>c. \<not> py_space c) t)
      in if t = [] then [] else if r = [] then [rev w] else [rev r, rev w])"

text \<open>
  The maximal runs of characters with a property: \<open>s.split()\<close> for the characters that are not
  white space, and \<open>re.findall("[...]+", s)\<close> for a character class. \<open>p in s\<close> for two texts.
\<close>

fun char_runs :: "(char \<Rightarrow> bool) \<Rightarrow> string \<Rightarrow> string \<Rightarrow> string list" where
  "char_runs p acc [] = (if acc = [] then [] else [rev acc])"
| "char_runs p acc (c # s) =
     (if p c then char_runs p (c # acc) s
      else (if acc = [] then [] else [rev acc]) @ char_runs p [] s)"

definition py_words :: "string \<Rightarrow> string list" where
  "py_words s = char_runs (\<lambda>c. \<not> py_space c) [] s"

fun py_in :: "string \<Rightarrow> string \<Rightarrow> bool" where
  "py_in p [] = (p = [])"
| "py_in p (c # s) = (starts_with p (c # s) \<or> py_in p s)"

definition ends_with :: "string \<Rightarrow> string \<Rightarrow> bool" where
  "ends_with p s \<longleftrightarrow> length p \<le> length s \<and> drop (length s - length p) s = p"

text \<open>
  \<open>float(text)\<close> on decimal literals, with \<open>None\<close> for the \<open>ValueError\<close>. Infinities and NaN are
  outside the model.
\<close>

fun digits_of :: "int \<Rightarrow> nat \<Rightarrow> string \<Rightarrow> int \<times> nat \<times> string" where
  "digits_of acc n [] = (acc, n, [])"
| "digits_of acc n (c # s) =
     (if is_digit_char c then digits_of (acc * 10 + (of_char c - 48)) (Suc n) s
      else if c = CHR ''_'' \<and> 0 < n \<and> (case s of [] \<Rightarrow> False | d # _ \<Rightarrow> is_digit_char d)
        then digits_of acc n s
      else (acc, n, c # s))"

definition read_sign :: "string \<Rightarrow> int \<times> string" where
  "read_sign s = (case s of c # r \<Rightarrow> if c = CHR ''-'' then (-1, r) else if c = CHR ''+'' then (1, r) else (1, s)
     | [] \<Rightarrow> (1, []))"

definition read_exponent :: "string \<Rightarrow> int option" where
  "read_exponent s =
     (case s of [] \<Rightarrow> Some 0
      | c # r \<Rightarrow>
          if c = CHR ''e'' \<or> c = CHR ''E'' then
            let (sg, r1) = read_sign r; (v, n, r2) = digits_of 0 0 r1
            in if 0 < n \<and> r2 = [] then Some (sg * v) else None
          else None)"

definition ten_power :: "int \<Rightarrow> rat" where
  "ten_power e = (if 0 \<le> e then 10 ^ nat e else 1 / 10 ^ nat (- e))"

definition py_float :: "string \<Rightarrow> rat option" where
  "py_float text =
     (let (sg, s1) = read_sign (py_strip text);
          (ip, n1, s2) = digits_of 0 0 s1;
          (fp, n2, s3) = (case s2 of c # r \<Rightarrow> if c = CHR ''.'' then digits_of 0 0 r else (0, 0, s2)
                          | [] \<Rightarrow> (0, 0, []))
      in if n1 + n2 = 0 then None
         else map_option (\<lambda>e. of_int sg * (of_int ip + of_int fp / 10 ^ n2) * ten_power e) (read_exponent s3))"

text \<open>\<open>int(text)\<close> in base ten, with \<open>None\<close> for the \<open>ValueError\<close>.\<close>

definition py_int_of_text :: "string \<Rightarrow> int option" where
  "py_int_of_text text =
     (let (sg, r) = read_sign (py_strip text); (v, n, rest) = digits_of 0 0 r
      in if 0 < n \<and> rest = [] then Some (sg * v) else None)"

text \<open>\<open>str(Path(s))\<close> and \<open>str(Path(d) / name)\<close>: repeated and trailing slashes and points are dropped.\<close>

definition path_norm :: "string \<Rightarrow> string" where
  "path_norm s =
     (let parts = filter (\<lambda>p. p \<noteq> [] \<and> p \<noteq> ''.'') (py_split (CHR ''/'') s);
          body = (if starts_with ''/'' s then ''/'' else []) @ str_join ''/'' parts
      in if body = [] then ''.'' else body)"

definition path_child :: "string \<Rightarrow> string \<Rightarrow> string" where
  "path_child d name = (if d = [] then path_norm name else path_norm (d @ ''/'' @ name))"

text \<open>\<open>int(x)\<close> of a float truncates towards zero.\<close>

definition py_int :: "rat \<Rightarrow> int" where
  "py_int x = (if 0 \<le> x then \<lfloor>x\<rfloor> else \<lceil>x\<rceil>)"

lemma py_int_of_int [simp]: "py_int (of_int i) = i"
  by (simp add: py_int_def)

text \<open>The class name of an exception, as in \<open>type(exc).__name__\<close>.\<close>

primrec err_name :: "py_error \<Rightarrow> string" where
  "err_name (ValueError m) = ''ValueError''"
| "err_name (RuntimeError m) = ''RuntimeError''"
| "err_name (KeyError k) = ''KeyError''"
| "err_name StopIteration = ''StopIteration''"
| "err_name ZeroDivisionError = ''ZeroDivisionError''"
| "err_name (TypeError m) = ''TypeError''"
| "err_name (OSError m) = ''OSError''"
| "err_name (AuthenticationError m) = ''AuthenticationError''"
| "err_name (NodeUnavailableError m) = ''NodeUnavailableError''"
| "err_name (ShardExecutionError m) = ''ShardExecutionError''"
| "err_name (NodeRejectedError m) = ''NodeRejectedError''"
| "err_name (HTTPError m) = ''HTTPError''"
| "err_name (HTTPException code m) = ''HTTPException''"
| "err_name (ModelSpecUnavailable m) = ''ModelSpecUnavailable''"
| "err_name (AttributeError m) = ''AttributeError''"
| "err_name (IndexError m) = ''IndexError''"
| "err_name (IndexNotReadyError m) = ''IndexNotReadyError''"
| "err_name (EmbeddingUnavailableError m) = ''EmbeddingUnavailableError''"
| "err_name (InferenceUnavailableError m) = ''InferenceUnavailableError''"
| "err_name (BenchUnavailableError m) = ''BenchUnavailableError''"
| "err_name (DainError m) = ''DainError''"

end
