(* ===== verification/Json.thy ===== *)
theory Json
  imports Dain_Prelude
begin

text \<open>
  JSON values as the Python code handles them (the \<open>Any\<close> of job payloads, node replies and joined
  profiles) and \<open>json.dumps(value, ensure_ascii=False, separators=(",", ":"), sort_keys=True)\<close>. An
  object is a \<open>dict\<close> with string keys in insertion order. The text of a float, \<open>float.__repr__\<close>, is
  a parameter \<open>frepr\<close>, because a float is held as the rational it denotes; what the proofs use of
  it is \<open>float_text\<close>.
\<close>

datatype json =
    JNull
  | JBool bool
  | JInt int
  | JFloat rat
  | JStr string
  | JList "json list"
  | JObj "(string \<times> json) list"

subsection \<open>Access, as \<open>isinstance\<close> and \<open>dict.get\<close> do it\<close>

definition jget :: "(string, json) dict \<Rightarrow> string \<Rightarrow> json" where
  "jget d k = (case map_of d k of None \<Rightarrow> JNull | Some v \<Rightarrow> v)"

text \<open>Numbers in the sense of \<open>isinstance(x, (int, float))\<close>: \<open>bool\<close> is a subclass of \<open>int\<close>.\<close>

fun jnumber :: "json \<Rightarrow> rat option" where
  "jnumber (JInt i) = Some (of_int i)"
| "jnumber (JFloat x) = Some x"
| "jnumber (JBool b) = Some (if b then 1 else 0)"
| "jnumber _ = None"

text \<open>\<open>bool(x)\<close>, as \<open>x or y\<close> and \<open>if x\<close> read it.\<close>

fun jtruthy :: "json \<Rightarrow> bool" where
  "jtruthy JNull = False"
| "jtruthy (JBool b) = b"
| "jtruthy (JInt i) = (i \<noteq> 0)"
| "jtruthy (JFloat x) = (x \<noteq> 0)"
| "jtruthy (JStr s) = (s \<noteq> [])"
| "jtruthy (JList xs) = (xs \<noteq> [])"
| "jtruthy (JObj d) = (d \<noteq> [])"

subsection \<open>Printing\<close>

abbreviation bslash :: char where
  "bslash \<equiv> CHR 0x5C"

abbreviation dquote :: char where
  "dquote \<equiv> CHR 0x22"

definition json_hex :: "nat \<Rightarrow> char" where
  "json_hex d = (if d < 10 then char_of (48 + d) else char_of (87 + d))"

definition esc_char :: "char \<Rightarrow> string" where
  "esc_char c =
     (if c = dquote then [bslash, dquote]
      else if c = bslash then [bslash, bslash]
      else if c = CHR 0x08 then bslash # ''b''
      else if c = CHR 0x09 then bslash # ''t''
      else if c = CHR 0x0A then bslash # ''n''
      else if c = CHR 0x0C then bslash # ''f''
      else if c = CHR 0x0D then bslash # ''r''
      else if of_char c < (32 :: nat)
        then bslash # ''u00'' @ [json_hex (of_char c div 16), json_hex (of_char c mod 16)]
      else [c])"

definition json_string :: "string \<Rightarrow> string" where
  "json_string s = [dquote] @ concat (map esc_char s) @ [dquote]"

fun json_text :: "(rat \<Rightarrow> string) \<Rightarrow> json \<Rightarrow> string" where
  "json_text frepr JNull = ''null''"
| "json_text frepr (JBool b) = (if b then ''true'' else ''false'')"
| "json_text frepr (JInt i) = str_int i"
| "json_text frepr (JFloat x) = frepr x"
| "json_text frepr (JStr s) = json_string s"
| "json_text frepr (JList xs) = ''['' @ str_join '','' (map (json_text frepr) xs) @ '']''"
| "json_text frepr (JObj kvs) =
     ''{'' @ str_join '','' (map (\<lambda>(k, v). json_string k @ '':'' @ json_text frepr v) kvs) @ ''}''"

text \<open>\<open>sort_keys=True\<close> orders every object by key before it is printed.\<close>

fun json_sorted :: "json \<Rightarrow> json" where
  "json_sorted (JList xs) = JList (map json_sorted xs)"
| "json_sorted (JObj kvs) = JObj (sort_key fst (map (\<lambda>(k, v). (k, json_sorted v)) kvs))"
| "json_sorted j = j"

definition json_dumps :: "(rat \<Rightarrow> string) \<Rightarrow> json \<Rightarrow> string" where
  "json_dumps frepr j = json_text frepr (json_sorted j)"

text \<open>
  \<open>str(x)\<close> of a parsed value: a string is itself, a constant has Python's spelling. Python's text of
  a float or a container only words messages; here it is the JSON text, with floats as \<open>?\<close>.
\<close>

fun json_str :: "json \<Rightarrow> string" where
  "json_str (JStr s) = s"
| "json_str JNull = ''None''"
| "json_str (JBool b) = (if b then ''True'' else ''False'')"
| "json_str (JInt i) = str_int i"
| "json_str j = json_dumps (\<lambda>_. ''?'') j"

subsection \<open>Number texts\<close>

definition number_char :: "char \<Rightarrow> bool" where
  "number_char c \<longleftrightarrow> c \<in> set ''0123456789+-.e''"

abbreviation digits :: string where
  "digits \<equiv> ''0123456789''"

definition num_head :: "char \<Rightarrow> bool" where
  "num_head c \<longleftrightarrow> c = CHR ''-'' \<or> c \<in> set digits"

text \<open>
  What \<open>float.__repr__\<close> promises for finite floats: different floats print differently, the text
  starts with a digit or a minus, consists of digits, signs, point and exponent mark, and has a
  point or an exponent mark, which the text of an \<open>int\<close> never has.
\<close>

definition float_text :: "(rat \<Rightarrow> string) \<Rightarrow> bool" where
  "float_text frepr \<longleftrightarrow> (\<forall>x y. frepr x = frepr y \<longrightarrow> x = y)
     \<and> (\<forall>x. frepr x \<noteq> [] \<and> num_head (hd (frepr x)) \<and> list_all number_char (frepr x)
           \<and> (CHR ''.'' \<in> set (frepr x) \<or> CHR ''e'' \<in> set (frepr x)))"

lemma digit_char_inj: "a < 10 \<Longrightarrow> b < 10 \<Longrightarrow> digit_char a = digit_char b \<longleftrightarrow> a = b"
  unfolding digit_char_def by (subst char_of_eq_iff) (auto simp: take_bit_nat_def)

lemma digit_char_digit: "n < 10 \<Longrightarrow> digit_char n \<in> set digits"
proof -
  have "list_all (\<lambda>n. digit_char n \<in> set digits) [0 ..< 10]" by code_simp
  then show "n < 10 \<Longrightarrow> digit_char n \<in> set digits" by (simp add: list_all_iff del: list.set)
qed

lemma digits_plain: "c \<in> set digits \<Longrightarrow> number_char c \<and> c \<noteq> CHR ''.'' \<and> c \<noteq> CHR ''e'' \<and> c \<noteq> CHR ''-''"
proof -
  have "list_all (\<lambda>c. number_char c \<and> c \<noteq> CHR ''.'' \<and> c \<noteq> CHR ''e'' \<and> c \<noteq> CHR ''-'') digits" by code_simp
  then show "c \<in> set digits \<Longrightarrow> number_char c \<and> c \<noteq> CHR ''.'' \<and> c \<noteq> CHR ''e'' \<and> c \<noteq> CHR ''-''"
    unfolding list_all_iff by blast
qed

lemma str_nat_digits: "list_all (\<lambda>c. c \<in> set digits) (str_nat n) \<and> str_nat n \<noteq> []"
proof (induction n rule: less_induct)
  case (less n)
  show ?case
  proof (cases "n < 10")
    case True
    then show ?thesis using digit_char_digit[of n] by (simp add: str_nat.simps del: list.set)
  next
    case False
    then show ?thesis using less.IH[of "n div 10"] digit_char_digit[of "n mod 10"]
      by (simp add: str_nat.simps[of n] del: list.set)
  qed
qed

lemma str_nat_inj: "str_nat a = str_nat b \<Longrightarrow> a = b"
proof (induction a arbitrary: b rule: less_induct)
  case (less a)
  have one: "length (str_nat n) = 1 \<longleftrightarrow> n < 10" for n
    using str_nat_digits[of "n div 10"] by (cases "n < 10") (simp_all add: str_nat.simps[of n])
  have "a < 10 \<longleftrightarrow> b < 10" using one[of a] one[of b] less.prems by simp
  then consider (small) "a < 10" "b < 10" | (big) "\<not> a < 10" "\<not> b < 10" by blast
  then show ?case
  proof cases
    case small
    then show ?thesis using less.prems digit_char_inj[of a b] by (simp add: str_nat.simps)
  next
    case big
    have "str_nat (a div 10) = str_nat (b div 10)" "digit_char (a mod 10) = digit_char (b mod 10)"
      using less.prems big by (simp_all add: str_nat.simps[of a] str_nat.simps[of b])
    then have "a div 10 = b div 10" "a mod 10 = b mod 10"
      using less.IH[of "a div 10" "b div 10"] big digit_char_inj[of "a mod 10" "b mod 10"] by auto
    then show ?thesis by (metis div_mult_mod_eq)
  qed
qed

lemma str_nat_plain:
  "list_all number_char (str_nat n)" "CHR ''.'' \<notin> set (str_nat n)" "CHR ''e'' \<notin> set (str_nat n)"
  "CHR ''-'' \<notin> set (str_nat n)" "hd (str_nat n) \<in> set digits"
proof -
  have d: "\<forall>c \<in> set (str_nat n). c \<in> set digits" "str_nat n \<noteq> []"
    using str_nat_digits[of n] unfolding list_all_iff by blast+
  show "list_all number_char (str_nat n)" unfolding list_all_iff using d(1) digits_plain by blast
  show "CHR ''.'' \<notin> set (str_nat n)" "CHR ''e'' \<notin> set (str_nat n)" "CHR ''-'' \<notin> set (str_nat n)"
    using d(1) digits_plain by blast+
  show "hd (str_nat n) \<in> set digits" using d hd_in_set by blast
qed

lemma set_Cons_notin: "x \<notin> set (y # ys) \<longleftrightarrow> x \<noteq> y \<and> x \<notin> set ys"
  by simp

lemma str_int_text: "str_int i \<noteq> [] \<and> num_head (hd (str_int i))
    \<and> list_all number_char (str_int i) \<and> CHR ''.'' \<notin> set (str_int i) \<and> CHR ''e'' \<notin> set (str_int i)"
proof -
  have "number_char CHR ''-''" by code_simp
  then show ?thesis
    unfolding str_int_def num_head_def using str_nat_plain str_nat_digits
    by (cases "i < 0") (simp_all add: set_Cons_notin del: list.set)
qed

lemma str_int_inj: assumes "str_int i = str_int j" shows "i = j"
proof -
  have "(CHR ''-'' \<in> set (str_int k)) = (k < 0)" for k using str_nat_plain(4) by (simp add: str_int_def)
  then have "(i < 0) = (j < 0)" using assms by metis
  then show ?thesis using assms str_nat_inj[of "nat i" "nat j"] str_nat_inj[of "nat (- i)" "nat (- j)"]
    by (auto simp: str_int_def split: if_splits)
qed

subsection \<open>The canonical text is unambiguous\<close>

text \<open>What may follow a value inside a text: nothing, or a character no number contains.\<close>

definition delim :: "string \<Rightarrow> bool" where
  "delim s \<longleftrightarrow> (case s of [] \<Rightarrow> True | c # _ \<Rightarrow> \<not> number_char c)"

lemma number_prefix:
  "list_all number_char a \<Longrightarrow> list_all number_char b \<Longrightarrow> delim s \<Longrightarrow> delim t \<Longrightarrow> a @ s = b @ t
    \<Longrightarrow> a = b \<and> s = t"
proof (induction a arbitrary: b)
  case Nil
  then show ?case by (cases b) (auto simp: delim_def)
next
  case (Cons c a)
  then show ?case by (cases b) (auto simp: delim_def)
qed

lemma json_hex_inj: "a < 16 \<Longrightarrow> b < 16 \<Longrightarrow> json_hex a = json_hex b \<longleftrightarrow> a = b"
  unfolding json_hex_def by (auto simp: char_of_eq_iff take_bit_nat_def)

lemma hex_pair_inj:
  fixes c d :: char
  assumes "json_hex (of_char c div 16) = json_hex (of_char d div 16)"
    and "json_hex (of_char c mod 16) = json_hex (of_char d mod 16)"
  shows "c = d"
proof -
  have "(of_char x :: nat) div 16 < 16" for x :: char
    using nat_of_char_less_256[of x] by (simp add: less_mult_imp_div_less)
  then have "(of_char c :: nat) div 16 = of_char d div 16" "(of_char c :: nat) mod 16 = of_char d mod 16"
    using assms by (simp_all add: json_hex_inj)
  then have "(of_char c :: nat) = of_char d" by (metis div_mult_mod_eq)
  then show ?thesis by simp
qed

lemma esc_char_hd: "esc_char c \<noteq> []" "hd (esc_char c) \<noteq> dquote"
  by (auto simp: esc_char_def)

lemma esc_char_prefix: "esc_char c @ u = esc_char d @ v \<Longrightarrow> c = d \<and> u = v"
  unfolding esc_char_def by (auto split: if_splits dest: hex_pair_inj)

lemma json_string_prefix: "json_string x @ s = json_string y @ t \<Longrightarrow> x = y \<and> s = t"
proof -
  have "concat (map esc_char x) @ dquote # s = concat (map esc_char y) @ dquote # t \<Longrightarrow> x = y \<and> s = t"
  proof (induction x arbitrary: y)
    case Nil
    have "hd (esc_char d @ u) \<noteq> dquote" for d u using esc_char_hd[of d] by (simp add: hd_append)
    then have "esc_char d @ u \<noteq> dquote # s" for d u by (metis list.sel(1))
    then show ?case using Nil by (cases y) (simp_all, metis)
  next
    case (Cons c x)
    show ?case
    proof (cases y)
      case Nil
      then show ?thesis using Cons.prems esc_char_hd[of c] by (cases "esc_char c") auto
    next
      case (Cons d y')
      then show ?thesis using Cons.prems Cons.IH esc_char_prefix[of c _ d] by fastforce
    qed
  qed
  then show "json_string x @ s = json_string y @ t \<Longrightarrow> x = y \<and> s = t" by (simp add: json_string_def)
qed


lemma join_Cons: "str_join '','' (x # xs) = x @ concat (map (\<lambda>y. CHR '','' # y) xs)"
  by (induction xs arbitrary: x) auto

lemma delim_sep [simp]: "delim (CHR '','' # s)" "delim (CHR '']'' # s)" "delim (CHR ''}'' # s)"
proof -
  have "\<not> number_char CHR '',''" "\<not> number_char CHR '']''" "\<not> number_char CHR ''}''" by code_simp+
  then show "delim (CHR '','' # s)" "delim (CHR '']'' # s)" "delim (CHR ''}'' # s)"
    by (simp_all add: delim_def)
qed

text \<open>A comma-separated, closed sequence of unambiguous texts is unambiguous.\<close>

lemma tail_prefix:
  assumes "\<And>x y s t. x \<in> set xs \<Longrightarrow> delim s \<Longrightarrow> delim t \<Longrightarrow> tx x @ s = tx y @ t \<Longrightarrow> x = y \<and> s = t"
    and "c \<noteq> CHR '',''" "delim (c # s)" "delim (c # t)"
    and "concat (map (\<lambda>x. CHR '','' # tx x) xs) @ c # s = concat (map (\<lambda>x. CHR '','' # tx x) ys) @ c # t"
  shows "xs = ys \<and> s = t"
  using assms(1,5)
proof (induction xs arbitrary: ys)
  case Nil
  then show ?case using assms(2) by (cases ys) auto
next
  case (Cons x xs)
  show ?case
  proof (cases ys)
    case Nil
    then show ?thesis using Cons.prems assms(2) by auto
  next
    case (Cons y ys')
    let ?r = "\<lambda>zs u. concat (map (\<lambda>x. CHR '','' # tx x) zs) @ c # u"
    have d: "delim (?r zs u)" if "u \<in> {s, t}" for zs u using that assms(3,4) by (cases zs) auto
    have "tx x @ ?r xs s = tx y @ ?r ys' t" using Cons.prems(2) Cons by simp
    then have "x = y \<and> ?r xs s = ?r ys' t" using Cons.prems(1)[of x "?r xs s" "?r ys' t" y] d[of s] d[of t] by simp
    then show ?thesis using Cons.IH[of ys'] Cons.prems(1) Cons by auto
  qed
qed

lemma join_prefix:
  assumes "\<And>x y s t. x \<in> set xs \<Longrightarrow> delim s \<Longrightarrow> delim t \<Longrightarrow> tx x @ s = tx y @ t \<Longrightarrow> x = y \<and> s = t"
    and "\<And>x. tx x \<noteq> [] \<and> hd (tx x) \<noteq> c"
    and "c \<noteq> CHR '',''" "delim (c # s)" "delim (c # t)"
    and "str_join '','' (map tx xs) @ c # s = str_join '','' (map tx ys) @ c # t"
  shows "xs = ys \<and> s = t"
proof (cases xs)
  case Nil
  have "hd (tx y @ u) \<noteq> c" for y u using assms(2)[of y] by (simp add: hd_append)
  then have "tx y @ u \<noteq> c # s" for y u by (metis list.sel(1))
  then show ?thesis using assms(6) Nil by (cases ys) (simp_all add: join_Cons, metis)
next
  case xs: (Cons x xs')
  show ?thesis
  proof (cases ys)
    case Nil
    have "hd (tx x @ u) \<noteq> c" for u using assms(2)[of x] by (simp add: hd_append)
    then show ?thesis using assms(6) xs Nil by (simp add: join_Cons) (metis list.sel(1))
  next
    case (Cons y ys')
    let ?r = "\<lambda>zs u. concat (map (\<lambda>x. CHR '','' # tx x) zs) @ c # u"
    have d: "delim (?r zs u)" if "u \<in> {s, t}" for zs u using that assms(4,5) by (cases zs) auto
    have "tx x @ ?r xs' s = tx y @ ?r ys' t" using assms(6) xs Cons by (simp add: join_Cons comp_def)
    then have "x = y \<and> ?r xs' s = ?r ys' t" using assms(1)[of x "?r xs' s" "?r ys' t" y] xs d[of s] d[of t] by simp
    then show ?thesis using tail_prefix[of xs' tx c s t ys'] assms(1,3,4,5) xs Cons by auto
  qed
qed


text \<open>The first character tells the kind of a value; both number kinds start alike.\<close>

definition text_head :: "json \<Rightarrow> char \<Rightarrow> bool" where
  "text_head j c \<longleftrightarrow> (case j of JNull \<Rightarrow> c = CHR ''n'' | JBool b \<Rightarrow> c = (if b then CHR ''t'' else CHR ''f'')
     | JStr _ \<Rightarrow> c = dquote | JList _ \<Rightarrow> c = CHR ''['' | JObj _ \<Rightarrow> c = CHR ''{''
     | _ \<Rightarrow> num_head c)"

lemma num_head_simps [simp]:
  "\<not> num_head CHR ''n''" "\<not> num_head CHR ''t''" "\<not> num_head CHR ''f''" "\<not> num_head dquote"
  "\<not> num_head CHR ''[''" "\<not> num_head CHR ''{''" "\<not> num_head CHR '']''" "\<not> num_head CHR ''}''"
  by code_simp+

lemma str_int_head: "str_int i \<noteq> []" "num_head (hd (str_int i))"
  using str_int_text[of i] by blast+

lemma float_text_head:
  "float_text frepr \<Longrightarrow> frepr x \<noteq> []" "float_text frepr \<Longrightarrow> num_head (hd (frepr x))"
  unfolding float_text_def by blast+

lemma json_text_head:
  assumes "float_text frepr" shows "json_text frepr j \<noteq> []" "text_head j (hd (json_text frepr j))"
  using float_text_head[OF assms] str_int_head
  by (cases j; simp add: text_head_def json_string_def)+

lemma json_text_no_close:
  assumes "float_text frepr"
  shows "json_text frepr j \<noteq> [] \<and> hd (json_text frepr j) \<noteq> CHR '']''"
  using json_text_head[OF assms, of j] by (cases j) (auto simp: text_head_def)

text \<open>Two values whose texts agree up to a delimiter have the same kind; numbers count as one.\<close>

lemma same_kind:
  assumes "float_text frepr" "json_text frepr a @ s = json_text frepr b @ t"
  shows "\<exists>c. text_head a c \<and> text_head b c"
  using json_text_head[OF assms(1)] assms(2) by (metis hd_append2)

lemma int_float_text: "float_text frepr \<Longrightarrow> str_int i \<noteq> frepr x"
  using str_int_text[of i] unfolding float_text_def by metis

lemma number_texts:
  "list_all number_char (str_int i)" "float_text frepr \<Longrightarrow> list_all number_char (frepr x)"
  using str_int_text[of i] unfolding float_text_def by blast+

lemma json_text_prefix:
  assumes ft: "float_text frepr"
  shows "delim s \<Longrightarrow> delim t \<Longrightarrow> json_text frepr a @ s = json_text frepr b @ t \<Longrightarrow> a = b \<and> s = t"
proof (induction a arbitrary: b s t rule: json.induct)
  case (JInt i)
  from same_kind[OF ft JInt(3)] consider (int) j where "b = JInt j" | (float) y where "b = JFloat y"
    by (cases b) (auto simp: text_head_def split: if_splits)
  then show ?case
  proof cases
    case int
    then show ?thesis using number_prefix[OF number_texts(1) number_texts(1) JInt(1,2)] JInt(3)
        str_int_inj[of i j] by simp
  next
    case float
    then show ?thesis using number_prefix[OF number_texts(1) number_texts(2)[OF ft] JInt(1,2)] JInt(3)
        int_float_text[OF ft, of i y] by simp
  qed
next
  case (JFloat x)
  from same_kind[OF ft JFloat(3)] consider (int) j where "b = JInt j" | (float) y where "b = JFloat y"
    by (cases b) (auto simp: text_head_def split: if_splits)
  then show ?case
  proof cases
    case int
    then show ?thesis using number_prefix[OF number_texts(2)[OF ft] number_texts(1) JFloat(1,2)] JFloat(3)
        int_float_text[OF ft, of j x] by (metis json_text.simps(3,4))
  next
    case float
    then show ?thesis
      using number_prefix[OF number_texts(2)[OF ft] number_texts(2)[OF ft] JFloat(1,2)] JFloat(3) ft
      by (simp add: float_text_def)
  qed
next
  case (JStr x)
  then show ?case using same_kind[OF ft JStr(3)] json_string_prefix[of x s _ t]
    by (cases b) (auto simp: text_head_def split: if_splits)
next
  case (JList xs)
  then obtain ys where b: "b = JList ys" using same_kind[OF ft JList(4)]
    by (cases b) (auto simp: text_head_def split: if_splits)
  have "str_join '','' (map (json_text frepr) xs) @ CHR '']'' # s
      = str_join '','' (map (json_text frepr) ys) @ CHR '']'' # t" using JList(4) b by simp
  then have "xs = ys \<and> s = t"
    using JList(1) json_text_no_close[OF ft] by (intro join_prefix[where tx = "json_text frepr"]) auto
  then show ?case using b by simp
next
  case (JObj kvs)
  then obtain lvs where b: "b = JObj lvs" using same_kind[OF ft JObj(4)]
    by (cases b) (auto simp: text_head_def split: if_splits)
  let ?tx = "\<lambda>(k, v). json_string k @ '':'' @ json_text frepr v"
  have el: "x = y \<and> s = t" if "x \<in> set kvs" "delim s" "delim t" "?tx x @ s = ?tx y @ t" for x y s t
  proof -
    obtain k v l w where xy: "x = (k, v)" "y = (l, w)" by fastforce
    have "k = l \<and> json_text frepr v @ s = json_text frepr w @ t"
      using that(4) xy json_string_prefix[of k _ l] by fastforce
    then show ?thesis using JObj(1)[OF that(1), of v s t w] that xy by simp
  qed
  have "str_join '','' (map ?tx kvs) @ CHR ''}'' # s = str_join '','' (map ?tx lvs) @ CHR ''}'' # t"
    using JObj(4) b by simp
  then have "kvs = lvs \<and> s = t"
    using el by (intro join_prefix[where tx = ?tx]) (auto simp: json_string_def)
  then show ?case using b by simp
next
  case JNull
  then show ?case using same_kind[OF ft JNull(3)] by (cases b) (auto simp: text_head_def split: if_splits)
next
  case (JBool x)
  then show ?case using same_kind[OF ft JBool(3)] by (cases b) (auto simp: text_head_def split: if_splits)
qed

text \<open>\<open>json.dumps\<close> with these options tells any two values apart, up to the order of keys.\<close>

lemma json_dumps_inj:
  assumes "float_text frepr" "json_dumps frepr a = json_dumps frepr b"
  shows "json_sorted a = json_sorted b"
  using json_text_prefix[OF assms(1), of "[]" "[]" "json_sorted a" "json_sorted b"] assms(2)
  by (simp add: json_dumps_def delim_def)

lemma sep_unique: "c \<notin> set a \<Longrightarrow> c \<notin> set b \<Longrightarrow> a @ c # s = b @ c # t \<Longrightarrow> a = b \<and> s = t"
proof (induction a arbitrary: b)
  case Nil
  then show ?case by (cases b) auto
next
  case (Cons x a)
  then show ?case by (cases b) auto
qed

text \<open>A concrete text function of this kind: the fraction as \<open>numerator.denominator\<close>.\<close>

definition frac_text :: "rat \<Rightarrow> string" where
  "frac_text x = (let (n, d) = quotient_of x in str_int n @ ''.'' @ str_int d)"

lemma frac_text_ok: "float_text frac_text"
proof -
  have inj: "x = y" if "frac_text x = frac_text y" for x y
  proof -
    obtain n d m e where q: "quotient_of x = (n, d)" "quotient_of y = (m, e)" by fastforce
    have eq: "str_int n @ CHR ''.'' # str_int d = str_int m @ CHR ''.'' # str_int e"
      using that q by (simp add: frac_text_def)
    have "CHR ''.'' \<notin> set (str_int n)" "CHR ''.'' \<notin> set (str_int m)"
      using str_int_text[of n] str_int_text[of m] by blast+
    from sep_unique[OF this eq] have "str_int n = str_int m" "str_int d = str_int e" by blast+
    then show ?thesis using q str_int_inj quotient_of_inject by metis
  qed
  have dot: "number_char CHR ''.''" by code_simp
  have "frac_text x \<noteq> [] \<and> num_head (hd (frac_text x))
      \<and> list_all number_char (frac_text x) \<and> CHR ''.'' \<in> set (frac_text x)" for x
  proof -
    obtain n d where q: "quotient_of x = (n, d)" by fastforce
    have x: "frac_text x = str_int n @ CHR ''.'' # str_int d" by (simp add: frac_text_def q)
    show ?thesis unfolding x using str_int_text[of n] str_int_text[of d] dot
      by simp
  qed
  then show ?thesis using inj unfolding float_text_def by blast
qed

end
