(* ===== verification/Contracts.thy ===== *)
theory Contracts
  imports Json
begin

text \<open>
  The shared data contract, \<open>contracts.py\<close>: what node agents report, what the scheduler produces
  and what the job queue stores. Each dataclass is a \<open>record\<close> with the source's fields, prefixed
  by the initials of the class because record selectors share one namespace; each \<open>Literal\<close> type
  is a \<open>datatype\<close> with one constructor per admissible string.
\<close>

datatype node_state = Joining | Idle | Computing | Degraded | Offline

record node_profile =
  np_id :: string
  np_host :: string
  np_cpu :: string
  np_cores :: int
  np_ram_total_mb :: int
  np_ram_free_mb :: int
  np_gpu :: "string option"
  np_vram_total_mb :: int
  np_backend :: string
  np_mem_bandwidth_gbs :: rat
  np_tg_tok_s :: rat
  np_pp_tok_s :: rat
  np_rtt_ms :: rat
  np_state :: node_state

text \<open>Inclusive layer range \<open>(first, last)\<close>; \<open>last = first - 1\<close> is the empty range.\<close>

type_synonym layer_range = "int \<times> int"

record assignment =
  as_model_id :: string
  as_layers :: "(string, layer_range) dict"
  as_n_cpu_moe :: "(string, int) dict"
  as_tensor_split :: "rat list"
  as_predicted_tok_s :: rat
  as_rationale :: string

record node_metrics =
  nm_node_id :: string
  nm_timestamp :: rat
  nm_cpu_percent :: rat
  nm_ram_free_mb :: int
  nm_gpu_percent :: "rat option"
  nm_vram_free_mb :: "int option"
  nm_jobs_running :: int

datatype job_status = Queued | Running | Done | Failed

record job =
  jb_id :: string
  jb_kind :: string
  jb_payload :: "(string, json) dict"
  jb_node_id :: "string option"
  jb_status :: job_status
  jb_result :: "(string, json) dict option"
  jb_started_at :: "rat option"
  jb_finished_at :: "rat option"

primrec status_name :: "job_status \<Rightarrow> string" where
  "status_name Queued = ''queued''"
| "status_name Running = ''running''"
| "status_name Done = ''done''"
| "status_name Failed = ''failed''"

text \<open>The string each state is written as, used in messages.\<close>

primrec state_name :: "node_state \<Rightarrow> string" where
  "state_name Joining = ''joining''"
| "state_name Idle = ''idle''"
| "state_name Computing = ''computing''"
| "state_name Degraded = ''degraded''"
| "state_name Offline = ''offline''"

lemma state_name_inj [simp]: "state_name s = state_name t \<longleftrightarrow> s = t"
  by (cases s; cases t) auto

end
