(* ===== verification/Cost.thy ===== *)
theory Cost
  imports Contracts
begin

text \<open>
  \<open>sched/cost.py\<close>: the memory and throughput arithmetic the planner calls. Every function keeps
  the exceptions of the source: a missing node is a \<open>KeyError\<close> or a \<open>StopIteration\<close>, a model with
  no layers divides by zero, an uncalibrated node is a \<open>ValueError\<close>. The lemmas give each function
  in closed form for inputs on which it does not raise; the planner's proofs use only those.
\<close>

subsection \<open>The model description\<close>

text \<open>The \<open>model_spec\<close> dict built by \<open>infer.spec.scheduler_spec\<close>.\<close>

record model_spec =
  ms_model_id :: string
  ms_total_layers :: int
  ms_file_size_mb :: rat
  ms_kv_mb_per_layer :: rat

definition UNIFIED_MEMORY_BACKENDS :: "string list" where
  "UNIFIED_MEMORY_BACKENDS = [''metal'']"

definition COMPUTE_OVERHEAD_MB :: int where
  "COMPUTE_OVERHEAD_MB = 1600"

subsection \<open>Operations\<close>

definition usable_mem_mb :: "node_profile \<Rightarrow> node_metrics \<Rightarrow> rat" where
  "usable_mem_mb profile metric =
     (let base = (if np_backend profile \<in> set UNIFIED_MEMORY_BACKENDS then nm_ram_free_mb metric
                  else nm_ram_free_mb metric
                       + (case nm_vram_free_mb metric of None \<Rightarrow> 0 | Some v \<Rightarrow> v))
      in max 0 (of_int (base - COMPUTE_OVERHEAD_MB)))"

definition layer_weight_mb :: "model_spec \<Rightarrow> rat res" where
  "layer_weight_mb spec =
     (if ms_total_layers spec = 0 then Inl ZeroDivisionError
      else Inr (ms_file_size_mb spec / of_int (ms_total_layers spec)))"

definition node_layer_count :: "assignment \<Rightarrow> string \<Rightarrow> int res" where
  "node_layer_count a node_id =
     rbind (dict_get (as_layers a) node_id) (\<lambda>(lo, hi). Inr (hi - lo + 1))"

definition node_footprint_mb :: "assignment \<Rightarrow> model_spec \<Rightarrow> string \<Rightarrow> rat res" where
  "node_footprint_mb a spec node_id =
     rbind (node_layer_count a node_id) (\<lambda>layers.
     rbind (layer_weight_mb spec) (\<lambda>w.
       let weight_mb = of_int layers * w; kv_mb = of_int layers * ms_kv_mb_per_layer spec
       in Inr (weight_mb + kv_mb)))"

definition profiles_by_id :: "node_profile list \<Rightarrow> (string, node_profile) dict" where
  "profiles_by_id profiles = dict_of (map (\<lambda>p. (np_id p, p)) profiles)"

definition metrics_by_id :: "node_metrics list \<Rightarrow> (string, node_metrics) dict" where
  "metrics_by_id metrics = dict_of (map (\<lambda>m. (nm_node_id m, m)) metrics)"

text \<open>The loop of \<open>fits\<close> over \<open>assignment.layers\<close>, with its early \<open>return False\<close>.\<close>

fun fits_loop :: "assignment \<Rightarrow> (string, node_profile) dict \<Rightarrow> (string, node_metrics) dict
    \<Rightarrow> model_spec \<Rightarrow> string list \<Rightarrow> bool res" where
  "fits_loop a pd md spec [] = Inr True"
| "fits_loop a pd md spec (node_id # rest) =
     rbind (dict_get pd node_id) (\<lambda>profile.
     rbind (dict_get md node_id) (\<lambda>metric.
     rbind (node_footprint_mb a spec node_id) (\<lambda>footprint.
       if footprint > usable_mem_mb profile metric then Inr False
       else fits_loop a pd md spec rest)))"

definition fits :: "assignment \<Rightarrow> node_profile list \<Rightarrow> node_metrics list \<Rightarrow> model_spec \<Rightarrow> bool res"
  where
  "fits a profiles metrics spec =
     fits_loop a (profiles_by_id profiles) (metrics_by_id metrics) spec (keys (as_layers a))"

text \<open>\<open>next(x for x in xs if p(x))\<close>.\<close>

definition next_such :: "('a \<Rightarrow> bool) \<Rightarrow> 'a list \<Rightarrow> 'a res" where
  "next_such p xs = (case find p xs of None \<Rightarrow> Inl StopIteration | Some x \<Rightarrow> Inr x)"

definition overflow_mb :: "assignment \<Rightarrow> node_profile list \<Rightarrow> node_metrics list \<Rightarrow> model_spec
    \<Rightarrow> string \<Rightarrow> rat res" where
  "overflow_mb a profiles metrics spec node_id =
     rbind (next_such (\<lambda>p. np_id p = node_id) profiles) (\<lambda>profile.
     rbind (next_such (\<lambda>m. nm_node_id m = node_id) metrics) (\<lambda>metric.
     rbind (node_footprint_mb a spec node_id) (\<lambda>footprint.
       Inr (footprint - usable_mem_mb profile metric))))"

fun compute_time_loop :: "(string, node_profile) dict \<Rightarrow> int \<Rightarrow> (string, layer_range) dict
    \<Rightarrow> rat \<Rightarrow> rat res" where
  "compute_time_loop pd L [] acc = Inr acc"
| "compute_time_loop pd L ((node_id, lo, hi) # rest) acc =
     (let layers_i = hi - lo + 1 in
      rbind (dict_get pd node_id) (\<lambda>profile.
        if np_tg_tok_s profile \<le> 0
        then Inl (ValueError (node_id @ '' has no measured tg_tok_s''))
        else if of_int L * np_tg_tok_s profile = 0 then Inl ZeroDivisionError
        else compute_time_loop pd L rest
               (acc + of_int layers_i / (of_int L * np_tg_tok_s profile))))"

definition predict_tok_s :: "assignment \<Rightarrow> node_profile list \<Rightarrow> model_spec \<Rightarrow> rat res" where
  "predict_tok_s a profiles spec =
     rbind (compute_time_loop (profiles_by_id profiles) (ms_total_layers spec) (as_layers a) 0)
       (\<lambda>compute_time_s.
         let hops = max 0 (int (length (as_layers a)) - 1) in
         if profiles = [] then Inl ZeroDivisionError
         else let avg_rtt_s = sum_list (map np_rtt_ms profiles) / of_nat (length profiles) / 1000;
                  network_time_s = of_int hops * avg_rtt_s;
                  t_token = compute_time_s + network_time_s
              in if t_token \<le> 0 then Inl (ValueError ''t_token computed as zero'')
                 else Inr (1 / t_token))"

subsection \<open>Closed forms\<close>

text \<open>What one layer costs, for a model that has layers.\<close>

definition per_layer_mb :: "model_spec \<Rightarrow> rat" where
  "per_layer_mb spec = ms_file_size_mb spec / of_int (ms_total_layers spec) + ms_kv_mb_per_layer spec"

definition range_count :: "layer_range \<Rightarrow> int" where
  "range_count r = snd r - fst r + 1"

lemma range_count_pair [simp]: "range_count (f, l) = l - f + 1"
  by (simp add: range_count_def)

lemma usable_mem_nonneg [simp]: "0 \<le> usable_mem_mb p m"
  by (simp add: usable_mem_mb_def Let_def)

lemma layer_weight_mb_ok:
  "ms_total_layers spec \<noteq> 0 \<Longrightarrow>
   layer_weight_mb spec = Inr (ms_file_size_mb spec / of_int (ms_total_layers spec))"
  by (simp add: layer_weight_mb_def)

lemma node_footprint_ok:
  assumes "ms_total_layers spec \<noteq> 0" and "map_of (as_layers a) n = Some r"
  shows "node_footprint_mb a spec n = Inr (of_int (range_count r) * per_layer_mb spec)"
proof -
  have "dict_get (as_layers a) n = Inr r" using assms(2) by (simp add: dict_get_Inr)
  then show ?thesis using assms(1)
    by (cases r) (simp add: node_footprint_mb_def node_layer_count_def layer_weight_mb_ok
        per_layer_mb_def distrib_left)
qed

lemma map_of_ids:
  assumes "distinct (map f xs)" and "x \<in> set xs"
  shows "map_of (map (\<lambda>y. (f y, y)) xs) (f x) = Some x"
  using assms by (induction xs) (auto simp: rev_image_eqI)

lemma find_ids:
  assumes "distinct (map f xs)" and "x \<in> set xs"
  shows "find (\<lambda>y. f y = f x) xs = Some x"
  using assms by (induction xs) (auto simp: rev_image_eqI)

lemma dict_of_ids:
  assumes "distinct (map f xs)" and "x \<in> set xs"
  shows "dict_get (dict_of (map (\<lambda>y. (f y, y)) xs)) (f x) = Inr x"
proof -
  have "distinct (keys (map (\<lambda>y. (f y, y)) xs))" using assms(1) by (simp add: comp_def)
  then show ?thesis using assms by (simp add: dict_get_def map_of_dict_of_distinct map_of_ids)
qed

lemma profiles_by_id_get:
  "distinct (map np_id ps) \<Longrightarrow> p \<in> set ps \<Longrightarrow> dict_get (profiles_by_id ps) (np_id p) = Inr p"
  unfolding profiles_by_id_def by (rule dict_of_ids)

lemma metrics_by_id_get:
  "distinct (map nm_node_id ms) \<Longrightarrow> m \<in> set ms \<Longrightarrow> dict_get (metrics_by_id ms) (nm_node_id m) = Inr m"
  unfolding metrics_by_id_def by (rule dict_of_ids)

lemma next_such_id:
  "distinct (map f xs) \<Longrightarrow> x \<in> set xs \<Longrightarrow> next_such (\<lambda>y. f y = f x) xs = Inr x"
  by (simp add: next_such_def find_ids)

end
