(* ===== verification/Plan.thy ===== *)
theory Plan
  imports Cost
begin

text \<open>
  \<open>sched/plan.py\<close>: layers are assigned in proportion to measured decode speed, then a repair loop
  moves single layers off nodes that exceed their memory, then the result is checked, priced and
  explained. The definitions follow the source function by function; \<open>repair_loop\<close> is the
  \<open>for _ in range(max_iterations)\<close> loop with its two \<open>break\<close>s and its \<open>continue\<close>.
\<close>

subsection \<open>Assignment by speed\<close>

text \<open>
  The loop body of \<open>_assign_by_speed\<close> over the profiles in id order: \<open>rest = []\<close> is the last
  index, which takes the remainder.
\<close>

fun assign_loop :: "rat \<Rightarrow> int \<Rightarrow> node_profile list \<Rightarrow> int \<Rightarrow> int \<Rightarrow> (string, layer_range) dict
    \<Rightarrow> (string, layer_range) dict" where
  "assign_loop total_speed total_layers [] lo allocated layers = layers"
| "assign_loop total_speed total_layers (profile # rest) lo allocated layers =
     (let count0 = (if rest = [] then total_layers - allocated
                    else let share = np_tg_tok_s profile / total_speed
                         in max 1 (py_round (share * of_int total_layers)));
          count = min count0 (total_layers - allocated);
          hi = lo + count - 1
      in assign_loop total_speed total_layers rest (hi + 1) (allocated + count)
           (AList.update (np_id profile) (lo, hi) layers))"

definition assign_by_speed :: "node_profile list \<Rightarrow> model_spec \<Rightarrow> assignment res" where
  "assign_by_speed profiles spec =
     (let total_layers = ms_total_layers spec;
          total_speed = sum_list (map np_tg_tok_s profiles)
      in if total_speed \<le> 0 then Inl (RuntimeError ''no node has a measured tg_tok_s'')
         else let ordered = sort_key np_id profiles;
                  layers = assign_loop total_speed total_layers ordered 0 0 []
              in Inr \<lparr>as_model_id = ms_model_id spec,
                      as_layers = layers,
                      as_n_cpu_moe = dict_of (map (\<lambda>p. (np_id p, 0)) profiles),
                      as_tensor_split =
                        map (\<lambda>p. py_round_n 4 (np_tg_tok_s p / total_speed)) ordered,
                      as_predicted_tok_s = 0,
                      as_rationale = []\<rparr>)"

subsection \<open>Repair\<close>

fun donor_candidates :: "(string, layer_range) dict \<Rightarrow> (string, node_profile) dict
    \<Rightarrow> (string, node_metrics) dict \<Rightarrow> model_spec \<Rightarrow> string \<Rightarrow> string list
    \<Rightarrow> (rat \<times> string) list res" where
  "donor_candidates layers pd md spec exclude [] = Inr []"
| "donor_candidates layers pd md spec exclude (node_id # rest) =
     (if node_id = exclude then donor_candidates layers pd md spec exclude rest
      else rbind (dict_get pd node_id) (\<lambda>profile.
           rbind (dict_get md node_id) (\<lambda>metric.
           rbind (layer_weight_mb spec) (\<lambda>w.
           rbind (dict_get layers node_id) (\<lambda>(lo, hi).
             let per_layer = w + ms_kv_mb_per_layer spec;
                 current_mb = of_int (hi - lo + 1) * per_layer;
                 slack_mb = usable_mem_mb profile metric - current_mb
             in rbind (donor_candidates layers pd md spec exclude rest) (\<lambda>cs.
                  Inr (if slack_mb \<ge> per_layer then (np_tg_tok_s profile, node_id) # cs
                       else cs)))))))"

text \<open>\<open>candidates.sort(reverse=True)\<close> compares \<open>(speed, id)\<close> pairs, so ties go to the larger id.\<close>

definition find_slack_donor :: "(string, layer_range) dict \<Rightarrow> (string, node_profile) dict
    \<Rightarrow> (string, node_metrics) dict \<Rightarrow> model_spec \<Rightarrow> string \<Rightarrow> string option res" where
  "find_slack_donor layers pd md spec exclude =
     rbind (donor_candidates layers pd md spec exclude (keys layers)) (\<lambda>candidates.
       Inr (case rev (sort candidates) of [] \<Rightarrow> None | c # _ \<Rightarrow> Some (snd c)))"

text \<open>
  \<open>_renumber_contiguous\<close>: the counts, read off in sorted id order, laid end to end. The two
  branches of the source for \<open>count > 0\<close> and \<open>count = 0\<close> give the same pair.
\<close>

fun renumber_loop :: "int \<Rightarrow> (string \<times> int) list \<Rightarrow> (string, layer_range) dict
    \<Rightarrow> (string, layer_range) dict" where
  "renumber_loop cursor [] result = result"
| "renumber_loop cursor ((node_id, c) # rest) result =
     (let count = max 0 c
      in renumber_loop (cursor + count) rest
           (AList.update node_id
              (if count > 0 then (cursor, cursor + count - 1) else (cursor, cursor - 1)) result))"

definition layer_counts :: "(string, layer_range) dict \<Rightarrow> (string \<times> int) list" where
  "layer_counts layers =
     map (\<lambda>n. (n, case map_of layers n of None \<Rightarrow> 0 | Some r \<Rightarrow> range_count r))
         (sort (keys layers))"

definition renumber_contiguous :: "(string, layer_range) dict \<Rightarrow> (string, layer_range) dict" where
  "renumber_contiguous layers = renumber_loop 0 (layer_counts layers) []"

definition tensor_split_from_layers :: "(string, layer_range) dict \<Rightarrow> rat list" where
  "tensor_split_from_layers layers =
     (let counts = map (\<lambda>p. max 0 (snd p)) (layer_counts layers);
          total = sum_list counts
      in if total = 0 then map (\<lambda>_. 0) counts
         else map (\<lambda>c. py_round_n 4 (of_int c / of_int total)) counts)"

definition move_layer :: "string \<Rightarrow> string \<Rightarrow> (string, layer_range) dict
    \<Rightarrow> (string, layer_range) dict res" where
  "move_layer node_id donor_id layers =
     rbind (dict_get layers node_id) (\<lambda>(lo, hi).
       let layers1 = AList.update node_id (lo, hi - 1) layers
       in rbind (dict_get layers1 donor_id) (\<lambda>(dlo, dhi).
            Inr (AList.update donor_id (dlo, dhi + 1) layers1)))"

fun repair_loop :: "nat \<Rightarrow> node_profile list \<Rightarrow> node_metrics list \<Rightarrow> model_spec
    \<Rightarrow> (string, layer_range) dict \<Rightarrow> assignment \<Rightarrow> assignment res" where
  "repair_loop 0 profiles metrics spec layers a = Inr a"
| "repair_loop (Suc n) profiles metrics spec layers a =
     rbind (rfilterM (\<lambda>node_id. rbind (overflow_mb a profiles metrics spec node_id)
                                   (\<lambda>x. Inr (x > 0))) (keys layers)) (\<lambda>overflowing.
     (case overflowing of
        [] \<Rightarrow> Inr a
      | node_id # _ \<Rightarrow>
          rbind (dict_get layers node_id) (\<lambda>(lo, hi).
          let node_count = hi - lo + 1 in
          if node_count \<le> 1 then repair_loop n profiles metrics spec layers a
          else rbind (find_slack_donor layers (profiles_by_id profiles) (metrics_by_id metrics)
                        spec node_id) (\<lambda>donor.
               case donor of
                 None \<Rightarrow> Inr a
               | Some donor_id \<Rightarrow>
                   rbind (move_layer node_id donor_id layers) (\<lambda>layers'.
                     repair_loop n profiles metrics spec layers'
                       (a\<lparr>as_layers := renumber_contiguous layers'\<rparr>))))))"

definition repair :: "assignment \<Rightarrow> node_profile list \<Rightarrow> node_metrics list \<Rightarrow> model_spec
    \<Rightarrow> assignment res" where
  "repair a profiles metrics spec =
     (let max_iterations = ms_total_layers spec * int (length profiles)
      in rbind (repair_loop (nat max_iterations) profiles metrics spec (as_layers a) a) (\<lambda>a'.
           let final_layers = renumber_contiguous (as_layers a')
           in Inr (a'\<lparr>as_layers := final_layers,
                      as_tensor_split := tensor_split_from_layers final_layers\<rparr>)))"

subsection \<open>The plan\<close>

definition explain :: "assignment \<Rightarrow> node_profile list \<Rightarrow> string res" where
  "explain a profiles =
     rbind (rmapM (\<lambda>(node_id, lo, hi).
              rbind (dict_get (profiles_by_id profiles) node_id) (\<lambda>p.
                Inr (node_id @ '' gets '' @ str_int (hi - lo + 1) @ '' layers (''
                     @ str_int (py_round (np_mem_bandwidth_gbs p)) @ '' GB/s bandwidth)'')))
              (sort (as_layers a))) (\<lambda>parts. Inr (str_join ''; '' parts))"

definition usable_profiles :: "node_profile list \<Rightarrow> node_metrics list \<Rightarrow> node_profile list" where
  "usable_profiles profiles metrics =
     filter (\<lambda>p. np_id p \<in> set (keys (metrics_by_id metrics)) \<and> np_state p \<noteq> Offline) profiles"

definition plan :: "node_profile list \<Rightarrow> node_metrics list \<Rightarrow> model_spec \<Rightarrow> assignment res" where
  "plan profiles metrics spec =
     (if profiles = [] then Inl (RuntimeError ''no nodes are available'')
      else let usable = usable_profiles profiles metrics in
        if usable = [] then Inl (RuntimeError ''no nodes have reported metrics yet'')
        else rbind (assign_by_speed usable spec) (\<lambda>a0.
             rbind (repair a0 usable metrics spec) (\<lambda>a1.
             rbind (fits a1 usable metrics spec) (\<lambda>ok.
               if \<not> ok then Inl (RuntimeError (''model '' @ ms_model_id spec
                      @ '' does not fit in pooled memory even after repair''))
               else rbind (predict_tok_s a1 usable spec) (\<lambda>t.
                    let a2 = a1\<lparr>as_predicted_tok_s := t\<rparr>
                    in rbind (explain a2 usable) (\<lambda>r. Inr (a2\<lparr>as_rationale := r\<rparr>)))))))"

end
