(* ===== verification/Layer_Pool.thy ===== *)
theory Layer_Pool
  imports Complex_Main Dain_Prelude
begin

text \<open>
  The contract between the repair loop of \<open>sched/plan.py\<close> and the representation it works on:
  nodes that hold some number of layers, a memory budget per node, a cost per layer, and an
  operation that moves one layer from a node to another. The lemmas are the arithmetic of repair:
  moving a layer keeps the total, moving one from an overflowing node to a node with slack strictly
  shrinks the layers held by overflowing nodes, and a pool in which some node overflows and no
  other node has slack is genuinely full.
\<close>

locale layer_pool =
  fixes nodes :: "'s \<Rightarrow> 'n list"
    and count :: "'s \<Rightarrow> 'n \<Rightarrow> int"
    and usable :: "'s \<Rightarrow> 'n \<Rightarrow> rat"
    and per :: "'s \<Rightarrow> rat"
    and move :: "'n \<Rightarrow> 'n \<Rightarrow> 's \<Rightarrow> 's"
    and invar :: "'s \<Rightarrow> bool"
  assumes distinct_nodes: "invar s \<Longrightarrow> distinct (nodes s)"
    and count_nonneg: "invar s \<Longrightarrow> n \<in> set (nodes s) \<Longrightarrow> 0 \<le> count s n"
    and usable_nonneg: "invar s \<Longrightarrow> 0 \<le> usable s n"
    and per_nonneg: "invar s \<Longrightarrow> 0 \<le> per s"
    and move_invar: "invar s \<Longrightarrow> a \<in> set (nodes s) \<Longrightarrow> b \<in> set (nodes s) \<Longrightarrow> a \<noteq> b \<Longrightarrow>
      1 < count s a \<Longrightarrow> invar (move a b s)"
    and move_nodes: "invar s \<Longrightarrow> a \<in> set (nodes s) \<Longrightarrow> b \<in> set (nodes s) \<Longrightarrow> a \<noteq> b \<Longrightarrow>
      nodes (move a b s) = nodes s"
    and move_count: "invar s \<Longrightarrow> a \<in> set (nodes s) \<Longrightarrow> b \<in> set (nodes s) \<Longrightarrow> a \<noteq> b \<Longrightarrow>
      count (move a b s) n =
        (if n = a then count s a - 1 else if n = b then count s b + 1 else count s n)"
    and move_usable: "usable (move a b s) = usable s"
    and move_per: "per (move a b s) = per s"
begin

definition overflows :: "'s \<Rightarrow> 'n \<Rightarrow> bool" where
  "overflows s n \<longleftrightarrow> usable s n < of_int (count s n) * per s"

definition has_slack :: "'s \<Rightarrow> 'n \<Rightarrow> bool" where
  "has_slack s n \<longleftrightarrow> per s \<le> usable s n - of_int (count s n) * per s"

definition total :: "'s \<Rightarrow> int" where
  "total s = sum_list (map (count s) (nodes s))"

definition excess :: "'s \<Rightarrow> int" where
  "excess s = sum_list (map (\<lambda>n. if overflows s n then count s n else 0) (nodes s))"

lemma overflows_pos:
  assumes "invar s" "n \<in> set (nodes s)" "overflows s n"
  shows "0 < count s n"
proof (rule ccontr)
  assume "\<not> 0 < count s n"
  with assms have "count s n = 0" using count_nonneg by fastforce
  with assms show False using usable_nonneg[of s n] by (simp add: overflows_def)
qed

lemma slack_not_overflows: "invar s \<Longrightarrow> has_slack s n \<Longrightarrow> \<not> overflows s n"
  using per_nonneg by (fastforce simp: overflows_def has_slack_def)

lemma move_total:
  assumes "invar s" "a \<in> set (nodes s)" "b \<in> set (nodes s)" "a \<noteq> b"
  shows "total (move a b s) = total s"
proof -
  have "total (move a b s) =
      sum_list (map (\<lambda>n. count s n + (if n = b then 1 else 0) - (if n = a then 1 else 0)) (nodes s))"
    using assms unfolding total_def
    by (intro arg_cong[where f = sum_list] map_cong) (auto simp: move_nodes move_count)
  also have "\<dots> = total s + of_bool (b \<in> set (nodes s)) - of_bool (a \<in> set (nodes s))"
    using distinct_nodes[OF assms(1)] unfolding total_def
    by (induction "nodes s" rule: rev_induct)
      (auto simp: sum_list_addf sum_list_subtractf sum_list_distinct_conv_sum_set)
  finally show ?thesis using assms by simp
qed

lemma excess_nonneg: "invar s \<Longrightarrow> 0 \<le> excess s"
  unfolding excess_def by (intro sum_list_nonneg) (auto simp: count_nonneg)

lemma excess_le_total: "invar s \<Longrightarrow> excess s \<le> total s"
  unfolding excess_def total_def by (intro sum_list_mono) (auto simp: count_nonneg)

lemma excess_zero:
  assumes "invar s" "excess s \<le> 0" "n \<in> set (nodes s)"
  shows "\<not> overflows s n"
proof
  assume o: "overflows s n"
  have "sum_list (map (\<lambda>_. 0) (nodes s)) <
      sum_list (map (\<lambda>n. if overflows s n then count s n else 0) (nodes s))"
    using o assms by (intro sum_list_mono_strict_split[where y = n])
      (auto simp: count_nonneg overflows_pos)
  with assms(2) show False by (simp add: excess_def)
qed

lemma move_overflows:
  assumes "invar s" "a \<in> set (nodes s)" "b \<in> set (nodes s)" "a \<noteq> b" "has_slack s b"
  shows "overflows (move a b s) n \<Longrightarrow> overflows s n \<and> n \<noteq> b"
  using assms per_nonneg[OF assms(1)]
  by (auto simp: overflows_def has_slack_def move_usable move_per move_count algebra_simps
      split: if_splits)

lemma excess_move:
  assumes "invar s" "a \<in> set (nodes s)" "b \<in> set (nodes s)" "a \<noteq> b"
    and "overflows s a" "has_slack s b"
  shows "excess (move a b s) < excess s"
proof -
  have "sum_list (map (\<lambda>n. if overflows (move a b s) n then count (move a b s) n else 0) (nodes s))
      < sum_list (map (\<lambda>n. if overflows s n then count s n else 0) (nodes s))"
  proof (rule sum_list_mono_strict_split[where y = a])
    fix n assume n: "n \<in> set (nodes s)"
    show "(if overflows (move a b s) n then count (move a b s) n else 0)
        \<le> (if overflows s n then count s n else 0)"
      using n assms count_nonneg[OF assms(1) n] move_overflows[OF assms(1-4,6), of n]
      by (auto simp: move_count)
  next
    show "(if overflows (move a b s) a then count (move a b s) a else 0)
        < (if overflows s a then count s a else 0)"
      using assms overflows_pos[OF assms(1,2,5)] by (auto simp: move_count)
  qed (use assms in auto)
  then show ?thesis using assms by (simp add: excess_def move_nodes)
qed

text \<open>
  A pool that is stuck for want of slack holds more layers than the whole layers its budgets can
  hold.
\<close>

lemma no_slack_full:
  assumes "invar s" "0 < per s" "a \<in> set (nodes s)" "overflows s a"
    and "\<And>n. n \<in> set (nodes s) \<Longrightarrow> n \<noteq> a \<Longrightarrow> \<not> has_slack s n"
  shows "sum_list (map (\<lambda>n. \<lfloor>usable s n / per s\<rfloor>) (nodes s)) < total s"
  unfolding total_def
proof (rule sum_list_mono_strict_split[where y = a])
  fix n assume n: "n \<in> set (nodes s)"
  have over: "usable s a / per s < of_int (count s a)"
    using assms(2,4) by (simp add: overflows_def divide_less_eq)
  show "\<lfloor>usable s n / per s\<rfloor> \<le> count s n"
  proof (cases "n = a")
    case True
    with over show ?thesis by (simp add: floor_le_iff)
  next
    case False
    with assms(5) n have "\<not> has_slack s n" by blast
    then have "usable s n < (of_int (count s n) + 1) * per s"
      by (simp add: has_slack_def algebra_simps not_le)
    with assms(2) have "usable s n / per s < of_int (count s n) + 1"
      by (simp add: divide_less_eq)
    then show ?thesis by (simp add: floor_le_iff)
  qed
next
  show "\<lfloor>usable s a / per s\<rfloor> < count s a"
    using assms(2,4) by (simp add: overflows_def divide_less_eq floor_less_iff)
qed (use assms in auto)

end

end
