(* ===== verification/Plan_Repair.thy ===== *)
theory Plan_Repair
  imports Plan Layer_Pool
begin

text \<open>
  Correctness of the repair loop and of renumbering. A pool state pairs the layer dictionary with
  the profiles, metrics and model it is judged against; it is an instance of \<open>layer_pool\<close>, from
  which the loop's progress and stopping facts follow.
\<close>

subsection \<open>Layer counts of a dictionary\<close>

definition cnt :: "(string, layer_range) dict \<Rightarrow> string \<Rightarrow> int" where
  "cnt d n = (case map_of d n of None \<Rightarrow> 0 | Some r \<Rightarrow> range_count r)"

lemma cnt_update [simp]: "cnt (AList.update k r d) n = (if n = k then range_count r else cnt d n)"
  by (simp add: cnt_def update_conv')

lemma cnt_Some: "map_of d n = Some r \<Longrightarrow> cnt d n = range_count r"
  by (simp add: cnt_def)

definition total_count :: "(string, layer_range) dict \<Rightarrow> int" where
  "total_count d = (\<Sum>n\<leftarrow>keys d. cnt d n)"

lemma total_count_perm:
  assumes "distinct (keys d)" "distinct (keys e)" "set (keys d) = set (keys e)"
    and "\<And>n. n \<in> set (keys d) \<Longrightarrow> cnt d n = cnt e n"
  shows "total_count d = total_count e"
  unfolding total_count_def
  using assms by (simp only: sum_list_distinct_conv_sum_set) (rule sum.cong, auto)

subsection \<open>Renumbering\<close>

text \<open>Ranges laid end to end from \<open>c\<close>.\<close>

fun contiguous_from :: "int \<Rightarrow> (string, layer_range) dict \<Rightarrow> bool" where
  "contiguous_from c [] \<longleftrightarrow> True"
| "contiguous_from c ((n, lo, hi) # d) \<longleftrightarrow> lo = c \<and> lo \<le> hi + 1 \<and> contiguous_from (hi + 1) d"

fun lay_out :: "int \<Rightarrow> (string \<times> int) list \<Rightarrow> (string, layer_range) dict" where
  "lay_out c [] = []"
| "lay_out c ((n, k) # ns) = (n, c, c + max 0 k - 1) # lay_out (c + max 0 k) ns"

lemma renumber_loop_lay_out:
  "distinct (keys d @ map fst ns) \<Longrightarrow> renumber_loop c ns d = d @ lay_out c ns"
proof (induction c ns d rule: renumber_loop.induct)
  case (2 c n k ns d)
  have "(if max 0 k > 0 then (c, c + max 0 k - 1) else (c, c - 1)) = (c, c + max 0 k - 1)"
    by auto
  moreover have "n \<notin> set (keys d)" using "2.prems" by auto
  ultimately show ?case using 2 by (simp add: update_new Let_def)
qed simp

lemma keys_lay_out [simp]: "keys (lay_out c ns) = map fst ns"
  by (induction c ns rule: lay_out.induct) auto

lemma contiguous_lay_out: "contiguous_from c (lay_out c ns)"
  by (induction c ns rule: lay_out.induct) (auto simp: algebra_simps)

lemma cnt_lay_out:
  "distinct (map fst ns) \<Longrightarrow> (n, k) \<in> set ns \<Longrightarrow> cnt (lay_out c ns) n = max 0 k"
  by (induction c ns rule: lay_out.induct) (force simp: cnt_def)+

lemma cnt_lay_out_nonneg [simp]: "0 \<le> cnt (lay_out c ns) n"
  by (induction c ns rule: lay_out.induct) (auto simp: cnt_def)

lemma fst_layer_counts [simp]: "map fst (layer_counts d) = sort (keys d)"
  by (simp add: layer_counts_def comp_def)

lemma renumber_lay_out:
  "distinct (keys d) \<Longrightarrow> renumber_contiguous d = lay_out 0 (layer_counts d)"
  using renumber_loop_lay_out[of "[]" "layer_counts d" 0] by (simp add: renumber_contiguous_def)

lemma keys_renumber: "distinct (keys d) \<Longrightarrow> keys (renumber_contiguous d) = sort (keys d)"
  by (simp add: renumber_lay_out)

lemma contiguous_renumber: "distinct (keys d) \<Longrightarrow> contiguous_from 0 (renumber_contiguous d)"
  by (simp add: renumber_lay_out contiguous_lay_out)

lemma cnt_renumber:
  assumes "distinct (keys d)" "n \<in> set (keys d)"
  shows "cnt (renumber_contiguous d) n = max 0 (cnt d n)"
proof -
  have "(n, cnt d n) \<in> set (layer_counts d)"
    using assms(2) by (auto simp: layer_counts_def cnt_def)
  moreover have "distinct (map fst (layer_counts d))" using assms(1) by simp
  ultimately show ?thesis using assms(1) by (simp add: renumber_lay_out cnt_lay_out)
qed

subsection \<open>The pool as a layer pool\<close>

record pool_state =
  pl_layers :: "(string, layer_range) dict"
  pl_profiles :: "node_profile list"
  pl_metrics :: "node_metrics list"
  pl_spec :: model_spec

definition node_usable :: "node_profile list \<Rightarrow> node_metrics list \<Rightarrow> string \<Rightarrow> rat" where
  "node_usable ps ms n = (case (find (\<lambda>p. np_id p = n) ps, find (\<lambda>m. nm_node_id m = n) ms) of
     (Some p, Some m) \<Rightarrow> usable_mem_mb p m | _ \<Rightarrow> 0)"

text \<open>What the planner may assume of its inputs: ids are unique, every node has reported.\<close>

definition pool_ok :: "node_profile list \<Rightarrow> node_metrics list \<Rightarrow> model_spec \<Rightarrow> bool" where
  "pool_ok ps ms spec \<longleftrightarrow> distinct (map np_id ps) \<and> distinct (map nm_node_id ms)
     \<and> set (map np_id ps) \<subseteq> set (map nm_node_id ms)
     \<and> 0 < ms_total_layers spec \<and> 0 \<le> per_layer_mb spec"

definition wf_layers :: "node_profile list \<Rightarrow> (string, layer_range) dict \<Rightarrow> bool" where
  "wf_layers ps d \<longleftrightarrow> distinct (keys d) \<and> set (keys d) = set (map np_id ps)
     \<and> (\<forall>n \<in> set (keys d). 0 \<le> cnt d n)"

definition pool_move :: "string \<Rightarrow> string \<Rightarrow> pool_state \<Rightarrow> pool_state" where
  "pool_move a b s = (case move_layer a b (pl_layers s) of
     Inl _ \<Rightarrow> s | Inr d \<Rightarrow> s\<lparr>pl_layers := d\<rparr>)"

definition pool_invar :: "pool_state \<Rightarrow> bool" where
  "pool_invar s \<longleftrightarrow> pool_ok (pl_profiles s) (pl_metrics s) (pl_spec s)
     \<and> wf_layers (pl_profiles s) (pl_layers s)"

abbreviation pool_nodes :: "pool_state \<Rightarrow> string list" where
  "pool_nodes s \<equiv> keys (pl_layers s)"

abbreviation pool_count :: "pool_state \<Rightarrow> string \<Rightarrow> int" where
  "pool_count s \<equiv> cnt (pl_layers s)"

abbreviation pool_usable :: "pool_state \<Rightarrow> string \<Rightarrow> rat" where
  "pool_usable s \<equiv> node_usable (pl_profiles s) (pl_metrics s)"

abbreviation pool_per :: "pool_state \<Rightarrow> rat" where
  "pool_per s \<equiv> per_layer_mb (pl_spec s)"

lemma key_map_of: "n \<in> set (keys d) \<Longrightarrow> \<exists>r. map_of d n = Some r"
  by (metis domD dom_map_of_conv_image_fst set_map)

lemma move_layer_ok:
  assumes "a \<in> set (keys d)" "b \<in> set (keys d)" "a \<noteq> b"
  shows "\<exists>d'. move_layer a b d = Inr d' \<and> keys d' = keys d
    \<and> (\<forall>n. cnt d' n = (if n = a then cnt d a - 1 else if n = b then cnt d b + 1 else cnt d n))"
proof -
  obtain lo hi where a: "map_of d a = Some (lo, hi)" using assms(1) key_map_of by force
  obtain dlo dhi where b: "map_of d b = Some (dlo, dhi)" using assms(2) key_map_of by force
  have b': "map_of (AList.update a (lo, hi - 1) d) b = Some (dlo, dhi)"
    using b assms(3) by (simp add: update_conv')
  have k: "keys (AList.update a (lo, hi - 1) d) = keys d" using assms(1) by simp
  show ?thesis
    using a b b' k assms
    by (auto simp: move_layer_def dict_get_def cnt_def update_conv')
qed

lemma node_usable_nonneg [simp]: "0 \<le> node_usable ps ms n"
  by (auto simp: node_usable_def split: option.splits)

interpretation lp: layer_pool pool_nodes pool_count pool_usable pool_per pool_move pool_invar
proof (unfold_locales, goal_cases)
  case (5 s a b)
  then obtain d' where d': "move_layer a b (pl_layers s) = Inr d'" "keys d' = pool_nodes s"
      "\<forall>n. cnt d' n = (if n = a then pool_count s a - 1
         else if n = b then pool_count s b + 1 else pool_count s n)"
    using move_layer_ok[of a "pl_layers s" b] by blast
  have "\<forall>n \<in> set (pool_nodes s). 0 \<le> pool_count s n" using 5(1)
    by (simp add: pool_invar_def wf_layers_def del: set_map)
  then have "\<forall>n \<in> set (pool_nodes s). 0 \<le> cnt d' n" using d'(3) 5(2,3,5) by (simp del: set_map)
  then show ?case using 5(1) d'(1,2)
    by (simp add: pool_invar_def pool_move_def wf_layers_def del: set_map)
next
  case (6 s a b)
  then show ?case using move_layer_ok[of a "pl_layers s" b] by (auto simp: pool_move_def)
next
  case (7 s a b n)
  then show ?case using move_layer_ok[of a "pl_layers s" b] by (auto simp: pool_move_def)
next
  case (8 a b s)
  then show ?case by (simp add: pool_move_def split: sum.split)
next
  case (9 a b s)
  then show ?case by (simp add: pool_move_def split: sum.split)
qed (simp_all add: pool_invar_def wf_layers_def pool_ok_def del: set_map)

subsection \<open>Overflow and donors\<close>

abbreviation pool :: "node_profile list \<Rightarrow> node_metrics list \<Rightarrow> model_spec
    \<Rightarrow> (string, layer_range) dict \<Rightarrow> pool_state" where
  "pool ps ms spec d \<equiv> \<lparr>pl_layers = d, pl_profiles = ps, pl_metrics = ms, pl_spec = spec\<rparr>"

lemma pool_ok_lookup:
  assumes "pool_ok ps ms spec" and "n \<in> set (map np_id ps)"
  shows "\<exists>p m. p \<in> set ps \<and> np_id p = n \<and> m \<in> set ms \<and> nm_node_id m = n
    \<and> next_such (\<lambda>p. np_id p = n) ps = Inr p \<and> next_such (\<lambda>m. nm_node_id m = n) ms = Inr m
    \<and> dict_get (profiles_by_id ps) n = Inr p \<and> dict_get (metrics_by_id ms) n = Inr m
    \<and> node_usable ps ms n = usable_mem_mb p m"
proof -
  obtain p where p: "p \<in> set ps" "np_id p = n" using assms(2) by auto
  have "n \<in> set (map nm_node_id ms)" using assms by (auto simp: pool_ok_def)
  then obtain m where m: "m \<in> set ms" "nm_node_id m = n" by auto
  have d: "distinct (map np_id ps)" "distinct (map nm_node_id ms)"
    using assms(1) by (auto simp: pool_ok_def)
  show ?thesis
    using next_such_id[OF d(1) p(1)] next_such_id[OF d(2) m(1)] profiles_by_id_get[OF d(1) p(1)]
      metrics_by_id_get[OF d(2) m(1)] find_ids[OF d(1) p(1)] find_ids[OF d(2) m(1)] p m
    by (intro exI[of _ p] exI[of _ m]) (simp add: node_usable_def)
qed

lemma overflow_mb_ok:
  assumes "pool_ok ps ms spec" "n \<in> set (map np_id ps)" "n \<in> set (keys (as_layers a))"
  shows "overflow_mb a ps ms spec n =
    Inr (of_int (cnt (as_layers a) n) * per_layer_mb spec - node_usable ps ms n)"
proof -
  obtain r where r: "map_of (as_layers a) n = Some r" using key_map_of[OF assms(3)] by blast
  have "ms_total_layers spec \<noteq> 0" using assms(1) by (simp add: pool_ok_def)
  with r pool_ok_lookup[OF assms(1,2)] show ?thesis
    by (auto simp: overflow_mb_def node_footprint_ok cnt_Some)
qed

definition node_speed :: "node_profile list \<Rightarrow> string \<Rightarrow> rat" where
  "node_speed ps n = (case find (\<lambda>p. np_id p = n) ps of None \<Rightarrow> 0 | Some p \<Rightarrow> np_tg_tok_s p)"

lemma donor_candidates_ok:
  assumes "pool_ok ps ms spec" "wf_layers ps d" "set ns \<subseteq> set (keys d)"
  shows "donor_candidates d (profiles_by_id ps) (metrics_by_id ms) spec ex ns =
    Inr (map (\<lambda>n. (node_speed ps n, n)) (filter (\<lambda>n. n \<noteq> ex \<and> lp.has_slack (pool ps ms spec d) n) ns))"
  using assms(3)
proof (induction ns)
  case (Cons n ns)
  then have n: "n \<in> set (map np_id ps)" and nd: "n \<in> set (keys d)"
    using assms(2) by (auto simp: wf_layers_def)
  obtain p m where pm: "p \<in> set ps" "np_id p = n"
      "dict_get (profiles_by_id ps) n = Inr p" "dict_get (metrics_by_id ms) n = Inr m"
      "node_usable ps ms n = usable_mem_mb p m"
    using pool_ok_lookup[OF assms(1) n] by blast
  obtain r where r: "map_of d n = Some r" using key_map_of[OF nd] by blast
  have L: "ms_total_layers spec \<noteq> 0" and dist: "distinct (map np_id ps)"
    using assms(1) by (auto simp: pool_ok_def)
  have sp: "node_speed ps n = np_tg_tok_s p"
    using find_ids[OF dist pm(1)] pm(2) by (simp add: node_speed_def)
  have c: "cnt d n = range_count r" using r by (simp add: cnt_Some)
  have rn: "dict_get d n = Inr r" using r by (simp add: dict_get_Inr)
  let ?w = "ms_file_size_mb spec / of_int (ms_total_layers spec)"
  have slack: "lp.has_slack (pool ps ms spec d) n \<longleftrightarrow> ?w + ms_kv_mb_per_layer spec
      \<le> usable_mem_mb p m - of_int (range_count r) * (?w + ms_kv_mb_per_layer spec)"
    by (simp add: lp.has_slack_def pm(5) c per_layer_mb_def[of spec])
  show ?case using Cons pm(3,4) rn L sp slack
    by (cases r) (simp add: layer_weight_mb_ok Let_def)
qed simp

lemma sort_last_max:
  assumes "xs \<noteq> []"
  shows "\<exists>c cs. rev (sort xs) = c # cs \<and> c \<in> set xs \<and> (\<forall>x \<in> set xs. x \<le> c)"
proof -
  have ne: "rev (sort xs) \<noteq> []" using assms by (metis length_0_conv length_rev length_sort)
  then obtain c cs where c: "rev (sort xs) = c # cs" by (cases "rev (sort xs)") auto
  then have s: "sort xs = rev cs @ [c]" by (metis rev.simps(2) rev_rev_ident)
  then have "sorted (rev cs @ [c])" by (metis sorted_sort)
  then have "\<forall>x \<in> set (sort xs). x \<le> c" unfolding s by (auto simp: sorted_wrt_append)
  moreover have "c \<in> set (sort xs)" by (simp add: s)
  ultimately show ?thesis using c by auto
qed

lemma find_slack_donor_ok:
  assumes "pool_ok ps ms spec" "wf_layers ps d"
  shows "\<exists>r. find_slack_donor d (profiles_by_id ps) (metrics_by_id ms) spec ex = Inr r
    \<and> (r = None \<longrightarrow> (\<forall>n \<in> set (keys d). n \<noteq> ex \<longrightarrow> \<not> lp.has_slack (pool ps ms spec d) n))
    \<and> (\<forall>b. r = Some b \<longrightarrow> b \<in> set (keys d) \<and> b \<noteq> ex \<and> lp.has_slack (pool ps ms spec d) b
         \<and> (\<forall>n \<in> set (keys d). n \<noteq> ex \<longrightarrow> lp.has_slack (pool ps ms spec d) n
              \<longrightarrow> node_speed ps n \<le> node_speed ps b))"
proof -
  define good where "good = filter (\<lambda>n. n \<noteq> ex \<and> lp.has_slack (pool ps ms spec d) n) (keys d)"
  define cs where "cs = map (\<lambda>n. (node_speed ps n, n)) good"
  have f: "find_slack_donor d (profiles_by_id ps) (metrics_by_id ms) spec ex =
      Inr (case rev (sort cs) of [] \<Rightarrow> None | c # _ \<Rightarrow> Some (snd c))"
    using donor_candidates_ok[OF assms, of "keys d" ex]
    by (simp add: find_slack_donor_def cs_def good_def)
  show ?thesis
  proof (cases "good = []")
    case True
    then have "find_slack_donor d (profiles_by_id ps) (metrics_by_id ms) spec ex = Inr None"
      using f by (simp add: cs_def)
    then show ?thesis using True by (auto simp: good_def filter_empty_conv)
  next
    case False
    then obtain c cs' where c: "rev (sort cs) = c # cs'" "c \<in> set cs" "\<forall>x \<in> set cs. x \<le> c"
      using sort_last_max[of cs] by (auto simp: cs_def)
    then have "snd c \<in> set good" "fst c = node_speed ps (snd c)" by (auto simp: cs_def)
    moreover have "\<forall>n \<in> set good. node_speed ps n \<le> fst c"
    proof
      fix n assume "n \<in> set good"
      then have "(node_speed ps n, n) \<le> c" using c(3) by (auto simp: cs_def)
      then show "node_speed ps n \<le> fst c" by (cases c) auto
    qed
    ultimately show ?thesis using f c(1) by (auto simp: good_def)
  qed
qed

subsection \<open>The loop\<close>

text \<open>
  The loop keeps two copies of the layer counts: \<open>layers\<close>, edited in place, and the assignment,
  whose ranges are renumbered after every move. They agree on every count.
\<close>

definition repair_rel :: "node_profile list \<Rightarrow> (string, layer_range) dict \<Rightarrow> assignment \<Rightarrow> bool"
  where
  "repair_rel ps d a \<longleftrightarrow> wf_layers ps d \<and> distinct (keys (as_layers a))
     \<and> set (keys (as_layers a)) = set (keys d)
     \<and> (\<forall>n \<in> set (keys d). cnt (as_layers a) n = cnt d n)"

definition repair_stopped :: "node_profile list \<Rightarrow> node_metrics list \<Rightarrow> model_spec
    \<Rightarrow> (string, layer_range) dict \<Rightarrow> bool" where
  "repair_stopped ps ms spec d \<longleftrightarrow>
     (\<forall>n \<in> set (keys d). \<not> lp.overflows (pool ps ms spec d) n)
     \<or> (\<exists>a \<in> set (keys d). lp.overflows (pool ps ms spec d) a
          \<and> (cnt d a \<le> 1 \<or> (\<forall>n \<in> set (keys d). n \<noteq> a \<longrightarrow> \<not> lp.has_slack (pool ps ms spec d) n)))"

lemma repair_stopped_cong:
  assumes "set (keys d) = set (keys e)" "\<And>n. n \<in> set (keys d) \<Longrightarrow> cnt d n = cnt e n"
  shows "repair_stopped ps ms spec d \<longleftrightarrow> repair_stopped ps ms spec e"
proof -
  have "lp.overflows (pool ps ms spec d) n \<longleftrightarrow> lp.overflows (pool ps ms spec e) n"
      "lp.has_slack (pool ps ms spec d) n \<longleftrightarrow> lp.has_slack (pool ps ms spec e) n"
    if "n \<in> set (keys d)" for n
    using assms(2)[OF that] by (simp_all add: lp.overflows_def lp.has_slack_def)
  with assms show ?thesis by (simp add: repair_stopped_def del: set_map cong: ball_cong bex_cong)
qed

lemma overflowing_ok:
  assumes "pool_ok ps ms spec" "repair_rel ps d a"
  shows "rfilterM (\<lambda>n. rbind (overflow_mb a ps ms spec n) (\<lambda>x. Inr (x > 0))) (keys d)
    = Inr (filter (lp.overflows (pool ps ms spec d)) (keys d))"
proof (rule rfilterM_ok)
  fix n assume n: "n \<in> set (keys d)"
  then have "n \<in> set (map np_id ps)" "n \<in> set (keys (as_layers a))" "cnt (as_layers a) n = cnt d n"
    using assms(2) by (simp_all add: repair_rel_def wf_layers_def del: set_map)
  then show "rbind (overflow_mb a ps ms spec n) (\<lambda>x. Inr (x > 0))
      = Inr (lp.overflows (pool ps ms spec d) n)"
    using assms(1) by (simp add: overflow_mb_ok lp.overflows_def del: set_map)
qed

lemma repair_loop_stuck:
  assumes "pool_ok ps ms spec" "repair_rel ps d a"
    and "filter (lp.overflows (pool ps ms spec d)) (keys d) = x # xs" "cnt d x \<le> 1"
  shows "repair_loop n ps ms spec d a = Inr a"
proof (induction n)
  case (Suc n)
  have "x \<in> set (keys d)" using filter_head[OF assms(3)] by blast
  then obtain r where "map_of d x = Some r" using key_map_of[of x d] by blast
  then have "dict_get d x = Inr r" "range_count r \<le> 1"
    using assms(4) by (simp_all add: dict_get_Inr cnt_Some)
  then show ?case using Suc overflowing_ok[OF assms(1,2)] assms(3)
    by (cases r) (simp add: Let_def del: set_map)
qed simp

lemma repair_rel_move:
  assumes "pool_invar (pool ps ms spec d)" "repair_rel ps d a" "x \<in> set (keys d)" "b \<in> set (keys d)"
    and "x \<noteq> b" "1 < cnt d x"
  shows "\<exists>d'. move_layer x b d = Inr d' \<and> pool_move x b (pool ps ms spec d) = pool ps ms spec d'
    \<and> pool_invar (pool ps ms spec d') \<and> keys d' = keys d
    \<and> repair_rel ps d' (a\<lparr>as_layers := renumber_contiguous d'\<rparr>)"
proof -
  obtain d' where d': "move_layer x b d = Inr d'" "keys d' = keys d"
    using move_layer_ok[OF assms(3-5)] by blast
  have m: "pool_move x b (pool ps ms spec d) = pool ps ms spec d'"
    using d'(1) by (simp add: pool_move_def)
  have inv: "pool_invar (pool ps ms spec d')"
    using lp.move_invar[of "pool ps ms spec d" x b] assms m by simp
  then have wf: "wf_layers ps d'" by (simp add: pool_invar_def)
  then have "repair_rel ps d' (a\<lparr>as_layers := renumber_contiguous d'\<rparr>)"
    by (simp add: repair_rel_def wf_layers_def keys_renumber cnt_renumber del: set_map)
  with d' m inv show ?thesis by blast
qed

lemma total_count_pool: "total_count d = lp.total (pool ps ms spec d)"
  by (simp add: total_count_def lp.total_def)

text \<open>
  One iteration: either the loop's answer is already settled, however many iterations are left, or
  a layer moves from an overflowing node to a node with slack.
\<close>

lemma repair_loop_step:
  assumes "pool_invar (pool ps ms spec d)" "repair_rel ps d a"
  shows "(repair_loop (Suc n) ps ms spec d a = Inr a \<and> repair_stopped ps ms spec d)
    \<or> (\<exists>d1. repair_loop (Suc n) ps ms spec d a
          = repair_loop n ps ms spec d1 (a\<lparr>as_layers := renumber_contiguous d1\<rparr>)
        \<and> pool_invar (pool ps ms spec d1)
        \<and> repair_rel ps d1 (a\<lparr>as_layers := renumber_contiguous d1\<rparr>)
        \<and> total_count d1 = total_count d
        \<and> lp.excess (pool ps ms spec d1) < lp.excess (pool ps ms spec d))"
proof -
  let ?s = "pool ps ms spec d"
  have ok: "pool_ok ps ms spec" and wf: "wf_layers ps d"
    using assms(1) by (auto simp: pool_invar_def)
  note over = overflowing_ok[OF ok assms(2)]
  show ?thesis
  proof (cases "filter (lp.overflows ?s) (keys d)")
    case Nil
    with over show ?thesis by (simp add: repair_stopped_def filter_empty_conv del: set_map)
  next
    case (Cons x xs)
    then have x: "x \<in> set (keys d)" "lp.overflows ?s x" using filter_head by metis+
    obtain r where r: "dict_get d x = Inr r" "cnt d x = range_count r"
      using key_map_of[OF x(1)] by (auto simp: dict_get_Inr cnt_Some)
    obtain donor where donor:
      "find_slack_donor d (profiles_by_id ps) (metrics_by_id ms) spec x = Inr donor"
      "donor = None \<longrightarrow> (\<forall>n \<in> set (keys d). n \<noteq> x \<longrightarrow> \<not> lp.has_slack ?s n)"
      "\<forall>b. donor = Some b \<longrightarrow> b \<in> set (keys d) \<and> b \<noteq> x \<and> lp.has_slack ?s b"
      using find_slack_donor_ok[OF ok wf, of x] by blast
    consider "cnt d x \<le> 1" | "1 < cnt d x" "donor = None" | b where "1 < cnt d x" "donor = Some b"
      by force
    then show ?thesis
    proof cases
      case 1
      then have "repair_stopped ps ms spec d" using x unfolding repair_stopped_def by blast
      with repair_loop_stuck[OF ok assms(2) Cons 1, of "Suc n"] show ?thesis by blast
    next
      case 2
      then have "repair_stopped ps ms spec d" using x donor(2) unfolding repair_stopped_def by blast
      then show ?thesis using over Cons r 2 donor(1) by (cases r) (simp add: Let_def)
    next
      case (3 b)
      then have b: "b \<in> set (keys d)" "x \<noteq> b" "lp.has_slack ?s b" using donor(3) by auto
      obtain d1 where d1: "move_layer x b d = Inr d1" "pool_move x b ?s = pool ps ms spec d1"
          "pool_invar (pool ps ms spec d1)"
          "repair_rel ps d1 (a\<lparr>as_layers := renumber_contiguous d1\<rparr>)"
        using repair_rel_move[OF assms x(1) b(1,2) 3(1)] by blast
      have "lp.excess (pool ps ms spec d1) < lp.excess ?s" "total_count d1 = total_count d"
        using lp.excess_move[OF assms(1), of x b] lp.move_total[OF assms(1), of x b] x b d1(2)
        by (simp_all add: total_count_pool[of _ ps ms spec])
      moreover have "repair_loop (Suc n) ps ms spec d a
          = repair_loop n ps ms spec d1 (a\<lparr>as_layers := renumber_contiguous d1\<rparr>)"
        using over Cons r 3 donor(1) d1(1) by (cases r) (simp add: Let_def)
      ultimately show ?thesis using d1(3,4) by blast
    qed
  qed
qed

lemma repair_loop_ok:
  assumes "pool_invar (pool ps ms spec d)" "repair_rel ps d a"
  shows "\<exists>d' a'. repair_loop n ps ms spec d a = Inr a' \<and> repair_rel ps d' a'
    \<and> total_count d' = total_count d \<and> a' = a\<lparr>as_layers := as_layers a'\<rparr>
    \<and> (lp.excess (pool ps ms spec d) \<le> int n \<longrightarrow> repair_stopped ps ms spec d')"
  using assms
proof (induction n arbitrary: d a)
  case 0
  have "repair_stopped ps ms spec d" if "lp.excess (pool ps ms spec d) \<le> 0"
    using lp.excess_zero[OF "0.prems"(1)] that by (simp add: repair_stopped_def)
  with 0 show ?case by (intro exI[of _ d] exI[of _ a]) auto
next
  case (Suc n)
  from repair_loop_step[OF Suc.prems, of n] show ?case
  proof (elim disjE exE conjE)
    assume "repair_loop (Suc n) ps ms spec d a = Inr a" "repair_stopped ps ms spec d"
    with Suc.prems(2) show ?thesis
      by (intro exI[of _ d] exI[of _ a]) (simp del: repair_loop.simps)
  next
    fix d1
    assume eq: "repair_loop (Suc n) ps ms spec d a
          = repair_loop n ps ms spec d1 (a\<lparr>as_layers := renumber_contiguous d1\<rparr>)"
      and d1: "pool_invar (pool ps ms spec d1)"
        "repair_rel ps d1 (a\<lparr>as_layers := renumber_contiguous d1\<rparr>)"
        "total_count d1 = total_count d"
        "lp.excess (pool ps ms spec d1) < lp.excess (pool ps ms spec d)"
    from Suc.IH[OF d1(1,2)] show ?thesis
      unfolding eq using d1(3,4) by (auto simp del: repair_loop.simps)
  qed
qed

end
