(* ===== verification/Plan_Correct.thy ===== *)
theory Plan_Correct
  imports Plan_Repair
begin

text \<open>
  Properties of \<open>plan\<close> as a whole: what a returned assignment guarantees, when one is returned and
  which exceptions can leave the planner.
\<close>

subsection \<open>Totals and ownership\<close>

lemma total_count_sum: "distinct (keys d) \<Longrightarrow> total_count d = (\<Sum>p\<leftarrow>d. range_count (snd p))"
proof -
  assume d: "distinct (keys d)"
  have "map (\<lambda>n. cnt d n) (keys d) = map (\<lambda>p. range_count (snd p)) d"
    using d by (auto simp: cnt_def)
  then show ?thesis by (simp only: total_count_def)
qed

lemma sum_lay_out: "(\<Sum>p\<leftarrow>lay_out c ns. range_count (snd p)) = (\<Sum>n\<leftarrow>ns. max 0 (snd n))"
  by (induction c ns rule: lay_out.induct) (auto simp: algebra_simps)

text \<open>Node \<open>n\<close> holds layer \<open>k\<close>.\<close>

definition holds_layer :: "(string, layer_range) dict \<Rightarrow> string \<Rightarrow> int \<Rightarrow> bool" where
  "holds_layer d n k = (case map_of d n of None \<Rightarrow> False | Some r \<Rightarrow> fst r \<le> k \<and> k \<le> snd r)"

lemma contiguous_bounds:
  "contiguous_from c d \<Longrightarrow> (n, lo, hi) \<in> set d \<Longrightarrow>
   c \<le> lo \<and> hi < c + (\<Sum>p\<leftarrow>d. range_count (snd p))"
proof (induction c d rule: contiguous_from.induct)
  case (2 c m l h d)
  have ge: "0 \<le> (\<Sum>p\<leftarrow>d. range_count (snd p))" if "contiguous_from c' d" for c'
    using that by (induction c' d rule: contiguous_from.induct) auto
  show ?case using 2 ge[of "h + 1"] by auto
qed simp

lemma contiguous_covers:
  "contiguous_from c d \<Longrightarrow> c \<le> k \<Longrightarrow> k < c + (\<Sum>p\<leftarrow>d. range_count (snd p)) \<Longrightarrow>
   \<exists>n lo hi. (n, lo, hi) \<in> set d \<and> lo \<le> k \<and> k \<le> hi"
proof (induction c d rule: contiguous_from.induct)
  case (2 c m l h d)
  show ?case
  proof (cases "k \<le> h")
    case True
    then show ?thesis using 2 by auto
  next
    case False
    then have "\<exists>n lo hi. (n, lo, hi) \<in> set d \<and> lo \<le> k \<and> k \<le> hi"
      using 2 by (intro "2.IH") auto
    then show ?thesis by auto
  qed
qed simp

lemma contiguous_unique:
  "contiguous_from c d \<Longrightarrow> (n, lo, hi) \<in> set d \<Longrightarrow> (n', lo', hi') \<in> set d \<Longrightarrow>
   lo \<le> k \<Longrightarrow> k \<le> hi \<Longrightarrow> lo' \<le> k \<Longrightarrow> k \<le> hi' \<Longrightarrow> n = n'"
proof (induction c d rule: contiguous_from.induct)
  case (2 c m l h d)
  have "h + 1 \<le> x" if "(y, x, z) \<in> set d" for x y z
    using contiguous_bounds[of "h + 1" d y x z] that "2.prems"(1) by auto
  then show ?case using 2 by fastforce
qed simp

lemma contiguous_exactly_one:
  assumes "contiguous_from 0 d" "distinct (keys d)" "0 \<le> k" "k < total_count d"
  shows "\<exists>!n. holds_layer d n k"
proof -
  have hold: "holds_layer d n k \<longleftrightarrow> (\<exists>lo hi. (n, lo, hi) \<in> set d \<and> lo \<le> k \<and> k \<le> hi)" for n
    using assms(2) by (auto simp: holds_layer_def split: option.split dest: eq_key_imp_eq_value)
  show ?thesis unfolding hold
    using contiguous_covers[OF assms(1,3)] contiguous_unique[OF assms(1)] assms(2,4)
    by (metis (no_types, lifting) add_0 total_count_sum)
qed

subsection \<open>Assignment by speed\<close>

lemma assign_loop_ok:
  assumes "os \<noteq> []" "distinct (keys d @ map np_id os)" "0 \<le> lo" "lo \<le> L"
  shows "\<exists>ns. assign_loop S L os lo lo d = d @ lay_out lo ns \<and> map fst ns = map np_id os
    \<and> (\<forall>k \<in> set (map snd ns). 0 \<le> k) \<and> sum_list (map snd ns) = L - lo"
  using assms
proof (induction os arbitrary: lo d)
  case (Cons p os)
  define c where "c = min (if os = [] then L - lo
      else max 1 (py_round (np_tg_tok_s p / S * of_int L))) (L - lo)"
  have c: "0 \<le> c" "c \<le> L - lo" using Cons.prems by (auto simp: c_def)
  have p: "np_id p \<notin> set (keys d)" using Cons.prems(2) by auto
  have step: "assign_loop S L (p # os) lo lo d
      = assign_loop S L os (lo + c) (lo + c) (d @ [(np_id p, lo, lo + c - 1)])"
    using p by (simp add: c_def Let_def update_new)
  show ?case
  proof (cases "os = []")
    case True
    then have "c = L - lo" by (simp add: c_def)
    with True step show ?thesis by (intro exI[of _ "[(np_id p, c)]"]) (use c in auto)
  next
    case False
    have "\<exists>ns. assign_loop S L os (lo + c) (lo + c) (d @ [(np_id p, lo, lo + c - 1)])
        = (d @ [(np_id p, lo, lo + c - 1)]) @ lay_out (lo + c) ns \<and> map fst ns = map np_id os
        \<and> (\<forall>k \<in> set (map snd ns). 0 \<le> k) \<and> sum_list (map snd ns) = L - (lo + c)"
      using Cons.prems c False by (intro Cons.IH) auto
    then obtain ns where "assign_loop S L os (lo + c) (lo + c) (d @ [(np_id p, lo, lo + c - 1)])
        = (d @ [(np_id p, lo, lo + c - 1)]) @ lay_out (lo + c) ns" "map fst ns = map np_id os"
        "\<forall>k \<in> set (map snd ns). 0 \<le> k" "sum_list (map snd ns) = L - (lo + c)"
      by blast
    with step show ?thesis
      by (intro exI[of _ "(np_id p, c) # ns"]) (use c in auto)
  qed
qed simp

lemma assign_by_speed_ok:
  assumes "ps \<noteq> []" "distinct (map np_id ps)" "0 \<le> ms_total_layers spec"
    and "assign_by_speed ps spec = Inr a"
  shows "repair_rel ps (as_layers a) a" "keys (as_layers a) = sort (map np_id ps)"
    "contiguous_from 0 (as_layers a)" "total_count (as_layers a) = ms_total_layers spec"
    "as_model_id a = ms_model_id spec" "as_n_cpu_moe a = dict_of (map (\<lambda>p. (np_id p, 0)) ps)"
proof -
  define S where "S = sum_list (map np_tg_tok_s ps)"
  let ?os = "sort_key np_id ps"
  have "distinct (map np_id ?os)" using assms(2) by (simp add: distinct_map)
  moreover have ne: "?os \<noteq> []" using assms(1) by (metis length_0_conv length_sort)
  ultimately obtain ns where ns:
      "assign_loop S (ms_total_layers spec) ?os 0 0 [] = lay_out 0 ns"
      "map fst ns = map np_id ?os" "\<forall>k \<in> set (map snd ns). 0 \<le> k"
      "sum_list (map snd ns) = ms_total_layers spec"
    using assign_loop_ok[OF ne, of "[]" 0 "ms_total_layers spec" S] assms(3) by auto
  have a: "as_layers a = lay_out 0 ns" "as_model_id a = ms_model_id spec"
      "as_n_cpu_moe a = dict_of (map (\<lambda>p. (np_id p, 0)) ps)"
    using assms(4) ns(1) by (auto simp: assign_by_speed_def Let_def S_def split: if_splits)
  have k: "keys (lay_out 0 ns) = sort (map np_id ps)"
    using ns(2) by (simp add: map_sort_key_eq)
  have d: "distinct (map fst ns)" using ns(2) assms(2) by (simp add: map_sort_key_eq)
  show "repair_rel ps (as_layers a) a"
    using k a(1) d assms(2) by (simp add: repair_rel_def wf_layers_def)
  have "total_count (lay_out 0 ns) = (\<Sum>n\<leftarrow>ns. max 0 (snd n))"
    using d by (simp add: total_count_sum sum_lay_out)
  also have "\<dots> = sum_list (map snd ns)"
    using ns(3) by (intro arg_cong[where f = sum_list] map_cong) auto
  finally show "total_count (as_layers a) = ms_total_layers spec" using a(1) ns(4) by simp
  show "keys (as_layers a) = sort (map np_id ps)" "contiguous_from 0 (as_layers a)"
    "as_model_id a = ms_model_id spec" "as_n_cpu_moe a = dict_of (map (\<lambda>p. (np_id p, 0)) ps)"
    using k a contiguous_lay_out by simp_all
qed

subsection \<open>The stages of a plan\<close>

lemma usable_pool_ok:
  assumes "distinct (map np_id ps)" "distinct (map nm_node_id ms)"
    and "0 < ms_total_layers spec" "0 \<le> per_layer_mb spec"
  shows "pool_ok (usable_profiles ps ms) ms spec"
proof -
  have "set (keys (metrics_by_id ms)) = set (map nm_node_id ms)"
    unfolding metrics_by_id_def dict_of_def
    by (simp add: dom_map_of_conv_image_fst[symmetric] fold_update_map_of)
      (simp add: dom_map_of_conv_image_fst image_image)
  then show ?thesis using assms
    by (auto simp: pool_ok_def usable_profiles_def distinct_map_filter)
qed

lemma fits_loop_ok:
  assumes "pool_ok ps ms spec" "set ns \<subseteq> set (map np_id ps)" "set ns \<subseteq> set (keys (as_layers a))"
  shows "fits_loop a (profiles_by_id ps) (metrics_by_id ms) spec ns
    = Inr (\<forall>n \<in> set ns. \<not> lp.overflows (pool ps ms spec (as_layers a)) n)"
  using assms(2,3)
proof (induction ns)
  case (Cons n ns)
  then have n: "n \<in> set (map np_id ps)" "n \<in> set (keys (as_layers a))" by auto
  obtain p m where pm: "dict_get (profiles_by_id ps) n = Inr p" "dict_get (metrics_by_id ms) n = Inr m"
      "node_usable ps ms n = usable_mem_mb p m"
    using pool_ok_lookup[OF assms(1) n(1)] by blast
  obtain r where r: "map_of (as_layers a) n = Some r" using key_map_of[OF n(2)] by blast
  have "ms_total_layers spec \<noteq> 0" using assms(1) by (simp add: pool_ok_def)
  with Cons pm r show ?case
    by (auto simp: node_footprint_ok lp.overflows_def cnt_Some not_less)
qed simp

lemma repair_ok:
  assumes "ps \<noteq> []" "pool_ok ps ms spec" "assign_by_speed ps spec = Inr a0"
  shows "\<exists>a. repair a0 ps ms spec = Inr a \<and> wf_layers ps (as_layers a)
    \<and> keys (as_layers a) = sort (map np_id ps) \<and> contiguous_from 0 (as_layers a)
    \<and> total_count (as_layers a) = ms_total_layers spec
    \<and> as_tensor_split a = tensor_split_from_layers (as_layers a)
    \<and> as_model_id a = ms_model_id spec
    \<and> repair_stopped ps ms spec (as_layers a)"
proof -
  have ids: "distinct (map np_id ps)" and L: "0 < ms_total_layers spec"
    using assms(2) by (auto simp: pool_ok_def)
  note a0 = assign_by_speed_ok[OF assms(1) ids less_imp_le[OF L] assms(3)]
  let ?L = "ms_total_layers spec" and ?d0 = "as_layers a0"
  let ?n = "nat (?L * int (length ps))"
  have inv: "pool_invar (pool ps ms spec ?d0)"
    using assms(2) a0(1) by (simp add: pool_invar_def repair_rel_def)
  have "lp.excess (pool ps ms spec ?d0) \<le> ?L"
    using lp.excess_le_total[OF inv] a0(4) by (simp add: total_count_pool[of _ ps ms spec])
  also have "?L \<le> int ?n" using L assms(1) by (cases ps) auto
  finally obtain d' a' where d': "repair_loop ?n ps ms spec ?d0 a0 = Inr a'" "repair_rel ps d' a'"
      "total_count d' = total_count ?d0" "a' = a0\<lparr>as_layers := as_layers a'\<rparr>"
      "repair_stopped ps ms spec d'"
    using repair_loop_ok[OF inv a0(1), of ?n] by blast
  define f where "f = renumber_contiguous (as_layers a')"
  have dk: "distinct (keys (as_layers a'))" "distinct (keys d')"
      "set (keys (as_layers a')) = set (map np_id ps)" "set (keys d') = set (map np_id ps)"
    using d'(2) by (simp_all add: repair_rel_def wf_layers_def)
  have k: "keys f = sort (map np_id ps)"
    unfolding f_def using dk ids
    by (simp add: keys_renumber) (metis set_map sorted_list_of_set_sort_remdups distinct_remdups_id)
  have c: "cnt f n = cnt d' n" if "n \<in> set (map np_id ps)" for n
    using that dk d'(2) unfolding f_def
    by (simp add: cnt_renumber repair_rel_def wf_layers_def del: set_map)
  have same: "set (keys f) = set (keys d')" "\<And>n. n \<in> set (keys f) \<Longrightarrow> cnt f n = cnt d' n"
    using k c dk(4) by simp_all
  have "total_count f = ?L" "repair_stopped ps ms spec f" "wf_layers ps f"
    using total_count_perm[of f d'] repair_stopped_cong[OF same] same k dk d'(2,3,5) a0(4) ids
    by (simp_all add: repair_rel_def wf_layers_def del: set_map)
  moreover have "contiguous_from 0 f" unfolding f_def by (rule contiguous_renumber[OF dk(1)])
  moreover have "as_model_id a' = ms_model_id spec" by (subst d'(4)) (simp add: a0(5))
  ultimately show ?thesis using d'(1) k by (simp add: repair_def Let_def f_def)
qed

lemma fits_ok:
  assumes "pool_ok ps ms spec" "set (keys (as_layers a)) = set (map np_id ps)"
  shows "fits a ps ms spec
    = Inr (\<forall>n \<in> set (keys (as_layers a)). \<not> lp.overflows (pool ps ms spec (as_layers a)) n)"
  unfolding fits_def by (rule fits_loop_ok[OF assms(1)]) (simp_all add: assms(2) del: set_map)

lemma compute_time_calibrated:
  assumes "distinct (map np_id ps)" "0 < L" "set (keys d) \<subseteq> set (map np_id ps)"
    and "\<And>p. p \<in> set ps \<Longrightarrow> 0 < np_tg_tok_s p"
  shows "compute_time_loop (profiles_by_id ps) L d acc
    = Inr (acc + (\<Sum>(n, r)\<leftarrow>d. of_int (range_count r) / (of_int L * node_speed ps n)))"
  using assms(3)
proof (induction d arbitrary: acc)
  case (Cons x d)
  obtain n lo hi where x: "x = (n, lo, hi)" by (cases x) auto
  obtain p where p: "p \<in> set ps" "np_id p = n" using Cons.prems x by auto
  have "dict_get (profiles_by_id ps) n = Inr p" "node_speed ps n = np_tg_tok_s p"
    using profiles_by_id_get[OF assms(1) p(1)] find_ids[OF assms(1) p(1)] p(2)
    by (simp_all add: node_speed_def)
  then show ?case using Cons x assms(2) assms(4)[OF p(1)] by (simp add: Let_def algebra_simps)
qed simp

lemma compute_time_uncalibrated:
  assumes "distinct (map np_id ps)" "0 < L" "set (keys d) \<subseteq> set (map np_id ps)"
    and "p \<in> set ps" "np_id p \<in> set (keys d)" "np_tg_tok_s p \<le> 0"
  shows "\<exists>s. compute_time_loop (profiles_by_id ps) L d acc = Inl (ValueError s)"
  using assms(3,5)
proof (induction d arbitrary: acc)
  case (Cons x d)
  obtain n lo hi where x: "x = (n, lo, hi)" by (cases x) auto
  obtain q where q: "q \<in> set ps" "np_id q = n" using Cons.prems x by auto
  have g: "dict_get (profiles_by_id ps) n = Inr q"
    using profiles_by_id_get[OF assms(1) q(1)] q(2) by simp
  have "np_id p = n \<Longrightarrow> q = p" using assms(1,4) q by (auto simp: distinct_map inj_on_def)
  then show ?case using Cons x g assms(2,6) by (auto simp: Let_def)
qed simp

lemma predict_error_kind:
  assumes "ps \<noteq> []" "distinct (map np_id ps)" "0 < ms_total_layers spec"
    and "set (keys (as_layers a)) = set (map np_id ps)" "predict_tok_s a ps spec = Inl e"
  shows "\<exists>s. e = ValueError s"
proof (cases "\<exists>p \<in> set ps. np_tg_tok_s p \<le> 0")
  case True
  then obtain p where p: "p \<in> set ps" "np_tg_tok_s p \<le> 0" by blast
  then have "np_id p \<in> set (keys (as_layers a))" using assms(4) by simp
  from compute_time_uncalibrated[OF assms(2,3) equalityD1[OF assms(4)] p(1) this p(2), of 0]
  show ?thesis using assms(5) by (auto simp: predict_tok_s_def)
next
  case False
  then have "\<And>p. p \<in> set ps \<Longrightarrow> 0 < np_tg_tok_s p" by force
  from compute_time_calibrated[OF assms(2,3) equalityD1[OF assms(4)] this]
  show ?thesis using assms(1,5) by (auto simp: predict_tok_s_def Let_def split: if_splits)
qed

lemma explain_ok:
  assumes "distinct (map np_id ps)" "set (keys (as_layers a)) \<subseteq> set (map np_id ps)"
  shows "\<exists>r. explain a ps = Inr r"
proof -
  have "\<exists>y. rbind (dict_get (profiles_by_id ps) n) (\<lambda>p. Inr (g p)) = Inr y"
    if "(n, r) \<in> set (as_layers a)" for n r and g :: "node_profile \<Rightarrow> string"
  proof -
    have "n \<in> set (map np_id ps)" using assms(2) that by (auto simp: rev_image_eqI)
    then obtain p where "p \<in> set ps" "np_id p = n" by auto
    then show ?thesis using profiles_by_id_get[OF assms(1)] by fastforce
  qed
  then show ?thesis unfolding explain_def
    by (auto simp: res_simps intro!: rmapM_total)
qed

text \<open>With room for one layer on every node and enough capacity overall, repair leaves no overflow.\<close>

lemma stopped_with_room:
  assumes "pool_ok ps ms spec" "wf_layers ps d" "repair_stopped ps ms spec d" "0 < per_layer_mb spec"
    and "\<And>n. n \<in> set (keys d) \<Longrightarrow> per_layer_mb spec \<le> node_usable ps ms n"
    and "total_count d \<le> (\<Sum>n\<leftarrow>keys d. \<lfloor>node_usable ps ms n / per_layer_mb spec\<rfloor>)"
  shows "\<forall>n \<in> set (keys d). \<not> lp.overflows (pool ps ms spec d) n"
proof (rule ccontr)
  let ?s = "pool ps ms spec d"
  assume "\<not> ?thesis"
  then obtain a where a: "a \<in> set (keys d)" "lp.overflows ?s a"
      "cnt d a \<le> 1 \<or> (\<forall>n \<in> set (keys d). n \<noteq> a \<longrightarrow> \<not> lp.has_slack ?s n)"
    using assms(3) unfolding repair_stopped_def by blast
  have inv: "pool_invar ?s" using assms(1,2) by (simp add: pool_invar_def)
  have "\<not> cnt d a \<le> 1"
  proof
    assume "cnt d a \<le> 1"
    then have "of_int (cnt d a) * per_layer_mb spec \<le> 1 * per_layer_mb spec"
      using assms(4) by (intro mult_right_mono) auto
    then show False using a(2) assms(5)[OF a(1)] by (simp add: lp.overflows_def)
  qed
  with a(3) have "\<And>n. n \<in> set (keys d) \<Longrightarrow> n \<noteq> a \<Longrightarrow> \<not> lp.has_slack ?s n" by blast
  from lp.no_slack_full[OF inv, of a] this a(1,2) assms(4,6) show False
    by (simp add: total_count_pool[of d ps ms spec] del: set_map)
qed

lemma predict_calibrated:
  assumes "ps \<noteq> []" "pool_ok ps ms spec" "wf_layers ps (as_layers a)" "contiguous_from 0 (as_layers a)"
    and "total_count (as_layers a) = ms_total_layers spec"
    and "\<And>p. p \<in> set ps \<Longrightarrow> 0 < np_tg_tok_s p" "\<And>p. p \<in> set ps \<Longrightarrow> 0 \<le> np_rtt_ms p"
  shows "\<exists>t. predict_tok_s a ps spec = Inr t"
proof -
  let ?L = "ms_total_layers spec" and ?d = "as_layers a"
  have ids: "distinct (map np_id ps)" and L: "0 < ?L" using assms(2) by (auto simp: pool_ok_def)
  have k: "set (keys ?d) \<subseteq> set (map np_id ps)" "distinct (keys ?d)"
    using assms(3) by (simp_all add: wf_layers_def)
  have sp: "0 < node_speed ps n" if "n \<in> set (map np_id ps)" for n
    using that find_ids[OF ids] assms(6) by (force simp: node_speed_def)
  obtain n lo hi where n: "(n, lo, hi) \<in> set ?d" "lo \<le> 0" "0 \<le> hi"
    using contiguous_covers[OF assms(4), of 0] L assms(5) total_count_sum[OF k(2)] by auto
  define f where "f = (\<lambda>(n, r). rat_of_int (range_count r) / (of_int ?L * node_speed ps n))"
  have nonneg: "0 \<le> f x" if "x \<in> set ?d" for x
  proof -
    obtain m r where Pair: "x = (m, r)" by (meson surj_pair)
    have "m \<in> set (map np_id ps)" using k(1) that Pair by (auto simp: rev_image_eqI)
    moreover have "0 \<le> range_count r"
      using assms(3) that Pair k(2) unfolding wf_layers_def
      by (metis cnt_Some fst_conv image_eqI list.set_map map_of_is_SomeI)
    ultimately show ?thesis using sp[of m] L Pair by (simp add: f_def)
  qed
  have "n \<in> set (map np_id ps)" using k(1) n(1) by (auto simp: rev_image_eqI)
  then have "0 < f (n, lo, hi)" using n sp[of n] L by (simp add: f_def)
  then have "0 < sum_list (map f ?d)"
    using member_le_sum_list_rat[of ?d f, OF nonneg n(1)] by linarith
  moreover have "0 \<le> of_int (max 0 (int (length ?d) - 1))
      * (sum_list (map np_rtt_ms ps) / of_nat (length ps) / 1000)"
    using assms(7) by (intro mult_nonneg_nonneg divide_nonneg_nonneg sum_list_nonneg) auto
  ultimately show ?thesis
    using compute_time_calibrated[OF ids L k(1) assms(6), of 0] assms(1)
    by (auto simp: predict_tok_s_def Let_def f_def)
qed

text \<open>Everything a caller can rely on of a returned plan, and how the stages produced it.\<close>

lemma plan_stages:
  assumes "distinct (map np_id ps)" "distinct (map nm_node_id ms)"
    and "0 < ms_total_layers spec" "0 \<le> per_layer_mb spec" "usable_profiles ps ms \<noteq> []"
  defines "us \<equiv> usable_profiles ps ms"
  shows "(\<exists>s. plan ps ms spec = Inl (RuntimeError s) \<and> assign_by_speed us spec = Inl (RuntimeError s))
    \<or> (\<exists>a1. pool_ok us ms spec \<and> wf_layers us (as_layers a1) \<and> keys (as_layers a1) = sort (map np_id us)
        \<and> contiguous_from 0 (as_layers a1) \<and> total_count (as_layers a1) = ms_total_layers spec
        \<and> as_tensor_split a1 = tensor_split_from_layers (as_layers a1)
        \<and> as_model_id a1 = ms_model_id spec \<and> repair_stopped us ms spec (as_layers a1)
        \<and> plan ps ms spec =
          (if \<exists>n \<in> set (keys (as_layers a1)). lp.overflows (pool us ms spec (as_layers a1)) n
           then Inl (RuntimeError (''model '' @ ms_model_id spec
                      @ '' does not fit in pooled memory even after repair''))
           else rbind (predict_tok_s a1 us spec) (\<lambda>t.
             let a2 = a1\<lparr>as_predicted_tok_s := t\<rparr>
             in rbind (explain a2 us) (\<lambda>r. Inr (a2\<lparr>as_rationale := r\<rparr>)))))"
proof -
  have ok: "pool_ok us ms spec" unfolding us_def by (rule usable_pool_ok[OF assms(1-4)])
  have ne: "us \<noteq> []" "ps \<noteq> []" using assms(5) by (auto simp: us_def usable_profiles_def)
  show ?thesis
  proof (cases "assign_by_speed us spec")
    case (Inl e)
    then show ?thesis using ne
      by (auto simp: plan_def us_def[symmetric] assign_by_speed_def Let_def split: if_splits)
  next
    case (Inr a0)
    from repair_ok[OF ne(1) ok Inr] obtain a1 where a1: "repair a0 us ms spec = Inr a1"
      "wf_layers us (as_layers a1)" "keys (as_layers a1) = sort (map np_id us)"
      "contiguous_from 0 (as_layers a1)" "total_count (as_layers a1) = ms_total_layers spec"
      "as_tensor_split a1 = tensor_split_from_layers (as_layers a1)"
      "as_model_id a1 = ms_model_id spec" "repair_stopped us ms spec (as_layers a1)" by blast
    have k: "set (keys (as_layers a1)) = set (map np_id us)" using a1(3) by simp
    have "plan ps ms spec =
          (if \<exists>n \<in> set (keys (as_layers a1)). lp.overflows (pool us ms spec (as_layers a1)) n
           then Inl (RuntimeError (''model '' @ ms_model_id spec
                      @ '' does not fit in pooled memory even after repair''))
           else rbind (predict_tok_s a1 us spec) (\<lambda>t.
             let a2 = a1\<lparr>as_predicted_tok_s := t\<rparr>
             in rbind (explain a2 us) (\<lambda>r. Inr (a2\<lparr>as_rationale := r\<rparr>))))"
      using ne Inr a1(1) fits_ok[OF ok k] by (simp add: plan_def us_def[symmetric] del: set_map)
    with ok a1 show ?thesis by blast
  qed
qed

end
