(* ===== verification/Plan_Properties.thy ===== *)
theory Plan_Properties
  imports Plan_Correct
begin

text \<open>
  The planner's contract: the properties of \<open>sched.plan\<close> that the control plane and the head's
  launcher rely on, each with an instance on a concrete pool.
\<close>

subsection \<open>A concrete pool\<close>

definition ex_profile :: "string \<Rightarrow> rat \<Rightarrow> node_profile" where
  "ex_profile i speed = \<lparr>np_id = i, np_host = ''10.0.0.1'', np_cpu = ''x86'', np_cores = 4,
     np_ram_total_mb = 8192, np_ram_free_mb = 6144, np_gpu = None, np_vram_total_mb = 0,
     np_backend = ''cpu'', np_mem_bandwidth_gbs = 38, np_tg_tok_s = speed, np_pp_tok_s = 65,
     np_rtt_ms = 1/2, np_state = Idle\<rparr>"

definition ex_metrics :: "string \<Rightarrow> int \<Rightarrow> node_metrics" where
  "ex_metrics i ram = \<lparr>nm_node_id = i, nm_timestamp = 0, nm_cpu_percent = 20, nm_ram_free_mb = ram,
     nm_gpu_percent = None, nm_vram_free_mb = None, nm_jobs_running = 0\<rparr>"

text \<open>
  Node \<open>a\<close> is three times as fast as \<open>b\<close> but has room for two layers only: speed alone would give
  it six of the eight, and repair moves four of them to \<open>b\<close>.
\<close>

definition ex_ps :: "node_profile list" where
  "ex_ps = [ex_profile ''b'' 10, ex_profile ''a'' 30]"

definition ex_ms :: "node_metrics list" where
  "ex_ms = [ex_metrics ''a'' 1900, ex_metrics ''b'' 3000]"

definition ex_spec :: model_spec where
  "ex_spec = \<lparr>ms_model_id = ''m'', ms_total_layers = 8, ms_file_size_mb = 800, ms_kv_mb_per_layer = 1\<rparr>"

definition ex_plan :: assignment where
  "ex_plan = \<lparr>as_model_id = ''m'', as_layers = [(''a'', 0, 1), (''b'', 2, 7)],
     as_n_cpu_moe = [(''b'', 0), (''a'', 0)], as_tensor_split = [1/4, 3/4],
     as_predicted_tok_s = 6000 / 503,
     as_rationale = ''a gets 2 layers (38 GB/s bandwidth); b gets 6 layers (38 GB/s bandwidth)''\<rparr>"

lemma ex_plan_eq: "plan ex_ps ex_ms ex_spec = Inr ex_plan"
  by code_simp

lemma ex_ids: "distinct (map np_id ex_ps)" "distinct (map nm_node_id ex_ms)"
  by code_simp+

lemma ex_per: "0 < ms_total_layers ex_spec" "0 \<le> per_layer_mb ex_spec" "0 < per_layer_mb ex_spec"
  by code_simp+

subsection \<open>What a plan guarantees\<close>

lemma plan_Inr_stages:
  assumes "distinct (map np_id ps)" "distinct (map nm_node_id ms)"
    and "0 < ms_total_layers spec" "0 \<le> per_layer_mb spec" "plan ps ms spec = Inr a"
  defines "us \<equiv> usable_profiles ps ms"
  shows "us \<noteq> []" "pool_ok us ms spec" "wf_layers us (as_layers a)"
    "keys (as_layers a) = sort (map np_id us)" "contiguous_from 0 (as_layers a)"
    "total_count (as_layers a) = ms_total_layers spec"
    "as_tensor_split a = tensor_split_from_layers (as_layers a)"
    "\<forall>n \<in> set (keys (as_layers a)). \<not> lp.overflows (pool us ms spec (as_layers a)) n"
    "\<exists>a1. as_layers a1 = as_layers a \<and> predict_tok_s a1 us spec = Inr (as_predicted_tok_s a)"
proof -
  show ne: "us \<noteq> []" using assms(5) by (auto simp: plan_def us_def Let_def split: if_splits)
  from plan_stages[OF assms(1-4)] ne assms(5) obtain a1 where a1:
      "pool_ok us ms spec" "wf_layers us (as_layers a1)" "keys (as_layers a1) = sort (map np_id us)"
      "contiguous_from 0 (as_layers a1)" "total_count (as_layers a1) = ms_total_layers spec"
      "as_tensor_split a1 = tensor_split_from_layers (as_layers a1)"
    and eq: "Inr a = (if \<exists>n \<in> set (keys (as_layers a1)). lp.overflows (pool us ms spec (as_layers a1)) n
           then Inl (RuntimeError (''model '' @ ms_model_id spec
                      @ '' does not fit in pooled memory even after repair''))
           else rbind (predict_tok_s a1 us spec) (\<lambda>t.
             let a2 = a1\<lparr>as_predicted_tok_s := t\<rparr>
             in rbind (explain a2 us) (\<lambda>r. Inr (a2\<lparr>as_rationale := r\<rparr>))))"
    unfolding us_def by (auto simp del: set_map)
  from eq have a1': "\<forall>n \<in> set (keys (as_layers a1)). \<not> lp.overflows (pool us ms spec (as_layers a1)) n"
    by (simp del: set_map split: if_splits)
  with eq have "\<exists>t r. predict_tok_s a1 us spec = Inr t
      \<and> a = a1\<lparr>as_predicted_tok_s := t, as_rationale := r\<rparr>"
    by (auto simp: res_simps Let_def simp del: set_map)
  then have a2: "as_layers a = as_layers a1" "as_tensor_split a = as_tensor_split a1"
      "predict_tok_s a1 us spec = Inr (as_predicted_tok_s a)" by auto
  show "pool_ok us ms spec" "wf_layers us (as_layers a)"
    "keys (as_layers a) = sort (map np_id us)" "contiguous_from 0 (as_layers a)"
    "total_count (as_layers a) = ms_total_layers spec"
    "as_tensor_split a = tensor_split_from_layers (as_layers a)"
    "\<forall>n \<in> set (keys (as_layers a)). \<not> lp.overflows (pool us ms spec (as_layers a)) n"
    using a1 a1' a2 by simp_all
  show "\<exists>a1. as_layers a1 = as_layers a \<and> predict_tok_s a1 us spec = Inr (as_predicted_tok_s a)"
    using a2(1,3) by metis
qed

text \<open>
  C1. A returned plan places every layer of the model exactly once: the nodes of the plan are the
  usable nodes in id order, each layer number from 0 to L-1 is held by exactly one of them, and no
  node holds a number outside that range.
\<close>

theorem plan_partitions_layers:
  assumes "distinct (map np_id ps)" "distinct (map nm_node_id ms)"
    and "0 < ms_total_layers spec" "0 \<le> per_layer_mb spec" "plan ps ms spec = Inr a"
  shows "keys (as_layers a) = sort (map np_id (usable_profiles ps ms))
    \<and> (\<forall>k. 0 \<le> k \<and> k < ms_total_layers spec \<longrightarrow> (\<exists>!n. holds_layer (as_layers a) n k))
    \<and> (\<forall>n k. holds_layer (as_layers a) n k \<longrightarrow> 0 \<le> k \<and> k < ms_total_layers spec)"
proof -
  note st = plan_Inr_stages[OF assms]
  have d: "distinct (keys (as_layers a))" using st(3) by (simp add: wf_layers_def)
  have "0 \<le> k \<and> k < ms_total_layers spec" if "holds_layer (as_layers a) n k" for n k
  proof -
    from that obtain lo hi where "(n, lo, hi) \<in> set (as_layers a)" "lo \<le> k" "k \<le> hi"
      by (auto simp: holds_layer_def split: option.splits dest: map_of_SomeD)
    then show ?thesis
      using contiguous_bounds[OF st(5)] st(6) total_count_sum[OF d] by fastforce
  qed
  then show ?thesis using st(4) contiguous_exactly_one[OF st(5) d] st(6) by simp
qed

theorem plan_partitions_layers_witness:
  "keys (as_layers ex_plan) = sort (map np_id (usable_profiles ex_ps ex_ms))
   \<and> (\<exists>!n. holds_layer (as_layers ex_plan) n 7)"
  using plan_partitions_layers[OF ex_ids ex_per(1,2) ex_plan_eq] by (simp add: ex_spec_def)

text \<open>
  C2. A returned plan never exceeds a node's memory: the layers placed on a usable node, at their
  weight and KV-cache cost, fit the memory that node last reported as usable.
\<close>

theorem plan_respects_memory:
  assumes "distinct (map np_id ps)" "distinct (map nm_node_id ms)"
    and "0 < ms_total_layers spec" "0 \<le> per_layer_mb spec" "plan ps ms spec = Inr a"
    and "p \<in> set (usable_profiles ps ms)" "m \<in> set ms" "nm_node_id m = np_id p"
  shows "\<exists>lo hi. map_of (as_layers a) (np_id p) = Some (lo, hi) \<and> 0 \<le> hi - lo + 1
    \<and> of_int (hi - lo + 1) * per_layer_mb spec \<le> usable_mem_mb p m"
proof -
  note st = plan_Inr_stages[OF assms(1-5)]
  let ?us = "usable_profiles ps ms"
  have k: "np_id p \<in> set (keys (as_layers a))" using st(4) assms(6) by simp
  obtain lo hi where r: "map_of (as_layers a) (np_id p) = Some (lo, hi)"
    using key_map_of[OF k] by force
  have "distinct (map np_id ?us)" using st(2) by (simp add: pool_ok_def)
  then have u: "node_usable ?us ms (np_id p) = usable_mem_mb p m"
    using find_ids[of np_id ?us p] find_ids[OF assms(2,7)] assms(6,8) by (simp add: node_usable_def)
  have "\<not> lp.overflows (pool ?us ms spec (as_layers a)) (np_id p)" using st(8) k by blast
  moreover have "0 \<le> cnt (as_layers a) (np_id p)" using st(3) k by (simp add: wf_layers_def del: set_map)
  ultimately show ?thesis using r u by (simp add: lp.overflows_def cnt_Some)
qed

theorem plan_respects_memory_witness:
  "\<exists>lo hi. map_of (as_layers ex_plan) ''a'' = Some (lo, hi) \<and> 0 \<le> hi - lo + 1
    \<and> of_int (hi - lo + 1) * per_layer_mb ex_spec
        \<le> usable_mem_mb (ex_profile ''a'' 30) (ex_metrics ''a'' 1900)"
proof -
  have "usable_profiles ex_ps ex_ms = ex_ps" by code_simp
  then have "ex_profile ''a'' 30 \<in> set (usable_profiles ex_ps ex_ms)" by (simp add: ex_ps_def)
  moreover have "ex_metrics ''a'' 1900 \<in> set ex_ms" by (simp add: ex_ms_def)
  ultimately show ?thesis
    using plan_respects_memory[OF ex_ids ex_per(1,2) ex_plan_eq, of "ex_profile ''a'' 30" "ex_metrics ''a'' 1900"]
    by (simp add: ex_profile_def ex_metrics_def)
qed

subsection \<open>When a plan is found\<close>





text \<open>
  C4. The planner finds a plan whenever the pool can be filled layer by layer: if every usable node
  is calibrated and has room for at least one layer, and the whole layers that fit the nodes add up
  to at least the model's, then \<open>plan\<close> returns an assignment.
\<close>

theorem plan_succeeds:
  fixes ps ms spec
  defines "us \<equiv> usable_profiles ps ms"
  assumes "distinct (map np_id ps)" "distinct (map nm_node_id ms)"
    and "0 < ms_total_layers spec" "0 < per_layer_mb spec" "us \<noteq> []"
    and calibrated: "\<And>p. p \<in> set us \<Longrightarrow> 0 < np_tg_tok_s p \<and> 0 \<le> np_rtt_ms p"
    and room: "\<And>p. p \<in> set us \<Longrightarrow> per_layer_mb spec \<le> node_usable us ms (np_id p)"
    and capacity: "ms_total_layers spec
      \<le> (\<Sum>p\<leftarrow>us. \<lfloor>node_usable us ms (np_id p) / per_layer_mb spec\<rfloor>)"
  shows "\<exists>a. plan ps ms spec = Inr a"
proof -
  have per: "0 \<le> per_layer_mb spec" using assms(5) by simp
  have "0 < sum_list (map np_tg_tok_s us)"
    using assms(6) calibrated by (intro sum_list_pos) auto
  then have "\<exists>a0. assign_by_speed us spec = Inr a0" by (simp add: assign_by_speed_def Let_def)
  with plan_stages[OF assms(2-4) per] assms(6) obtain a1 where a1:
      "pool_ok us ms spec" "wf_layers us (as_layers a1)" "keys (as_layers a1) = sort (map np_id us)"
      "contiguous_from 0 (as_layers a1)" "total_count (as_layers a1) = ms_total_layers spec"
      "repair_stopped us ms spec (as_layers a1)"
    and eq: "plan ps ms spec = (if \<exists>n \<in> set (keys (as_layers a1)).
             lp.overflows (pool us ms spec (as_layers a1)) n
           then Inl (RuntimeError (''model '' @ ms_model_id spec
                      @ '' does not fit in pooled memory even after repair''))
           else rbind (predict_tok_s a1 us spec) (\<lambda>t.
             let a2 = a1\<lparr>as_predicted_tok_s := t\<rparr>
             in rbind (explain a2 us) (\<lambda>r. Inr (a2\<lparr>as_rationale := r\<rparr>))))"
    unfolding us_def by (auto simp del: set_map)
  have "\<forall>n \<in> set (keys (as_layers a1)). \<not> lp.overflows (pool us ms spec (as_layers a1)) n"
    by (rule stopped_with_room[OF a1(1,2,6) assms(5)])
      (use room capacity a1(3,5) in \<open>auto simp: sort_sum_list comp_def\<close>)
  moreover have "\<exists>t. predict_tok_s a1 us spec = Inr t"
    by (rule predict_calibrated[OF assms(6) a1(1,2,4,5)]) (use calibrated in auto)
  moreover have "\<exists>r. explain (a1\<lparr>as_predicted_tok_s := t\<rparr>) us = Inr r" for t
    using a1(1,3) by (intro explain_ok) (simp_all add: pool_ok_def)
  ultimately show ?thesis unfolding eq by (auto simp: res_simps Let_def simp del: set_map)
qed

lemma ex_usable: "usable_profiles ex_ps ex_ms = ex_ps"
  by code_simp

theorem plan_succeeds_witness: "\<exists>a. plan ex_ps ex_ms ex_spec = Inr a"
proof (rule plan_succeeds[OF ex_ids ex_per(1,3)])
  show "usable_profiles ex_ps ex_ms \<noteq> []" by code_simp
  fix p assume p: "p \<in> set (usable_profiles ex_ps ex_ms)"
  show "0 < np_tg_tok_s p \<and> 0 \<le> np_rtt_ms p"
    using p unfolding ex_usable by (auto simp: ex_ps_def ex_profile_def)
  have "list_all (\<lambda>p. per_layer_mb ex_spec \<le> node_usable ex_ps ex_ms (np_id p)) ex_ps"
    by code_simp
  then show "per_layer_mb ex_spec \<le> node_usable (usable_profiles ex_ps ex_ms) ex_ms (np_id p)"
    using p by (simp add: ex_usable list_all_iff)
next
  show "ms_total_layers ex_spec \<le> (\<Sum>p\<leftarrow>usable_profiles ex_ps ex_ms.
      \<lfloor>node_usable (usable_profiles ex_ps ex_ms) ex_ms (np_id p) / per_layer_mb ex_spec\<rfloor>)"
    by code_simp
qed

subsection \<open>Which exceptions leave the planner\<close>

lemma plan_raises:
  assumes "distinct (map np_id ps)" "distinct (map nm_node_id ms)"
    and "0 < ms_total_layers spec" "0 \<le> per_layer_mb spec" "plan ps ms spec = Inl e"
  shows "(\<exists>s. e = RuntimeError s) \<or> (\<exists>s. e = ValueError s)"
proof (cases "usable_profiles ps ms = []")
  case True
  then show ?thesis using assms(5) by (auto simp: plan_def split: if_splits)
next
  case False
  let ?us = "usable_profiles ps ms"
  from plan_stages[OF assms(1-4) False] show ?thesis
  proof (elim disjE exE conjE)
    fix a1
    assume ok: "pool_ok ?us ms spec" and k: "keys (as_layers a1) = sort (map np_id ?us)"
      and eq: "plan ps ms spec =
          (if \<exists>n \<in> set (keys (as_layers a1)). lp.overflows (pool ?us ms spec (as_layers a1)) n
           then Inl (RuntimeError (''model '' @ ms_model_id spec
                      @ '' does not fit in pooled memory even after repair''))
           else rbind (predict_tok_s a1 ?us spec) (\<lambda>t.
             let a2 = a1\<lparr>as_predicted_tok_s := t\<rparr>
             in rbind (explain a2 ?us) (\<lambda>r. Inr (a2\<lparr>as_rationale := r\<rparr>))))"
    have ids: "distinct (map np_id ?us)" using ok by (simp add: pool_ok_def)
    have ks: "set (keys (as_layers a1)) = set (map np_id ?us)" using k by simp
    have "\<exists>r. explain (a1\<lparr>as_predicted_tok_s := t\<rparr>) ?us = Inr r" for t
      using ks by (intro explain_ok[OF ids]) (simp del: set_map)
    then have "\<not> (\<exists>t. explain (a1\<lparr>as_predicted_tok_s := t\<rparr>) ?us = Inl e)"
      by (metis sum.distinct(1))
    with eq assms(5) have "predict_tok_s a1 ?us spec = Inl e \<or> (\<exists>s. e = RuntimeError s)"
      by (auto simp: res_simps Let_def simp del: set_map split: if_splits)
    then show ?thesis using predict_error_kind[OF False ids assms(3) ks] by blast
  qed (use assms(5) in auto)
qed

text \<open>
  With unique node ids and a model that has layers, the planner raises nothing but
  \<open>RuntimeError\<close> and \<open>ValueError\<close>, the two classes \<open>GET /api/plan\<close> turns into a 503.
\<close>

theorem plan_error_kinds:
  assumes "distinct (map np_id ps)" "distinct (map nm_node_id ms)"
    and "0 < ms_total_layers spec" "0 \<le> per_layer_mb spec" "plan ps ms spec = Inl e"
  shows "(\<exists>s. e = RuntimeError s) \<or> (\<exists>s. e = ValueError s)"
  by (rule plan_raises[OF assms])

text \<open>A pool with one calibrated and one uncalibrated node.\<close>

definition ex_mixed :: "node_profile list" where
  "ex_mixed = [ex_profile ''a'' 30, ex_profile ''b'' 0]"

definition ex_mixed_ms :: "node_metrics list" where
  "ex_mixed_ms = [ex_metrics ''a'' 9000, ex_metrics ''b'' 9000]"

lemma ex_mixed_ids: "distinct (map np_id ex_mixed)" "distinct (map nm_node_id ex_mixed_ms)"
  by code_simp+

theorem plan_error_kinds_witness:
  "\<exists>e. plan ex_mixed ex_mixed_ms ex_spec = Inl e
     \<and> ((\<exists>s. e = RuntimeError s) \<or> (\<exists>s. e = ValueError s))"
proof -
  have "plan ex_mixed ex_mixed_ms ex_spec = Inl (ValueError ''b has no measured tg_tok_s'')"
    by code_simp
  with plan_error_kinds[OF ex_mixed_ids ex_per(1,2) this] show ?thesis by blast
qed

text \<open>
  One usable node without a measured decode speed makes the whole plan fail, whatever the other
  nodes can do: it is not merely left out of the placement.
\<close>

theorem uncalibrated_node_blocks_plan:
  assumes "distinct (map np_id ps)" "distinct (map nm_node_id ms)"
    and "0 < ms_total_layers spec" "0 \<le> per_layer_mb spec"
    and "p \<in> set (usable_profiles ps ms)" "np_tg_tok_s p \<le> 0"
  shows "\<exists>e. plan ps ms spec = Inl e"
proof (rule ccontr)
  assume "\<not> ?thesis"
  then obtain a where a: "plan ps ms spec = Inr a" by (cases "plan ps ms spec") auto
  note st = plan_Inr_stages[OF assms(1-4) a]
  let ?us = "usable_profiles ps ms"
  obtain a1 where a1: "as_layers a1 = as_layers a" "predict_tok_s a1 ?us spec = Inr (as_predicted_tok_s a)"
    using st(9) by blast
  have u: "distinct (map np_id ?us)" "set (keys (as_layers a1)) = set (map np_id ?us)"
    using st(2,4) a1(1) by (simp_all add: pool_ok_def)
  then have "np_id p \<in> set (keys (as_layers a1))" using assms(5) by simp
  from compute_time_uncalibrated[OF u(1) assms(3) equalityD1[OF u(2)] assms(5) this assms(6), of 0]
  show False using a1(2) by (auto simp: predict_tok_s_def res_simps)
qed

theorem uncalibrated_node_blocks_plan_witness:
  "\<exists>e. plan ex_mixed ex_mixed_ms ex_spec = Inl e"
proof (rule uncalibrated_node_blocks_plan[OF ex_mixed_ids ex_per(1,2)])
  have "usable_profiles ex_mixed ex_mixed_ms = ex_mixed" by code_simp
  then show "ex_profile ''b'' 0 \<in> set (usable_profiles ex_mixed ex_mixed_ms)"
    by (simp add: ex_mixed_def)
qed (simp add: ex_profile_def)

subsection \<open>Tensor split and memory-poor nodes\<close>

lemma tensor_split_sorted:
  assumes "distinct (keys d)" "sorted (keys d)" "\<forall>n \<in> set (keys d). 0 \<le> cnt d n"
    and "total_count d = L" "0 < L"
  shows "tensor_split_from_layers d = map (\<lambda>n. py_round_n 4 (of_int (cnt d n) / of_int L)) (keys d)"
proof -
  have lc: "layer_counts d = map (\<lambda>n. (n, cnt d n)) (keys d)"
    using assms(2) by (simp add: layer_counts_def cnt_def[abs_def] sorted_sort_id)
  have m: "map (\<lambda>p. max 0 (snd p)) (layer_counts d) = map (cnt d) (keys d)"
    unfolding lc using assms(3) by (simp add: max_def)
  show ?thesis using assms(4,5)
    by (simp add: tensor_split_from_layers_def m Let_def total_count_def comp_def)
qed

text \<open>
  The tensor split of a plan has one share per node, in the order of the plan's layer
  dictionary, and each share is the node's fraction of the layers up to half of the fourth decimal.
\<close>

theorem plan_tensor_split:
  assumes "distinct (map np_id ps)" "distinct (map nm_node_id ms)"
    and "0 < ms_total_layers spec" "0 \<le> per_layer_mb spec" "plan ps ms spec = Inr a"
  shows "length (as_tensor_split a) = length (as_layers a)
    \<and> (\<forall>i < length (as_layers a). \<forall>n lo hi. as_layers a ! i = (n, lo, hi) \<longrightarrow>
         \<bar>as_tensor_split a ! i - of_int (hi - lo + 1) / of_int (ms_total_layers spec)\<bar> \<le> 1/20000)"
proof -
  note st = plan_Inr_stages[OF assms]
  let ?d = "as_layers a" and ?L = "ms_total_layers spec"
  have wf: "distinct (keys ?d)" "\<forall>n \<in> set (keys ?d). 0 \<le> cnt ?d n"
    using st(3) by (simp_all add: wf_layers_def del: set_map)
  have "sorted (keys ?d)" by (simp add: st(4))
  then have ts: "as_tensor_split a = map (\<lambda>n. py_round_n 4 (of_int (cnt ?d n) / of_int ?L)) (keys ?d)"
    using tensor_split_sorted[OF wf(1) _ wf(2) st(6) assms(3)] st(7) by simp
  have "\<bar>as_tensor_split a ! i - of_int (hi - lo + 1) / of_int ?L\<bar> \<le> 1/20000"
    if i: "i < length ?d" "?d ! i = (n, lo, hi)" for i n lo hi
  proof -
    have "map_of ?d n = Some (lo, hi)" using i wf(1) by (metis map_of_is_SomeI nth_mem)
    then have "as_tensor_split a ! i = py_round_n 4 (of_int (hi - lo + 1) / of_int ?L)"
      using i by (simp add: ts cnt_Some)
    then show ?thesis using py_round_n_error[of 4 "of_int (hi - lo + 1) / of_int ?L"] by simp
  qed
  then show ?thesis by (simp add: ts)
qed

theorem plan_tensor_split_witness:
  "length (as_tensor_split ex_plan) = 2 \<and> \<bar>as_tensor_split ex_plan ! 1 - 6 / 8\<bar> \<le> 1/20000"
proof -
  have l: "as_layers ex_plan = [(''a'', 0, 1), (''b'', 2, 7)]" by (simp add: ex_plan_def)
  have t: "length (as_tensor_split ex_plan) = length (as_layers ex_plan)"
    and "\<forall>i < length (as_layers ex_plan). \<forall>n lo hi. as_layers ex_plan ! i = (n, lo, hi) \<longrightarrow>
      \<bar>as_tensor_split ex_plan ! i - of_int (hi - lo + 1) / of_int (ms_total_layers ex_spec)\<bar> \<le> 1/20000"
    using plan_tensor_split[OF ex_ids ex_per(1,2) ex_plan_eq] by blast+
  from this(2)[rule_format, of 1 "''b''" 2 7] t show ?thesis by (simp add: l ex_spec_def)
qed

text \<open>
  A node too small for a single layer defeats the planner even where the rest of the pool could
  hold the whole model: assignment gives it a layer because every node but the last gets at least
  one, and repair never takes a node's last layer away, so \<open>plan\<close> reports that the model does not
  fit in pooled memory although node \<open>b\<close> alone has room for all eight layers.
\<close>

theorem small_node_defeats_plan:
  "plan [ex_profile ''a'' 10, ex_profile ''b'' 10] [ex_metrics ''a'' 1650, ex_metrics ''b'' 9000] ex_spec
     = Inl (RuntimeError ''model m does not fit in pooled memory even after repair'')
   \<and> of_int (ms_total_layers ex_spec) * per_layer_mb ex_spec
       \<le> usable_mem_mb (ex_profile ''b'' 10) (ex_metrics ''b'' 9000)"
  by code_simp

end
