(* ===== verification/Event_Log.thy ===== *)
theory Event_Log
  imports Dain_Prelude
begin

text \<open>
  The contract of an append-only event log with a cursor, which the node registry
  (\<open>ctl/registry.py\<close>) and the job queue (\<open>ctl/queue.py\<close>) both implement and the \<open>/feed\<close> socket of
  \<open>ctl/main.py\<close> consumes: \<open>_emit\<close> appends one event that carries the next sequence number, and
  \<open>events_after(sequence)\<close> selects the events with larger numbers. The lemmas show that a consumer
  that remembers the last number it sent misses nothing and repeats nothing.
\<close>

locale event_log =
  fixes events :: "'s \<Rightarrow> 'e list"
    and next_seq :: "'s \<Rightarrow> int"
    and seq :: "'e \<Rightarrow> int"
    and emit :: "'p \<Rightarrow> 's \<Rightarrow> 's"
  assumes emit_events: "\<exists>e. seq e = next_seq s \<and> events (emit p s) = events s @ [e]"
    and emit_next: "next_seq (emit p s) = next_seq s + 1"
begin

text \<open>The events carry the numbers 1, 2, 3, ... and the counter is one past the last.\<close>

definition numbered :: "'s \<Rightarrow> bool" where
  "numbered s \<longleftrightarrow> next_seq s = int (length (events s)) + 1
     \<and> (\<forall>i < length (events s). seq (events s ! i) = int i + 1)"

definition after :: "int \<Rightarrow> 's \<Rightarrow> 'e list" where
  "after c s = filter (\<lambda>e. c < seq e) (events s)"

lemma numbered_emit: "numbered s \<Longrightarrow> numbered (emit p s)"
  using emit_events[of s p] emit_next[of p s] by (auto simp: numbered_def nth_append less_Suc_eq)

lemma numbered_cong:
  "events s = events t \<Longrightarrow> next_seq s = next_seq t \<Longrightarrow> numbered s \<longleftrightarrow> numbered t"
  by (simp add: numbered_def)

lemma numbered_empty: "events s = [] \<Longrightarrow> next_seq s = 1 \<Longrightarrow> numbered s"
  by (simp add: numbered_def)

lemma after_drop:
  assumes "numbered s" "0 \<le> c"
  shows "after c s = drop (nat c) (events s)"
proof -
  have "filter (\<lambda>e. c < seq e) xs = drop (nat c - k) xs"
    if "\<forall>i < length xs. seq (xs ! i) = int (k + i) + 1" for xs k
    using that
  proof (induction xs arbitrary: k)
    case (Cons x xs)
    have x: "seq x = int k + 1" using Cons.prems[rule_format, of 0] by simp
    have "\<forall>i < length xs. seq (xs ! i) = int (Suc k + i) + 1"
      using Cons.prems[rule_format, of "Suc i" for i] by auto
    from Cons.IH[OF this] show ?case using x assms(2)
      by (cases "c < int k + 1") (auto simp: drop_Cons' nat_less_iff)
  qed simp
  from this[of "events s" 0] show ?thesis using assms(1) by (simp add: numbered_def after_def)
qed

text \<open>The cursor a consumer holds after it has sent a batch.\<close>

definition advance :: "int \<Rightarrow> 's \<Rightarrow> int" where
  "advance c s = (case after c s of [] \<Rightarrow> c | es \<Rightarrow> seq (last es))"

lemma advance_length:
  assumes "numbered s" "0 \<le> c" "c \<le> int (length (events s))"
  shows "advance c s = int (length (events s))"
proof (cases "after c s")
  case Nil
  then have "length (events s) \<le> nat c" using assms by (simp add: after_drop)
  then show ?thesis using assms Nil by (simp add: advance_def)
next
  case (Cons e es)
  then have ne: "drop (nat c) (events s) \<noteq> []" using assms by (simp add: after_drop)
  then have l: "last (after c s) = events s ! (length (events s) - 1)"
    using assms by (simp add: after_drop last_drop last_conv_nth)
  have "advance c s = seq (last (after c s))" using Cons by (simp add: advance_def)
  also have "\<dots> = int (length (events s) - 1) + 1"
    using assms(1) ne unfolding l numbered_def by (cases "events s") auto
  finally show ?thesis using ne by (cases "events s") auto
qed

text \<open>
  Polling a growing log: the batches of successive polls, one per snapshot, concatenate to the
  log itself.
\<close>

fun poll_all :: "int \<Rightarrow> 's list \<Rightarrow> 'e list" where
  "poll_all c [] = []"
| "poll_all c (s # ss) = after c s @ poll_all (advance c s) ss"

fun grows :: "'s list \<Rightarrow> bool" where
  "grows (s # t # ss) \<longleftrightarrow> (\<exists>es. events t = events s @ es) \<and> grows (t # ss)"
| "grows _ \<longleftrightarrow> True"

lemma poll_all_exact:
  "\<forall>s \<in> set ss. numbered s \<Longrightarrow> grows ss \<Longrightarrow> ss \<noteq> [] \<Longrightarrow> 0 \<le> c \<Longrightarrow> c \<le> int (length (events (hd ss)))
   \<Longrightarrow> poll_all c ss = drop (nat c) (events (last ss))"
proof (induction ss arbitrary: c rule: grows.induct)
  case (1 s t ss)
  obtain es where es: "events t = events s @ es" using "1.prems"(2) by auto
  have a: "advance c s = int (length (events s))" using "1.prems" by (intro advance_length) auto
  have "poll_all (advance c s) (t # ss) = drop (nat (advance c s)) (events (last (t # ss)))"
    using "1.prems" a es by (intro "1.IH") auto
  moreover have "\<exists>fs. events (last (t # ss)) = events s @ fs"
  proof -
    have "\<exists>fs. events (last (u # us)) = events u @ fs" if "grows (u # us)" for u us
      using that by (induction us arbitrary: u) fastforce+
    then show ?thesis using "1.prems"(2) es by (metis append.assoc grows.simps(1))
  qed
  ultimately show ?case using "1.prems" a by (auto simp: after_drop)
qed (auto simp: after_drop)

end

end
