(* ===== verification/Registry.thy ===== *)
theory Registry
  imports Contracts Event_Log
begin

text \<open>
  \<open>ctl/registry.py\<close>: the in-memory node registry. The state is a record with the fields of
  \<open>NodeRegistry\<close> that change plus its two tuning parameters; each method is a function from the
  state to its result and the new state. The two clocks are arguments: \<open>now\<close> is the reading of
  \<open>clock()\<close> the method takes, \<open>wall\<close> gives the reading of \<open>wall_clock()\<close> taken when the event with
  a given sequence number is emitted. Every method runs under the registry's lock, so a history of
  the registry is a sequence of these functions.
\<close>

subsection \<open>State\<close>

record node_record =
  nr_profile :: node_profile
  nr_last_heartbeat :: rat
  nr_missed_heartbeats :: int
  nr_metrics :: "node_metrics option"
  nr_heartbeat_required :: bool

record registry_event =
  re_sequence :: int
  re_timestamp :: rat
  re_event :: string
  re_node_id :: string
  re_message :: string
  re_replan_required :: bool

record registry =
  rg_heartbeat_interval_s :: rat
  rg_missed_heartbeats_offline :: int
  rg_on_replan :: bool
  rg_nodes :: "(string, node_record) dict"
  rg_events :: "registry_event list"
  rg_next_sequence :: int

definition new_registry :: "rat \<Rightarrow> int \<Rightarrow> bool \<Rightarrow> registry" where
  "new_registry interval missed on_replan =
     \<lparr>rg_heartbeat_interval_s = interval, rg_missed_heartbeats_offline = missed,
      rg_on_replan = on_replan, rg_nodes = [], rg_events = [], rg_next_sequence = 1\<rparr>"

subsection \<open>Operations\<close>

definition rg_event :: "(int \<Rightarrow> rat) \<Rightarrow> string \<Rightarrow> string \<Rightarrow> string \<Rightarrow> bool \<Rightarrow> registry
    \<Rightarrow> registry_event" where
  "rg_event wall event node_id message replan r =
     \<lparr>re_sequence = rg_next_sequence r, re_timestamp = wall (rg_next_sequence r), re_event = event,
      re_node_id = node_id, re_message = message, re_replan_required = replan\<rparr>"

definition rg_emit :: "(int \<Rightarrow> rat) \<Rightarrow> string \<Rightarrow> string \<Rightarrow> string \<Rightarrow> bool \<Rightarrow> registry \<Rightarrow> registry" where
  "rg_emit wall event node_id message replan r =
     r\<lparr>rg_events := rg_events r @ [rg_event wall event node_id message replan r],
       rg_next_sequence := rg_next_sequence r + 1\<rparr>"

definition register :: "rat \<Rightarrow> (int \<Rightarrow> rat) \<Rightarrow> node_profile \<Rightarrow> bool \<Rightarrow> registry
    \<Rightarrow> node_profile \<times> registry" where
  "register now wall profile heartbeat_required r =
     (case map_of (rg_nodes r) (np_id profile) of
        Some existing \<Rightarrow>
          let previous_host = np_host (nr_profile existing);
              moved = (previous_host \<noteq> np_host profile);
              profile' = profile\<lparr>np_state := np_state (nr_profile existing)\<rparr>;
              existing' = existing\<lparr>nr_profile := profile', nr_last_heartbeat := now,
                            nr_missed_heartbeats := 0, nr_heartbeat_required := heartbeat_required\<rparr>;
              r1 = r\<lparr>rg_nodes := AList.update (np_id profile) existing' (rg_nodes r)\<rparr>
          in (profile',
              if moved
              then rg_emit wall ''readdressed'' (np_id profile)
                     (''Node '' @ np_id profile @ '' moved from '' @ previous_host
                        @ '' to '' @ np_host profile) True r1
              else r1)
      | None \<Rightarrow>
          let profile' = profile\<lparr>np_state := Joining\<rparr>;
              record' = \<lparr>nr_profile = profile', nr_last_heartbeat = now, nr_missed_heartbeats = 0,
                         nr_metrics = None, nr_heartbeat_required = heartbeat_required\<rparr>;
              r1 = r\<lparr>rg_nodes := AList.update (np_id profile) record' (rg_nodes r)\<rparr>
          in (profile',
              rg_emit wall ''joined'' (np_id profile)
                (''Node '' @ np_id profile @ '' joined the cluster'') True r1))"

definition heartbeat :: "rat \<Rightarrow> (int \<Rightarrow> rat) \<Rightarrow> string \<Rightarrow> node_metrics option \<Rightarrow> registry
    \<Rightarrow> (node_record \<times> registry) res" where
  "heartbeat now wall node_id metrics r =
     (case map_of (rg_nodes r) node_id of
        None \<Rightarrow> Inl (KeyError node_id)
      | Some rec \<Rightarrow>
          if (case metrics of None \<Rightarrow> False | Some m \<Rightarrow> nm_node_id m \<noteq> node_id)
          then Inl (ValueError (''Metrics belong to ''
                 @ (case metrics of None \<Rightarrow> [] | Some m \<Rightarrow> nm_node_id m) @ '', not '' @ node_id))
          else
            let was_offline = (np_state (nr_profile rec) = Offline);
                rec1 = rec\<lparr>nr_last_heartbeat := now, nr_missed_heartbeats := 0,
                           nr_profile := (nr_profile rec)\<lparr>np_state := Idle\<rparr>\<rparr>;
                rec2 = (case metrics of None \<Rightarrow> rec1 | Some m \<Rightarrow> rec1\<lparr>nr_metrics := Some m\<rparr>);
                r1 = r\<lparr>rg_nodes := AList.update node_id rec2 (rg_nodes r)\<rparr>
            in Inr (rec2,
                 if was_offline
                 then rg_emit wall ''recovered'' node_id (''Node '' @ node_id @ '' recovered'') True r1
                 else r1))"

text \<open>
  \<open>sweep\<close> walks the nodes in order. The result pairs the events it emitted with the node ids it
  passed to \<open>on_replan\<close>.
\<close>

fun sweep_loop :: "rat \<Rightarrow> (int \<Rightarrow> rat) \<Rightarrow> (string \<times> node_record) list \<Rightarrow> registry
    \<Rightarrow> registry_event list \<Rightarrow> string list
    \<Rightarrow> (registry_event list \<times> string list \<times> registry) res" where
  "sweep_loop now wall [] r emitted replan = Inr (emitted, replan, r)"
| "sweep_loop now wall ((node_id, rec) # rest) r emitted replan =
     (if \<not> nr_heartbeat_required rec then sweep_loop now wall rest r emitted replan
      else if np_state (nr_profile rec) = Offline then sweep_loop now wall rest r emitted replan
      else if rg_heartbeat_interval_s r = 0 then Inl ZeroDivisionError
      else
        let elapsed = max 0 (now - nr_last_heartbeat rec);
            missed = \<lfloor>elapsed / rg_heartbeat_interval_s r\<rfloor>;
            rec1 = rec\<lparr>nr_missed_heartbeats := min missed (rg_missed_heartbeats_offline r)\<rparr>
        in if missed < rg_missed_heartbeats_offline r
           then sweep_loop now wall rest
                  (r\<lparr>rg_nodes := AList.update node_id rec1 (rg_nodes r)\<rparr>) emitted replan
           else
             let rec2 = rec1\<lparr>nr_profile := (nr_profile rec1)\<lparr>np_state := Offline\<rparr>\<rparr>;
                 r1 = r\<lparr>rg_nodes := AList.update node_id rec2 (rg_nodes r)\<rparr>;
                 msg = ''Node '' @ node_id @ '' missed its heartbeats''
             in sweep_loop now wall rest (rg_emit wall ''offline'' node_id msg True r1)
                  (emitted @ [rg_event wall ''offline'' node_id msg True r1]) (replan @ [node_id]))"

text \<open>The callback runs after the loop, once per node that went offline, if one is installed.\<close>

definition sweep :: "rat \<Rightarrow> (int \<Rightarrow> rat) \<Rightarrow> registry
    \<Rightarrow> (registry_event list \<times> (string \<times> string) list \<times> registry) res" where
  "sweep now wall r =
     rbind (sweep_loop now wall (rg_nodes r) r [] []) (\<lambda>(emitted, replan, r').
       Inr (emitted,
            if rg_on_replan r then map (\<lambda>n. (n, ''heartbeat_timeout'')) replan else [], r'))"

definition list_profiles :: "registry \<Rightarrow> node_profile list" where
  "list_profiles r = map (\<lambda>(_, rec). nr_profile rec) (rg_nodes r)"

definition get_record :: "registry \<Rightarrow> string \<Rightarrow> node_record option" where
  "get_record r node_id = map_of (rg_nodes r) node_id"

definition remove :: "(int \<Rightarrow> rat) \<Rightarrow> string \<Rightarrow> registry \<Rightarrow> bool \<times> registry" where
  "remove wall node_id r =
     (case map_of (rg_nodes r) node_id of
        None \<Rightarrow> (False, r)
      | Some _ \<Rightarrow>
          (True, rg_emit wall ''removed'' node_id
             (''Node '' @ node_id @ '' was removed from the cluster'') True
             (r\<lparr>rg_nodes := AList.delete node_id (rg_nodes r)\<rparr>)))"

definition rg_events_after :: "int \<Rightarrow> registry \<Rightarrow> registry_event list" where
  "rg_events_after sequence r = filter (\<lambda>e. re_sequence e > sequence) (rg_events r)"

definition latest_metrics :: "registry \<Rightarrow> node_metrics list" where
  "latest_metrics r = List.map_filter (\<lambda>(_, rec). nr_metrics rec) (rg_nodes r)"

definition rg_reset :: "registry \<Rightarrow> registry" where
  "rg_reset r = r\<lparr>rg_nodes := [], rg_events := [], rg_next_sequence := 1\<rparr>"

interpretation rlog: event_log rg_events rg_next_sequence re_sequence
  "\<lambda>(wall, ev, n, msg, rp). rg_emit wall ev n msg rp"
  by unfold_locales (auto simp: rg_emit_def rg_event_def)

lemma rg_events_after_eq: "rg_events_after c r = rlog.after c r"
  by (simp add: rg_events_after_def rlog.after_def)

lemma numbered_rg_emit [simp]: "rlog.numbered r \<Longrightarrow> rlog.numbered (rg_emit wall ev n msg rp r)"
  using rlog.numbered_emit[of r "(wall, ev, n, msg, rp)"] by simp

lemma numbered_nodes [simp]: "rlog.numbered (r\<lparr>rg_nodes := d\<rparr>) \<longleftrightarrow> rlog.numbered r"
  by (rule rlog.numbered_cong) simp_all

lemma rg_emit_nodes [simp]: "rg_nodes (rg_emit wall ev n msg rp r) = rg_nodes r"
  "rg_heartbeat_interval_s (rg_emit wall ev n msg rp r) = rg_heartbeat_interval_s r"
  "rg_missed_heartbeats_offline (rg_emit wall ev n msg rp r) = rg_missed_heartbeats_offline r"
  by (simp_all add: rg_emit_def)

end
