(* ===== verification/Registry_Correct.thy ===== *)
theory Registry_Correct
  imports Registry
begin

text \<open>
  The registry as a state machine: its operations, the states a history of them can reach, the
  invariant of those states, and the abstract view the event log refines.
\<close>

subsection \<open>Histories\<close>

datatype registry_op =
    Op_register rat node_profile bool
  | Op_heartbeat rat string "node_metrics option"
  | Op_sweep rat
  | Op_remove string
  | Op_reset

text \<open>One call; a call that raises leaves the registry as it was.\<close>

fun rg_step :: "(int \<Rightarrow> rat) \<Rightarrow> registry_op \<Rightarrow> registry \<Rightarrow> registry" where
  "rg_step wall (Op_register now p req) r = snd (register now wall p req r)"
| "rg_step wall (Op_heartbeat now n m) r =
     (case heartbeat now wall n m r of Inl _ \<Rightarrow> r | Inr (_, r') \<Rightarrow> r')"
| "rg_step wall (Op_sweep now) r =
     (case sweep now wall r of Inl _ \<Rightarrow> r | Inr (_, _, r') \<Rightarrow> r')"
| "rg_step wall (Op_remove n) r = snd (remove wall n r)"
| "rg_step wall Op_reset r = rg_reset r"

inductive rg_reachable :: "registry \<Rightarrow> bool" where
  start: "0 < interval \<Longrightarrow> 0 < missed \<Longrightarrow> rg_reachable (new_registry interval missed on_replan)"
| step: "rg_reachable r \<Longrightarrow> rg_reachable (rg_step wall op r)"

subsection \<open>The abstract view: who is live\<close>

definition live :: "registry \<Rightarrow> string set" where
  "live r = {n. \<exists>rec. map_of (rg_nodes r) n = Some rec \<and> np_state (nr_profile rec) \<noteq> Offline}"

text \<open>What a consumer that only reads the events makes of them.\<close>

definition replay_event :: "registry_event \<Rightarrow> string set \<Rightarrow> string set" where
  "replay_event e S =
     (if re_event e \<in> {''joined'', ''recovered''} then insert (re_node_id e) S
      else if re_event e \<in> {''offline'', ''removed''} then S - {re_node_id e}
      else S)"

definition replay :: "registry_event list \<Rightarrow> string set" where
  "replay es = fold replay_event es {}"

lemma replay_append [simp]: "replay (es @ [e]) = replay_event e (replay es)"
  by (simp add: replay_def)

subsection \<open>The invariant\<close>

definition rec_ok :: "int \<Rightarrow> string \<Rightarrow> node_record \<Rightarrow> bool" where
  "rec_ok limit k rec \<longleftrightarrow> np_id (nr_profile rec) = k
     \<and> (\<forall>m. nr_metrics rec = Some m \<longrightarrow> nm_node_id m = k)
     \<and> 0 \<le> nr_missed_heartbeats rec \<and> nr_missed_heartbeats rec \<le> limit"

definition nodes_ok :: "registry \<Rightarrow> bool" where
  "nodes_ok r \<longleftrightarrow> distinct (keys (rg_nodes r))
     \<and> (\<forall>k rec. map_of (rg_nodes r) k = Some rec \<longrightarrow> rec_ok (rg_missed_heartbeats_offline r) k rec)"

definition log_ok :: "registry \<Rightarrow> bool" where
  "log_ok r \<longleftrightarrow> rlog.numbered r \<and> replay (rg_events r) = live r
     \<and> (\<forall>e \<in> set (rg_events r). re_replan_required e)"

definition rg_inv :: "registry \<Rightarrow> bool" where
  "rg_inv r \<longleftrightarrow> 0 < rg_heartbeat_interval_s r \<and> 0 < rg_missed_heartbeats_offline r
     \<and> nodes_ok r \<and> log_ok r"

lemma live_update:
  "live (r\<lparr>rg_nodes := AList.update k rec (rg_nodes r)\<rparr>)
     = (if np_state (nr_profile rec) = Offline then live r - {k} else insert k (live r))"
  by (auto simp: live_def update_conv')

lemma live_emit [simp]: "live (rg_emit wall ev n msg rp r) = live r"
  by (simp add: live_def)

lemma live_mem: "map_of (rg_nodes r) k = Some rec \<Longrightarrow> k \<in> live r \<longleftrightarrow> np_state (nr_profile rec) \<noteq> Offline"
  by (simp add: live_def)

lemma nodes_ok_update:
  "nodes_ok r \<Longrightarrow> rec_ok (rg_missed_heartbeats_offline r) k rec \<Longrightarrow>
   nodes_ok (r\<lparr>rg_nodes := AList.update k rec (rg_nodes r)\<rparr>)"
  by (auto simp: nodes_ok_def update_conv' distinct_update)

lemma nodes_ok_emit [simp]: "nodes_ok (rg_emit wall ev n msg rp r) \<longleftrightarrow> nodes_ok r"
  by (simp add: nodes_ok_def)

text \<open>A step that edits one record and announces the change in liveness, if there is one.\<close>

lemma log_ok_quiet:
  assumes "log_ok r" "live (r\<lparr>rg_nodes := d\<rparr>) = live r"
  shows "log_ok (r\<lparr>rg_nodes := d\<rparr>)"
  using assms by (simp add: log_ok_def)

lemma rg_emit_events [simp]:
  "rg_events (rg_emit wall ev n msg rp r) = rg_events r @ [rg_event wall ev n msg rp r]"
  by (simp add: rg_emit_def)

lemma rg_event_replan [simp]: "re_replan_required (rg_event wall ev n msg rp r) = rp"
  by (simp add: rg_event_def)

lemma log_ok_emit:
  assumes "log_ok r" "live (r\<lparr>rg_nodes := d\<rparr>) = replay_event
      (rg_event wall ev n msg True (r\<lparr>rg_nodes := d\<rparr>)) (live r)"
  shows "log_ok (rg_emit wall ev n msg True (r\<lparr>rg_nodes := d\<rparr>))"
  using assms by (auto simp: log_ok_def)

lemma replay_event_simps [simp]:
  "replay_event (rg_event wall ''joined'' n msg rp r) S = insert n S"
  "replay_event (rg_event wall ''recovered'' n msg rp r) S = insert n S"
  "replay_event (rg_event wall ''offline'' n msg rp r) S = S - {n}"
  "replay_event (rg_event wall ''removed'' n msg rp r) S = S - {n}"
  "replay_event (rg_event wall ''readdressed'' n msg rp r) S = S"
  by (simp_all add: replay_event_def rg_event_def)

lemma rg_inv_new: "0 < i \<Longrightarrow> 0 < m \<Longrightarrow> rg_inv (new_registry i m c)"
  by (simp add: rg_inv_def new_registry_def nodes_ok_def log_ok_def rlog.numbered_empty live_def
      replay_def)

text \<open>
  The two shapes every operation has: it replaces one record, quietly when the liveness of the
  node stays, or together with the one event that announces the new liveness.
\<close>

lemma rg_inv_update_quiet:
  assumes "rg_inv r" "rec_ok (rg_missed_heartbeats_offline r) k rec"
    and "k \<in> live r \<longleftrightarrow> np_state (nr_profile rec) \<noteq> Offline"
  shows "rg_inv (r\<lparr>rg_nodes := AList.update k rec (rg_nodes r)\<rparr>)"
proof -
  have "live (r\<lparr>rg_nodes := AList.update k rec (rg_nodes r)\<rparr>) = live r"
    using assms(3) unfolding live_update by auto
  then show ?thesis using assms(1,2) log_ok_quiet nodes_ok_update by (simp add: rg_inv_def)
qed

lemma rg_inv_update_emit:
  assumes "rg_inv r" "rec_ok (rg_missed_heartbeats_offline r) k rec"
    and "replay_event (rg_event wall ev k msg True (r\<lparr>rg_nodes := AList.update k rec (rg_nodes r)\<rparr>))
           (live r) = (if np_state (nr_profile rec) = Offline then live r - {k} else insert k (live r))"
  shows "rg_inv (rg_emit wall ev k msg True (r\<lparr>rg_nodes := AList.update k rec (rg_nodes r)\<rparr>))"
proof -
  have "log_ok (rg_emit wall ev k msg True (r\<lparr>rg_nodes := AList.update k rec (rg_nodes r)\<rparr>))"
    using assms(1,3) by (intro log_ok_emit) (simp_all only: rg_inv_def live_update)
  then show ?thesis using assms(1,2) nodes_ok_update by (simp add: rg_inv_def)
qed

lemma rg_inv_rec: "rg_inv r \<Longrightarrow> map_of (rg_nodes r) k = Some rec \<Longrightarrow>
    rec_ok (rg_missed_heartbeats_offline r) k rec"
  by (simp add: rg_inv_def nodes_ok_def)

lemma rg_inv_register: assumes "rg_inv r" shows "rg_inv (snd (register now wall p req r))"
proof (cases "map_of (rg_nodes r) (np_id p)")
  case None
  let ?rec = "\<lparr>nr_profile = p\<lparr>np_state := Joining\<rparr>, nr_last_heartbeat = now,
    nr_missed_heartbeats = 0, nr_metrics = None, nr_heartbeat_required = req\<rparr>"
  have "rec_ok (rg_missed_heartbeats_offline r) (np_id p) ?rec"
    using assms by (simp add: rec_ok_def rg_inv_def)
  from rg_inv_update_emit[OF assms this, of wall "''joined''"] show ?thesis
    using None by (simp add: register_def Let_def)
next
  case (Some rec)
  let ?rec = "rec\<lparr>nr_profile := p\<lparr>np_state := np_state (nr_profile rec)\<rparr>, nr_last_heartbeat := now,
    nr_missed_heartbeats := 0, nr_heartbeat_required := req\<rparr>"
  have ok: "rec_ok (rg_missed_heartbeats_offline r) (np_id p) ?rec"
    using assms rg_inv_rec[OF assms Some] by (simp add: rec_ok_def rg_inv_def)
  have l: "np_id p \<in> live r \<longleftrightarrow> np_state (nr_profile ?rec) \<noteq> Offline" using live_mem[OF Some] by simp
  then have "live r = (if np_state (nr_profile ?rec) = Offline then live r - {np_id p}
      else insert (np_id p) (live r))" by auto
  then show ?thesis
    using rg_inv_update_emit[OF assms ok, of wall "''readdressed''"] rg_inv_update_quiet[OF assms ok l]
      Some by (simp add: register_def Let_def)
qed

lemma rg_inv_heartbeat:
  assumes "rg_inv r" "heartbeat now wall n m r = Inr (rec', r')"
  shows "rg_inv r'"
proof -
  obtain rec where rec: "map_of (rg_nodes r) n = Some rec"
    using assms(2) by (auto simp: heartbeat_def split: option.splits)
  define rec2 where "rec2 = (let rec1 = rec\<lparr>nr_last_heartbeat := now, nr_missed_heartbeats := 0,
      nr_profile := (nr_profile rec)\<lparr>np_state := Idle\<rparr>\<rparr>
    in case m of None \<Rightarrow> rec1 | Some x \<Rightarrow> rec1\<lparr>nr_metrics := Some x\<rparr>)"
  let ?r1 = "r\<lparr>rg_nodes := AList.update n rec2 (rg_nodes r)\<rparr>"
  have r': "r' = (if np_state (nr_profile rec) = Offline
      then rg_emit wall ''recovered'' n (''Node '' @ n @ '' recovered'') True ?r1 else ?r1)"
    using assms(2) rec by (auto simp: heartbeat_def rec2_def Let_def split: if_splits option.splits)
  have idle: "np_state (nr_profile rec2) = Idle" by (simp add: rec2_def Let_def split: option.split)
  have "rec_ok (rg_missed_heartbeats_offline r) n rec2"
    using assms rec by (auto simp: rec_ok_def rec2_def Let_def rg_inv_def nodes_ok_def heartbeat_def
        split: option.splits if_splits)
  note ok = this
  show ?thesis
  proof (cases "np_state (nr_profile rec) = Offline")
    case True
    then show ?thesis using rg_inv_update_emit[OF assms(1) ok, of wall "''recovered''"] idle
      by (simp add: r')
  next
    case False
    then show ?thesis using rg_inv_update_quiet[OF assms(1) ok] live_mem[OF rec] idle by (simp add: r')
  qed
qed

lemma rg_inv_remove: assumes "rg_inv r" shows "rg_inv (snd (remove wall n r))"
proof (cases "map_of (rg_nodes r) n")
  case (Some rec)
  let ?r1 = "r\<lparr>rg_nodes := AList.delete n (rg_nodes r)\<rparr>"
  have l: "live ?r1 = live r - {n}" by (auto simp: live_def delete_conv')
  have "log_ok (rg_emit wall ''removed'' n msg True ?r1)" for msg
    using assms by (intro log_ok_emit) (simp_all add: rg_inv_def l)
  moreover have "distinct (keys (AList.delete n (rg_nodes r)))"
    using assms by (simp add: rg_inv_def nodes_ok_def distinct_delete)
  then have "nodes_ok ?r1"
    using assms by (auto simp: rg_inv_def nodes_ok_def delete_conv' split: if_splits)
  ultimately show ?thesis using assms Some by (simp add: rg_inv_def remove_def)
qed (use assms in \<open>simp add: remove_def\<close>)

lemma rg_inv_reset: "rg_inv r \<Longrightarrow> rg_inv (rg_reset r)"
  by (simp add: rg_inv_def rg_reset_def nodes_ok_def log_ok_def rlog.numbered_empty live_def replay_def)

subsection \<open>The sweep\<close>

text \<open>What one sweep makes of a record, read off the body of the loop for a non-zero interval.\<close>

definition silent :: "rat \<Rightarrow> registry \<Rightarrow> node_record \<Rightarrow> bool" where
  "silent now r rec \<longleftrightarrow> nr_heartbeat_required rec \<and> np_state (nr_profile rec) \<noteq> Offline
     \<and> of_int (rg_missed_heartbeats_offline r) * rg_heartbeat_interval_s r
         \<le> max 0 (now - nr_last_heartbeat rec)"

definition swept :: "rat \<Rightarrow> registry \<Rightarrow> node_record \<Rightarrow> node_record" where
  "swept now r rec =
     (if \<not> nr_heartbeat_required rec \<or> np_state (nr_profile rec) = Offline then rec
      else
        let missed = \<lfloor>max 0 (now - nr_last_heartbeat rec) / rg_heartbeat_interval_s r\<rfloor>;
            rec1 = rec\<lparr>nr_missed_heartbeats := min missed (rg_missed_heartbeats_offline r)\<rparr>
        in if silent now r rec
           then rec1\<lparr>nr_profile := (nr_profile rec1)\<lparr>np_state := Offline\<rparr>\<rparr> else rec1)"

lemma missed_floor:
  fixes e i :: rat assumes "0 < i"
  shows "\<lfloor>e / i\<rfloor> < m \<longleftrightarrow> \<not> of_int m * i \<le> e"
  using assms by (simp add: floor_less_iff pos_divide_less_eq not_le)

lemma AList_update_split:
  "k \<notin> set (keys done) \<Longrightarrow> AList.update k v (done @ (k, w) # rest) = done @ (k, v) # rest"
  by (induction "done") auto

lemma AList_update_same: "map_of d k = Some v \<Longrightarrow> AList.update k v d = d"
  by (induction d) (auto split: if_splits)

lemma silent_swept_cong:
  assumes "rg_heartbeat_interval_s r' = rg_heartbeat_interval_s r"
    and "rg_missed_heartbeats_offline r' = rg_missed_heartbeats_offline r"
  shows "silent now r' = silent now r" "swept now r' = swept now r"
  using assms by (simp_all add: silent_def swept_def Let_def fun_eq_iff)

lemma sweep_quiet_turn:
  assumes pos: "0 < rg_heartbeat_interval_s r" and at: "map_of (rg_nodes r) k = Some rec"
    and steady: "\<not> silent now r rec" "swept now r rec = rec"
  shows "sweep_loop now wall ((k, rec) # todo) r emitted replan = sweep_loop now wall todo r emitted replan"
proof (cases "\<not> nr_heartbeat_required rec \<or> np_state (nr_profile rec) = Offline")
  case False
  let ?missed = "\<lfloor>max 0 (now - nr_last_heartbeat rec) / rg_heartbeat_interval_s r\<rfloor>"
  have "?missed < rg_missed_heartbeats_offline r"
    using False steady(1) missed_floor[OF pos] by (simp add: silent_def)
  moreover have "rec\<lparr>nr_missed_heartbeats := min ?missed (rg_missed_heartbeats_offline r)\<rparr> = rec"
    using steady False by (simp add: swept_def Let_def)
  ultimately show ?thesis using False pos AList_update_same[OF at] by (simp add: Let_def)
qed auto

text \<open>One turn of the loop, on all four of its paths.\<close>

lemma sweep_turn:
  assumes inv: "rg_inv r" and at: "map_of (rg_nodes r) k = Some rec"
  shows "\<exists>es r1. (\<forall>rest emitted replan. sweep_loop now wall ((k, rec) # rest) r emitted replan
       = sweep_loop now wall rest r1 (emitted @ es) (replan @ map re_node_id es))
    \<and> rg_inv r1 \<and> rg_nodes r1 = AList.update k (swept now r rec) (rg_nodes r)
    \<and> rg_events r1 = rg_events r @ es \<and> (\<forall>e \<in> set es. re_event e = ''offline'')
    \<and> map re_node_id es = (if silent now r rec then [k] else [])
    \<and> rg_heartbeat_interval_s r1 = rg_heartbeat_interval_s r
    \<and> rg_missed_heartbeats_offline r1 = rg_missed_heartbeats_offline r"
proof -
  have pos: "0 < rg_heartbeat_interval_s r" "0 < rg_missed_heartbeats_offline r"
    using inv by (auto simp: rg_inv_def)
  let ?missed = "\<lfloor>max 0 (now - nr_last_heartbeat rec) / rg_heartbeat_interval_s r\<rfloor>"
  let ?r0 = "r\<lparr>rg_nodes := AList.update k (swept now r rec) (rg_nodes r)\<rparr>"
  have ok: "rec_ok (rg_missed_heartbeats_offline r) k (swept now r rec)"
    using pos rg_inv_rec[OF inv at] by (simp add: rec_ok_def swept_def Let_def)
  consider (skip) "\<not> nr_heartbeat_required rec \<or> np_state (nr_profile rec) = Offline"
    | (alive) "nr_heartbeat_required rec" "np_state (nr_profile rec) \<noteq> Offline"
        "\<not> silent now r rec" "?missed < rg_missed_heartbeats_offline r"
    | (gone) "nr_heartbeat_required rec" "np_state (nr_profile rec) \<noteq> Offline"
        "silent now r rec" "\<not> ?missed < rg_missed_heartbeats_offline r"
    using missed_floor[OF pos(1)] by (auto simp: silent_def)
  then show ?thesis
  proof cases
    case skip
    then have "\<not> silent now r rec" "swept now r rec = rec" by (auto simp: silent_def swept_def)
    then show ?thesis using skip inv at
      by (intro exI[of _ "[]"] exI[of _ r]) (auto simp: AList_update_same)
  next
    case alive
    then have "rg_inv ?r0" using inv ok live_mem[OF at]
      by (intro rg_inv_update_quiet) (auto simp: swept_def Let_def)
    then show ?thesis using alive pos
      by (intro exI[of _ "[]"] exI[of _ ?r0]) (auto simp: swept_def Let_def)
  next
    case gone
    let ?msg = "''Node '' @ k @ '' missed its heartbeats''"
    have "rg_inv (rg_emit wall ''offline'' k ?msg True ?r0)" using inv ok gone
      by (intro rg_inv_update_emit) (auto simp: swept_def Let_def)
    then show ?thesis using gone pos
      by (intro exI[of _ "[rg_event wall ''offline'' k ?msg True ?r0]"]
          exI[of _ "rg_emit wall ''offline'' k ?msg True ?r0"]) (simp add: swept_def Let_def rg_event_def)
  qed
qed

text \<open>
  The loop, from a state whose dictionary is the already swept prefix followed by the nodes still
  to visit: it ends, the dictionary is swept throughout, and the events are the offline ones of the
  silent nodes, in order.
\<close>

lemma sweep_loop_ok:
  assumes "rg_inv r" "rg_nodes r = done @ todo"
  shows "\<exists>es r'. sweep_loop now wall todo r emitted replan
      = Inr (emitted @ es, replan @ map re_node_id es, r')
    \<and> rg_inv r' \<and> rg_nodes r' = done @ map (\<lambda>(n, rec). (n, swept now r rec)) todo
    \<and> rg_events r' = rg_events r @ es \<and> (\<forall>e \<in> set es. re_event e = ''offline'')
    \<and> map re_node_id es = map fst (filter (\<lambda>(n, rec). silent now r rec) todo)
    \<and> rg_heartbeat_interval_s r' = rg_heartbeat_interval_s r
    \<and> rg_missed_heartbeats_offline r' = rg_missed_heartbeats_offline r"
  using assms
proof (induction todo arbitrary: r "done" emitted replan)
  case Nil
  then show ?case by auto
next
  case (Cons p rest)
  obtain k rec where p: "p = (k, rec)" by fastforce
  have d: "distinct (keys (rg_nodes r))" using Cons.prems by (simp add: rg_inv_def nodes_ok_def)
  then have kd: "k \<notin> set (keys done)" using Cons.prems(2) p by auto
  have at: "map_of (rg_nodes r) k = Some rec" using map_of_is_SomeI[OF d] Cons.prems(2) p by simp
  obtain es1 r1 where turn: "\<And>rest emitted replan. sweep_loop now wall ((k, rec) # rest) r emitted replan
       = sweep_loop now wall rest r1 (emitted @ es1) (replan @ map re_node_id es1)"
    "rg_inv r1" "rg_nodes r1 = AList.update k (swept now r rec) (rg_nodes r)"
    "rg_events r1 = rg_events r @ es1" "\<forall>e \<in> set es1. re_event e = ''offline''"
    "map re_node_id es1 = (if silent now r rec then [k] else [])"
    "rg_heartbeat_interval_s r1 = rg_heartbeat_interval_s r"
    "rg_missed_heartbeats_offline r1 = rg_missed_heartbeats_offline r"
    using sweep_turn[OF Cons.prems(1) at] by metis
  have "rg_nodes r1 = (done @ [(k, swept now r rec)]) @ rest"
    using turn(3) Cons.prems(2) p kd AList_update_split by simp
  from Cons.IH[OF turn(2) this, of "emitted @ es1" "replan @ map re_node_id es1"]
  obtain es2 r2 where "sweep_loop now wall rest r1 (emitted @ es1) (replan @ map re_node_id es1)
      = Inr ((emitted @ es1) @ es2, (replan @ map re_node_id es1) @ map re_node_id es2, r2)"
    "rg_inv r2" "rg_nodes r2 = (done @ [(k, swept now r rec)]) @ map (\<lambda>(n, rec). (n, swept now r rec)) rest"
    "rg_events r2 = rg_events r1 @ es2" "\<forall>e \<in> set es2. re_event e = ''offline''"
    "map re_node_id es2 = map fst (filter (\<lambda>(n, rec). silent now r rec) rest)"
    "rg_heartbeat_interval_s r2 = rg_heartbeat_interval_s r1"
    "rg_missed_heartbeats_offline r2 = rg_missed_heartbeats_offline r1"
    unfolding silent_swept_cong[OF turn(7,8)] by metis
  then show ?case using turn p
    by (intro exI[of _ "es1 @ es2"] exI[of _ r2]) auto
qed

lemma sweep_ok:
  assumes "rg_inv r"
  shows "\<exists>es r'. sweep now wall r = Inr (es,
        if rg_on_replan r then map (\<lambda>n. (n, ''heartbeat_timeout'')) (map re_node_id es) else [], r')
    \<and> rg_inv r' \<and> rg_nodes r' = map (\<lambda>(n, rec). (n, swept now r rec)) (rg_nodes r)
    \<and> rg_events r' = rg_events r @ es \<and> (\<forall>e \<in> set es. re_event e = ''offline'')
    \<and> map re_node_id es = map fst (filter (\<lambda>(n, rec). silent now r rec) (rg_nodes r))
    \<and> rg_heartbeat_interval_s r' = rg_heartbeat_interval_s r
    \<and> rg_missed_heartbeats_offline r' = rg_missed_heartbeats_offline r"
proof -
  have "rg_nodes r = [] @ rg_nodes r" by simp
  from sweep_loop_ok[OF assms this, of now wall "[]" "[]"] obtain es r' where
    "sweep_loop now wall (rg_nodes r) r [] [] = Inr (es, map re_node_id es, r')"
    "rg_inv r'" "rg_nodes r' = map (\<lambda>(n, rec). (n, swept now r rec)) (rg_nodes r)"
    "rg_events r' = rg_events r @ es" "\<forall>e \<in> set es. re_event e = ''offline''"
    "map re_node_id es = map fst (filter (\<lambda>(n, rec). silent now r rec) (rg_nodes r))"
    "rg_heartbeat_interval_s r' = rg_heartbeat_interval_s r"
    "rg_missed_heartbeats_offline r' = rg_missed_heartbeats_offline r"
    by auto
  then show ?thesis by (intro exI[of _ es] exI[of _ r']) (simp add: sweep_def del: map_map)
qed

subsection \<open>Every reachable registry meets the invariant\<close>

lemma rg_inv_step: assumes "rg_inv r" shows "rg_inv (rg_step wall op r)"
proof (cases op)
  case (Op_sweep now)
  then show ?thesis using sweep_ok[OF assms, of now wall] by auto
qed (use assms rg_inv_register rg_inv_remove rg_inv_reset rg_inv_heartbeat in
    \<open>auto split: sum.splits prod.splits\<close>)

lemma rg_reachable_inv: "rg_reachable r \<Longrightarrow> rg_inv r"
  by (induction rule: rg_reachable.induct) (auto intro: rg_inv_new rg_inv_step)


subsection \<open>What the clients of the registry rely on\<close>

lemma list_profiles_ids: assumes "rg_reachable r" shows "map np_id (list_profiles r) = keys (rg_nodes r)"
proof -
  have inv: "nodes_ok r" using rg_reachable_inv[OF assms] by (simp add: rg_inv_def)
  have "np_id (nr_profile rec) = k" if "(k, rec) \<in> set (rg_nodes r)" for k rec
    using that inv by (auto simp: nodes_ok_def rec_ok_def dest: map_of_is_SomeI)
  then show ?thesis by (auto simp: list_profiles_def)
qed

lemma list_profiles_distinct: "rg_reachable r \<Longrightarrow> distinct (map np_id (list_profiles r))"
  using rg_reachable_inv[of r] by (simp add: list_profiles_ids rg_inv_def nodes_ok_def)

lemma latest_metrics_distinct:
  assumes "rg_reachable r" shows "distinct (map nm_node_id (latest_metrics r))"
proof -
  have inv: "nodes_ok r" using rg_reachable_inv[OF assms] by (simp add: rg_inv_def)
  have owner: "nm_node_id m = k" if "(k, rec) \<in> set (rg_nodes r)" "nr_metrics rec = Some m" for k rec m
    using that inv by (auto simp: nodes_ok_def rec_ok_def dest: map_of_is_SomeI)
  have "distinct (map nm_node_id (List.map_filter (\<lambda>(_, rec). nr_metrics rec) d))
      \<and> nm_node_id ` set (List.map_filter (\<lambda>(_, rec). nr_metrics rec) d) \<subseteq> set (keys d)"
    if "set d \<subseteq> set (rg_nodes r)" "distinct (keys d)" for d
    using that
  proof (induction d)
    case (Cons p d)
    then show ?case using owner[of "fst p" "snd p"]
      by (cases p) (auto simp: List.map_filter_simps split: option.splits)
  qed (simp add: List.map_filter_simps)
  from this[of "rg_nodes r"] show ?thesis using inv by (simp add: latest_metrics_def nodes_ok_def)
qed


lemma list_profiles_mem:
  assumes "rg_reachable r"
  shows "p \<in> set (list_profiles r) \<longleftrightarrow> (\<exists>rec. map_of (rg_nodes r) (np_id p) = Some rec \<and> nr_profile rec = p)"
proof -
  have d: "distinct (keys (rg_nodes r))" and ok: "\<And>k rec. map_of (rg_nodes r) k = Some rec \<Longrightarrow> np_id (nr_profile rec) = k"
    using rg_reachable_inv[OF assms] by (auto simp: rg_inv_def nodes_ok_def rec_ok_def)
  have "p \<in> set (list_profiles r) \<longleftrightarrow> (\<exists>k rec. (k, rec) \<in> set (rg_nodes r) \<and> nr_profile rec = p)"
    by (force simp: list_profiles_def)
  also have "\<dots> \<longleftrightarrow> (\<exists>k rec. map_of (rg_nodes r) k = Some rec \<and> nr_profile rec = p)"
    using d by (simp add: map_of_eq_Some_iff)
  also have "\<dots> \<longleftrightarrow> (\<exists>rec. map_of (rg_nodes r) (np_id p) = Some rec \<and> nr_profile rec = p)"
    using ok by blast
  finally show ?thesis .
qed

end
