(* ===== verification/Registry_Properties.thy ===== *)
theory Registry_Properties
  imports Registry_Correct
begin

text \<open>The properties of the node registry (\<open>ctl/registry.py\<close>), each with a concrete witness.\<close>

subsection \<open>Sample histories for the witnesses\<close>

definition sample_profile :: "string \<Rightarrow> string \<Rightarrow> node_profile" where
  "sample_profile i host = \<lparr>np_id = i, np_host = host, np_cpu = ''cpu'', np_cores = 8,
     np_ram_total_mb = 16000, np_ram_free_mb = 12000, np_gpu = None, np_vram_total_mb = 0,
     np_backend = ''cpu'', np_mem_bandwidth_gbs = 50, np_tg_tok_s = 10, np_pp_tok_s = 100,
     np_rtt_ms = 1, np_state = Joining\<rparr>"

definition sample_ops :: "registry_op list" where
  "sample_ops = [Op_register 0 (sample_profile ''a'' ''10.0.0.1'') True,
     Op_register 1 (sample_profile ''b'' ''10.0.0.2'') True, Op_heartbeat 5 ''b'' None]"

definition sample_registry :: registry where
  "sample_registry = fold (rg_step of_int) sample_ops (new_registry 2 3 True)"

lemma fold_reachable: "rg_reachable r \<Longrightarrow> rg_reachable (fold (rg_step wall) ops r)"
  by (induction ops arbitrary: r) (auto intro: rg_reachable.step)

lemma sample_registry_reachable: "rg_reachable sample_registry"
  unfolding sample_registry_def by (intro fold_reachable rg_reachable.start) simp_all

subsection \<open>The event log\<close>

text \<open>
  C9. The event log is a faithful account of the registry: in every state a history of calls can
  reach, the events carry the numbers 1, 2, 3, ... without gap or repeat, each asks for a replan,
  and a consumer that starts with no nodes and follows the joined, recovered, offline and removed
  events arrives at exactly the set of nodes the registry holds in a state other than offline.
\<close>

theorem registry_log_replays:
  assumes "rg_reachable r"
  shows "replay (rg_events r) = live r
    \<and> map re_sequence (rg_events r) = [1 .. int (length (rg_events r))]
    \<and> rg_next_sequence r = int (length (rg_events r)) + 1
    \<and> (\<forall>e \<in> set (rg_events r). re_replan_required e)"
proof -
  have ok: "log_ok r" using rg_reachable_inv[OF assms] by (simp add: rg_inv_def)
  then have "map re_sequence (rg_events r) = [1 .. int (length (rg_events r))]"
    by (intro nth_equalityI) (auto simp: log_ok_def rlog.numbered_def)
  with ok show ?thesis by (auto simp: log_ok_def rlog.numbered_def)
qed

theorem registry_log_replays_witness:
  "replay (rg_events (rg_step of_int (Op_sweep 7) sample_registry))
     = live (rg_step of_int (Op_sweep 7) sample_registry)
   \<and> map re_event (rg_events (rg_step of_int (Op_sweep 7) sample_registry))
     = [''joined'', ''joined'', ''offline'']"
proof (intro conjI)
  show "replay (rg_events (rg_step of_int (Op_sweep 7) sample_registry))
     = live (rg_step of_int (Op_sweep 7) sample_registry)"
    using registry_log_replays[OF rg_reachable.step[OF sample_registry_reachable, of of_int "Op_sweep 7"]]
    by blast
  show "map re_event (rg_events (rg_step of_int (Op_sweep 7) sample_registry))
     = [''joined'', ''joined'', ''offline'']" by code_simp
qed

subsection \<open>Liveness detection\<close>

text \<open>
  C10. A sweep of a reachable registry never raises and marks offline exactly the nodes that
  must send heartbeats, are not offline yet and have been silent for at least the allowed number
  of intervals; it emits one \<open>offline\<close> event and, when a callback is installed, one replan call for
  each of them in registration order, leaves every other node's state alone, and neither adds nor
  drops a node.
\<close>

theorem sweep_exact:
  assumes "rg_reachable r"
  shows "\<exists>es calls r'. sweep now wall r = Inr (es, calls, r')
    \<and> keys (rg_nodes r') = keys (rg_nodes r)
    \<and> (\<forall>n rec. map_of (rg_nodes r) n = Some rec \<longrightarrow>
         (\<exists>rec'. map_of (rg_nodes r') n = Some rec'
            \<and> np_state (nr_profile rec') =
                (if silent now r rec then Offline else np_state (nr_profile rec))
            \<and> nr_metrics rec' = nr_metrics rec \<and> nr_last_heartbeat rec' = nr_last_heartbeat rec))
    \<and> map re_node_id es = filter (\<lambda>n. \<exists>rec. map_of (rg_nodes r) n = Some rec \<and> silent now r rec)
                            (keys (rg_nodes r))
    \<and> (\<forall>e \<in> set es. re_event e = ''offline'')
    \<and> calls = (if rg_on_replan r then map (\<lambda>n. (n, ''heartbeat_timeout'')) (map re_node_id es) else [])
    \<and> rg_events r' = rg_events r @ es"
proof -
  note inv = rg_reachable_inv[OF assms]
  obtain es r' where sw: "sweep now wall r = Inr (es,
        if rg_on_replan r then map (\<lambda>n. (n, ''heartbeat_timeout'')) (map re_node_id es) else [], r')"
    "rg_nodes r' = map (\<lambda>(n, rec). (n, swept now r rec)) (rg_nodes r)"
    "rg_events r' = rg_events r @ es" "\<forall>e \<in> set es. re_event e = ''offline''"
    "map re_node_id es = map fst (filter (\<lambda>(n, rec). silent now r rec) (rg_nodes r))"
    using sweep_ok[OF inv, of now wall] by blast
  have d: "distinct (keys (rg_nodes r))" using inv by (simp add: rg_inv_def nodes_ok_def)
  have "keys (filter (\<lambda>(n, rec). silent now r rec) (rg_nodes r))
      = filter (\<lambda>n. \<exists>rec. map_of (rg_nodes r) n = Some rec \<and> silent now r rec) (keys (rg_nodes r))"
    unfolding filter_map by (intro arg_cong[where f = keys] filter_cong)
      (use d in \<open>auto simp: comp_def dest: eq_key_imp_eq_value\<close>)
  then have ids: "map re_node_id es = filter (\<lambda>n. \<exists>rec. map_of (rg_nodes r) n = Some rec
      \<and> silent now r rec) (keys (rg_nodes r))" using sw(5) by simp
  have shape: "np_state (nr_profile (swept now r rec))
      = (if silent now r rec then Offline else np_state (nr_profile rec))"
    "nr_metrics (swept now r rec) = nr_metrics rec"
    "nr_last_heartbeat (swept now r rec) = nr_last_heartbeat rec" for rec
    by (auto simp: swept_def silent_def Let_def)
  have "map_of (rg_nodes r') n = map_option (swept now r) (map_of (rg_nodes r) n)" for n
    unfolding sw(2) by (simp add: map_of_map)
  then have recs: "\<forall>n rec. map_of (rg_nodes r) n = Some rec \<longrightarrow>
         (\<exists>rec'. map_of (rg_nodes r') n = Some rec'
            \<and> np_state (nr_profile rec') =
                (if silent now r rec then Offline else np_state (nr_profile rec))
            \<and> nr_metrics rec' = nr_metrics rec \<and> nr_last_heartbeat rec' = nr_last_heartbeat rec)"
    by (simp add: shape)
  have same: "keys (rg_nodes r') = keys (rg_nodes r)"
    unfolding sw(2) by (simp add: case_prod_beta comp_def)
  show ?thesis by (intro exI conjI) (rule sw(1) same recs ids sw(4) refl sw(3))+
qed

theorem sweep_exact_witness:
  "\<exists>es calls r'. sweep 7 of_int sample_registry = Inr (es, calls, r')
     \<and> map re_node_id es = [''a''] \<and> calls = [(''a'', ''heartbeat_timeout'')]
     \<and> filter (\<lambda>n. \<exists>rec. map_of (rg_nodes sample_registry) n = Some rec \<and> silent 7 sample_registry rec)
         (keys (rg_nodes sample_registry)) = [''a'']"
proof -
  have "rmapM (\<lambda>_. rbind (sweep 7 of_int sample_registry) (\<lambda>(es, calls, r'). Inr (map re_node_id es, calls))) [()]
      = Inr [([''a''], [(''a'', ''heartbeat_timeout'')])]" by code_simp
  then show ?thesis using sweep_exact[OF sample_registry_reachable, of 7 of_int] by auto
qed

text \<open>
  A sweep is idempotent at one instant: sweeping again at the same reading of the clock
  emits nothing, calls nobody and leaves every record as it is, so the loop that sweeps on a timer
  reports each outage once.
\<close>

theorem sweep_idempotent:
  assumes "rg_reachable r" "sweep now wall r = Inr (es, calls, r')"
  shows "sweep now wall r' = Inr ([], [], r')"
proof -
  have sw: "rg_inv r'" "rg_nodes r' = map (\<lambda>(n, rec). (n, swept now r rec)) (rg_nodes r)"
    "rg_heartbeat_interval_s r' = rg_heartbeat_interval_s r"
    "rg_missed_heartbeats_offline r' = rg_missed_heartbeats_offline r"
    using sweep_ok[OF rg_reachable_inv[OF assms(1)], of now wall] assms(2) by auto
  have quiet: "\<not> silent now r (swept now r rec)" "swept now r (swept now r rec) = swept now r rec" for rec
    by (auto simp: silent_def swept_def Let_def)
  have "sweep_loop now wall todo r' [] [] = Inr ([], [], r')"
    if "set todo \<subseteq> set (rg_nodes r')" for todo
    using that
  proof (induction todo)
    case (Cons p todo)
    obtain k rec where p: "p = (k, rec)" by fastforce
    have "(k, rec) \<in> set (rg_nodes r')" using Cons.prems p by simp
    moreover have "distinct (keys (rg_nodes r'))" using sw(1) by (simp add: rg_inv_def nodes_ok_def)
    ultimately have at: "map_of (rg_nodes r') k = Some rec" by (rule map_of_is_SomeI[rotated])
    obtain rec0 where rec: "rec = swept now r rec0" using \<open>(k, rec) \<in> _\<close> sw(2) by auto
    have pos: "0 < rg_heartbeat_interval_s r'" using sw(1) by (simp add: rg_inv_def)
    have "\<not> silent now r' rec" "swept now r' rec = rec"
      using quiet rec silent_swept_cong[OF sw(3,4)] by simp_all
    then have "sweep_loop now wall ((k, rec) # todo) r' [] [] = sweep_loop now wall todo r' [] []"
      using sweep_quiet_turn[OF pos at] by blast
    then show ?case using Cons p by simp
  qed simp
  then show ?thesis by (simp add: sweep_def)
qed

theorem sweep_idempotent_witness:
  "\<exists>es calls r'. sweep 7 of_int sample_registry = Inr (es, calls, r') \<and> sweep 7 of_int r' = Inr ([], [], r')"
  using sweep_ok[OF rg_reachable_inv[OF sample_registry_reachable], of 7 of_int]
    sweep_idempotent[OF sample_registry_reachable, of 7 of_int] by blast

text \<open>
  A heartbeat on each of its branches: an unknown node raises \<open>KeyError\<close>, metrics of another
  node raise \<open>ValueError\<close>; otherwise the node becomes idle with no missed heartbeats, new metrics
  replace the old ones and absent metrics keep them, every other node keeps its record, and a
  \<open>recovered\<close> event is logged exactly when the node was offline.
\<close>

theorem heartbeat_outcome:
  "case heartbeat now wall n m r of
     Inl err \<Rightarrow> map_of (rg_nodes r) n = None \<and> err = KeyError n
       \<or> map_of (rg_nodes r) n \<noteq> None \<and> (\<exists>x msg. m = Some x \<and> nm_node_id x \<noteq> n \<and> err = ValueError msg)
   | Inr (rec', r') \<Rightarrow> \<exists>rec. map_of (rg_nodes r) n = Some rec
       \<and> (case m of None \<Rightarrow> True | Some x \<Rightarrow> nm_node_id x = n)
       \<and> np_state (nr_profile rec') = Idle \<and> nr_missed_heartbeats rec' = 0
       \<and> nr_last_heartbeat rec' = now
       \<and> nr_metrics rec' = (case m of None \<Rightarrow> nr_metrics rec | Some x \<Rightarrow> Some x)
       \<and> map_of (rg_nodes r') = (map_of (rg_nodes r))(n \<mapsto> rec')
       \<and> map re_event (rg_events r') = map re_event (rg_events r)
           @ (if np_state (nr_profile rec) = Offline then [''recovered''] else [])"
  by (auto simp: heartbeat_def Let_def update_conv' rg_emit_def rg_event_def
      split: option.splits)

end
