(* ===== verification/Sha256.thy ===== *)
theory Sha256
  imports Dain_Prelude "HOL-Library.Word"
begin

text \<open>
  \<open>hmac.new(key, message, hashlib.sha256).hexdigest()\<close> of the Python standard library: SHA-256 on
  32-bit words, the HMAC construction over it and the lower-case hexadecimal digest. A byte string
  is a \<open>string\<close>; a Python \<open>str\<close> is held as its UTF-8 bytes, so \<open>encode("utf-8")\<close> is the identity.
\<close>

unbundle bit_operations_syntax

subsection \<open>SHA-256\<close>

type_synonym w32 = "32 word"

text \<open>
  The constants of the standard: the first 32 bits of the fractional parts of the cube roots of the
  first 64 primes, and of the square roots of the first eight. \<open>scaled_root k p\<close> finds the largest
  integer whose \<open>k\<close>-th power is at most \<open>p * 2 ^ (32 * k)\<close> bit by bit, from bit 35 downwards, which
  is enough because every root is below eight.
\<close>

definition small_primes :: "int list" where
  "small_primes = filter (\<lambda>p. list_all (\<lambda>d. p mod d \<noteq> 0) [2 .. p - 1]) [2 .. 311]"

definition scaled_root :: "nat \<Rightarrow> int \<Rightarrow> int" where
  "scaled_root k p = foldr (\<lambda>i r. if (r + 2 ^ i) ^ k \<le> p * 2 ^ (32 * k) then r + 2 ^ i else r) [0 ..< 36] 0"

definition sha_k :: "w32 list" where
  "sha_k = map (\<lambda>p. of_int (scaled_root 3 p)) small_primes"

definition sha_h0 :: "w32 list" where
  "sha_h0 = map (\<lambda>p. of_int (scaled_root 2 p)) [2, 3, 5, 7, 11, 13, 17, 19]"

definition big_sigma0 :: "w32 \<Rightarrow> w32" where
  "big_sigma0 x = word_rotr 2 x XOR word_rotr 13 x XOR word_rotr 22 x"

definition big_sigma1 :: "w32 \<Rightarrow> w32" where
  "big_sigma1 x = word_rotr 6 x XOR word_rotr 11 x XOR word_rotr 25 x"

definition small_sigma0 :: "w32 \<Rightarrow> w32" where
  "small_sigma0 x = word_rotr 7 x XOR word_rotr 18 x XOR drop_bit 3 x"

definition small_sigma1 :: "w32 \<Rightarrow> w32" where
  "small_sigma1 x = word_rotr 17 x XOR word_rotr 19 x XOR drop_bit 10 x"

text \<open>Padding: a one bit, zeros, the bit length as eight big-endian bytes; a multiple of 64 bytes.\<close>

definition be_bytes :: "nat \<Rightarrow> int \<Rightarrow> char list" where
  "be_bytes k n = map (\<lambda>i. char_of (n div 256 ^ (k - 1 - i) mod 256)) [0 ..< k]"

definition sha_pad :: "char list \<Rightarrow> char list" where
  "sha_pad m = m @ [char_of (128 :: int)] @ replicate ((119 - length m mod 64) mod 64) (char_of (0 :: int))
     @ be_bytes 8 (8 * int (length m))"

fun be_words :: "char list \<Rightarrow> w32 list" where
  "be_words (a # b # c # d # rest) =
     of_int (((of_char a * 256 + of_char b) * 256 + of_char c) * 256 + of_char d) # be_words rest"
| "be_words _ = []"

text \<open>The message schedule is kept with its latest word first: \<open>w ! 1\<close> is \<open>W[t - 2]\<close>.\<close>

fun sha_schedule :: "nat \<Rightarrow> w32 list \<Rightarrow> w32 list" where
  "sha_schedule 0 w = w"
| "sha_schedule (Suc n) w =
     sha_schedule n ((small_sigma1 (w ! 1) + w ! 6 + small_sigma0 (w ! 14) + w ! 15) # w)"

fun sha_round :: "w32 \<times> w32 \<Rightarrow> w32 list \<Rightarrow> w32 list" where
  "sha_round (k, w) [a, b, c, d, e, f, g, h] =
     (let t1 = h + big_sigma1 e + ((e AND f) XOR (NOT e AND g)) + k + w;
          t2 = big_sigma0 a + ((a AND b) XOR (a AND c) XOR (b AND c))
      in [t1 + t2, a, b, c, d + t1, e, f, g])"
| "sha_round _ s = s"

definition sha_compress :: "w32 list \<Rightarrow> w32 list \<Rightarrow> w32 list" where
  "sha_compress block h =
     map2 (+) h (fold sha_round (zip sha_k (rev (sha_schedule 48 (rev block)))) h)"

fun sha_blocks :: "w32 list \<Rightarrow> w32 list \<Rightarrow> w32 list" where
  "sha_blocks [] h = h"
| "sha_blocks (w # ws) h = sha_blocks (drop 16 (w # ws)) (sha_compress (take 16 (w # ws)) h)"

definition sha256 :: "char list \<Rightarrow> char list" where
  "sha256 m = concat (map (\<lambda>w. be_bytes 4 (uint w)) (sha_blocks (be_words (sha_pad m)) sha_h0))"

subsection \<open>HMAC\<close>

definition xor_byte :: "int \<Rightarrow> char \<Rightarrow> char" where
  "xor_byte k c = char_of (of_char c XOR k)"

definition hmac_sha256 :: "char list \<Rightarrow> char list \<Rightarrow> char list" where
  "hmac_sha256 key m =
     (let k0 = (if 64 < length key then sha256 key else key);
          k1 = k0 @ replicate (64 - length k0) (char_of (0 :: int))
      in sha256 (map (xor_byte 0x5c) k1 @ sha256 (map (xor_byte 0x36) k1 @ m)))"

definition hex_digit :: "int \<Rightarrow> char" where
  "hex_digit d = (if d < 10 then char_of (48 + d) else char_of (87 + d))"

definition hexdigest :: "char list \<Rightarrow> string" where
  "hexdigest bs = concat (map (\<lambda>c. [hex_digit (of_char c div 16), hex_digit (of_char c mod 16)]) bs)"

subsection \<open>The shape of a digest\<close>

lemma length_sha_round: "length s = 8 \<Longrightarrow> length (sha_round kw s) = 8"
  by (induction kw s rule: sha_round.induct) (auto simp: Let_def)

lemma length_sha_compress: "length h = 8 \<Longrightarrow> length (sha_compress b h) = 8"
proof -
  assume h: "length h = 8"
  have "length (fold sha_round kws s) = 8" if "length s = 8" for kws s
    using that by (induction kws arbitrary: s) (auto simp: length_sha_round)
  then show ?thesis using h by (simp add: sha_compress_def)
qed

lemma length_sha_blocks: "length h = 8 \<Longrightarrow> length (sha_blocks ws h) = 8"
  by (induction ws h rule: sha_blocks.induct) (auto simp: length_sha_compress)

lemma length_sha256: "length (sha256 m) = 32"
proof -
  have "length (sha_blocks (be_words (sha_pad m)) sha_h0) = 8"
    by (rule length_sha_blocks) (simp add: sha_h0_def)
  moreover have "length (concat (map (\<lambda>w. be_bytes 4 (uint w)) ws)) = 4 * length ws" for ws :: "w32 list"
    by (induction ws) (auto simp: be_bytes_def)
  ultimately show ?thesis by (simp add: sha256_def)
qed

lemma length_hmac_sha256: "length (hmac_sha256 k m) = 32"
  by (simp add: hmac_sha256_def length_sha256 Let_def)

lemma length_hexdigest: "length (hexdigest bs) = 2 * length bs"
  by (induction bs) (auto simp: hexdigest_def)

definition ascii :: "string \<Rightarrow> bool" where
  "ascii s \<longleftrightarrow> list_all (\<lambda>c. of_char c < (128 :: int)) s"

lemma int_div_less_bound: "x < 256 \<Longrightarrow> x div 16 < (16 :: int)"
  by simp

lemma ascii_hexdigest: "ascii (hexdigest bs)"
proof -
  have "of_char (hex_digit d) < (128 :: int)" if "0 \<le> d" "d < 16" for d
    using that by (auto simp: hex_digit_def)
  moreover have "0 \<le> (of_char c :: int)" "of_char c < (256 :: int)" for c :: char
    using nat_of_char_less_256[of c] by (metis of_nat_0_le_iff of_nat_of_char, metis of_nat_less_numeral_iff of_nat_of_char)
  then have "0 \<le> (of_char c :: int) div 16" "of_char c div 16 < (16 :: int)" for c :: char
    by (simp_all add: pos_imp_zdiv_nonneg_iff int_div_less_bound)
  ultimately show ?thesis by (auto simp: ascii_def hexdigest_def list_all_iff)
qed

end
