(* ===== verification/Join_Auth.thy ===== *)
theory Join_Auth
  imports Sha256 Json
begin

text \<open>
  \<open>node/auth.py\<close>, the message authentication shared by the control plane and the nodes, and
  \<open>ctl/auth.py\<close>, the join challenges and bearer tokens of the control plane. The clock reading and
  the string \<open>token_factory(32)\<close> returns are arguments of the operations that take them. An operation
  that may change the state and then raise returns both the outcome and the state.
\<close>

subsection \<open>\<open>node/auth.py\<close>\<close>

definition JOB_AUTH_MAX_AGE_S :: int where
  "JOB_AUTH_MAX_AGE_S = 30"

definition canonical_json :: "(rat \<Rightarrow> string) \<Rightarrow> json \<Rightarrow> string" where
  "canonical_json frepr v = json_dumps frepr v"

definition sign_join_challenge :: "(rat \<Rightarrow> string) \<Rightarrow> string \<Rightarrow> string \<Rightarrow> json \<Rightarrow> string res" where
  "sign_join_challenge frepr pool_secret nonce profile =
     (if pool_secret = [] then Inl (ValueError ''pool_secret must not be empty'')
      else if nonce = [] then Inl (ValueError ''nonce must not be empty'')
      else Inr (hexdigest (hmac_sha256 pool_secret
             (nonce @ [CHR 0x00] @ canonical_json frepr profile))))"

text \<open>\<open>hmac.compare_digest\<close> on two \<open>str\<close> arguments accepts ASCII only.\<close>

definition compare_digest :: "string \<Rightarrow> string \<Rightarrow> bool res" where
  "compare_digest a b =
     (if ascii a \<and> ascii b then Inr (a = b)
      else Inl (TypeError ''comparing strings with non-ASCII characters is not supported''))"

definition verify_join_challenge :: "(rat \<Rightarrow> string) \<Rightarrow> string \<Rightarrow> string \<Rightarrow> json \<Rightarrow> string \<Rightarrow> bool res" where
  "verify_join_challenge frepr pool_secret nonce profile signature =
     (case sign_join_challenge frepr pool_secret nonce profile of
        Inl e \<Rightarrow> if is_type_error e \<or> is_value_error e then Inr False else Inl e
      | Inr expected \<Rightarrow> compare_digest expected signature)"

text \<open>The keyword arguments the two job functions share.\<close>

record job_fields =
  jf_job_id :: string
  jf_kind :: string
  jf_payload :: "(string, json) dict"
  jf_shard_index :: int
  jf_shard_count :: int
  jf_issued_at :: int

definition canonical_job_request :: "(rat \<Rightarrow> string) \<Rightarrow> job_fields \<Rightarrow> string" where
  "canonical_job_request frepr q = canonical_json frepr (JObj
     [(''issued_at'', JInt (jf_issued_at q)), (''job_id'', JStr (jf_job_id q)),
      (''kind'', JStr (jf_kind q)), (''payload'', JObj (jf_payload q)),
      (''shard_count'', JInt (jf_shard_count q)), (''shard_index'', JInt (jf_shard_index q))])"

definition sign_job_request :: "(rat \<Rightarrow> string) \<Rightarrow> string \<Rightarrow> job_fields \<Rightarrow> string res" where
  "sign_job_request frepr pool_secret q =
     (if pool_secret = [] then Inl (ValueError ''pool_secret must not be empty'')
      else Inr (hexdigest (hmac_sha256 pool_secret (canonical_job_request frepr q))))"

definition verify_job_request :: "(rat \<Rightarrow> string) \<Rightarrow> string \<Rightarrow> job_fields \<Rightarrow> string \<Rightarrow> int \<Rightarrow> bool res" where
  "verify_job_request frepr pool_secret q signature now =
     (if \<bar>now - jf_issued_at q\<bar> > JOB_AUTH_MAX_AGE_S then Inr False
      else case sign_job_request frepr pool_secret q of
             Inl e \<Rightarrow> if is_type_error e \<or> is_value_error e then Inr False else Inl e
           | Inr expected \<Rightarrow> compare_digest expected signature)"

subsection \<open>\<open>ctl/auth.py\<close>\<close>

record join_challenge =
  jc_node_id :: string
  jc_nonce :: string
  jc_expires_at :: rat

record node_token =
  nt_node_id :: string
  nt_access_token :: string
  nt_expires_at :: rat

record auth_manager =
  am_pool_secret :: string
  am_challenge_ttl_s :: rat
  am_token_ttl_s :: rat
  am_challenges :: "(string, join_challenge) dict"
  am_tokens :: "(string, node_token) dict"

definition new_auth :: "string \<Rightarrow> rat \<Rightarrow> rat \<Rightarrow> auth_manager res" where
  "new_auth pool_secret challenge_ttl_s token_ttl_s =
     (if pool_secret = [] then Inl (ValueError ''pool_secret must not be empty'')
      else if challenge_ttl_s \<le> 0 then Inl (ValueError ''challenge_ttl_s must be greater than zero'')
      else if token_ttl_s \<le> 0 then Inl (ValueError ''token_ttl_s must be greater than zero'')
      else Inr \<lparr>am_pool_secret = pool_secret, am_challenge_ttl_s = challenge_ttl_s,
                am_token_ttl_s = token_ttl_s, am_challenges = [], am_tokens = []\<rparr>)"

definition prune_expired_challenges :: "rat \<Rightarrow> auth_manager \<Rightarrow> auth_manager" where
  "prune_expired_challenges now a =
     a\<lparr>am_challenges := filter (\<lambda>(_, c). jc_expires_at c \<ge> now) (am_challenges a)\<rparr>"

definition issue_challenge :: "rat \<Rightarrow> string \<Rightarrow> string \<Rightarrow> auth_manager
    \<Rightarrow> (join_challenge \<times> auth_manager) res" where
  "issue_challenge now fresh node_id a =
     (if py_strip node_id = [] then Inl (ValueError ''node_id must not be empty'')
      else
        let a1 = prune_expired_challenges now a;
            challenge = \<lparr>jc_node_id = node_id, jc_nonce = fresh,
                         jc_expires_at = now + am_challenge_ttl_s a1\<rparr>
        in Inr (challenge,
             a1\<lparr>am_challenges := AList.update (jc_nonce challenge) challenge (am_challenges a1)\<rparr>))"

definition complete_join :: "(rat \<Rightarrow> string) \<Rightarrow> rat \<Rightarrow> string \<Rightarrow> (string, json) dict \<Rightarrow> string \<Rightarrow> string
    \<Rightarrow> auth_manager \<Rightarrow> node_token res \<times> auth_manager" where
  "complete_join frepr now fresh profile nonce signature a =
     (case jget profile ''id'' of
        JStr node_id \<Rightarrow>
          if node_id = [] then (Inl (AuthenticationError ''profile has no node id''), a)
          else (case map_of (am_challenges a) nonce of
              None \<Rightarrow> (Inl (AuthenticationError ''invalid or already-used join challenge''), a)
            | Some challenge \<Rightarrow>
                if jc_node_id challenge \<noteq> node_id
                then (Inl (AuthenticationError ''invalid or already-used join challenge''), a)
                else if now > jc_expires_at challenge
                then (Inl (AuthenticationError ''join challenge expired''),
                      a\<lparr>am_challenges := AList.delete nonce (am_challenges a)\<rparr>)
                else (case verify_join_challenge frepr (am_pool_secret a) nonce (JObj profile) signature of
                    Inl e \<Rightarrow> (Inl e, a)
                  | Inr False \<Rightarrow> (Inl (AuthenticationError ''invalid join signature''), a)
                  | Inr True \<Rightarrow>
                      let token = \<lparr>nt_node_id = node_id, nt_access_token = fresh,
                                   nt_expires_at = now + am_token_ttl_s a\<rparr>
                      in (Inr token,
                          a\<lparr>am_challenges := AList.delete nonce (am_challenges a),
                            am_tokens := AList.update node_id token (am_tokens a)\<rparr>)))
      | _ \<Rightarrow> (Inl (AuthenticationError ''profile has no node id''), a))"

definition validate_token :: "rat \<Rightarrow> string \<Rightarrow> string \<Rightarrow> auth_manager \<Rightarrow> bool res \<times> auth_manager" where
  "validate_token now node_id access_token a =
     (case map_of (am_tokens a) node_id of
        None \<Rightarrow> (Inr False, a)
      | Some token \<Rightarrow>
          if now > nt_expires_at token
          then (Inr False, a\<lparr>am_tokens := AList.delete node_id (am_tokens a)\<rparr>)
          else (compare_digest (nt_access_token token) access_token, a))"

definition revoke :: "string \<Rightarrow> auth_manager \<Rightarrow> auth_manager" where
  "revoke node_id a =
     a\<lparr>am_challenges := filter (\<lambda>(_, c). jc_node_id c \<noteq> node_id) (am_challenges a),
       am_tokens := AList.delete node_id (am_tokens a)\<rparr>"

definition auth_reset :: "auth_manager \<Rightarrow> auth_manager" where
  "auth_reset a = a\<lparr>am_challenges := [], am_tokens := []\<rparr>"

end
