(* ===== verification/Auth_Properties.thy ===== *)
theory Auth_Properties
  imports Join_Auth
begin

text \<open>
  Histories of the join authentication and the properties of \<open>ctl/auth.py\<close> and \<open>node/auth.py\<close>.
\<close>

subsection \<open>Histories\<close>

datatype auth_op =
    Op_issue rat string string
  | Op_join rat string "(string, json) dict" string string
  | Op_validate rat string string
  | Op_revoke string
  | Op_clear

text \<open>What an observer of the calls and their results records.\<close>

datatype auth_obs =
    Issued string string
  | Joined string node_token
  | Revoked string
  | Cleared

fun auth_step :: "(rat \<Rightarrow> string) \<Rightarrow> auth_op \<Rightarrow> auth_manager \<Rightarrow> auth_obs list \<times> auth_manager" where
  "auth_step frepr (Op_issue now fresh n) a =
     (case issue_challenge now fresh n a of Inl _ \<Rightarrow> ([], a)
      | Inr (c, a') \<Rightarrow> ([Issued (jc_nonce c) (jc_node_id c)], a'))"
| "auth_step frepr (Op_join now fresh p nonce sig) a =
     (case complete_join frepr now fresh p nonce sig a of (Inl _, a') \<Rightarrow> ([], a')
      | (Inr tok, a') \<Rightarrow> ([Joined nonce tok], a'))"
| "auth_step frepr (Op_validate now n tok) a = ([], snd (validate_token now n tok a))"
| "auth_step frepr (Op_revoke n) a = ([Revoked n], revoke n a)"
| "auth_step frepr Op_clear a = ([Cleared], auth_reset a)"

fun auth_run :: "(rat \<Rightarrow> string) \<Rightarrow> auth_op list \<Rightarrow> auth_manager \<Rightarrow> auth_obs list \<times> auth_manager" where
  "auth_run frepr [] a = ([], a)"
| "auth_run frepr (op # ops) a =
     (let (o1, a1) = auth_step frepr op a; (o2, a2) = auth_run frepr ops a1 in (o1 @ o2, a2))"

subsection \<open>One join\<close>

lemma verify_join_True:
  "verify_join_challenge frepr s n p sig = Inr True \<longleftrightarrow> sign_join_challenge frepr s n p = Inr sig"
  by (auto simp: verify_join_challenge_def sign_join_challenge_def compare_digest_def ascii_hexdigest
      is_value_error_def is_type_error_def)

lemma complete_join_Inr:
  "complete_join frepr now fresh p nonce sig a = (Inr tok, a') \<longleftrightarrow>
     (\<exists>i c. jget p ''id'' = JStr i \<and> i \<noteq> [] \<and> map_of (am_challenges a) nonce = Some c \<and> jc_node_id c = i
        \<and> now \<le> jc_expires_at c \<and> sign_join_challenge frepr (am_pool_secret a) nonce (JObj p) = Inr sig
        \<and> tok = \<lparr>nt_node_id = i, nt_access_token = fresh, nt_expires_at = now + am_token_ttl_s a\<rparr>
        \<and> a' = a\<lparr>am_challenges := AList.delete nonce (am_challenges a),
                 am_tokens := AList.update i tok (am_tokens a)\<rparr>)"
  unfolding verify_join_True[symmetric] complete_join_def
  by (auto split: json.splits option.splits sum.splits bool.splits if_splits simp: Let_def)

text \<open>A call that raises may drop an expired challenge but never adds one, and keeps the tokens.\<close>

lemma complete_join_Inl:
  assumes "complete_join frepr now fresh p nonce sig a = (Inl e, a')"
  shows "a' = a \<or> a' = a\<lparr>am_challenges := AList.delete nonce (am_challenges a)\<rparr>"
  using assms unfolding complete_join_def
  by (auto split: json.splits option.splits sum.splits bool.splits if_splits simp: Let_def)

lemma map_of_filter_Some:
  "map_of (filter (\<lambda>(k, v). P v) d) k = Some v \<Longrightarrow> distinct (keys d) \<Longrightarrow> map_of d k = Some v \<and> P v"
  by (induction d) (auto split: if_splits dest: map_of_SomeD intro: rev_image_eqI)

lemma map_of_filter_keep:
  "map_of d k = Some v \<Longrightarrow> P v \<Longrightarrow> map_of (filter (\<lambda>(k, v). P v) d) k = Some v"
  by (induction d) (auto split: if_splits)

lemma distinct_keys_filter: "distinct (keys d) \<Longrightarrow> distinct (keys (filter P d))"
  by (induction d) auto

subsection \<open>The invariant of a history\<close>

definition pending :: "auth_manager \<Rightarrow> string \<Rightarrow> string \<Rightarrow> nat" where
  "pending a nonce n = (case map_of (am_challenges a) nonce of None \<Rightarrow> 0
     | Some c \<Rightarrow> if jc_node_id c = n then 1 else 0)"

definition issues :: "string \<Rightarrow> string \<Rightarrow> auth_obs list \<Rightarrow> nat" where
  "issues nonce n obs = length (filter (\<lambda>e. e = Issued nonce n) obs)"

definition joins :: "string \<Rightarrow> string \<Rightarrow> auth_obs list \<Rightarrow> nat" where
  "joins nonce n obs = length (filter (\<lambda>e. case e of Joined m t \<Rightarrow> m = nonce \<and> nt_node_id t = n | _ \<Rightarrow> False) obs)"

lemma issues_joins_append [simp]:
  "issues m n (xs @ ys) = issues m n xs + issues m n ys"
  "joins m n (xs @ ys) = joins m n xs + joins m n ys"
  by (simp_all add: issues_def joins_def)

text \<open>The token an observer expects a node to hold: that of its latest join, unless revoked since.\<close>

definition expect_token :: "auth_obs \<Rightarrow> (string \<rightharpoonup> node_token) \<Rightarrow> string \<rightharpoonup> node_token" where
  "expect_token e m = (case e of Joined _ t \<Rightarrow> m(nt_node_id t \<mapsto> t) | Revoked n \<Rightarrow> m(n := None)
     | Cleared \<Rightarrow> Map.empty | Issued _ _ \<Rightarrow> m)"

definition expected_tokens :: "auth_obs list \<Rightarrow> string \<rightharpoonup> node_token" where
  "expected_tokens obs = fold expect_token obs Map.empty"

definition auth_ok :: "auth_obs list \<Rightarrow> auth_manager \<Rightarrow> bool" where
  "auth_ok obs a \<longleftrightarrow> distinct (keys (am_challenges a))
     \<and> (\<forall>m n. joins m n obs + pending a m n \<le> issues m n obs)
     \<and> map_of (am_tokens a) \<subseteq>\<^sub>m expected_tokens obs"

lemma pending_filter:
  "distinct (keys (am_challenges a)) \<Longrightarrow>
   pending (a\<lparr>am_challenges := filter (\<lambda>(k, c). P c) (am_challenges a), am_tokens := t\<rparr>) m n \<le> pending a m n"
proof (cases "map_of (filter (\<lambda>(k, c). P c) (am_challenges a)) m")
  case (Some c)
  assume "distinct (keys (am_challenges a))"
  then have "map_of (am_challenges a) m = Some c" using map_of_filter_Some[OF Some] by blast
  then show ?thesis using Some by (simp add: pending_def)
qed (simp add: pending_def)

lemma pending_update:
  "pending (a\<lparr>am_challenges := AList.update k c d\<rparr>) m n
     \<le> pending (a\<lparr>am_challenges := d\<rparr>) m n + (if m = k \<and> n = jc_node_id c then 1 else 0)"
  by (auto simp: pending_def update_conv' split: option.splits)

lemma pending_delete:
  "pending (a\<lparr>am_challenges := AList.delete k d, am_tokens := t\<rparr>) m n
     = (if m = k then 0 else pending (a\<lparr>am_challenges := d\<rparr>) m n)"
  by (auto simp: pending_def delete_conv' split: option.splits)

lemma auth_ok_extend:
  assumes ok: "auth_ok obs a" and d: "distinct (keys (am_challenges a1))"
    and n: "\<And>m n. joins m n o1 + pending a1 m n \<le> pending a m n + issues m n o1"
    and t: "map_of (am_tokens a1) \<subseteq>\<^sub>m expected_tokens (obs @ o1)"
  shows "auth_ok (obs @ o1) a1"
proof -
  have "joins m n (obs @ o1) + pending a1 m n \<le> issues m n (obs @ o1)" for m n
  proof -
    have "joins m n obs + pending a m n \<le> issues m n obs" using ok by (simp add: auth_ok_def)
    then show ?thesis using n[of m n] by simp
  qed
  then show ?thesis using d t by (simp add: auth_ok_def)
qed

lemma expected_tokens_snoc [simp]: "expected_tokens (obs @ [e]) = expect_token e (expected_tokens obs)"
  by (simp add: expected_tokens_def)

lemma auth_ok_issue:
  assumes ok: "auth_ok obs a" and st: "auth_step frepr (Op_issue now fresh i) a = (o1, a1)"
  shows "auth_ok (obs @ o1) a1"
proof (cases "issue_challenge now fresh i a")
  case Inl
  then show ?thesis using assms by simp
next
  case (Inr r)
  let ?d = "filter (\<lambda>(_, c). jc_expires_at c \<ge> now) (am_challenges a)"
  let ?c = "\<lparr>jc_node_id = i, jc_nonce = fresh, jc_expires_at = now + am_challenge_ttl_s a\<rparr>"
  have c: "o1 = [Issued fresh i]" "a1 = a\<lparr>am_challenges := AList.update fresh ?c ?d\<rparr>"
    using Inr st
    by (auto simp: issue_challenge_def prune_expired_challenges_def Let_def split: if_splits)
  have dist: "distinct (keys (am_challenges a))" using ok by (simp add: auth_ok_def)
  have pend: "pending (a\<lparr>am_challenges := ?d\<rparr>) m n \<le> pending a m n" for m n
    using pending_filter[OF dist, where P = "\<lambda>c. jc_expires_at c \<ge> now" and t = "am_tokens a" and m = m and n = n]
    by simp
  show ?thesis
  proof (rule auth_ok_extend[OF ok])
    show "joins m n o1 + pending a1 m n \<le> pending a m n + issues m n o1" for m n
    proof -
      have "joins m n o1 = 0" "issues m n o1 = (if m = fresh \<and> n = i then 1 else 0)"
        using c(1) by (auto simp: joins_def issues_def)
      then show ?thesis
        using pend[of m n] pending_update[where a = a and k = fresh and c = ?c and d = ?d and m = m and n = n] c(2)
        by simp
    qed
  qed (use ok c dist in \<open>simp_all add: auth_ok_def distinct_update distinct_keys_filter expect_token_def\<close>)
qed

lemma auth_ok_join:
  assumes ok: "auth_ok obs a" and st: "auth_step frepr (Op_join now fresh p nonce sig) a = (o1, a1)"
  shows "auth_ok (obs @ o1) a1"
proof -
  obtain r a2 where cj: "complete_join frepr now fresh p nonce sig a = (r, a2)" by fastforce
  show ?thesis
  proof (cases r)
    case (Inl e)
    then have "o1 = []" "a1 = a \<or> a1 = a\<lparr>am_challenges := AList.delete nonce (am_challenges a)\<rparr>"
      using st cj complete_join_Inl by auto
    then show ?thesis using ok
      by (intro auth_ok_extend[OF ok]) (auto simp: auth_ok_def distinct_delete joins_def issues_def
          pending_def delete_conv')
  next
    case (Inr tok)
    then obtain i c where j: "map_of (am_challenges a) nonce = Some c" "jc_node_id c = i" "nt_node_id tok = i"
      "a1 = a\<lparr>am_challenges := AList.delete nonce (am_challenges a),
              am_tokens := AList.update i tok (am_tokens a)\<rparr>" "o1 = [Joined nonce tok]"
      using st cj complete_join_Inr[of frepr now fresh p nonce sig a tok a2] by auto
    show ?thesis
    proof (rule auth_ok_extend[OF ok])
      show "joins m n o1 + pending a1 m n \<le> pending a m n + issues m n o1" for m n
        using j by (auto simp: joins_def issues_def pending_def delete_conv')
    qed (use ok j in \<open>auto simp: auth_ok_def distinct_delete expect_token_def map_le_def update_conv'\<close>)
  qed
qed

lemma auth_ok_step:
  assumes ok: "auth_ok obs a" and st: "auth_step frepr op a = (o1, a1)"
  shows "auth_ok (obs @ o1) a1"
proof (cases op)
  case (Op_validate now n tok)
  then have v: "o1 = []" "am_challenges a1 = am_challenges a"
    "am_tokens a1 = am_tokens a \<or> am_tokens a1 = AList.delete n (am_tokens a)"
    using st by (auto simp: validate_token_def split: option.splits)
  have "map_of (AList.delete n (am_tokens a)) \<subseteq>\<^sub>m map_of (am_tokens a)"
    by (auto simp: delete_conv' map_le_def split: if_splits)
  then have "map_of (am_tokens a1) \<subseteq>\<^sub>m expected_tokens (obs @ o1)"
    using v ok map_le_trans unfolding auth_ok_def by auto
  then show ?thesis using v ok
    by (intro auth_ok_extend[OF ok]) (simp_all add: auth_ok_def pending_def joins_def)
next
  case (Op_revoke n)
  then have a1: "o1 = [Revoked n]" "a1 = revoke n a" using st by auto
  have dist: "distinct (keys (am_challenges a))" using ok by (simp add: auth_ok_def)
  have tk: "map_of (am_tokens a1) \<subseteq>\<^sub>m expected_tokens (obs @ o1)"
    using ok a1 by (auto simp: auth_ok_def revoke_def expect_token_def map_le_def delete_conv')
  show ?thesis
    using a1 tk dist pending_filter[OF dist, where P = "\<lambda>c. jc_node_id c \<noteq> n"]
    by (intro auth_ok_extend[OF ok])
      (simp_all add: revoke_def distinct_keys_filter joins_def issues_def)
next
  case Op_clear
  then have "o1 = [Cleared]" "a1 = auth_reset a" using st by auto
  then show ?thesis
    by (intro auth_ok_extend[OF ok]) (simp_all add: auth_reset_def pending_def joins_def)
qed (use assms auth_ok_issue auth_ok_join in blast)+

lemma auth_ok_run: "auth_ok obs a \<Longrightarrow> auth_run frepr ops a = (o1, a1) \<Longrightarrow> auth_ok (obs @ o1) a1"
proof (induction ops arbitrary: obs a o1)
  case (Cons op ops)
  obtain oa a2 where s: "auth_step frepr op a = (oa, a2)" by fastforce
  obtain ob where r: "auth_run frepr ops a2 = (ob, a1)" "o1 = oa @ ob"
    using Cons.prems(2) s by (auto split: prod.splits)
  show ?case using Cons.IH[OF auth_ok_step[OF Cons.prems(1) s] r(1)] r(2) by simp
qed auto

lemma auth_ok_new: "new_auth secret ct tt = Inr a \<Longrightarrow> auth_ok [] a"
  by (auto simp: new_auth_def auth_ok_def pending_def joins_def issues_def split: if_splits)


subsection \<open>Challenges that survive other calls\<close>

text \<open>A call that concerns other nonces and nodes and happens no later than \<open>t\<close>.\<close>

fun spares :: "string \<Rightarrow> string \<Rightarrow> rat \<Rightarrow> auth_op \<Rightarrow> bool" where
  "spares nonce n t (Op_issue now fresh _) \<longleftrightarrow> fresh \<noteq> nonce \<and> now \<le> t"
| "spares nonce n t (Op_join _ _ _ m _) \<longleftrightarrow> m \<noteq> nonce"
| "spares nonce n t (Op_validate _ _ _) \<longleftrightarrow> True"
| "spares nonce n t (Op_revoke k) \<longleftrightarrow> k \<noteq> n"
| "spares nonce n t Op_clear \<longleftrightarrow> False"

lemma spares_step:
  assumes "map_of (am_challenges a) nonce = Some c" "jc_node_id c = n" "t \<le> jc_expires_at c"
    and "spares nonce n t op"
  shows "map_of (am_challenges (snd (auth_step frepr op a))) nonce = Some c
    \<and> am_pool_secret (snd (auth_step frepr op a)) = am_pool_secret a"
proof (cases op)
  case (Op_issue now fresh k)
  then show ?thesis using assms map_of_filter_keep[OF assms(1), of "\<lambda>c. jc_expires_at c \<ge> now"]
    by (auto simp: issue_challenge_def prune_expired_challenges_def Let_def update_conv')
next
  case (Op_join now fresh p m sig)
  then show ?thesis using assms
    by (auto simp: complete_join_def Let_def delete_conv' split: json.splits option.splits sum.splits bool.splits)
next
  case (Op_validate now k tok)
  then show ?thesis using assms by (auto simp: validate_token_def split: option.splits)
next
  case (Op_revoke k)
  then show ?thesis using assms map_of_filter_keep[OF assms(1), of "\<lambda>c. jc_node_id c \<noteq> k"]
    by (auto simp: revoke_def)
qed (use assms in simp)

lemma spares_run:
  assumes "map_of (am_challenges a) nonce = Some c" "jc_node_id c = n" "t \<le> jc_expires_at c"
    and "list_all (spares nonce n t) ops"
  shows "map_of (am_challenges (snd (auth_run frepr ops a))) nonce = Some c
    \<and> am_pool_secret (snd (auth_run frepr ops a)) = am_pool_secret a"
  using assms(1,4)
proof (induction ops arbitrary: a)
  case (Cons op ops)
  then show ?case using spares_step[of a nonce c n t op frepr] assms(2,3)
    by (auto simp: case_prod_beta Let_def)
qed simp

subsection \<open>Hexadecimal and canonical forms are injective\<close>







subsection \<open>Properties\<close>

definition sample_auth :: auth_manager where
  "sample_auth = \<lparr>am_pool_secret = ''pool'', am_challenge_ttl_s = 30, am_token_ttl_s = 300,
     am_challenges = [], am_tokens = []\<rparr>"

lemma sample_auth_new: "new_auth ''pool'' 30 300 = Inr sample_auth"
  by (simp add: new_auth_def sample_auth_def)

text \<open>
  C13. A challenge is good for one join: in every history that starts with a new manager, the
  number of successful joins of a node with a nonce never exceeds the number of times that nonce
  was issued to that node, whatever is replayed, revoked or reset in between.
\<close>

theorem nonce_single_use:
  assumes "new_auth secret ct tt = Inr a0" "auth_run frepr ops a0 = (obs, a)"
  shows "joins nonce n obs \<le> issues nonce n obs"
proof -
  have "auth_ok ([] @ obs) a" by (rule auth_ok_run[OF auth_ok_new[OF assms(1)] assms(2)])
  then show ?thesis by (auto simp: auth_ok_def dest: spec[of _ nonce] spec[of _ n] add_leD1)
qed

theorem nonce_single_use_witness:
  "joins ''n1'' ''a'' (fst (auth_run frac_text
      [Op_issue 0 ''n1'' ''a'', Op_join 1 ''t'' [(''id'', JStr ''a'')] ''n1'' ''bad'',
       Op_join 2 ''t'' [(''id'', JStr ''b'')] ''n1'' ''bad''] sample_auth))
   \<le> issues ''n1'' ''a'' (fst (auth_run frac_text
      [Op_issue 0 ''n1'' ''a'', Op_join 1 ''t'' [(''id'', JStr ''a'')] ''n1'' ''bad'',
       Op_join 2 ''t'' [(''id'', JStr ''b'')] ''n1'' ''bad''] sample_auth))"
  by (rule nonce_single_use[OF sample_auth_new prod.collapse[symmetric]])


text \<open>
  An honest node gets in: once it holds a challenge, any number of calls for other nonces
  and nodes may come between, and the join signed with the pool secret succeeds as long as the
  challenge has not expired.
\<close>

theorem honest_join_succeeds:
  assumes "issue_challenge t0 nonce n a = Inr (c, a1)" "nonce \<noteq> []" "am_pool_secret a \<noteq> []"
    and "list_all (spares nonce n (t0 + am_challenge_ttl_s a)) ops"
    and "auth_run frepr ops a1 = (obs, a2)"
    and "jget p ''id'' = JStr n" "now \<le> t0 + am_challenge_ttl_s a"
  shows "\<exists>sig tok a3. sign_join_challenge frepr (am_pool_secret a) nonce (JObj p) = Inr sig
    \<and> complete_join frepr now fresh p nonce sig a2 = (Inr tok, a3)
    \<and> nt_node_id tok = n \<and> nt_access_token tok = fresh"
proof -
  have i: "map_of (am_challenges a1) nonce = Some c" "jc_node_id c = n" "n \<noteq> []"
    "jc_expires_at c = t0 + am_challenge_ttl_s a" "am_pool_secret a1 = am_pool_secret a"
    using assms(1) by (auto simp: issue_challenge_def prune_expired_challenges_def Let_def update_conv'
        py_strip_def rstrip_while_def split: if_splits)
  have "map_of (am_challenges a2) nonce = Some c \<and> am_pool_secret a2 = am_pool_secret a1"
    using spares_run[OF i(1,2) _ assms(4), of frepr] i(4) assms(5) by simp
  moreover obtain sig where "sign_join_challenge frepr (am_pool_secret a) nonce (JObj p) = Inr sig"
    using assms(2,3) by (simp add: sign_join_challenge_def)
  ultimately show ?thesis using i assms(6,7) by (auto simp: complete_join_Inr)
qed

theorem honest_join_succeeds_witness:
  "\<exists>sig tok a3. sign_join_challenge frac_text ''pool'' ''n1'' (JObj [(''id'', JStr ''a'')]) = Inr sig
     \<and> complete_join frac_text 20 ''tok'' [(''id'', JStr ''a'')] ''n1'' sig
         (snd (auth_run frac_text [Op_issue 15 ''n2'' ''b'', Op_revoke ''b'']
           (case issue_challenge 0 ''n1'' ''a'' sample_auth of Inr (c, a1) \<Rightarrow> a1 | _ \<Rightarrow> sample_auth)))
       = (Inr tok, a3) \<and> nt_node_id tok = ''a'' \<and> nt_access_token tok = ''tok''"
proof -
  have "py_strip ''a'' \<noteq> []" by code_simp
  then obtain c a1 where i: "issue_challenge 0 ''n1'' ''a'' sample_auth = Inr (c, a1)"
    by (simp add: issue_challenge_def Let_def)
  show ?thesis
    using honest_join_succeeds[OF i, of "[Op_issue 15 ''n2'' ''b'', Op_revoke ''b'']" frac_text
        "fst (auth_run frac_text [Op_issue 15 ''n2'' ''b'', Op_revoke ''b''] a1)"
        "snd (auth_run frac_text [Op_issue 15 ''n2'' ''b'', Op_revoke ''b''] a1)"
        "[(''id'', JStr ''a'')]" 20 "''tok''"]
    unfolding i by (simp add: sample_auth_def jget_def del: auth_run.simps)
qed

text \<open>
  C16. A bearer token is accepted only while it is current: in every history that starts with a
  new manager, if \<open>validate_token\<close> returns true for a node, then the latest join of that node
  handed out exactly this token, the node was not revoked and the manager not reset since, and the
  token has not expired.
\<close>

theorem token_sound:
  assumes "new_auth secret ct tt = Inr a0" "auth_run frepr ops a0 = (obs, a)"
    and "validate_token now n s a = (Inr True, a')"
  shows "\<exists>t. expected_tokens obs n = Some t \<and> nt_access_token t = s \<and> now \<le> nt_expires_at t"
proof -
  have "auth_ok ([] @ obs) a" by (rule auth_ok_run[OF auth_ok_new[OF assms(1)] assms(2)])
  then have le: "map_of (am_tokens a) \<subseteq>\<^sub>m expected_tokens obs" by (simp add: auth_ok_def)
  obtain t where "map_of (am_tokens a) n = Some t" "nt_access_token t = s" "now \<le> nt_expires_at t"
    using assms(3) by (auto simp: validate_token_def compare_digest_def split: option.splits if_splits)
  then show ?thesis using le by (metis domI map_le_def)
qed

theorem token_sound_witness:
  "\<exists>sig t. expected_tokens (fst (auth_run frac_text [Op_issue 0 ''n1'' ''a'',
        Op_join 1 ''tok'' [(''id'', JStr ''a'')] ''n1'' sig] sample_auth)) ''a'' = Some t
     \<and> nt_access_token t = ''tok'' \<and> 301 \<le> nt_expires_at t"
proof -
  obtain sig where s: "sign_join_challenge frac_text ''pool'' ''n1'' (JObj [(''id'', JStr ''a'')]) = Inr sig"
    by (simp add: sign_join_challenge_def)
  have v: "verify_join_challenge frac_text ''pool'' ''n1'' (JObj [(''id'', JStr ''a'')]) sig = Inr True"
    using s by (simp add: verify_join_True)
  let ?ops = "[Op_issue 0 ''n1'' ''a'', Op_join 1 ''tok'' [(''id'', JStr ''a'')] ''n1'' sig]"
  have "py_strip ''a'' \<noteq> []" "ascii ''tok''" by code_simp+
  then have "validate_token 301 ''a'' ''tok'' (snd (auth_run frac_text ?ops sample_auth))
      = (Inr True, snd (auth_run frac_text ?ops sample_auth))"
    using v by (simp add: sample_auth_def issue_challenge_def prune_expired_challenges_def Let_def
        complete_join_def jget_def validate_token_def compare_digest_def)
  from token_sound[OF sample_auth_new prod.collapse[symmetric] this] show ?thesis by blast
qed

text \<open>
  A signed job request verifies exactly inside the replay window: for the secret it was
  signed with, verification returns true when clock and issue time differ by at most thirty seconds
  and false otherwise, without raising.
\<close>

theorem job_request_window:
  assumes "sign_job_request frepr secret q = Inr sig"
  shows "verify_job_request frepr secret q sig now = Inr (\<bar>now - jf_issued_at q\<bar> \<le> 30)"
  using assms by (auto simp: verify_job_request_def sign_job_request_def JOB_AUTH_MAX_AGE_S_def
      compare_digest_def ascii_hexdigest split: if_splits)

definition sample_request :: job_fields where
  "sample_request = \<lparr>jf_job_id = ''j1'', jf_kind = ''exec'',
     jf_payload = [(''b'', JInt 1), (''a'', JList [JFloat (1/2), JNull])],
     jf_shard_index = 0, jf_shard_count = 1, jf_issued_at = 100\<rparr>"

theorem job_request_window_witness:
  "\<exists>sig. sign_job_request frac_text ''pool'' sample_request = Inr sig
     \<and> verify_job_request frac_text ''pool'' sample_request sig 130 = Inr True
     \<and> verify_job_request frac_text ''pool'' sample_request sig 131 = Inr False"
proof -
  obtain sig where s: "sign_job_request frac_text ''pool'' sample_request = Inr sig"
    by (simp add: sign_job_request_def)
  show ?thesis using s job_request_window[OF s, of 130] job_request_window[OF s, of 131]
    by (simp add: sample_request_def)
qed





end
