(* ===== verification/Telemetry.thy ===== *)
theory Telemetry
  imports Registry
begin

text \<open>
  \<open>ctl/telemetry.py\<close>: the fan-in of node metrics. The HTTP client is third-party code and enters as
  the function \<open>get\<close> from a URL to a status code and a text, or a transport error; the clock reading
  is an argument. A polling cycle reads the registry once, collects every answer and then applies
  them in order, so it is modelled as those three parts and their composition. The background task
  that calls it on a timer (\<open>start\<close>, \<open>_run\<close>, \<open>close\<close>) only repeats it.
\<close>

subsection \<open>State\<close>

record telemetry =
  tl_interval_s :: rat
  tl_timeout_s :: rat
  tl_history_limit :: int
  tl_node_port :: int
  tl_llama_metrics_url :: "string option"
  tl_latest :: "(string, node_metrics) dict"
  tl_samples :: "(string, node_metrics list) dict"
  tl_llama_metrics :: "(string, rat) dict"
  tl_llama_samples :: "(string, rat) dict list"
  tl_poll_errors :: "(string, string) dict"

definition new_telemetry :: "rat \<Rightarrow> rat \<Rightarrow> int \<Rightarrow> int \<Rightarrow> string option \<Rightarrow> telemetry res" where
  "new_telemetry interval_s timeout_s history_limit node_port url =
     (if interval_s \<le> 0 then Inl (ValueError ''interval_s must be greater than zero'')
      else if timeout_s \<le> 0 then Inl (ValueError ''timeout_s must be greater than zero'')
      else if history_limit \<le> 0 then Inl (ValueError ''history_limit must be greater than zero'')
      else Inr \<lparr>tl_interval_s = interval_s, tl_timeout_s = timeout_s,
             tl_history_limit = history_limit, tl_node_port = node_port, tl_llama_metrics_url = url,
             tl_latest = [], tl_samples = [], tl_llama_metrics = [], tl_llama_samples = [],
             tl_poll_errors = []\<rparr>)"

text \<open>\<open>deque(maxlen=n).append(x)\<close>: the oldest entries fall off the left.\<close>

definition deque_append :: "int \<Rightarrow> 'a list \<Rightarrow> 'a \<Rightarrow> 'a list" where
  "deque_append maxlen xs x = (let ys = xs @ [x] in drop (length ys - nat maxlen) ys)"

subsection \<open>Recording\<close>

definition tl_record :: "node_metrics \<Rightarrow> telemetry \<Rightarrow> telemetry" where
  "tl_record m t =
     (let history = (case map_of (tl_samples t) (nm_node_id m) of None \<Rightarrow> [] | Some h \<Rightarrow> h)
      in t\<lparr>tl_samples := AList.update (nm_node_id m) (deque_append (tl_history_limit t) history m)
                          (tl_samples t),
           tl_latest := AList.update (nm_node_id m) m (tl_latest t)\<rparr>)"

definition record_llama :: "(string, rat) dict \<Rightarrow> telemetry \<Rightarrow> telemetry" where
  "record_llama metrics t =
     t\<lparr>tl_llama_metrics := metrics,
       tl_llama_samples := deque_append (tl_history_limit t) (tl_llama_samples t) metrics\<rparr>"

definition tl_reset :: "node_metrics list \<Rightarrow> telemetry \<Rightarrow> telemetry" where
  "tl_reset metrics t = fold tl_record metrics
     (t\<lparr>tl_latest := [], tl_samples := [], tl_llama_metrics := [], tl_llama_samples := [],
        tl_poll_errors := []\<rparr>)"

definition tl_remove :: "string \<Rightarrow> telemetry \<Rightarrow> telemetry" where
  "tl_remove node_id t =
     t\<lparr>tl_latest := AList.delete node_id (tl_latest t),
       tl_samples := AList.delete node_id (tl_samples t),
       tl_poll_errors := AList.delete node_id (tl_poll_errors t)\<rparr>"

record metrics_frame =
  fr_nodes :: "node_metrics list"
  fr_history :: "(string, node_metrics list) dict"
  fr_llama :: "(string, rat) dict"
  fr_llama_history :: "(string, rat) dict list"
  fr_errors :: "(string, string) dict"

definition frame :: "telemetry \<Rightarrow> metrics_frame res" where
  "frame t =
     (let node_ids = sort (keys (tl_latest t)) in
      rbind (rmapM (dict_get (tl_latest t)) node_ids) (\<lambda>nodes.
      rbind (rmapM (\<lambda>n. rbind (dict_get (tl_samples t) n) (\<lambda>h. Inr (n, h))) node_ids) (\<lambda>history.
      Inr \<lparr>fr_nodes = nodes, fr_history = history, fr_llama = tl_llama_metrics t,
           fr_llama_history = tl_llama_samples t, fr_errors = tl_poll_errors t\<rparr>)))"

subsection \<open>Reading a metrics text\<close>

fun prometheus_line :: "string \<Rightarrow> (string, rat) dict \<Rightarrow> (string, rat) dict" where
  "prometheus_line raw_line metrics =
     (let line = py_strip raw_line in
      if line = [] \<or> starts_with ''#'' line then metrics
      else (case rsplit1 line of
          [name, raw_value] \<Rightarrow>
            (case py_float raw_value of None \<Rightarrow> metrics | Some v \<Rightarrow> AList.update name v metrics)
        | _ \<Rightarrow> metrics))"

definition parse_prometheus :: "string \<Rightarrow> (string, rat) dict" where
  "parse_prometheus body = fold prometheus_line (splitlines body) []"

fun metric_value_loop :: "(string, rat) dict \<Rightarrow> string \<Rightarrow> string list \<Rightarrow> rat res" where
  "metric_value_loop metrics name [] = Inl (KeyError name)"
| "metric_value_loop metrics name (candidate # rest) =
     (case map_of metrics candidate of
        Some v \<Rightarrow> Inr v
      | None \<Rightarrow>
          (case filter (\<lambda>(k, _). starts_with (candidate @ ''{'') k) metrics of
             [] \<Rightarrow> metric_value_loop metrics name rest
           | [(_, v)] \<Rightarrow> Inr v
           | _ \<Rightarrow> Inl (ValueError (''node metrics response has multiple samples for '' @ candidate))))"

definition metric_value :: "(string, rat) dict \<Rightarrow> string \<Rightarrow> string list \<Rightarrow> rat res" where
  "metric_value metrics name aliases = metric_value_loop metrics name (name # aliases)"

definition required_metric :: "(string, rat) dict \<Rightarrow> string \<Rightarrow> string list \<Rightarrow> rat res" where
  "required_metric metrics name aliases =
     (case metric_value metrics name aliases of
        Inl (KeyError _) \<Rightarrow> Inl (ValueError (''node metrics response is missing '' @ name))
      | r \<Rightarrow> r)"

definition optional_metric :: "(string, rat) dict \<Rightarrow> string \<Rightarrow> string list \<Rightarrow> rat option res" where
  "optional_metric metrics name aliases =
     (case metric_value metrics name aliases of
        Inl (KeyError _) \<Rightarrow> Inr None
      | Inl e \<Rightarrow> Inl e
      | Inr v \<Rightarrow> Inr (Some v))"

definition optional_integer_metric :: "(string, rat) dict \<Rightarrow> string \<Rightarrow> string list \<Rightarrow> int option res" where
  "optional_integer_metric metrics name aliases =
     rbind (optional_metric metrics name aliases) (\<lambda>v. Inr (map_option py_int v))"

subsection \<open>Polling\<close>

type_synonym http_get = "string \<Rightarrow> (int \<times> string) res"

text \<open>\<open>Response.raise_for_status\<close> raises outside the 2xx range.\<close>

definition raise_for_status :: "int \<Rightarrow> unit res" where
  "raise_for_status status =
     (if 200 \<le> status \<and> status \<le> 299 then Inr () else Inl (HTTPError (''HTTP status '' @ str_int status)))"

text \<open>\<open>":" in host and host.rsplit(":", 1)[1].isdigit()\<close>.\<close>

definition has_port :: "string \<Rightarrow> bool" where
  "has_port host \<longleftrightarrow> CHR '':'' \<in> set host
     \<and> py_isdigit (rev (takeWhile (\<lambda>c. c \<noteq> CHR '':'') (rev host)))"

definition base_url :: "string \<Rightarrow> int \<Rightarrow> string" where
  "base_url raw_host port =
     (let host = rstrip_while (\<lambda>c. c = CHR ''/'') raw_host in
      if starts_with ''http://'' host \<or> starts_with ''https://'' host then host
      else if has_port host then ''http://'' @ host
      else ''http://'' @ host @ '':'' @ str_int port)"

definition tl_node_url :: "telemetry \<Rightarrow> node_profile \<Rightarrow> string" where
  "tl_node_url t profile = base_url (np_host profile) (tl_node_port t) @ ''/metrics''"

definition should_poll :: "registry \<Rightarrow> node_profile \<Rightarrow> bool" where
  "should_poll r profile =
     (case get_record r (np_id profile) of
        None \<Rightarrow> False
      | Some rec \<Rightarrow> nr_heartbeat_required rec \<and> np_state profile \<noteq> Offline)"

definition poll_node :: "http_get \<Rightarrow> rat \<Rightarrow> telemetry \<Rightarrow> node_profile \<Rightarrow> node_metrics res" where
  "poll_node get now t profile =
     rbind (get (tl_node_url t profile)) (\<lambda>(status, text).
     rbind (raise_for_status status) (\<lambda>_.
     let prometheus = parse_prometheus text in
     rbind (required_metric prometheus ''dain_node_cpu_percent'' [''node_cpu_utilisation'']) (\<lambda>cpu.
     rbind (required_metric prometheus ''dain_node_ram_free_mb'' [''node_memory_free_mib'']) (\<lambda>ram.
     rbind (optional_metric prometheus ''dain_node_gpu_percent'' []) (\<lambda>gpu.
     rbind (optional_integer_metric prometheus ''dain_node_vram_free_mb'' []) (\<lambda>vram.
     rbind (optional_metric prometheus ''dain_node_jobs_running'' [''node_jobs_running'']) (\<lambda>jobs.
     Inr \<lparr>nm_node_id = np_id profile, nm_timestamp = now, nm_cpu_percent = cpu,
          nm_ram_free_mb = py_int ram, nm_gpu_percent = gpu, nm_vram_free_mb = vram,
          nm_jobs_running = py_int (case jobs of None \<Rightarrow> 0 | Some j \<Rightarrow> j)\<rparr>)))))))"

definition poll_llama :: "http_get \<Rightarrow> string \<Rightarrow> (string, rat) dict res" where
  "poll_llama get url =
     rbind (get url) (\<lambda>(status, text).
     rbind (raise_for_status status) (\<lambda>_.
     let metrics = parse_prometheus text in
     if metrics = [] then Inl (ValueError ''llama-server returned no Prometheus metrics'')
     else Inr metrics))"

definition error_entry :: "py_error \<Rightarrow> string" where
  "error_entry e = err_name e @ '': '' @ err_text e"

definition poll_targets :: "registry \<Rightarrow> node_profile list" where
  "poll_targets r = filter (should_poll r) (list_profiles r)"

definition apply_result :: "node_profile \<times> node_metrics res \<Rightarrow> telemetry \<Rightarrow> telemetry" where
  "apply_result pr t =
     (case snd pr of
        Inl e \<Rightarrow> t\<lparr>tl_poll_errors := AList.update (np_id (fst pr)) (error_entry e) (tl_poll_errors t)\<rparr>
      | Inr m \<Rightarrow>
          let t1 = tl_record m t
          in t1\<lparr>tl_poll_errors := AList.delete (np_id (fst pr)) (tl_poll_errors t1)\<rparr>)"

definition apply_llama :: "(string, rat) dict res \<Rightarrow> telemetry \<Rightarrow> telemetry res" where
  "apply_llama result t =
     (case result of
        Inl e \<Rightarrow>
          (case e of
             HTTPError _ \<Rightarrow> Inr (t\<lparr>tl_poll_errors := AList.update ''llama-server'' (error_entry e) (tl_poll_errors t)\<rparr>)
           | ValueError _ \<Rightarrow> Inr (t\<lparr>tl_poll_errors := AList.update ''llama-server'' (error_entry e) (tl_poll_errors t)\<rparr>)
           | _ \<Rightarrow> Inl e)
      | Inr metrics \<Rightarrow>
          let t1 = record_llama metrics t
          in Inr (t1\<lparr>tl_poll_errors := AList.delete ''llama-server'' (tl_poll_errors t1)\<rparr>))"

definition poll_once :: "http_get \<Rightarrow> rat \<Rightarrow> registry \<Rightarrow> telemetry \<Rightarrow> telemetry res" where
  "poll_once get now r t =
     (let profiles = poll_targets r;
          results = map (poll_node get now t) profiles;
          t1 = fold apply_result (zip profiles results) t
      in case tl_llama_metrics_url t of
           None \<Rightarrow> Inr t1
         | Some url \<Rightarrow> apply_llama (poll_llama get url) t1)"

end
