(* ===== verification/Telemetry_Run.thy ===== *)
theory Telemetry_Run
  imports Telemetry
begin

text \<open>
  The polling task of \<open>ctl/telemetry.py\<close>: starting and closing it, the HTTP client it owns or borrows,
  and one turn of its loop, which survives every exception of a cycle.
\<close>

text \<open>
  \<open>tk_task\<close> is the task with whether it is done, \<open>tk_client\<close> the client with whether it is closed, each
  \<open>None\<close> when there is none.
\<close>

record telemetry_task =
  tk_task :: "bool option"
  tk_client :: "bool option"
  tk_owns_client :: bool

definition telemetry_ensure_client :: "telemetry_task \<Rightarrow> telemetry_task" where
  "telemetry_ensure_client tk =
     (if tk_client tk = None \<or> tk_client tk = Some True then tk\<lparr>tk_client := Some False, tk_owns_client := True\<rparr> else tk)"

definition telemetry_start :: "telemetry_task \<Rightarrow> telemetry_task" where
  "telemetry_start tk = (if tk_task tk = Some False then tk else (telemetry_ensure_client tk)\<lparr>tk_task := Some False\<rparr>)"

text \<open>The result says whether a task was cancelled and whether the client was closed.\<close>

definition telemetry_close :: "telemetry_task \<Rightarrow> (bool \<times> bool) \<times> telemetry_task" where
  "telemetry_close tk =
     (let closes = tk_owns_client tk \<and> tk_client tk \<noteq> None in
      ((tk_task tk \<noteq> None, closes),
       (if closes then tk\<lparr>tk_task := None, tk_client := None\<rparr> else tk\<lparr>tk_task := None\<rparr>)))"

text \<open>What a cycle has recorded when reading the llama-server's metrics raises.\<close>

definition polled_nodes :: "http_get \<Rightarrow> rat \<Rightarrow> registry \<Rightarrow> telemetry \<Rightarrow> telemetry" where
  "polled_nodes get now r t =
     (let profiles = poll_targets r in fold apply_result (zip profiles (map (poll_node get now t) profiles)) t)"

definition telemetry_turn :: "http_get \<Rightarrow> rat \<Rightarrow> registry \<Rightarrow> telemetry \<Rightarrow> telemetry" where
  "telemetry_turn get now r t =
     (case poll_once get now r t of
        Inl e \<Rightarrow> let t1 = polled_nodes get now r t in
          t1\<lparr>tl_poll_errors := AList.update ''telemetry'' (err_name e @ '': '' @ err_text e) (tl_poll_errors t1)\<rparr>
      | Inr t1 \<Rightarrow> t1\<lparr>tl_poll_errors := AList.delete ''telemetry'' (tl_poll_errors t1)\<rparr>)"

definition telemetry_delay :: "telemetry \<Rightarrow> rat \<Rightarrow> rat" where
  "telemetry_delay t elapsed = max 0 (tl_interval_s t - elapsed)"

subsection \<open>What holds\<close>

text \<open>The error entry of the loop itself is there exactly after a cycle that failed.\<close>

lemma telemetry_turn_entry:
  "map_of (tl_poll_errors (telemetry_turn get now r t)) ''telemetry'' =
     (case poll_once get now r t of Inl e \<Rightarrow> Some (err_name e @ '': '' @ err_text e) | Inr _ \<Rightarrow> None)"
  by (auto simp: telemetry_turn_def Let_def update_conv' delete_conv' split: sum.splits)

text \<open>What the nodes answered is kept also when the cycle fails afterwards.\<close>

lemma apply_llama_latest: "apply_llama x t = Inr t' \<Longrightarrow> tl_latest t' = tl_latest t \<and> tl_samples t' = tl_samples t"
  by (auto simp: apply_llama_def record_llama_def Let_def split: sum.splits py_error.splits)

lemma telemetry_turn_keeps_samples:
  "tl_latest (telemetry_turn get now r t) = tl_latest (polled_nodes get now r t)
   \<and> tl_samples (telemetry_turn get now r t) = tl_samples (polled_nodes get now r t)"
proof (cases "poll_once get now r t")
  case (Inl e)
  then show ?thesis by (simp add: telemetry_turn_def Let_def)
next
  case (Inr t1)
  have "poll_once get now r t = (case tl_llama_metrics_url t of None \<Rightarrow> Inr (polled_nodes get now r t)
      | Some url \<Rightarrow> apply_llama (poll_llama get url) (polled_nodes get now r t))"
    by (cases "tl_llama_metrics_url t") (simp_all add: poll_once_def polled_nodes_def Let_def)
  with Inr show ?thesis
    by (auto simp: telemetry_turn_def dest: apply_llama_latest split: option.splits)
qed

text \<open>Starting twice starts one task; a borrowed client is never closed; closing twice is closing once.\<close>

lemma telemetry_start_twice: "telemetry_start (telemetry_start tk) = telemetry_start tk"
  by (simp add: telemetry_start_def)

lemma telemetry_start_client: "tk_client (telemetry_start tk) = Some False \<or> tk_task tk = Some False"
  by (auto simp: telemetry_start_def telemetry_ensure_client_def)

lemma borrowed_client_stays_open:
  assumes "\<not> tk_owns_client tk" and "tk_client tk = Some False"
  shows "tk_client (snd (telemetry_close (telemetry_start tk))) = Some False"
  using assms by (simp add: telemetry_start_def telemetry_ensure_client_def telemetry_close_def)

lemma telemetry_close_twice:
  "tk_owns_client tk \<Longrightarrow> telemetry_close (snd (telemetry_close tk)) = ((False, False), snd (telemetry_close tk))"
  by (auto simp: telemetry_close_def Let_def)

lemma telemetry_delay_bounds: "0 \<le> telemetry_delay t elapsed \<and> (0 \<le> elapsed \<and> 0 \<le> tl_interval_s t \<longrightarrow> telemetry_delay t elapsed \<le> tl_interval_s t)"
  by (auto simp: telemetry_delay_def)

end
