(* ===== verification/Telemetry_Properties.thy ===== *)
theory Telemetry_Properties
  imports Telemetry_Run Registry_Properties
begin

text \<open>The invariant of the telemetry fan-in and its properties.\<close>

subsection \<open>Reachable states and the invariant\<close>

inductive tl_reachable :: "telemetry \<Rightarrow> bool" where
  new: "new_telemetry i to limit port url = Inr t \<Longrightarrow> tl_reachable t"
| recorded: "tl_reachable t \<Longrightarrow> tl_reachable (tl_record m t)"
| reset: "tl_reachable t \<Longrightarrow> tl_reachable (tl_reset ms t)"
| removed: "tl_reachable t \<Longrightarrow> tl_reachable (tl_remove n t)"
| polled: "tl_reachable t \<Longrightarrow> poll_once get now r t = Inr t' \<Longrightarrow> tl_reachable t'"
| turned: "tl_reachable t \<Longrightarrow> tl_reachable (telemetry_turn get now r t)"

definition history_ok :: "int \<Rightarrow> string \<Rightarrow> node_metrics \<Rightarrow> node_metrics list \<Rightarrow> bool" where
  "history_ok limit n m h \<longleftrightarrow> h \<noteq> [] \<and> last h = m \<and> int (length h) \<le> limit
     \<and> list_all (\<lambda>s. nm_node_id s = n) h"

definition tl_inv :: "telemetry \<Rightarrow> bool" where
  "tl_inv t \<longleftrightarrow> 0 < tl_history_limit t \<and> distinct (keys (tl_latest t))
     \<and> (\<forall>n. rel_option (history_ok (tl_history_limit t) n) (map_of (tl_latest t) n) (map_of (tl_samples t) n))
     \<and> int (length (tl_llama_samples t)) \<le> tl_history_limit t"

lemma deque_append_ok:
  assumes "0 < maxlen" "list_all P xs" "P x"
  shows "deque_append maxlen xs x \<noteq> []" "last (deque_append maxlen xs x) = x"
    "int (length (deque_append maxlen xs x)) \<le> maxlen" "list_all P (deque_append maxlen xs x)"
  using assms by (auto simp: deque_append_def Let_def list_all_iff drop_Cons' Suc_diff_le
      nat_less_iff dest: in_set_dropD split: if_splits)

lemma tl_inv_record: assumes "tl_inv t" shows "tl_inv (tl_record m t)"
proof -
  let ?n = "nm_node_id m"
  let ?h = "case map_of (tl_samples t) ?n of None \<Rightarrow> [] | Some h \<Rightarrow> h"
  have lim: "0 < tl_history_limit t" using assms by (simp add: tl_inv_def)
  have "rel_option (history_ok (tl_history_limit t) ?n) (map_of (tl_latest t) ?n) (map_of (tl_samples t) ?n)"
    using assms by (simp add: tl_inv_def)
  then have "list_all (\<lambda>s. nm_node_id s = ?n) ?h"
    by (cases rule: option.rel_cases) (auto simp: history_ok_def)
  then have "history_ok (tl_history_limit t) ?n m (deque_append (tl_history_limit t) ?h m)"
    using deque_append_ok[OF lim, of "\<lambda>s. nm_node_id s = ?n" ?h m] by (simp add: history_ok_def)
  then show ?thesis using assms
    by (auto simp: tl_inv_def tl_record_def Let_def update_conv' distinct_update)
qed

lemma tl_inv_errors [simp]: "tl_inv (t\<lparr>tl_poll_errors := d\<rparr>) = tl_inv t"
  by (simp add: tl_inv_def)

lemma tl_inv_remove: "tl_inv t \<Longrightarrow> tl_inv (tl_remove n t)"
  by (auto simp: tl_inv_def tl_remove_def delete_conv' distinct_delete)

lemma tl_inv_reset: assumes "tl_inv t" shows "tl_inv (tl_reset ms t)"
proof -
  have "tl_inv (fold tl_record ms u)" if "tl_inv u" for u
    using that by (induction ms arbitrary: u) (auto simp: tl_inv_record)
  moreover have "tl_inv (t\<lparr>tl_latest := [], tl_samples := [], tl_llama_metrics := [],
      tl_llama_samples := [], tl_poll_errors := []\<rparr>)" using assms by (simp add: tl_inv_def)
  ultimately show ?thesis by (simp add: tl_reset_def)
qed

lemma tl_inv_apply: "tl_inv t \<Longrightarrow> tl_inv (apply_result pr t)"
  by (auto simp: apply_result_def Let_def tl_inv_record split: sum.splits)

lemma tl_inv_llama: "tl_inv t \<Longrightarrow> apply_llama res t = Inr t' \<Longrightarrow> tl_inv t'"
  using deque_append_ok(3)[of "tl_history_limit t" "\<lambda>_. True" "tl_llama_samples t"]
  by (auto simp: apply_llama_def Let_def record_llama_def tl_inv_def list_all_iff
      split: sum.splits py_error.splits)

lemma tl_inv_polled_nodes: assumes "tl_inv t" shows "tl_inv (polled_nodes get now r t)"
proof -
  have "tl_inv (fold apply_result prs u)" if "tl_inv u" for prs u
    using that by (induction prs arbitrary: u) (auto simp: tl_inv_apply)
  with assms show ?thesis by (simp add: polled_nodes_def Let_def)
qed

lemma tl_inv_poll: assumes "tl_inv t" "poll_once get now r t = Inr t'" shows "tl_inv t'"
  using assms(2) tl_inv_llama tl_inv_polled_nodes[OF assms(1), of get now r]
  unfolding poll_once_def polled_nodes_def Let_def by (cases "tl_llama_metrics_url t") auto

lemma tl_inv_turn: "tl_inv t \<Longrightarrow> tl_inv (telemetry_turn get now r t)"
  by (auto simp: telemetry_turn_def Let_def tl_inv_polled_nodes tl_inv_poll split: sum.splits)

lemma tl_reachable_inv: "tl_reachable t \<Longrightarrow> tl_inv t"
proof (induction rule: tl_reachable.induct)
  case (new i to limit port url t)
  then show ?case by (auto simp: new_telemetry_def tl_inv_def split: if_splits)
qed (auto intro: tl_inv_record tl_inv_reset tl_inv_remove tl_inv_poll tl_inv_turn)

subsection \<open>What a polling cycle changes\<close>

lemma poll_node_id: "poll_node get now t p = Inr m \<Longrightarrow> nm_node_id m = np_id p"
  by (auto simp: poll_node_def Let_def res_simps)

lemma apply_result_other:
  assumes "n \<noteq> np_id p" "\<And>m. res = Inr m \<Longrightarrow> nm_node_id m = np_id p"
  shows "map_of (tl_latest (apply_result (p, res) t)) n = map_of (tl_latest t) n"
    "map_of (tl_poll_errors (apply_result (p, res) t)) n = map_of (tl_poll_errors t) n"
  using assms by (auto simp: apply_result_def tl_record_def Let_def update_conv' delete_conv' split: sum.splits)

lemma apply_result_at:
  assumes "\<And>m. res = Inr m \<Longrightarrow> nm_node_id m = np_id p"
  shows "map_of (tl_latest (apply_result (p, res) t)) (np_id p)
      = (case res of Inl _ \<Rightarrow> map_of (tl_latest t) (np_id p) | Inr m \<Rightarrow> Some m)"
    "map_of (tl_poll_errors (apply_result (p, res) t)) (np_id p)
      = (case res of Inl e \<Rightarrow> Some (error_entry e) | Inr _ \<Rightarrow> None)"
  using assms by (auto simp: apply_result_def tl_record_def Let_def update_conv' delete_conv' split: sum.splits)

lemma apply_results_other:
  assumes "n \<notin> np_id ` set ps"
  shows "map_of (tl_latest (fold apply_result (zip ps (map (poll_node get now u) ps)) t)) n = map_of (tl_latest t) n"
    "map_of (tl_poll_errors (fold apply_result (zip ps (map (poll_node get now u) ps)) t)) n
       = map_of (tl_poll_errors t) n"
  using assms by (induction ps arbitrary: t) (auto simp: apply_result_other poll_node_id)

lemma apply_results_at:
  assumes "distinct (map np_id ps)" "p \<in> set ps"
  shows "map_of (tl_latest (fold apply_result (zip ps (map (poll_node get now u) ps)) t)) (np_id p)
      = (case poll_node get now u p of Inl _ \<Rightarrow> map_of (tl_latest t) (np_id p) | Inr m \<Rightarrow> Some m)
    \<and> map_of (tl_poll_errors (fold apply_result (zip ps (map (poll_node get now u) ps)) t)) (np_id p)
      = (case poll_node get now u p of Inl e \<Rightarrow> Some (error_entry e) | Inr _ \<Rightarrow> None)"
  using assms
proof (induction ps arbitrary: t)
  case (Cons q ps)
  show ?case
  proof (cases "q = p")
    case True
    then have "np_id p \<notin> np_id ` set ps" using Cons.prems by simp
    then show ?thesis using True apply_result_at[of "poll_node get now u p" p t] poll_node_id[of get now u p]
      by (simp add: apply_results_other)
  next
    case False
    then have "p \<in> set ps" using Cons.prems by auto
    moreover from this have "np_id p \<noteq> np_id q" using Cons.prems by (metis distinct.simps(2) image_eqI image_set list.simps(9))
    ultimately show ?thesis using Cons.IH[of "apply_result (q, poll_node get now u q) t"] Cons.prems
      by (auto simp: apply_result_other poll_node_id split: sum.splits)
  qed
qed simp

subsection \<open>Properties\<close>

lemma frame_shape:
  assumes "tl_reachable t"
  shows "\<exists>f. frame t = Inr f
    \<and> map nm_node_id (fr_nodes f) = sort (keys (tl_latest t)) \<and> distinct (keys (tl_latest t))
    \<and> list_all2 (\<lambda>m nh. fst nh = nm_node_id m
          \<and> history_ok (tl_history_limit t) (nm_node_id m) m (snd nh)) (fr_nodes f) (fr_history f)
    \<and> int (length (fr_llama_history f)) \<le> tl_history_limit t"
proof -
  have inv: "tl_inv t" by (rule tl_reachable_inv[OF assms])
  let ?ids = "sort (keys (tl_latest t))"
  have at: "\<exists>m h. map_of (tl_latest t) n = Some m \<and> map_of (tl_samples t) n = Some h
      \<and> history_ok (tl_history_limit t) n m h \<and> nm_node_id m = n" if "n \<in> set ?ids" for n
  proof -
    have "n \<in> set (keys (tl_latest t))" using that by simp
    then obtain m where m: "map_of (tl_latest t) n = Some m"
      using map_of_eq_None_iff[of "tl_latest t" n] by fastforce
    have "rel_option (history_ok (tl_history_limit t) n) (map_of (tl_latest t) n) (map_of (tl_samples t) n)"
      using inv by (simp add: tl_inv_def)
    then obtain h where h: "map_of (tl_samples t) n = Some h" "history_ok (tl_history_limit t) n m h"
      using m by (auto simp: option_rel_Some1)
    then have "nm_node_id m = n" by (auto simp: history_ok_def list_all_iff)
    then show ?thesis using m h by blast
  qed
  let ?l = "\<lambda>n. the (map_of (tl_latest t) n)" and ?s = "\<lambda>n. the (map_of (tl_samples t) n)"
  have "rmapM (dict_get (tl_latest t)) ?ids = Inr (map ?l ?ids)"
    by (rule rmapM_ok) (use at in \<open>fastforce simp: dict_get_def\<close>)
  moreover have "rmapM (\<lambda>n. rbind (dict_get (tl_samples t) n) (\<lambda>h. Inr (n, h))) ?ids
      = Inr (map (\<lambda>n. (n, ?s n)) ?ids)"
    by (rule rmapM_ok) (use at in \<open>fastforce simp: dict_get_def\<close>)
  moreover have "map nm_node_id (map ?l ?ids) = ?ids"
    unfolding map_map by (rule map_idI) (use at in fastforce)
  moreover have "list_all2 (\<lambda>m nh. fst nh = nm_node_id m
          \<and> history_ok (tl_history_limit t) (nm_node_id m) m (snd nh)) (map ?l ?ids) (map (\<lambda>n. (n, ?s n)) ?ids)"
    unfolding list_all2_map1 list_all2_map2 by (rule list.rel_refl_strong) (use at in fastforce)
  ultimately show ?thesis using inv by (simp add: frame_def Let_def tl_inv_def)
qed

text \<open>
  C20. The telemetry frame is always well formed and bounded: in every reachable state \<open>frame\<close>
  raises nothing, lists each node once in id order, gives every listed node a non-empty history of
  that node's samples, no longer than the limit and ending in the sample shown as its latest, and
  keeps the llama-server history within the same limit.
\<close>

theorem frame_well_formed:
  assumes "tl_reachable t"
  shows "\<exists>f. frame t = Inr f
    \<and> map nm_node_id (fr_nodes f) = sort (keys (tl_latest t)) \<and> distinct (keys (tl_latest t))
    \<and> list_all2 (\<lambda>m nh. fst nh = nm_node_id m
          \<and> history_ok (tl_history_limit t) (nm_node_id m) m (snd nh)) (fr_nodes f) (fr_history f)
    \<and> int (length (fr_llama_history f)) \<le> tl_history_limit t"
  by (rule frame_shape[OF assms])

definition sample_metric :: "string \<Rightarrow> rat \<Rightarrow> node_metrics" where
  "sample_metric n ts = \<lparr>nm_node_id = n, nm_timestamp = ts, nm_cpu_percent = 5, nm_ram_free_mb = 900,
     nm_gpu_percent = None, nm_vram_free_mb = None, nm_jobs_running = 0\<rparr>"

definition sample_telemetry :: telemetry where
  "sample_telemetry = \<lparr>tl_interval_s = 1/2, tl_timeout_s = 1, tl_history_limit = 2, tl_node_port = 9100,
     tl_llama_metrics_url = None, tl_latest = [], tl_samples = [], tl_llama_metrics = [],
     tl_llama_samples = [], tl_poll_errors = []\<rparr>"

lemma sample_telemetry_reachable: "tl_reachable (fold tl_record ms sample_telemetry)"
proof -
  have "tl_reachable sample_telemetry"
    by (rule tl_reachable.new[of "1/2" 1 2 9100 None]) (simp add: new_telemetry_def sample_telemetry_def)
  moreover have "tl_reachable u \<Longrightarrow> tl_reachable (fold tl_record ms u)" for u
    by (induction ms arbitrary: u) (auto intro: tl_reachable.recorded)
  ultimately show ?thesis by blast
qed

theorem frame_well_formed_witness:
  "\<exists>f. frame (fold tl_record [sample_metric ''b'' 1, sample_metric ''a'' 2, sample_metric ''a'' 3,
        sample_metric ''a'' 4] sample_telemetry) = Inr f
     \<and> map nm_node_id (fr_nodes f) = [''a'', ''b'']"
proof -
  let ?t = "fold tl_record [sample_metric ''b'' 1, sample_metric ''a'' 2, sample_metric ''a'' 3,
        sample_metric ''a'' 4] sample_telemetry"
  have "sort (keys (tl_latest ?t)) = [''a'', ''b'']" by code_simp
  then show ?thesis using frame_well_formed[OF sample_telemetry_reachable] by metis
qed

text \<open>
  C21. A polling cycle over a reachable registry touches exactly the nodes it polls: a node that
  answers gets the new sample as its latest and loses its error, a node whose poll fails keeps its
  last sample and gets the error, and every other node keeps both.
\<close>

theorem poll_outcome:
  assumes "rg_reachable r" "tl_llama_metrics_url t = None" "poll_once get now r t = Inr t'"
  shows "map_of (tl_latest t') n
      = (case find (\<lambda>p. np_id p = n) (poll_targets r) of
           None \<Rightarrow> map_of (tl_latest t) n
         | Some p \<Rightarrow> (case poll_node get now t p of Inl _ \<Rightarrow> map_of (tl_latest t) n | Inr m \<Rightarrow> Some m))
    \<and> map_of (tl_poll_errors t') n
      = (case find (\<lambda>p. np_id p = n) (poll_targets r) of
           None \<Rightarrow> map_of (tl_poll_errors t) n
         | Some p \<Rightarrow> (case poll_node get now t p of Inl e \<Rightarrow> Some (error_entry e) | Inr m \<Rightarrow> None))"
proof -
  let ?ps = "poll_targets r"
  have t': "t' = fold apply_result (zip ?ps (map (poll_node get now t) ?ps)) t"
    using assms(2,3) by (simp add: poll_once_def Let_def)
  have "distinct (map np_id ?ps)"
    unfolding poll_targets_def by (rule distinct_map_filter) (rule list_profiles_distinct[OF assms(1)])
  note at = apply_results_at[OF this]
  show ?thesis
  proof (cases "find (\<lambda>p. np_id p = n) ?ps")
    case None
    then have "n \<notin> np_id ` set ?ps" by (auto simp: find_None_iff)
    then show ?thesis using None t' by (simp add: apply_results_other)
  next
    case (Some p)
    then have "p \<in> set ?ps" "np_id p = n" by (auto simp: find_Some_iff)
    then show ?thesis using Some at[of p get now t t] t' by (auto split: sum.splits)
  qed
qed

theorem poll_outcome_witness:
  "\<exists>t'. poll_once (\<lambda>_. Inl (HTTPError ''refused'')) 9 sample_registry
        (tl_record (sample_metric ''a'' 1) sample_telemetry) = Inr t'
     \<and> map_of (tl_latest t') ''a'' = Some (sample_metric ''a'' 1)
     \<and> map_of (tl_poll_errors t') ''a'' = Some ''HTTPError: refused''"
proof -
  let ?t = "tl_record (sample_metric ''a'' 1) sample_telemetry"
  let ?get = "\<lambda>_ :: string. Inl (HTTPError ''refused'') :: (int \<times> string) res"
  have url: "tl_llama_metrics_url ?t = None" by (simp add: tl_record_def sample_telemetry_def Let_def)
  obtain t' where p: "poll_once ?get 9 sample_registry ?t = Inr t'" using url by (simp add: poll_once_def Let_def)
  have "map np_id (poll_targets sample_registry) = [''a'', ''b'']" by code_simp
  then obtain q qs where q: "poll_targets sample_registry = q # qs" "np_id q = ''a''" by auto
  have "map_of (tl_latest ?t) ''a'' = Some (sample_metric ''a'' 1)"
    by (simp add: tl_record_def sample_telemetry_def sample_metric_def Let_def)
  then show ?thesis
    using p q poll_outcome[OF sample_registry_reachable url p, of "''a''"]
    by (auto simp: poll_node_def error_entry_def)
qed



end
