(* ===== verification/Job_Queue.thy ===== *)
theory Job_Queue
  imports Registry Telemetry Join_Auth
begin

text \<open>
  \<open>ctl/queue.py\<close>: the job queue. A job's coroutine (\<open>_run_job\<close> with one \<open>_run_shard\<close> per shard) is
  data in the state: for each shard the node it is bound to, the attempt, the nodes it has given up
  and where it stands. The code between two \<open>await\<close>s of the coroutine is one operation, so that an
  interleaving of jobs and shards is a sequence of operations. The HTTP client is third-party code:
  what \<open>client.post\<close> returns is the argument \<open>reply\<close> of the operation that resumes the shard.
\<close>

subsection \<open>Constants\<close>

definition INFER_READY_TIMEOUT_S :: rat where "INFER_READY_TIMEOUT_S = 180"

definition INFER_REQUEST_TIMEOUT_S :: rat where "INFER_REQUEST_TIMEOUT_S = 300"

definition BENCH_TIMEOUT_S :: rat where "BENCH_TIMEOUT_S = 900"

definition SANDBOX_MAX_TIMEOUT_S :: rat where "SANDBOX_MAX_TIMEOUT_S = 30"

definition TIMEOUT_MARGIN_S :: rat where "TIMEOUT_MARGIN_S = 60"

definition DEFAULT_ENDPOINTS :: "(string, string) dict" where
  "DEFAULT_ENDPOINTS = [(''infer'', ''/infer''), (''exec'', ''/exec''), (''index'', ''/index''),
     (''search'', ''/search''), (''bench'', ''/bench'')]"

definition DEFAULT_TIMEOUTS_S :: "(string, rat) dict" where
  "DEFAULT_TIMEOUTS_S =
     [(''infer'', INFER_READY_TIMEOUT_S + INFER_REQUEST_TIMEOUT_S + TIMEOUT_MARGIN_S),
      (''bench'', BENCH_TIMEOUT_S + TIMEOUT_MARGIN_S),
      (''exec'', SANDBOX_MAX_TIMEOUT_S + TIMEOUT_MARGIN_S),
      (''index'', 30), (''search'', 30)]"

subsection \<open>State\<close>

record queue_event =
  qe_sequence :: int
  qe_timestamp :: rat
  qe_event :: string
  qe_job_id :: string
  qe_node_id :: "string option"
  qe_status :: job_status
  qe_message :: string

text \<open>Where a shard's coroutine is suspended: at the semaphore, at the request, or it has returned.\<close>

datatype shard_pc = Acquiring | Posted | Finished "json res"

record shard =
  sh_payload :: "(string, json) dict"
  sh_node :: string
  sh_attempt :: nat
  sh_attempted :: "string list"
  sh_pc :: shard_pc

datatype task_state = Created | Started | Ended "py_error option" | Cancelled

record run_task =
  rt_state :: task_state
  rt_shards :: "shard list"

record job_queue =
  jq_pool_secret :: string
  jq_timeout_s :: rat
  jq_index_timeout_s :: rat
  jq_per_node_limit :: int
  jq_node_port :: int
  jq_endpoint_by_kind :: "(string, string) dict"
  jq_timeout_by_kind :: "(string, rat) dict"
  jq_jobs :: "(string, job) dict"
  jq_fanouts :: "(string, int) dict"
  jq_assigned_nodes :: "(string, string list) dict"
  jq_tasks :: "(string, run_task) dict"
  jq_semaphores :: "(string, int) dict"
  jq_in_flight :: "(string, int) dict"
  jq_events :: "queue_event list"
  jq_next_sequence :: int
  jq_closed :: bool

definition new_queue :: "string \<Rightarrow> rat \<Rightarrow> rat \<Rightarrow> int \<Rightarrow> int \<Rightarrow> (string, string) dict
    \<Rightarrow> (string, rat) dict \<Rightarrow> job_queue res" where
  "new_queue pool_secret timeout_s index_timeout_s per_node_limit node_port endpoints timeouts =
     (if timeout_s \<le> 0 then Inl (ValueError ''timeout_s must be greater than zero'')
      else if index_timeout_s \<le> 0 then Inl (ValueError ''index_timeout_s must be greater than zero'')
      else if per_node_limit \<le> 0 then Inl (ValueError ''per_node_limit must be greater than zero'')
      else if pool_secret = [] then Inl (ValueError ''pool_secret must not be empty'')
      else Inr \<lparr>jq_pool_secret = pool_secret, jq_timeout_s = timeout_s,
             jq_index_timeout_s = index_timeout_s, jq_per_node_limit = per_node_limit,
             jq_node_port = node_port,
             jq_endpoint_by_kind = (if endpoints = [] then DEFAULT_ENDPOINTS else endpoints),
             jq_timeout_by_kind = fold (\<lambda>(k, v) d. AList.update k v d) timeouts
                (AList.update ''index'' index_timeout_s DEFAULT_TIMEOUTS_S),
             jq_jobs = [], jq_fanouts = [], jq_assigned_nodes = [], jq_tasks = [],
             jq_semaphores = [], jq_in_flight = [], jq_events = [], jq_next_sequence = 1,
             jq_closed = False\<rparr>)"

definition job_at :: "job_queue \<Rightarrow> string \<Rightarrow> job option" where
  "job_at q job_id = map_of (jq_jobs q) job_id"

subsection \<open>Events\<close>

definition jq_event :: "(int \<Rightarrow> rat) \<Rightarrow> string \<Rightarrow> job \<Rightarrow> string option \<Rightarrow> string \<Rightarrow> job_queue \<Rightarrow> queue_event" where
  "jq_event wall event jb node_id message q =
     \<lparr>qe_sequence = jq_next_sequence q, qe_timestamp = wall (jq_next_sequence q), qe_event = event,
      qe_job_id = jb_id jb, qe_node_id = node_id, qe_status = jb_status jb, qe_message = message\<rparr>"

definition jq_emit :: "(int \<Rightarrow> rat) \<Rightarrow> string \<Rightarrow> job \<Rightarrow> string option \<Rightarrow> string \<Rightarrow> job_queue \<Rightarrow> job_queue" where
  "jq_emit wall event jb node_id message q =
     q\<lparr>jq_events := jq_events q @ [jq_event wall event jb node_id message q],
       jq_next_sequence := jq_next_sequence q + 1\<rparr>"

definition jq_events_after :: "int \<Rightarrow> job_queue \<Rightarrow> queue_event list" where
  "jq_events_after sequence q = filter (\<lambda>e. qe_sequence e > sequence) (jq_events q)"

subsection \<open>Choosing nodes and splitting work\<close>

definition ranked_nodes :: "registry \<Rightarrow> job_queue \<Rightarrow> string list \<Rightarrow> string list" where
  "ranked_nodes reg q excluded =
     (let profiles = filter (\<lambda>p. np_id p \<notin> set excluded \<and> np_state p \<noteq> Joining \<and> np_state p \<noteq> Offline)
                       (list_profiles reg);
          metrics = dict_of (map (\<lambda>m. (nm_node_id m, m)) (latest_metrics reg));
          load = (\<lambda>p. (case map_of metrics (np_id p) of None \<Rightarrow> 0 | Some m \<Rightarrow> nm_jobs_running m)
                    + (case map_of (jq_in_flight q) (np_id p) of None \<Rightarrow> 0 | Some k \<Rightarrow> k))
      in map np_id (sort_key (\<lambda>p. (load p, np_id p)) profiles))"

definition queue_profile :: "registry \<Rightarrow> string \<Rightarrow> node_profile res" where
  "queue_profile reg node_id =
     (case get_record reg node_id of
        None \<Rightarrow> Inl (NodeUnavailableError (''node '' @ node_id @ '' is not registered''))
      | Some rec \<Rightarrow>
          if np_state (nr_profile rec) = Joining \<or> np_state (nr_profile rec) = Offline
          then Inl (NodeUnavailableError (''node '' @ node_id @ '' is '' @ state_name (np_state (nr_profile rec))))
          else Inr (nr_profile rec))"

text \<open>The loop that deals the values out: value \<open>i\<close> goes to chunk \<open>i % shard_count\<close>.\<close>

fun deal :: "nat \<Rightarrow> nat \<Rightarrow> 'a list \<Rightarrow> 'a list list \<Rightarrow> 'a list list" where
  "deal n index [] chunks = chunks"
| "deal n index (v # vs) chunks =
     deal n (Suc index) vs (chunks[index mod n := chunks ! (index mod n) @ [v]])"

fun split_on_keys :: "string list \<Rightarrow> (string, json) dict \<Rightarrow> int \<Rightarrow> (string, json) dict list" where
  "split_on_keys [] payload fanout = map (\<lambda>_. payload) [1 .. fanout]"
| "split_on_keys (k # ks) payload fanout =
     (case jget payload k of
        JList values \<Rightarrow>
          if values = [] then split_on_keys ks payload fanout
          else
            let shard_count = nat (min fanout (int (length values)))
            in map (\<lambda>chunk. AList.update k (JList chunk) payload)
                 (deal shard_count 0 values (replicate shard_count []))
      | _ \<Rightarrow> split_on_keys ks payload fanout)"

definition split_payload :: "(string, json) dict \<Rightarrow> int \<Rightarrow> (string, json) dict list" where
  "split_payload payload fanout = split_on_keys [''tasks'', ''items''] payload fanout"

subsection \<open>Submitting\<close>

definition new_shard :: "(string, json) dict \<Rightarrow> string \<Rightarrow> shard" where
  "new_shard payload node_id = \<lparr>sh_payload = payload, sh_node = node_id, sh_attempt = 0,
     sh_attempted = [], sh_pc = Acquiring\<rparr>"

definition select_nodes :: "registry \<Rightarrow> job_queue \<Rightarrow> nat \<Rightarrow> string option \<Rightarrow> string list res" where
  "select_nodes reg q shard_count node_id =
     (case node_id of
        Some n \<Rightarrow> rbind (queue_profile reg n) (\<lambda>_. Inr [n])
      | None \<Rightarrow>
          let ranked = ranked_nodes reg q [] in
          if length ranked < shard_count
          then Inl (RuntimeError (''fan-out '' @ str_nat shard_count @ '' requested but only ''
                 @ str_nat (length ranked) @ '' node(s) are available''))
          else Inr (take shard_count ranked))"

definition submit :: "(int \<Rightarrow> rat) \<Rightarrow> string \<Rightarrow> registry \<Rightarrow> string \<Rightarrow> (string, json) dict \<Rightarrow> int
    \<Rightarrow> string option \<Rightarrow> job_queue \<Rightarrow> (job \<times> job_queue) res" where
  "submit wall uuid reg kind payload fanout node_id q =
     (if jq_closed q then Inl (RuntimeError ''job queue is closed'')
      else if kind \<notin> set (keys (jq_endpoint_by_kind q))
        then Inl (ValueError (''unsupported job kind: '' @ kind))
      else if fanout < 1 then Inl (ValueError ''fanout must be at least one'')
      else
        let shards = split_payload payload
              (case node_id of None \<Rightarrow> fanout | Some n \<Rightarrow> if n = [] then fanout else 1)
        in rbind (select_nodes reg q (length shards) node_id) (\<lambda>selected.
           let jb = \<lparr>jb_id = uuid, jb_kind = kind, jb_payload = payload, jb_node_id = node_id,
                     jb_status = Queued, jb_result = None, jb_started_at = None,
                     jb_finished_at = None\<rparr>;
               q1 = q\<lparr>jq_jobs := AList.update uuid jb (jq_jobs q),
                      jq_fanouts := AList.update uuid (int (length shards)) (jq_fanouts q),
                      jq_assigned_nodes := AList.update uuid selected (jq_assigned_nodes q)\<rparr>;
               q2 = jq_emit wall ''queued'' jb None
                      (''Job '' @ uuid @ '' queued with fan-out '' @ str_nat (length shards)) q1
           in Inr (jb, q2\<lparr>jq_tasks := AList.update uuid
                  \<lparr>rt_state = Created, rt_shards = map2 new_shard shards selected\<rparr> (jq_tasks q2)\<rparr>)))"

record job_response =
  jr_job :: job
  jr_fanout :: int
  jr_assigned_nodes :: "string list"

definition response :: "string \<Rightarrow> job_queue \<Rightarrow> job_response option res" where
  "response job_id q =
     (case map_of (jq_jobs q) job_id of
        None \<Rightarrow> Inr None
      | Some jb \<Rightarrow>
          rbind (dict_get (jq_fanouts q) job_id) (\<lambda>f.
          rbind (dict_get (jq_assigned_nodes q) job_id) (\<lambda>ns.
          Inr (Some \<lparr>jr_job = jb, jr_fanout = f, jr_assigned_nodes = ns\<rparr>))))"

subsection \<open>The request of a shard\<close>

definition jq_node_url :: "job_queue \<Rightarrow> node_profile \<Rightarrow> string \<Rightarrow> string" where
  "jq_node_url q profile endpoint = base_url (np_host profile) (jq_node_port q) @ endpoint"

record job_request =
  rq_url :: string
  rq_fields :: job_fields
  rq_signature :: string
  rq_timeout :: rat

definition build_request :: "(rat \<Rightarrow> string) \<Rightarrow> int \<Rightarrow> job_queue \<Rightarrow> job \<Rightarrow> node_profile \<Rightarrow> int \<Rightarrow> int
    \<Rightarrow> (string, json) dict \<Rightarrow> job_request res" where
  "build_request frepr issued_at q jb profile shard_index shard_count payload =
     (let fields = \<lparr>jf_job_id = jb_id jb, jf_kind = jb_kind jb, jf_payload = payload,
                    jf_shard_index = shard_index, jf_shard_count = shard_count,
                    jf_issued_at = issued_at\<rparr>
      in rbind (sign_job_request frepr (jq_pool_secret q) fields) (\<lambda>signature.
         rbind (dict_get (jq_endpoint_by_kind q) (jb_kind jb)) (\<lambda>endpoint.
         Inr \<lparr>rq_url = jq_node_url q profile endpoint, rq_fields = fields, rq_signature = signature,
              rq_timeout = (case map_of (jq_timeout_by_kind q) (jb_kind jb) of
                  None \<Rightarrow> jq_timeout_s q | Some t \<Rightarrow> t)\<rparr>)))"

text \<open>
  What came back: a transport error of the client, or a status, the text and its JSON reading
  (\<open>None\<close> where \<open>response.json()\<close> raises \<open>ValueError\<close>).
\<close>

datatype http_reply =
    Transport_error string
  | Reply int string "json option"

text \<open>Reading the reply: a refusal, a failed status, an unreadable body or a result.\<close>

definition request_outcome :: "http_reply \<Rightarrow> json res" where
  "request_outcome reply =
     (case reply of
        Transport_error m \<Rightarrow> Inl (HTTPError m)
      | Reply status text body \<Rightarrow>
          if 400 \<le> status \<and> status < 500 then
            let detail = (case body of
                  Some (JObj d) \<Rightarrow> (case map_of d ''detail'' of None \<Rightarrow> text | Some v \<Rightarrow> json_str v)
                | _ \<Rightarrow> text)
            in Inl (NodeRejectedError (''HTTP '' @ str_int status @ '': '' @ detail))
          else
            rbind (raise_for_status status) (\<lambda>_.
            (case body of
               None \<Rightarrow> Inl (ValueError ''invalid JSON'')
             | Some (JObj d) \<Rightarrow>
                 if map_of d ''ok'' = Some (JBool False)
                 then Inl (ValueError (case map_of d ''error'' of None \<Rightarrow> ''node rejected the job''
                        | Some v \<Rightarrow> json_str v))
                 else (case map_of d ''result'' of Some v \<Rightarrow> Inr v | None \<Rightarrow> Inr (JObj d))
             | Some b \<Rightarrow> Inr b)))"

subsection \<open>Running a job\<close>

definition set_job :: "job \<Rightarrow> job_queue \<Rightarrow> job_queue" where
  "set_job jb q = q\<lparr>jq_jobs := AList.update (jb_id jb) jb (jq_jobs q)\<rparr>"

definition set_task :: "string \<Rightarrow> run_task \<Rightarrow> job_queue \<Rightarrow> job_queue" where
  "set_task job_id tk q = q\<lparr>jq_tasks := AList.update job_id tk (jq_tasks q)\<rparr>"

definition set_shard :: "string \<Rightarrow> run_task \<Rightarrow> nat \<Rightarrow> shard \<Rightarrow> job_queue \<Rightarrow> job_queue" where
  "set_shard job_id tk i sh q = set_task job_id (tk\<lparr>rt_shards := (rt_shards tk)[i := sh]\<rparr>) q"

text \<open>The first stretch of \<open>_run_job\<close>, up to the \<open>gather\<close>.\<close>

definition start_job :: "rat \<Rightarrow> (int \<Rightarrow> rat) \<Rightarrow> job \<Rightarrow> run_task \<Rightarrow> job_queue \<Rightarrow> job_queue" where
  "start_job now wall jb tk q =
     (let jb1 = jb\<lparr>jb_status := Running, jb_started_at := Some now\<rparr>
      in set_task (jb_id jb) (tk\<lparr>rt_state := Started\<rparr>)
           (jq_emit wall ''started'' jb1 None (''Job '' @ jb_id jb @ '' started'') (set_job jb1 q)))"

text \<open>
  \<open>_run_shard\<close> after a failed request: try the same node once more, then move to the best node not
  yet given up, then raise. The triple is node, attempt and nodes given up.
\<close>

definition next_try :: "registry \<Rightarrow> job_queue \<Rightarrow> string \<times> nat \<times> string list
    \<Rightarrow> (string \<times> nat \<times> string list) option" where
  "next_try reg q tr =
     (case tr of (node_id, attempt, attempted) \<Rightarrow>
        if attempt = 0 then Some (node_id, 1, attempted)
        else
          let attempted' = attempted @ [node_id] in
          (case ranked_nodes reg q attempted' of
             [] \<Rightarrow> None
           | replacement # _ \<Rightarrow> Some (replacement, 0, attempted')))"

definition retryable :: "py_error \<Rightarrow> bool" where
  "retryable e \<longleftrightarrow> (case e of HTTPError _ \<Rightarrow> True | NodeUnavailableError _ \<Rightarrow> True | ValueError _ \<Rightarrow> True
     | _ \<Rightarrow> False)"

definition shard_failed :: "(int \<Rightarrow> rat) \<Rightarrow> registry \<Rightarrow> job \<Rightarrow> run_task \<Rightarrow> nat \<Rightarrow> py_error \<Rightarrow> job_queue
    \<Rightarrow> job_queue" where
  "shard_failed wall reg jb tk i e q =
     (let sh = rt_shards tk ! i; index = str_nat i in
      case e of
        NodeRejectedError m \<Rightarrow>
          set_shard (jb_id jb) tk i (sh\<lparr>sh_pc := Finished (Inl (ShardExecutionError
             (''shard '' @ index @ '' rejected by '' @ sh_node sh @ '': '' @ m)))\<rparr>) q
      | _ \<Rightarrow>
        if \<not> retryable e then set_shard (jb_id jb) tk i (sh\<lparr>sh_pc := Finished (Inl e)\<rparr>) q
        else
          (case next_try reg q (sh_node sh, sh_attempt sh, sh_attempted sh) of
             None \<Rightarrow>
               set_shard (jb_id jb) tk i (sh\<lparr>sh_pc := Finished (Inl (ShardExecutionError
                 (''shard '' @ index @ '' exhausted available nodes: '' @ err_text e)))\<rparr>) q
           | Some (node_id, attempt, attempted) \<Rightarrow>
               let sh1 = sh\<lparr>sh_node := node_id, sh_attempt := attempt, sh_attempted := attempted,
                            sh_pc := Acquiring\<rparr>;
                   q1 = set_shard (jb_id jb) tk i sh1 q
               in if attempt = 1
                  then jq_emit wall ''retrying'' jb (Some node_id)
                         (''Retrying shard '' @ index @ '' on '' @ node_id) q1
                  else
                    let nodes = (case map_of (jq_assigned_nodes q) (jb_id jb) of None \<Rightarrow> [] | Some ns \<Rightarrow> ns);
                        q2 = (if node_id \<in> set nodes then q1
                              else q1\<lparr>jq_assigned_nodes :=
                                     AList.update (jb_id jb) (nodes @ [node_id]) (jq_assigned_nodes q1)\<rparr>)
                    in jq_emit wall ''reassigned'' jb (Some node_id)
                         (''Shard '' @ index @ '' moved from '' @ sh_node sh @ '' to '' @ node_id) q2))"

definition permits :: "job_queue \<Rightarrow> string \<Rightarrow> int" where
  "permits q n = (case map_of (jq_semaphores q) n of None \<Rightarrow> jq_per_node_limit q | Some k \<Rightarrow> k)"

definition in_flight :: "job_queue \<Rightarrow> string \<Rightarrow> int" where
  "in_flight q n = (case map_of (jq_in_flight q) n of None \<Rightarrow> 0 | Some k \<Rightarrow> k)"

text \<open>
  \<open>_request\<close> up to the \<open>post\<close>, once the node's semaphore has a permit: a node that is gone gives
  the permit back and fails the attempt.
\<close>

definition dispatch_shard :: "(int \<Rightarrow> rat) \<Rightarrow> registry \<Rightarrow> job \<Rightarrow> run_task \<Rightarrow> nat \<Rightarrow> job_queue \<Rightarrow> job_queue" where
  "dispatch_shard wall reg jb tk i q =
     (let sh = rt_shards tk ! i; n = sh_node sh;
          q0 = q\<lparr>jq_semaphores := AList.update n (permits q n) (jq_semaphores q)\<rparr>
      in case queue_profile reg n of
           Inl e \<Rightarrow> shard_failed wall reg jb tk i e q0
         | Inr profile \<Rightarrow>
             let q1 = q0\<lparr>jq_semaphores := AList.update n (permits q n - 1) (jq_semaphores q0),
                         jq_in_flight := AList.update n (in_flight q n + 1) (jq_in_flight q0)\<rparr>
             in jq_emit wall ''dispatched'' jb (Some n) (''Shard '' @ str_nat i @ '' sent to '' @ n)
                  (set_shard (jb_id jb) tk i (sh\<lparr>sh_pc := Posted\<rparr>) q1))"

text \<open>\<open>finally\<close> and the release of the semaphore.\<close>

definition release_node :: "string \<Rightarrow> job_queue \<Rightarrow> job_queue" where
  "release_node n q =
     q\<lparr>jq_in_flight := AList.update n
          (max 0 ((case map_of (jq_in_flight q) n of None \<Rightarrow> 1 | Some k \<Rightarrow> k) - 1)) (jq_in_flight q),
       jq_semaphores := AList.update n (permits q n + 1) (jq_semaphores q)\<rparr>"

text \<open>The rest of \<open>_request\<close> and the turn of \<open>_run_shard\<close> that follows it.\<close>

definition resume_shard :: "(int \<Rightarrow> rat) \<Rightarrow> registry \<Rightarrow> job \<Rightarrow> run_task \<Rightarrow> nat \<Rightarrow> http_reply \<Rightarrow> job_queue
    \<Rightarrow> job_queue" where
  "resume_shard wall reg jb tk i reply q =
     (let sh = rt_shards tk ! i; q1 = release_node (sh_node sh) q in
      case request_outcome reply of
        Inr result \<Rightarrow>
          set_shard (jb_id jb) tk i (sh\<lparr>sh_pc := Finished (Inr (JObj
            [(''shard_index'', JInt (int i)), (''node_id'', JStr (sh_node sh)), (''result'', result)]))\<rparr>) q1
      | Inl e \<Rightarrow> shard_failed wall reg jb tk i e q1)"

subsection \<open>Collecting the outcomes\<close>

fun collect_outcomes :: "int \<Rightarrow> json res list \<Rightarrow> json list \<times> (json \<times> string) list" where
  "collect_outcomes i [] = ([], [])"
| "collect_outcomes i (r # rs) =
     (let (results, errors) = collect_outcomes (i + 1) rs in
      case r of
        Inl e \<Rightarrow> (results, (JInt i, err_text e) # errors)
      | Inr v \<Rightarrow> (v # results, errors))"

definition error_json :: "json \<times> string \<Rightarrow> json" where
  "error_json e = JObj [(''shard_index'', fst e), (''error'', JStr (snd e))]"

text \<open>A hit of one search shard, as \<open>_merge_search_results\<close> keeps it.\<close>

record merged_hit =
  mh_score :: rat
  mh_node :: string
  mh_path :: string
  mh_json :: "(string, json) dict"

definition merge_hit :: "string \<Rightarrow> json \<Rightarrow> json \<Rightarrow> merged_hit option" where
  "merge_hit node_id shard_index hit =
     (case hit of
        JObj d \<Rightarrow>
          (case (jget d ''path'', jnumber (jget d ''score'')) of
             (JStr path, Some score) \<Rightarrow> Some \<lparr>mh_score = score, mh_node = node_id, mh_path = path,
                mh_json = AList.update ''shard_index'' shard_index
                            (AList.update ''source'' (JStr (node_id @ '':'' @ path))
                              (AList.update ''node_id'' (JStr node_id) d))\<rparr>
           | _ \<Rightarrow> None)
      | _ \<Rightarrow> None)"

text \<open>What one shard result contributes: its node, its embedding model and its hits.\<close>

definition shard_contribution :: "json \<Rightarrow> string \<times> string list \<times> merged_hit list" where
  "shard_contribution sj =
     (case sj of
        JObj d \<Rightarrow>
          let node_id = json_str (jget d ''node_id'') in
          (case jget d ''result'' of
             JObj r \<Rightarrow>
               (node_id,
                (case jget r ''embedding_model'' of JStr m \<Rightarrow> if m = [] then [] else [m] | _ \<Rightarrow> []),
                (case map_of r ''hits'' of
                   Some (JList hits) \<Rightarrow> List.map_filter (merge_hit node_id (jget d ''shard_index'')) hits
                 | _ \<Rightarrow> []))
           | _ \<Rightarrow> (node_id, [], []))
      | _ \<Rightarrow> ([], [], []))"

definition search_limit :: "(string, json) dict \<Rightarrow> nat" where
  "search_limit payload =
     (case map_of payload ''limit'' of Some (JInt k) \<Rightarrow> if 0 < k then nat k else 5 | _ \<Rightarrow> 5)"

definition sorted_hits :: "json list \<Rightarrow> merged_hit list" where
  "sorted_hits results =
     sort_key (\<lambda>h. (- mh_score h, mh_node h, mh_path h))
       (concat (map (\<lambda>r. snd (snd (shard_contribution r))) results))"

definition merge_search_results :: "(string, json) dict \<Rightarrow> json list \<Rightarrow> (string, json) dict res" where
  "merge_search_results payload results =
     (let models = remdups (concat (map (\<lambda>r. fst (snd (shard_contribution r))) results)) in
      if length models > 1
      then Inl (ShardExecutionError (''search nodes returned different embedding models: ''
             @ str_join '', '' (sort models)))
      else Inr ([(''hits'', JList (map (\<lambda>h. JObj (mh_json h)) (take (search_limit payload) (sorted_hits results)))),
                 (''nodes_searched'',
                    JList (map JStr (sort (remdups (map (\<lambda>r. fst (shard_contribution r)) results)))))]
                @ (case models of [] \<Rightarrow> [] | m # _ \<Rightarrow> [(''embedding_model'', JStr m)])))"

definition shard_results :: "run_task \<Rightarrow> json res list" where
  "shard_results tk = List.map_filter (\<lambda>s. case sh_pc s of Finished r \<Rightarrow> Some r | _ \<Rightarrow> None) (rt_shards tk)"

text \<open>The last stretch of \<open>_run_job\<close>, once every shard has returned.\<close>

definition finish_job :: "rat \<Rightarrow> (int \<Rightarrow> rat) \<Rightarrow> job \<Rightarrow> run_task \<Rightarrow> job_queue \<Rightarrow> job_queue" where
  "finish_job now wall jb tk q =
     (let (results, errors0) = collect_outcomes 0 (shard_results tk);
          (merged, errors) =
            (if jb_kind jb = ''search''
             then (case merge_search_results (jb_payload jb) results of
                 Inr m \<Rightarrow> (m, errors0)
               | Inl e \<Rightarrow> ([], errors0 @ [(JNull, err_text e)]))
             else ([], errors0));
          status = (if errors = [] then Done else Failed);
          jb1 = jb\<lparr>jb_status := status, jb_finished_at := Some now,
                   jb_result := Some ([(''shards'', JList results), (''errors'', JList (map error_json errors))]
                      @ merged)\<rparr>;
          message = ''Job '' @ jb_id jb @ '' '' @ status_name status
             @ (case errors of [] \<Rightarrow> [] | e # _ \<Rightarrow> '': '' @ snd e)
      in set_task (jb_id jb) (tk\<lparr>rt_state := Ended None\<rparr>)
           (jq_emit wall (if errors = [] then ''completed'' else ''failed'') jb1 None message (set_job jb1 q)))"

subsection \<open>Cancelling and closing\<close>

text \<open>
  Cancelling a started task cancels its shards, which release what they hold, and runs the
  \<open>CancelledError\<close> handler; a task that was never started ends without running any of its code.
\<close>

definition cancel_shard :: "shard \<Rightarrow> shard" where
  "cancel_shard s = (case sh_pc s of Finished _ \<Rightarrow> s
     | _ \<Rightarrow> s\<lparr>sh_pc := Finished (Inl (RuntimeError ''cancelled''))\<rparr>)"

definition cancel_job :: "rat \<Rightarrow> (int \<Rightarrow> rat) \<Rightarrow> job \<Rightarrow> run_task \<Rightarrow> job_queue \<Rightarrow> job_queue" where
  "cancel_job now wall jb tk q =
     (case rt_state tk of
        Created \<Rightarrow> set_task (jb_id jb) (tk\<lparr>rt_state := Cancelled, rt_shards := map cancel_shard (rt_shards tk)\<rparr>) q
      | Started \<Rightarrow>
          let q1 = fold release_node
                     (map sh_node (filter (\<lambda>s. sh_pc s = Posted) (rt_shards tk))) q;
              jb1 = jb\<lparr>jb_status := Failed, jb_finished_at := Some now,
                       jb_result := Some [(''shards'', JList []),
                         (''errors'', JList [JObj [(''error'', JStr ''cancelled'')]])]\<rparr>
          in set_task (jb_id jb) (tk\<lparr>rt_state := Cancelled, rt_shards := map cancel_shard (rt_shards tk)\<rparr>)
               (jq_emit wall ''cancelled'' jb1 None (''Job '' @ jb_id jb @ '' was cancelled'') (set_job jb1 q1))
      | _ \<Rightarrow> q)"

text \<open>\<open>close\<close> up to the cancellations: the job ids whose tasks it then cancels.\<close>

definition close_queue :: "job_queue \<Rightarrow> string list \<times> job_queue" where
  "close_queue q = (if jq_closed q then ([], q) else (keys (jq_tasks q), q\<lparr>jq_closed := True\<rparr>))"

definition task_finished :: "rat \<Rightarrow> (int \<Rightarrow> rat) \<Rightarrow> job \<Rightarrow> run_task \<Rightarrow> job_queue \<Rightarrow> job_queue" where
  "task_finished now wall jb tk q =
     (let q1 = q\<lparr>jq_tasks := AList.delete (jb_id jb) (jq_tasks q)\<rparr> in
      case rt_state tk of
        Ended (Some e) \<Rightarrow>
          let jb1 = jb\<lparr>jb_status := Failed, jb_finished_at := Some now,
                       jb_result := Some [(''shards'', JList []),
                         (''errors'', JList [JObj [(''error'', JStr (err_text e))]])]\<rparr>
          in jq_emit wall ''failed'' jb1 None (''Job '' @ jb_id jb @ '' failed: '' @ err_text e) (set_job jb1 q1)
      | _ \<Rightarrow> q1)"

subsection \<open>The queue as a transition system\<close>

text \<open>
  One operation of the queue. The job ids are those of \<open>uuid4().hex\<close>, which does not repeat. The
  registry is read afresh by every operation.
\<close>

inductive jq_step :: "job_queue \<Rightarrow> job_queue \<Rightarrow> bool" where
  submit: "submit wall uuid reg kind payload fanout node_id q = Inr (jb, q')
     \<Longrightarrow> uuid \<notin> set (keys (jq_jobs q)) \<Longrightarrow> jq_step q q'"
| start: "map_of (jq_tasks q) jid = Some tk \<Longrightarrow> map_of (jq_jobs q) jid = Some jb \<Longrightarrow> rt_state tk = Created
     \<Longrightarrow> jq_step q (start_job now wall jb tk q)"
| dispatch: "map_of (jq_tasks q) jid = Some tk \<Longrightarrow> map_of (jq_jobs q) jid = Some jb \<Longrightarrow> rt_state tk = Started
     \<Longrightarrow> i < length (rt_shards tk) \<Longrightarrow> sh_pc (rt_shards tk ! i) = Acquiring
     \<Longrightarrow> 0 < permits q (sh_node (rt_shards tk ! i)) \<Longrightarrow> jq_step q (dispatch_shard wall reg jb tk i q)"
| resume: "map_of (jq_tasks q) jid = Some tk \<Longrightarrow> map_of (jq_jobs q) jid = Some jb \<Longrightarrow> rt_state tk = Started
     \<Longrightarrow> i < length (rt_shards tk) \<Longrightarrow> sh_pc (rt_shards tk ! i) = Posted
     \<Longrightarrow> jq_step q (resume_shard wall reg jb tk i reply q)"
| finish: "map_of (jq_tasks q) jid = Some tk \<Longrightarrow> map_of (jq_jobs q) jid = Some jb \<Longrightarrow> rt_state tk = Started
     \<Longrightarrow> list_all (\<lambda>s. sh_pc s \<noteq> Acquiring \<and> sh_pc s \<noteq> Posted) (rt_shards tk)
     \<Longrightarrow> jq_step q (finish_job now wall jb tk q)"
| cancel: "jq_closed q \<Longrightarrow> map_of (jq_tasks q) jid = Some tk \<Longrightarrow> map_of (jq_jobs q) jid = Some jb
     \<Longrightarrow> jq_step q (cancel_job now wall jb tk q)"
| finished: "map_of (jq_tasks q) jid = Some tk \<Longrightarrow> map_of (jq_jobs q) jid = Some jb
     \<Longrightarrow> rt_state tk = Cancelled \<or> (\<exists>e. rt_state tk = Ended e)
     \<Longrightarrow> jq_step q (task_finished now wall jb tk q)"
| close: "jq_step q (snd (close_queue q))"

inductive jq_reachable :: "job_queue \<Rightarrow> bool" where
  new: "new_queue secret to ito limit port eps tos = Inr q \<Longrightarrow> jq_reachable q"
| step: "jq_reachable q \<Longrightarrow> jq_step q q' \<Longrightarrow> jq_reachable q'"

interpretation qlog: event_log jq_events jq_next_sequence qe_sequence
  "\<lambda>(wall, ev, jb, n, msg). jq_emit wall ev jb n msg"
  by unfold_locales (auto simp: jq_emit_def jq_event_def)

lemma jq_events_after_eq: "jq_events_after c q = qlog.after c q"
  by (simp add: jq_events_after_def qlog.after_def)

lemma numbered_jq_emit [simp]: "qlog.numbered q \<Longrightarrow> qlog.numbered (jq_emit wall ev jb n msg q)"
  using qlog.numbered_emit[of q "(wall, ev, jb, n, msg)"] by simp

end
