(* ===== verification/Job_Queue_Correct.thy ===== *)
theory Job_Queue_Correct
  imports Job_Queue Registry_Correct
begin

text \<open>
  The invariant of the job queue over all interleavings of its operations: the in-flight counters
  and semaphores agree with the requests that are really open, shards never go back to a node they
  have given up, and the dictionaries stay consistent.
\<close>

subsection \<open>Counting open requests\<close>

definition posted_in :: "run_task \<Rightarrow> string \<Rightarrow> int" where
  "posted_in tk n = int (length (filter (\<lambda>s. sh_pc s = Posted \<and> sh_node s = n) (rt_shards tk)))"

definition posted :: "job_queue \<Rightarrow> string \<Rightarrow> int" where
  "posted q n = (\<Sum>p\<leftarrow>jq_tasks q. posted_in (snd p) n)"

definition posted_at :: "shard \<Rightarrow> string \<Rightarrow> int" where
  "posted_at s n = (if sh_pc s = Posted \<and> sh_node s = n then 1 else 0)"

lemma length_filter_update:
  assumes "i < length xs"
  shows "int (length (filter P (xs[i := x]))) = int (length (filter P xs))
    - (if P (xs ! i) then 1 else 0) + (if P x then 1 else 0)"
proof -
  have "xs = take i xs @ xs ! i # drop (Suc i) xs" using assms by (rule id_take_nth_drop)
  then have "length (filter P xs) = length (filter P (take i xs @ xs ! i # drop (Suc i) xs))" by metis
  then show ?thesis using assms by (simp add: upd_conv_take_nth_drop)
qed

lemma posted_in_update:
  "i < length (rt_shards tk) \<Longrightarrow>
   posted_in (tk\<lparr>rt_shards := (rt_shards tk)[i := sh]\<rparr>) n
     = posted_in tk n - posted_at (rt_shards tk ! i) n + posted_at sh n"
  by (simp add: posted_in_def length_filter_update posted_at_def)

lemma posted_update_task:
  assumes "distinct (keys (jq_tasks q))" "map_of (jq_tasks q) jid = Some tk"
    "jq_tasks q' = AList.update jid tk' (jq_tasks q)"
  shows "posted q' n = posted q n - posted_in tk n + posted_in tk' n"
  unfolding posted_def assms(3) using sum_list_update_dict[OF assms(1,2), of "\<lambda>t. posted_in t n"] by simp

lemma posted_new_task:
  assumes "jid \<notin> set (keys (jq_tasks q))" "jq_tasks q' = AList.update jid tk' (jq_tasks q)"
  shows "posted q' n = posted q n + posted_in tk' n"
  unfolding posted_def assms(2) by (simp add: update_new[OF assms(1)])

lemma posted_delete_task:
  assumes "distinct (keys (jq_tasks q))" "map_of (jq_tasks q) jid = Some tk"
    "jq_tasks q' = AList.delete jid (jq_tasks q)"
  shows "posted q' n = posted q n - posted_in tk n"
  using assms unfolding posted_def
proof (induction "jq_tasks q" arbitrary: q q')
  case (Cons p d)
  obtain k t where p: "p = (k, t)" by fastforce
  show ?case
  proof (cases "k = jid")
    case True
    then have "AList.delete jid d = d" using Cons.prems(1) Cons.hyps(2)[symmetric] p
      by (simp add: delete_id)
    then show ?thesis using True p Cons.prems Cons.hyps(2)[symmetric] by simp
  next
    case False
    have "(\<Sum>p\<leftarrow>AList.delete jid d. posted_in (snd p) n) = (\<Sum>p\<leftarrow>d. posted_in (snd p) n) - posted_in tk n"
      using Cons.hyps(1)[of "q\<lparr>jq_tasks := d\<rparr>" "q\<lparr>jq_tasks := AList.delete jid d\<rparr>"] Cons.prems
        Cons.hyps(2)[symmetric] p False by simp
    then show ?thesis using False p Cons.prems Cons.hyps(2)[symmetric] by simp
  qed
qed simp

subsection \<open>The invariant\<close>

definition shard_ok :: "shard \<Rightarrow> bool" where
  "shard_ok s \<longleftrightarrow> sh_attempt s \<le> 1 \<and> sh_node s \<notin> set (sh_attempted s) \<and> distinct (sh_attempted s)"

definition task_ok :: "run_task \<Rightarrow> bool" where
  "task_ok tk \<longleftrightarrow> list_all shard_ok (rt_shards tk)
     \<and> (rt_state tk = Started \<or> list_all (\<lambda>s. sh_pc s \<noteq> Posted) (rt_shards tk))"

definition books_ok :: "job_queue \<Rightarrow> bool" where
  "books_ok q \<longleftrightarrow> distinct (keys (jq_tasks q)) \<and> set (keys (jq_tasks q)) \<subseteq> set (keys (jq_jobs q))
     \<and> (\<forall>k jb. map_of (jq_jobs q) k = Some jb \<longrightarrow> jb_id jb = k)
     \<and> set (keys (jq_fanouts q)) = set (keys (jq_jobs q))
     \<and> set (keys (jq_assigned_nodes q)) = set (keys (jq_jobs q))
     \<and> (\<forall>k tk. map_of (jq_tasks q) k = Some tk \<longrightarrow> task_ok tk)"

definition flow_ok :: "job_queue \<Rightarrow> bool" where
  "flow_ok q \<longleftrightarrow> 0 < jq_per_node_limit q
     \<and> (\<forall>n. in_flight q n = posted q n \<and> permits q n = jq_per_node_limit q - posted q n
         \<and> posted q n \<le> jq_per_node_limit q)"

definition jq_inv :: "job_queue \<Rightarrow> bool" where
  "jq_inv q \<longleftrightarrow> books_ok q \<and> flow_ok q \<and> qlog.numbered q"

lemma posted_in_nonneg: "0 \<le> posted_in tk n"
  by (simp add: posted_in_def)

lemma posted_nonneg: "0 \<le> posted q n"
  unfolding posted_def by (rule sum_list_nonneg) (auto simp: posted_in_nonneg)

lemma posted_in_none: "list_all (\<lambda>s. sh_pc s \<noteq> Posted) (rt_shards tk) \<Longrightarrow> posted_in tk n = 0"
  by (auto simp: posted_in_def list_all_iff filter_empty_conv)

lemma posted_in_le: "distinct (keys (jq_tasks q)) \<Longrightarrow> map_of (jq_tasks q) jid = Some tk \<Longrightarrow> posted_in tk n \<le> posted q n"
proof -
  assume "distinct (keys (jq_tasks q))" "map_of (jq_tasks q) jid = Some tk"
  then have "posted (q\<lparr>jq_tasks := AList.delete jid (jq_tasks q)\<rparr>) n = posted q n - posted_in tk n"
    by (rule posted_delete_task) simp
  then show ?thesis using posted_nonneg[of "q\<lparr>jq_tasks := AList.delete jid (jq_tasks q)\<rparr>" n] by simp
qed

subsection \<open>Frame facts\<close>

lemma numbered_jq_frame:
  "jq_events q' = jq_events q \<Longrightarrow> jq_next_sequence q' = jq_next_sequence q \<Longrightarrow> qlog.numbered q \<Longrightarrow> qlog.numbered q'"
  using qlog.numbered_cong[of q' q] by simp

lemma jq_emit_frame [simp]:
  "jq_jobs (jq_emit w ev jb n msg q) = jq_jobs q" "jq_fanouts (jq_emit w ev jb n msg q) = jq_fanouts q"
  "jq_assigned_nodes (jq_emit w ev jb n msg q) = jq_assigned_nodes q"
  "jq_tasks (jq_emit w ev jb n msg q) = jq_tasks q" "jq_semaphores (jq_emit w ev jb n msg q) = jq_semaphores q"
  "jq_in_flight (jq_emit w ev jb n msg q) = jq_in_flight q"
  "jq_per_node_limit (jq_emit w ev jb n msg q) = jq_per_node_limit q"
  "jq_closed (jq_emit w ev jb n msg q) = jq_closed q"
  by (simp_all add: jq_emit_def)

lemma set_frame [simp]:
  "jq_tasks (set_job jb q) = jq_tasks q" "jq_semaphores (set_job jb q) = jq_semaphores q"
  "jq_in_flight (set_job jb q) = jq_in_flight q" "jq_per_node_limit (set_job jb q) = jq_per_node_limit q"
  "jq_fanouts (set_job jb q) = jq_fanouts q" "jq_assigned_nodes (set_job jb q) = jq_assigned_nodes q"
  "jq_events (set_job jb q) = jq_events q" "jq_next_sequence (set_job jb q) = jq_next_sequence q"
  "jq_jobs (set_job jb q) = AList.update (jb_id jb) jb (jq_jobs q)"
  "jq_tasks (set_task jid tk q) = AList.update jid tk (jq_tasks q)"
  "jq_semaphores (set_task jid tk q) = jq_semaphores q" "jq_in_flight (set_task jid tk q) = jq_in_flight q"
  "jq_per_node_limit (set_task jid tk q) = jq_per_node_limit q" "jq_jobs (set_task jid tk q) = jq_jobs q"
  "jq_fanouts (set_task jid tk q) = jq_fanouts q" "jq_assigned_nodes (set_task jid tk q) = jq_assigned_nodes q"
  "jq_events (set_task jid tk q) = jq_events q" "jq_next_sequence (set_task jid tk q) = jq_next_sequence q"
  by (simp_all add: set_job_def set_task_def)

lemma numbered_set [simp]:
  "qlog.numbered (set_job jb q) = qlog.numbered q" "qlog.numbered (set_task jid tk q) = qlog.numbered q"
  "qlog.numbered (set_shard jid tk i sh q) = qlog.numbered q"
  "qlog.numbered (q\<lparr>jq_assigned_nodes := da\<rparr>) = qlog.numbered q"
  "qlog.numbered (q\<lparr>jq_semaphores := d\<rparr>) = qlog.numbered q"
  "qlog.numbered (q\<lparr>jq_semaphores := d, jq_in_flight := e\<rparr>) = qlog.numbered q"
  "qlog.numbered (q\<lparr>jq_tasks := t\<rparr>) = qlog.numbered q"
  "qlog.numbered (q\<lparr>jq_closed := b\<rparr>) = qlog.numbered q"
  "qlog.numbered (release_node n q) = qlog.numbered q"
  by (rule qlog.numbered_cong; simp add: set_shard_def release_node_def)+

text \<open>Everything \<open>flow_ok\<close> reads.\<close>

lemma flow_eq:
  assumes "jq_semaphores q' = jq_semaphores q" "jq_in_flight q' = jq_in_flight q"
    "jq_per_node_limit q' = jq_per_node_limit q"
  shows "in_flight q' = in_flight q" "permits q' = permits q"
  using assms by (auto simp: in_flight_def permits_def fun_eq_iff split: option.split)

lemma flow_ok_shift:
  assumes "flow_ok q" "jq_per_node_limit q' = jq_per_node_limit q"
    and "\<And>n. in_flight q' n = in_flight q n + d n" "\<And>n. permits q' n = permits q n - d n"
    and "\<And>n. posted q' n = posted q n + d n" "\<And>n. posted q n + d n \<le> jq_per_node_limit q"
  shows "flow_ok q'"
  using assms by (simp add: flow_ok_def)

subsection \<open>A shard that fails an attempt\<close>

lemma ranked_nodes_excluded: "n \<in> set (ranked_nodes reg q ex) \<Longrightarrow> n \<notin> set ex"
  by (auto simp: ranked_nodes_def Let_def)

lemma next_try_ok:
  assumes "next_try reg q (n, a, ex) = Some (n', a', ex')" "a \<le> 1" "n \<notin> set ex" "distinct ex"
  shows "a' \<le> 1 \<and> n' \<notin> set ex' \<and> distinct ex'"
proof (cases "a = 0")
  case True
  then show ?thesis using assms by (simp add: next_try_def)
next
  case False
  then obtain rest where "ranked_nodes reg q (ex @ [n]) = n' # rest" "a' = 0" "ex' = ex @ [n]"
    using assms(1) by (auto simp: next_try_def Let_def split: list.splits)
  then show ?thesis using assms(3,4) ranked_nodes_excluded[of n' reg q "ex @ [n]"] by auto
qed

lemma shard_failed_shape:
  assumes "map_of (jq_assigned_nodes q) (jb_id jb) \<noteq> None"
  shows "\<exists>sh'. jq_tasks (shard_failed w reg jb tk i e q)
        = AList.update (jb_id jb) (tk\<lparr>rt_shards := (rt_shards tk)[i := sh']\<rparr>) (jq_tasks q)
      \<and> sh_pc sh' \<noteq> Posted \<and> (shard_ok (rt_shards tk ! i) \<longrightarrow> shard_ok sh')"
    and "jq_semaphores (shard_failed w reg jb tk i e q) = jq_semaphores q"
    and "jq_in_flight (shard_failed w reg jb tk i e q) = jq_in_flight q"
    and "jq_per_node_limit (shard_failed w reg jb tk i e q) = jq_per_node_limit q"
    and "jq_jobs (shard_failed w reg jb tk i e q) = jq_jobs q"
    and "jq_fanouts (shard_failed w reg jb tk i e q) = jq_fanouts q"
    and "set (keys (jq_assigned_nodes (shard_failed w reg jb tk i e q))) = set (keys (jq_assigned_nodes q))"
    and "qlog.numbered q \<Longrightarrow> qlog.numbered (shard_failed w reg jb tk i e q)"
proof -
  let ?sh = "rt_shards tk ! i" and ?q' = "shard_failed w reg jb tk i e q"
  have mem: "jb_id jb \<in> set (keys (jq_assigned_nodes q))"
    using assms by (metis map_of_eq_None_iff image_set)
  consider (stop) r where "?q' = set_shard (jb_id jb) tk i (?sh\<lparr>sh_pc := Finished r\<rparr>) q"
    | (go) n a ex d ev msg where "next_try reg q (sh_node ?sh, sh_attempt ?sh, sh_attempted ?sh) = Some (n, a, ex)"
        "?q' = jq_emit w ev jb (Some n) msg ((set_shard (jb_id jb) tk i
            (?sh\<lparr>sh_node := n, sh_attempt := a, sh_attempted := ex, sh_pc := Acquiring\<rparr>) q)
            \<lparr>jq_assigned_nodes := d\<rparr>)" "set (keys d) = set (keys (jq_assigned_nodes q))"
  proof (cases "next_try reg q (sh_node ?sh, sh_attempt ?sh, sh_attempted ?sh)")
    case None
    then have "\<exists>r. ?q' = set_shard (jb_id jb) tk i (?sh\<lparr>sh_pc := Finished r\<rparr>) q"
      by (cases e) (auto simp: shard_failed_def Let_def)
    then show ?thesis using stop by blast
  next
    case (Some t)
    obtain n a ex where t: "t = (n, a, ex)" by (cases t) auto
    let ?q1 = "set_shard (jb_id jb) tk i
            (?sh\<lparr>sh_node := n, sh_attempt := a, sh_attempted := ex, sh_pc := Acquiring\<rparr>) q"
    let ?ns = "case map_of (jq_assigned_nodes q) (jb_id jb) of None \<Rightarrow> [] | Some ns \<Rightarrow> ns"
    have as: "jq_assigned_nodes ?q1 = jq_assigned_nodes q" "?q1\<lparr>jq_assigned_nodes := jq_assigned_nodes q\<rparr> = ?q1"
      by (simp_all add: set_shard_def set_task_def)
    have "retryable e \<Longrightarrow> \<exists>ev msg d. ?q' = jq_emit w ev jb (Some n) msg (?q1\<lparr>jq_assigned_nodes := d\<rparr>)
        \<and> (d = jq_assigned_nodes q \<or> d = AList.update (jb_id jb) (?ns @ [n]) (jq_assigned_nodes q))"
      using Some t as by (cases e; simp add: shard_failed_def Let_def retryable_def; metis)
    moreover have "\<not> retryable e \<Longrightarrow> \<exists>r. ?q' = set_shard (jb_id jb) tk i (?sh\<lparr>sh_pc := Finished r\<rparr>) q"
      by (cases e; simp add: shard_failed_def Let_def retryable_def; metis)
    ultimately show ?thesis using stop go[of n a ex] Some t mem by (metis keys_update_mem)
  qed
  note shape = this
  show "\<exists>sh'. jq_tasks ?q' = AList.update (jb_id jb) (tk\<lparr>rt_shards := (rt_shards tk)[i := sh']\<rparr>) (jq_tasks q)
      \<and> sh_pc sh' \<noteq> Posted \<and> (shard_ok (rt_shards tk ! i) \<longrightarrow> shard_ok sh')"
  proof (cases rule: shape)
    case (stop r)
    then show ?thesis by (intro exI[of _ "?sh\<lparr>sh_pc := Finished r\<rparr>"]) (simp add: set_shard_def shard_ok_def)
  next
    case (go n a ex d ev msg)
    then show ?thesis using next_try_ok[OF go(1)]
      by (intro exI[of _ "?sh\<lparr>sh_node := n, sh_attempt := a, sh_attempted := ex, sh_pc := Acquiring\<rparr>"])
        (simp add: set_shard_def shard_ok_def)
  qed
  show "jq_semaphores ?q' = jq_semaphores q" "jq_in_flight ?q' = jq_in_flight q"
    "jq_per_node_limit ?q' = jq_per_node_limit q" "jq_jobs ?q' = jq_jobs q" "jq_fanouts ?q' = jq_fanouts q"
    "set (keys (jq_assigned_nodes ?q')) = set (keys (jq_assigned_nodes q))"
    "qlog.numbered q \<Longrightarrow> qlog.numbered ?q'"
    by (cases rule: shape; simp add: set_shard_def)+
qed


subsection \<open>Every operation keeps the invariant\<close>

lemma books_task:
  assumes "books_ok q" "map_of (jq_tasks q) jid = Some tk" "task_ok tk'"
    "jq_tasks q' = AList.update jid tk' (jq_tasks q)" "set (keys (jq_jobs q')) = set (keys (jq_jobs q))"
    "\<forall>k jb. map_of (jq_jobs q') k = Some jb \<longrightarrow> jb_id jb = k" "jq_fanouts q' = jq_fanouts q"
    "set (keys (jq_assigned_nodes q')) = set (keys (jq_assigned_nodes q))"
  shows "books_ok q'"
proof -
  have "jid \<in> set (keys (jq_tasks q))" using assms(2) by (metis map_of_eq_None_iff image_set option.distinct(1))
  then have "keys (jq_tasks q') = keys (jq_tasks q)" using assms(4) by simp
  moreover have "\<forall>k t. map_of (jq_tasks q') k = Some t \<longrightarrow> task_ok t"
    using assms(1,3,4) by (auto simp: books_ok_def update_conv')
  ultimately show ?thesis using assms by (simp add: books_ok_def)
qed

lemma books_facts:
  assumes "books_ok q" "map_of (jq_tasks q) jid = Some tk" "map_of (jq_jobs q) jid = Some jb"
  shows "jb_id jb = jid" "task_ok tk" "map_of (jq_assigned_nodes q) (jb_id jb) \<noteq> None"
    "distinct (keys (jq_tasks q))" "jb_id jb \<in> set (keys (jq_jobs q))"
proof -
  show 1: "jb_id jb = jid" "task_ok tk" "distinct (keys (jq_tasks q))" using assms by (auto simp: books_ok_def)
  show 2: "jb_id jb \<in> set (keys (jq_jobs q))"
    using assms(3) 1(1) by (metis map_of_eq_None_iff image_set option.distinct(1))
  then have "jb_id jb \<in> set (keys (jq_assigned_nodes q))" using assms(1) by (simp add: books_ok_def)
  then show "map_of (jq_assigned_nodes q) (jb_id jb) \<noteq> None" by (metis map_of_eq_None_iff image_set)
qed

text \<open>A step that only replaces a task and leaves the counters alone.\<close>

lemma jq_inv_task:
  assumes inv: "jq_inv q" and at: "map_of (jq_tasks q) jid = Some tk"
    and t': "task_ok tk'" "\<And>n. posted_in tk' n = posted_in tk n"
    and q': "jq_tasks q' = AList.update jid tk' (jq_tasks q)" "jq_semaphores q' = jq_semaphores q"
      "jq_in_flight q' = jq_in_flight q" "jq_per_node_limit q' = jq_per_node_limit q"
      "set (keys (jq_jobs q')) = set (keys (jq_jobs q))"
      "\<forall>k jb. map_of (jq_jobs q') k = Some jb \<longrightarrow> jb_id jb = k" "jq_fanouts q' = jq_fanouts q"
      "set (keys (jq_assigned_nodes q')) = set (keys (jq_assigned_nodes q))"
      "qlog.numbered q'"
  shows "jq_inv q'"
proof -
  have b: "books_ok q" "distinct (keys (jq_tasks q))" and f: "flow_ok q"
    using inv by (auto simp: jq_inv_def books_ok_def)
  have "posted q' n = posted q n" for n
    using posted_update_task[OF b(2) at q'(1)] t'(2) by simp
  then have "flow_ok q'"
    using f flow_eq[OF q'(2,3,4)] q'(4) by (intro flow_ok_shift[OF f, where d = "\<lambda>_. 0"]) (simp_all add: flow_ok_def)
  moreover have "books_ok q'" by (rule books_task[OF b(1) at t'(1) q'(1,5,6,7,8)])
  ultimately show ?thesis using q'(9) by (simp add: jq_inv_def)
qed

lemma jobs_update_ids:
  assumes "books_ok q" "jb_id jb' \<in> set (keys (jq_jobs q))"
  shows "set (keys (AList.update (jb_id jb') jb' (jq_jobs q))) = set (keys (jq_jobs q))"
    "\<forall>k jb. map_of (AList.update (jb_id jb') jb' (jq_jobs q)) k = Some jb \<longrightarrow> jb_id jb = k"
  using assms by (auto simp: books_ok_def update_conv' simp del: set_map)

lemma books_set_job:
  assumes "books_ok q" "jb_id jb' \<in> set (keys (jq_jobs q))" shows "books_ok (set_job jb' q)"
  using assms(1) jobs_update_ids[OF assms] unfolding books_ok_def set_frame by metis

text \<open>A step that replaces a task and the job it runs, and logs one event.\<close>

lemma jq_inv_job_task:
  assumes inv: "jq_inv q" and at: "map_of (jq_tasks q) jid = Some tk" "map_of (jq_jobs q) jid = Some jb"
    and t': "task_ok tk'" "\<And>n. posted_in tk' n = posted_in tk n" and jb': "jb_id jb' = jb_id jb"
  shows "jq_inv (set_task (jb_id jb) tk' (jq_emit wall ev jb' None msg (set_job jb' q)))"
proof -
  have b: "books_ok q" "qlog.numbered q" using inv by (auto simp: jq_inv_def)
  note f = books_facts[OF b(1) at]
  have "jb_id jb' \<in> set (keys (jq_jobs q))" using f(5) jb' by simp
  note ids = jobs_update_ids[OF b(1) this]
  show ?thesis
    by (rule jq_inv_task[OF inv at(1) t'], unfold set_frame jq_emit_frame f(1))
      (rule refl ids | use b(2) in simp)+
qed

lemma jq_inv_start:
  assumes "jq_inv q" "map_of (jq_tasks q) jid = Some tk" "map_of (jq_jobs q) jid = Some jb" "rt_state tk = Created"
  shows "jq_inv (start_job now wall jb tk q)"
proof -
  have "task_ok tk" using assms by (auto simp: jq_inv_def books_ok_def)
  then have "task_ok (tk\<lparr>rt_state := Started\<rparr>)" by (simp add: task_ok_def)
  then show ?thesis unfolding start_job_def Let_def
    by (intro jq_inv_job_task[OF assms(1,2,3)]) (simp_all add: posted_in_def)
qed

lemma jq_inv_finish:
  assumes "jq_inv q" "map_of (jq_tasks q) jid = Some tk" "map_of (jq_jobs q) jid = Some jb"
    and "list_all (\<lambda>s. sh_pc s \<noteq> Acquiring \<and> sh_pc s \<noteq> Posted) (rt_shards tk)"
  shows "jq_inv (finish_job now wall jb tk q)"
proof -
  have "task_ok tk" using assms by (auto simp: jq_inv_def books_ok_def)
  then have "task_ok (tk\<lparr>rt_state := Ended None\<rparr>)" using assms(4) by (auto simp: task_ok_def list_all_iff)
  then show ?thesis unfolding finish_job_def Let_def case_prod_beta
    by (intro jq_inv_job_task[OF assms(1,2,3)]) (simp_all add: posted_in_def)
qed

lemma jq_inv_shard_failed:
  assumes b: "books_ok q" and at: "map_of (jq_tasks q) jid = Some tk" "map_of (jq_jobs q) jid = Some jb"
    and st: "rt_state tk = Started" "i < length (rt_shards tk)" and num: "qlog.numbered q"
    and fl: "0 < jq_per_node_limit q" "\<And>n. in_flight q n = posted q n - posted_at (rt_shards tk ! i) n"
      "\<And>n. permits q n = jq_per_node_limit q - posted q n + posted_at (rt_shards tk ! i) n"
      "\<And>n. posted q n - posted_at (rt_shards tk ! i) n \<le> jq_per_node_limit q"
  shows "jq_inv (shard_failed w reg jb tk i e q)"
proof -
  note f = books_facts[OF b at]
  let ?q' = "shard_failed w reg jb tk i e q"
  note sf = shard_failed_shape[OF f(3), of w reg tk i e]
  obtain sh' where sh': "jq_tasks ?q' = AList.update jid (tk\<lparr>rt_shards := (rt_shards tk)[i := sh']\<rparr>) (jq_tasks q)"
    "sh_pc sh' \<noteq> Posted" "shard_ok sh'"
    using sf(1) f(1,2) st(2) by (auto simp: task_ok_def list_all_length)
  have "list_all shard_ok ((rt_shards tk)[i := sh'])"
    using f(2) sh'(3) by (auto simp: task_ok_def list_all_iff dest: set_update_subset_insert[THEN subsetD])
  then have tk': "task_ok (tk\<lparr>rt_shards := (rt_shards tk)[i := sh']\<rparr>)" using st(1) by (simp add: task_ok_def)
  have "books_ok ?q'" using books_task[OF b at(1) tk' sh'(1)] sf b by (simp add: books_ok_def)
  moreover have "posted ?q' n = posted q n - posted_at (rt_shards tk ! i) n" for n
    using posted_update_task[OF f(4) at(1) sh'(1)] posted_in_update[OF st(2)] sh'(2) by (simp add: posted_at_def)
  then have "flow_ok ?q'" using fl flow_eq[OF sf(2,3,4)] sf(4) by (simp add: flow_ok_def)
  ultimately show ?thesis using sf(8)[OF num] by (simp add: jq_inv_def)
qed

lemma jq_inv_dispatch:
  assumes inv: "jq_inv q" and at: "map_of (jq_tasks q) jid = Some tk" "map_of (jq_jobs q) jid = Some jb"
    and st: "rt_state tk = Started" "i < length (rt_shards tk)" "sh_pc (rt_shards tk ! i) = Acquiring"
    and free: "0 < permits q (sh_node (rt_shards tk ! i))"
  shows "jq_inv (dispatch_shard w reg jb tk i q)"
proof -
  let ?sh = "rt_shards tk ! i" let ?n = "sh_node ?sh"
  let ?q0 = "q\<lparr>jq_semaphores := AList.update ?n (permits q ?n) (jq_semaphores q)\<rparr>"
  have b: "books_ok q" "flow_ok q" "qlog.numbered q" using inv by (auto simp: jq_inv_def)
  note f = books_facts[OF b(1) at]
  have p0: "permits ?q0 = permits q" "in_flight ?q0 = in_flight q"
    by (auto simp: permits_def in_flight_def update_conv' fun_eq_iff split: option.split)
  have at0: "posted_at ?sh n = 0" for n using st(3) by (simp add: posted_at_def)
  show ?thesis
  proof (cases "queue_profile reg ?n")
    case (Inl e)
    have "jq_inv (shard_failed w reg jb tk i e ?q0)"
      by (rule jq_inv_shard_failed[where jid = jid])
        (use b at st p0 at0 in \<open>simp_all add: books_ok_def flow_ok_def posted_def\<close>)
    then show ?thesis using Inl by (simp add: dispatch_shard_def Let_def)
  next
    case (Inr p)
    let ?tk' = "tk\<lparr>rt_shards := (rt_shards tk)[i := ?sh\<lparr>sh_pc := Posted\<rparr>]\<rparr>"
    let ?q' = "dispatch_shard w reg jb tk i q"
    have q': "jq_tasks ?q' = AList.update jid ?tk' (jq_tasks q)" "jq_jobs ?q' = jq_jobs q"
      "jq_fanouts ?q' = jq_fanouts q" "jq_assigned_nodes ?q' = jq_assigned_nodes q" "qlog.numbered ?q'"
      "jq_per_node_limit ?q' = jq_per_node_limit q"
      "jq_semaphores ?q' = AList.update ?n (permits q ?n - 1) (AList.update ?n (permits q ?n) (jq_semaphores q))"
      "jq_in_flight ?q' = AList.update ?n (in_flight q ?n + 1) (jq_in_flight q)"
      using Inr f(1) b(3) by (simp_all add: dispatch_shard_def Let_def set_shard_def)
    have "shard_ok ?sh" using f(2) st(2) by (auto simp: task_ok_def list_all_length)
    then have "list_all shard_ok (rt_shards ?tk')"
      using f(2) by (auto simp: task_ok_def list_all_iff shard_ok_def dest: set_update_subset_insert[THEN subsetD])
    then have "task_ok ?tk'" using st(1) by (simp add: task_ok_def)
    then have "books_ok ?q'" using books_task[OF b(1) at(1) _ q'(1)] q'(2-4) b(1) by (simp add: books_ok_def)
    have "posted ?q' n = posted q n + (if n = ?n then 1 else 0)" for n
      using posted_update_task[OF f(4) at(1) q'(1)] posted_in_update[OF st(2)] at0 by (simp add: posted_at_def)
    moreover have "in_flight ?q' n = in_flight q n + (if n = ?n then 1 else 0)" for n
      using q'(8) by (simp add: in_flight_def update_conv')
    moreover have "permits ?q' n = permits q n - (if n = ?n then 1 else 0)" for n
      using q'(6,7) by (simp add: permits_def update_conv' split: option.split)
    moreover have "posted q n + (if n = ?n then 1 else 0) \<le> jq_per_node_limit q" for n
      using b(2) free by (simp add: flow_ok_def)
    ultimately have "flow_ok ?q'" using flow_ok_shift[OF b(2) q'(6), of "\<lambda>n. if n = ?n then 1 else 0"] by blast
    then show ?thesis using \<open>books_ok ?q'\<close> q'(5) by (simp add: jq_inv_def)
  qed
qed


lemma release_node_flow:
  assumes "1 \<le> in_flight q k"
  shows "in_flight (release_node k q) n = in_flight q n - (if n = k then 1 else 0)"
    "permits (release_node k q) n = permits q n + (if n = k then 1 else 0)"
  using assms by (auto simp: release_node_def in_flight_def permits_def update_conv' split: option.splits)

lemma release_node_frame [simp]:
  "jq_jobs (release_node k q) = jq_jobs q" "jq_fanouts (release_node k q) = jq_fanouts q"
  "jq_assigned_nodes (release_node k q) = jq_assigned_nodes q" "jq_tasks (release_node k q) = jq_tasks q"
  "jq_per_node_limit (release_node k q) = jq_per_node_limit q" "posted (release_node k q) = posted q"
  by (simp_all add: release_node_def posted_def fun_eq_iff)

lemma books_frame:
  "jq_jobs q' = jq_jobs q \<Longrightarrow> jq_fanouts q' = jq_fanouts q \<Longrightarrow> jq_assigned_nodes q' = jq_assigned_nodes q
    \<Longrightarrow> jq_tasks q' = jq_tasks q \<Longrightarrow> books_ok q' = books_ok q"
  by (simp add: books_ok_def)

lemma jq_inv_resume:
  assumes inv: "jq_inv q" and at: "map_of (jq_tasks q) jid = Some tk" "map_of (jq_jobs q) jid = Some jb"
    and st: "rt_state tk = Started" "i < length (rt_shards tk)" "sh_pc (rt_shards tk ! i) = Posted"
  shows "jq_inv (resume_shard w reg jb tk i reply q)"
proof -
  let ?sh = "rt_shards tk ! i" let ?n = "sh_node ?sh" let ?q1 = "release_node ?n q"
  have b: "books_ok q" "flow_ok q" "qlog.numbered q" using inv by (auto simp: jq_inv_def)
  note f = books_facts[OF b(1) at]
  have at0: "posted_at ?sh n = (if n = ?n then 1 else 0)" for n using st(3) by (simp add: posted_at_def)
  have "1 \<le> posted_in tk ?n"
    using st(2,3) by (auto simp: posted_in_def Suc_le_eq filter_empty_conv intro!: bexI[of _ ?sh])
  then have "1 \<le> in_flight q ?n" using posted_in_le[OF f(4) at(1), of ?n] b(2) by (simp add: flow_ok_def)
  note rel = release_node_flow[OF this]
  have books1: "books_ok ?q1" using books_frame[of ?q1 q] b(1) by simp
  have le: "posted q n - (if n = ?n then 1 else 0) \<le> jq_per_node_limit q" for n
  proof -
    have "posted q n \<le> jq_per_node_limit q" using b(2) by (simp add: flow_ok_def)
    then show ?thesis by auto
  qed
  show ?thesis
  proof (cases "request_outcome reply")
    case (Inl e)
    have "jq_inv (shard_failed w reg jb tk i e ?q1)"
      by (intro jq_inv_shard_failed[where jid = jid])
        (use books1 b at st rel at0 le in \<open>simp_all add: flow_ok_def\<close>)
    then show ?thesis using Inl by (simp add: resume_shard_def Let_def)
  next
    case (Inr v)
    let ?q' = "resume_shard w reg jb tk i reply q"
    obtain r where q': "?q' = set_shard jid tk i (?sh\<lparr>sh_pc := Finished r\<rparr>) ?q1"
      using Inr f(1) by (simp add: resume_shard_def Let_def)
    let ?tk' = "tk\<lparr>rt_shards := (rt_shards tk)[i := ?sh\<lparr>sh_pc := Finished r\<rparr>]\<rparr>"
    have tasks: "jq_tasks ?q' = AList.update jid ?tk' (jq_tasks q)" unfolding q' by (simp add: set_shard_def)
    have "shard_ok ?sh" using f(2) st(2) by (auto simp: task_ok_def list_all_length)
    then have "list_all shard_ok (rt_shards ?tk')"
      using f(2) by (auto simp: task_ok_def list_all_iff shard_ok_def dest: set_update_subset_insert[THEN subsetD])
    then have "task_ok ?tk'" using st(1) by (simp add: task_ok_def)
    then have "books_ok ?q'" using books_task[OF b(1) at(1) _ tasks] b(1)
      unfolding q' by (simp add: books_ok_def set_shard_def)
    moreover have "posted ?q' n = posted q n - posted_at ?sh n" for n
      using posted_update_task[OF f(4) at(1) tasks] posted_in_update[OF st(2)] by (simp add: posted_at_def)
    moreover have "in_flight ?q' = in_flight ?q1" "permits ?q' = permits ?q1"
      unfolding q' by (rule flow_eq; simp add: set_shard_def)+
    moreover have "jq_per_node_limit ?q' = jq_per_node_limit q" unfolding q' by (simp add: set_shard_def)
    ultimately have "flow_ok ?q'" using rel at0 le
      by (intro flow_ok_shift[OF b(2), where d = "\<lambda>n. - (if n = ?n then 1 else 0)"]) simp_all
    moreover have "qlog.numbered ?q'" unfolding q' using b(3) by simp
    ultimately show ?thesis using \<open>books_ok ?q'\<close> by (simp add: jq_inv_def)
  qed
qed

lemma fold_release_flow:
  assumes "\<And>n. int (count_list ns n) \<le> in_flight q n"
  shows "in_flight (fold release_node ns q) n = in_flight q n - int (count_list ns n)
    \<and> permits (fold release_node ns q) n = permits q n + int (count_list ns n)"
  using assms
proof (induction ns arbitrary: q)
  case (Cons k ns)
  have "1 \<le> in_flight q k" using Cons.prems[of k] by simp
  note rel = release_node_flow[OF this]
  have "int (count_list ns n) \<le> in_flight (release_node k q) n" for n
    using Cons.prems[of n] by (simp add: rel split: if_splits)
  then show ?case using Cons.IH[of "release_node k q"] by (simp add: rel)
qed simp

lemma fold_release_frame [simp]:
  "jq_jobs (fold release_node ns q) = jq_jobs q" "jq_fanouts (fold release_node ns q) = jq_fanouts q"
  "jq_assigned_nodes (fold release_node ns q) = jq_assigned_nodes q"
  "jq_tasks (fold release_node ns q) = jq_tasks q"
  "jq_per_node_limit (fold release_node ns q) = jq_per_node_limit q"
  "qlog.numbered (fold release_node ns q) = qlog.numbered q"
  by (induction ns arbitrary: q) simp_all

lemma count_posted:
  "int (count_list (map sh_node (filter (\<lambda>s. sh_pc s = Posted) (rt_shards tk))) n) = posted_in tk n"
proof -
  have "count_list (map sh_node (filter P xs)) n = length (filter (\<lambda>s. P s \<and> sh_node s = n) xs)" for P xs
    by (induction xs) auto
  then show ?thesis by (simp add: posted_in_def)
qed

lemma cancel_shard_ok: "shard_ok s \<Longrightarrow> shard_ok (cancel_shard s)" "sh_pc (cancel_shard s) \<noteq> Posted"
  by (auto simp: cancel_shard_def shard_ok_def split: shard_pc.splits)

lemma jq_inv_cancel:
  assumes inv: "jq_inv q" and at: "map_of (jq_tasks q) jid = Some tk" "map_of (jq_jobs q) jid = Some jb"
  shows "jq_inv (cancel_job now w jb tk q)"
proof -
  have b: "books_ok q" "flow_ok q" "qlog.numbered q" using inv by (auto simp: jq_inv_def)
  note f = books_facts[OF b(1) at]
  let ?tk' = "tk\<lparr>rt_state := Cancelled, rt_shards := map cancel_shard (rt_shards tk)\<rparr>"
  have np: "list_all (\<lambda>s. sh_pc s \<noteq> Posted) (rt_shards ?tk')" by (simp add: list_all_iff cancel_shard_ok)
  have tk': "task_ok ?tk'" using f(2) np by (auto simp: task_ok_def list_all_iff cancel_shard_ok)
  note p0 = posted_in_none[OF np]
  show ?thesis
  proof (cases "rt_state tk")
    case Created
    then have "posted_in tk n = 0" for n using f(2) by (intro posted_in_none) (simp add: task_ok_def)
    then have "jq_inv (set_task jid ?tk' q)" using b(1,3)
      by (intro jq_inv_task[OF inv at(1) tk']) (simp_all add: p0 books_ok_def)
    then show ?thesis using Created f(1) by (simp add: cancel_job_def)
  next
    case Started
    let ?ns = "map sh_node (filter (\<lambda>s. sh_pc s = Posted) (rt_shards tk))"
    let ?q1 = "fold release_node ?ns q"
    have le: "int (count_list ?ns n) \<le> in_flight q n" for n
      using posted_in_le[OF f(4) at(1), of n] b(2) count_posted[of tk n] by (simp add: flow_ok_def)
    note rel = fold_release_flow[OF le, unfolded count_posted]
    obtain jb1 msg where q': "cancel_job now w jb tk q
        = set_task jid ?tk' (jq_emit w ''cancelled'' jb1 None msg (set_job jb1 ?q1))" "jb_id jb1 = jid"
      using Started f(1) by (simp add: cancel_job_def Let_def)
    let ?q' = "cancel_job now w jb tk q"
    have tasks: "jq_tasks ?q' = AList.update jid ?tk' (jq_tasks q)" unfolding q' by simp
    have "jb_id jb1 \<in> set (keys (jq_jobs q))" using f(1,5) q'(2) by simp
    note ids = jobs_update_ids[OF b(1) this]
    have "books_ok ?q'" by (rule books_task[OF b(1) at(1) tk' tasks])
        (unfold q'(1) set_frame jq_emit_frame fold_release_frame, (rule ids refl)+)
    moreover have "posted ?q' n = posted q n - posted_in tk n" for n
      using posted_update_task[OF f(4) at(1) tasks] p0 by simp
    moreover have "in_flight ?q' = in_flight ?q1" "permits ?q' = permits ?q1"
      unfolding q' by (rule flow_eq; simp)+
    moreover have "jq_per_node_limit ?q' = jq_per_node_limit q" "qlog.numbered ?q'" unfolding q' using b(3) by simp_all
    moreover have "posted q n - posted_in tk n \<le> jq_per_node_limit q" for n
    proof -
      have "posted q n \<le> jq_per_node_limit q" using b(2) by (simp add: flow_ok_def)
      then show ?thesis using posted_in_nonneg[of tk n] by linarith
    qed
    ultimately have "flow_ok ?q'" using rel
      by (intro flow_ok_shift[OF b(2), where d = "\<lambda>n. - posted_in tk n"]) simp_all
    then show ?thesis using \<open>books_ok ?q'\<close> \<open>qlog.numbered ?q'\<close> by (simp add: jq_inv_def)
  qed (use inv in \<open>simp_all add: cancel_job_def\<close>)
qed

lemma jq_inv_finished:
  assumes inv: "jq_inv q" and at: "map_of (jq_tasks q) jid = Some tk" "map_of (jq_jobs q) jid = Some jb"
    and st: "rt_state tk = Cancelled \<or> (\<exists>e. rt_state tk = Ended e)"
  shows "jq_inv (task_finished now w jb tk q)"
proof -
  have b: "books_ok q" "flow_ok q" "qlog.numbered q" using inv by (auto simp: jq_inv_def)
  note f = books_facts[OF b(1) at]
  let ?q1 = "q\<lparr>jq_tasks := AList.delete jid (jq_tasks q)\<rparr>" and ?q' = "task_finished now w jb tk q"
  have "posted_in tk n = 0" for n using f(2) st by (intro posted_in_none) (auto simp: task_ok_def)
  then have p1: "posted ?q1 n = posted q n" for n using posted_delete_task[OF f(4) at(1), of ?q1] by simp
  have "distinct (keys (jq_tasks ?q1))" using b(1) by (simp add: books_ok_def distinct_delete)
  moreover have "set (keys (jq_tasks ?q1)) \<subseteq> set (keys (jq_tasks q))" by (auto simp: delete_keys)
  then have "set (keys (jq_tasks ?q1)) \<subseteq> set (keys (jq_jobs ?q1))" using b(1) unfolding books_ok_def by auto
  moreover have "\<forall>k t. map_of (jq_tasks ?q1) k = Some t \<longrightarrow> task_ok t"
    using b(1) by (auto simp: books_ok_def delete_conv' split: if_splits)
  ultimately have books1: "books_ok ?q1" using b(1) by (simp add: books_ok_def)
  show ?thesis
  proof (cases "\<exists>e. rt_state tk = Ended (Some e)")
    case False
    then have "?q' = ?q1" using f(1) st by (auto simp: task_finished_def Let_def split: task_state.splits option.splits)
    then show ?thesis using books1 b p1 flow_eq[of ?q1 q] by (auto simp: jq_inv_def flow_ok_def)
  next
    case True
    then obtain jb1 msg where q': "?q' = jq_emit w ''failed'' jb1 None msg (set_job jb1 ?q1)" "jb_id jb1 = jid"
      using f(1) by (auto simp: task_finished_def Let_def)
    have "jb_id jb1 \<in> set (keys (jq_jobs ?q1))" using f(1,5) q'(2) by simp
    then have "books_ok ?q'" using books_set_job[OF books1, of jb1] books_frame[of ?q' "set_job jb1 ?q1"]
      unfolding q'(1) by simp
    moreover have "posted ?q' n = posted q n" for n using p1[of n] unfolding q' posted_def by simp
    moreover have "in_flight ?q' = in_flight q" "permits ?q' = permits q" unfolding q' by (rule flow_eq; simp)+
    moreover have "jq_per_node_limit ?q' = jq_per_node_limit q" "qlog.numbered ?q'" unfolding q' using b(3) by simp_all
    ultimately show ?thesis using b(2) by (simp add: jq_inv_def flow_ok_def)
  qed
qed


text \<open>What a successful \<open>submit\<close> did.\<close>

lemma submit_Inr:
  assumes "submit w uuid reg kind payload fanout node_id q = Inr (jb, q')"
  shows "\<exists>shards selected msg. select_nodes reg q (length shards) node_id = Inr selected
    \<and> shards = split_payload payload (case node_id of None \<Rightarrow> fanout | Some n \<Rightarrow> if n = [] then fanout else 1)
    \<and> \<not> jq_closed q \<and> 1 \<le> fanout \<and> kind \<in> set (keys (jq_endpoint_by_kind q))
    \<and> jb = \<lparr>jb_id = uuid, jb_kind = kind, jb_payload = payload, jb_node_id = node_id, jb_status = Queued,
           jb_result = None, jb_started_at = None, jb_finished_at = None\<rparr>
    \<and> q' = set_task uuid \<lparr>rt_state = Created, rt_shards = map2 new_shard shards selected\<rparr>
        (jq_emit w ''queued'' jb None msg
          (q\<lparr>jq_jobs := AList.update uuid jb (jq_jobs q),
             jq_fanouts := AList.update uuid (int (length shards)) (jq_fanouts q),
             jq_assigned_nodes := AList.update uuid selected (jq_assigned_nodes q)\<rparr>))"
  using assms unfolding submit_def Let_def set_task_def
  by (auto simp: res_simps split: if_splits simp del: set_map)

lemma jq_inv_submit:
  assumes inv: "jq_inv q" and sub: "submit w uuid reg kind payload fanout node_id q = Inr (jb, q')"
    and fresh: "uuid \<notin> set (keys (jq_jobs q))"
  shows "jq_inv q'"
proof -
  have b: "books_ok q" "flow_ok q" "qlog.numbered q" using inv by (auto simp: jq_inv_def)
  obtain shards selected msg where q': "jb_id jb = uuid"
    "q' = set_task uuid \<lparr>rt_state = Created, rt_shards = map2 new_shard shards selected\<rparr>
        (jq_emit w ''queued'' jb None msg
          (q\<lparr>jq_jobs := AList.update uuid jb (jq_jobs q),
             jq_fanouts := AList.update uuid (int (length shards)) (jq_fanouts q),
             jq_assigned_nodes := AList.update uuid selected (jq_assigned_nodes q)\<rparr>))"
    using submit_Inr[OF sub] by (metis job.select_convs(1))
  let ?tk = "\<lparr>rt_state = Created, rt_shards = map2 new_shard shards selected\<rparr>"
  have ft: "uuid \<notin> set (keys (jq_tasks q))" using fresh b(1) unfolding books_ok_def by blast
  have tk: "task_ok ?tk" "list_all (\<lambda>s. sh_pc s \<noteq> Posted) (rt_shards ?tk)"
    by (auto simp: task_ok_def list_all_iff new_shard_def shard_ok_def)
  have tasks: "jq_tasks q' = AList.update uuid ?tk (jq_tasks q)" unfolding q' by simp
  have "books_ok q'" using b(1) ft tk(1) q'(1) unfolding q'(2) books_ok_def
    by (auto simp: update_conv' set_keys_update distinct_update simp del: set_map)
  moreover have "posted q' n = posted q n" for n
    using posted_new_task[OF ft tasks] posted_in_none[OF tk(2)] by simp
  moreover have "in_flight q' = in_flight q" "permits q' = permits q" unfolding q' by (rule flow_eq; simp)+
  moreover have "jq_per_node_limit q' = jq_per_node_limit q" unfolding q' by simp
  moreover have "qlog.numbered q'" unfolding q'(2) numbered_set
    by (rule numbered_jq_emit, rule numbered_jq_frame[of _ q]) (use b(3) in simp_all)
  ultimately show ?thesis using b(2) by (simp add: jq_inv_def flow_ok_def)
qed

lemma jq_inv_close: assumes "jq_inv q" shows "jq_inv (snd (close_queue q))"
proof -
  have "jq_inv (q\<lparr>jq_closed := True\<rparr>)"
    using assms by (simp add: jq_inv_def books_ok_def flow_ok_def posted_def in_flight_def permits_def cong: option.case_cong)
  then show ?thesis using assms by (simp add: close_queue_def)
qed

lemma jq_inv_step: "jq_step q q' \<Longrightarrow> jq_inv q \<Longrightarrow> jq_inv q'"
proof (induction rule: jq_step.induct)
  case (submit wall uuid reg kind payload fanout node_id q jb q')
  then show ?case using jq_inv_submit by blast
qed (auto intro: jq_inv_start jq_inv_dispatch jq_inv_resume jq_inv_finish jq_inv_cancel
    jq_inv_finished jq_inv_close)

lemma jq_inv_new: "new_queue secret to ito limit port eps tos = Inr q \<Longrightarrow> jq_inv q"
  by (auto simp: new_queue_def jq_inv_def books_ok_def flow_ok_def posted_def in_flight_def permits_def
      qlog.numbered_empty split: if_splits)

lemma jq_reachable_inv: "jq_reachable q \<Longrightarrow> jq_inv q"
  by (induction rule: jq_reachable.induct) (auto intro: jq_inv_new jq_inv_step)

end
