(* ===== verification/Job_Queue_Properties.thy ===== *)
theory Job_Queue_Properties
  imports Job_Queue_Correct Registry_Properties
begin

text \<open>The properties of the job queue (\<open>ctl/queue.py\<close>), each with a concrete witness.\<close>

subsection \<open>Splitting and ranking\<close>

lemma deal_nth:
  "length chunks = n \<Longrightarrow> i < n \<Longrightarrow>
   deal n k vs chunks ! i = chunks ! i @ nths vs {j. (k + j) mod n = i} \<and> length (deal n k vs chunks) = n"
proof (induction vs arbitrary: k chunks)
  case (Cons v vs)
  let ?c = "chunks[k mod n := chunks ! (k mod n) @ [v]]"
  have "deal n (Suc k) vs ?c ! i = ?c ! i @ nths vs {j. (Suc k + j) mod n = i} \<and> length (deal n (Suc k) vs ?c) = n"
    using Cons by simp
  then show ?case using Cons.prems by (auto simp: nths_Cons nth_list_update)
qed simp

lemma mset_deal:
  "length chunks = n \<Longrightarrow> 0 < n \<Longrightarrow> mset (concat (deal n k vs chunks)) = mset (concat chunks) + mset vs"
proof (induction vs arbitrary: k chunks)
  case (Cons v vs)
  have upd: "mset (concat (xs[i := xs ! i @ [v]])) = mset (concat xs) + {#v#}" if "i < length xs" for xs i
    using that by (induction xs arbitrary: i) (auto simp: less_Suc_eq_0_disj)
  have "k mod n < length chunks" using Cons.prems by simp
  then show ?case using Cons.IH[of "chunks[k mod n := chunks ! (k mod n) @ [v]]" "Suc k"] Cons.prems upd by simp
qed simp

lemma split_payload_tasks:
  assumes "jget payload ''tasks'' = JList vs" "vs \<noteq> []"
  shows "split_payload payload f = map (\<lambda>c. AList.update ''tasks'' (JList c) payload)
    (deal (nat (min f (int (length vs)))) 0 vs (replicate (nat (min f (int (length vs)))) []))"
  using assms by (simp add: split_payload_def Let_def)

text \<open>
  Splitting a payload with a task list deals the tasks out completely and fairly: there are
  as many shards as the smaller of fan-out and task count, shard \<open>i\<close> is the payload with exactly the
  tasks whose position is \<open>i\<close> modulo that number, in order, and together the shards hold every task
  once.
\<close>

theorem split_payload_deals_all:
  assumes "jget payload ''tasks'' = JList vs" "vs \<noteq> []" "1 \<le> f"
  defines "n \<equiv> nat (min f (int (length vs)))"
  shows "\<exists>chunks. split_payload payload f = map (\<lambda>c. AList.update ''tasks'' (JList c) payload) chunks
    \<and> length chunks = n \<and> (\<forall>i < n. chunks ! i = nths vs {j. j mod n = i}) \<and> mset (concat chunks) = mset vs"
proof -
  have n: "0 < n" using assms by (cases vs) (auto simp: n_def)
  let ?d = "deal n 0 vs (replicate n [])"
  have "?d ! i = nths vs {j. j mod n = i} \<and> length ?d = n" if "i < n" for i
    using deal_nth[of "replicate n []" n i 0 vs] that by simp
  moreover have "mset (concat ?d) = mset vs" using mset_deal[of "replicate n []" n 0 vs] n by simp
  ultimately show ?thesis using split_payload_tasks[OF assms(1,2), of f] n unfolding n_def by blast
qed

theorem split_payload_deals_all_witness:
  "split_payload [(''tasks'', JList [JInt 1, JInt 2, JInt 3]), (''x'', JNull)] 2
     = [[(''tasks'', JList [JInt 1, JInt 3]), (''x'', JNull)], [(''tasks'', JList [JInt 2]), (''x'', JNull)]]
   \<and> (\<exists>chunks. mset (concat chunks) = mset [JInt 1, JInt 2, JInt 3] \<and> length chunks = 2)"
proof (intro conjI)
  show "split_payload [(''tasks'', JList [JInt 1, JInt 2, JInt 3]), (''x'', JNull)] 2
     = [[(''tasks'', JList [JInt 1, JInt 3]), (''x'', JNull)], [(''tasks'', JList [JInt 2]), (''x'', JNull)]]"
    by code_simp
  show "\<exists>chunks. mset (concat chunks) = mset [JInt 1, JInt 2, JInt 3] \<and> length chunks = 2"
    using split_payload_deals_all[of "[(''tasks'', JList [JInt 1, JInt 2, JInt 3]), (''x'', JNull)]"
        "[JInt 1, JInt 2, JInt 3]" 2] by (auto simp: jget_def)
qed

definition node_load :: "registry \<Rightarrow> job_queue \<Rightarrow> string \<Rightarrow> int" where
  "node_load reg q n =
     (case map_of (rg_nodes reg) n of Some rec \<Rightarrow> (case nr_metrics rec of Some m \<Rightarrow> nm_jobs_running m | None \<Rightarrow> 0)
      | None \<Rightarrow> 0) + in_flight q n"

definition eligible :: "registry \<Rightarrow> string list \<Rightarrow> string \<Rightarrow> bool" where
  "eligible reg excluded n \<longleftrightarrow> n \<notin> set excluded
     \<and> (\<exists>rec. map_of (rg_nodes reg) n = Some rec
          \<and> np_state (nr_profile rec) \<noteq> Joining \<and> np_state (nr_profile rec) \<noteq> Offline)"

lemma map_of_latest_metrics:
  assumes "rg_reachable reg" "map_of (rg_nodes reg) n = Some rec"
  shows "map_of (map (\<lambda>m. (nm_node_id m, m)) (latest_metrics reg)) n = nr_metrics rec"
proof -
  have inv: "nodes_ok reg" using rg_reachable_inv[OF assms(1)] by (simp add: rg_inv_def)
  have owner: "nm_node_id m = k" if "(k, r) \<in> set (rg_nodes reg)" "nr_metrics r = Some m" for k r m
    using that inv by (auto simp: nodes_ok_def rec_ok_def dest: map_of_is_SomeI)
  have "map_of (map (\<lambda>m. (nm_node_id m, m)) (List.map_filter (\<lambda>(_, r). nr_metrics r) d)) n
      = (case map_of d n of None \<Rightarrow> None | Some r \<Rightarrow> nr_metrics r)"
    if "set d \<subseteq> set (rg_nodes reg)" "distinct (keys d)" for d
    using that
  proof (induction d)
    case (Cons p d)
    obtain k r where p: "p = (k, r)" by fastforce
    have "map_of d k = None" using Cons.prems(2) p by (simp add: map_of_eq_None_iff)
    then show ?case using Cons p owner[of k r] by (auto simp: List.map_filter_simps split: option.splits)
  qed (simp add: List.map_filter_simps)
  from this[of "rg_nodes reg"] show ?thesis using inv assms(2) by (simp add: latest_metrics_def nodes_ok_def)
qed

text \<open>
  Over a reachable registry \<open>_ranked_nodes\<close> returns each eligible node exactly once, least
  busy first: the nodes that are registered, neither joining nor offline and not excluded, ordered
  by the jobs they report plus the requests open on them, with ties broken by id.
\<close>

theorem ranked_nodes_exact:
  assumes "rg_reachable reg"
  shows "set (ranked_nodes reg q ex) = {n. eligible reg ex n} \<and> distinct (ranked_nodes reg q ex)
    \<and> sorted (map (\<lambda>n. (node_load reg q n, n)) (ranked_nodes reg q ex))"
proof -
  have inv: "nodes_ok reg" using rg_reachable_inv[OF assms] by (simp add: rg_inv_def)
  let ?ps = "filter (\<lambda>p. np_id p \<notin> set ex \<and> np_state p \<noteq> Joining \<and> np_state p \<noteq> Offline) (list_profiles reg)"
  let ?md = "dict_of (map (\<lambda>m. (nm_node_id m, m)) (latest_metrics reg))"
  let ?load = "\<lambda>p. (case map_of ?md (np_id p) of None \<Rightarrow> 0 | Some m \<Rightarrow> nm_jobs_running m)
      + (case map_of (jq_in_flight q) (np_id p) of None \<Rightarrow> 0 | Some k \<Rightarrow> k)"
  have rk: "ranked_nodes reg q ex = map np_id (sort_key (\<lambda>p. (?load p, np_id p)) ?ps)"
    by (simp add: ranked_nodes_def Let_def)
  have mem: "p \<in> set (list_profiles reg) \<longleftrightarrow> (\<exists>rec. map_of (rg_nodes reg) (np_id p) = Some rec \<and> nr_profile rec = p)" for p
    by (rule list_profiles_mem[OF assms])
  have md: "map_of ?md = map_of (map (\<lambda>m. (nm_node_id m, m)) (latest_metrics reg))"
    using latest_metrics_distinct[OF assms] by (intro map_of_dict_of_distinct) (simp add: comp_def)
  have rec_id: "np_id (nr_profile rec) = n" if "map_of (rg_nodes reg) n = Some rec" for n rec
    using inv that by (simp add: nodes_ok_def rec_ok_def)
  have load: "?load p = node_load reg q (np_id p)" if p: "p \<in> set (list_profiles reg)" for p
  proof -
    obtain rec where rec: "map_of (rg_nodes reg) (np_id p) = Some rec" using p mem by blast
    show ?thesis using map_of_latest_metrics[OF assms rec] rec md
      by (simp add: node_load_def in_flight_def split: option.split)
  qed
  have "set (ranked_nodes reg q ex) = np_id ` set ?ps" unfolding rk by simp
  also have "\<dots> = {n. eligible reg ex n}"
    using rec_id unfolding eligible_def by (auto simp: mem image_iff)
  finally have s: "set (ranked_nodes reg q ex) = {n. eligible reg ex n}" .
  have "distinct (map np_id ?ps)" by (rule distinct_map_filter[OF list_profiles_distinct[OF assms]])
  then have d: "distinct (ranked_nodes reg q ex)" unfolding rk by (simp add: distinct_map)
  have "map (\<lambda>n. (node_load reg q n, n)) (ranked_nodes reg q ex)
      = map (\<lambda>p. (?load p, np_id p)) (sort_key (\<lambda>p. (?load p, np_id p)) ?ps)"
    unfolding rk by (simp add: load)
  then have "sorted (map (\<lambda>n. (node_load reg q n, n)) (ranked_nodes reg q ex))" by simp
  then show ?thesis using s d by blast
qed

definition sample_queue :: job_queue where
  "sample_queue = (case new_queue ''pool'' 2 30 1 9100 [] [] of Inr q \<Rightarrow> q)"

lemma sample_queue_new: "new_queue ''pool'' 2 30 1 9100 [] [] = Inr sample_queue"
  by (simp add: sample_queue_def new_queue_def)

definition busy_registry :: registry where
  "busy_registry = fold (rg_step of_int) [Op_heartbeat 5 ''a'' (Some
     \<lparr>nm_node_id = ''a'', nm_timestamp = 5, nm_cpu_percent = 50, nm_ram_free_mb = 900, nm_gpu_percent = None,
      nm_vram_free_mb = None, nm_jobs_running = 2\<rparr>)] sample_registry"

lemma busy_registry_reachable: "rg_reachable busy_registry"
  unfolding busy_registry_def by (rule fold_reachable[OF sample_registry_reachable])

theorem ranked_nodes_exact_witness:
  "ranked_nodes busy_registry sample_queue [] = [''b'', ''a''] \<and> distinct (ranked_nodes busy_registry sample_queue [])"
proof (intro conjI)
  show "ranked_nodes busy_registry sample_queue [] = [''b'', ''a'']" by code_simp
  show "distinct (ranked_nodes busy_registry sample_queue [])"
    using ranked_nodes_exact[OF busy_registry_reachable] by blast
qed

subsection \<open>Concurrency\<close>

text \<open>
  C25. No node ever has more open requests than the limit: in every state the interleaved
  operations of the queue can reach, the in-flight counter of a node is the number of shards waiting
  for its answer, that number is at most \<open>per_node_limit\<close>, and the node's semaphore holds exactly the
  remaining permits, so that none is lost, through retries, reassignment and cancellation.
\<close>

theorem in_flight_bounded:
  assumes "jq_reachable q"
  shows "in_flight q n = posted q n \<and> posted q n \<le> jq_per_node_limit q
    \<and> permits q n = jq_per_node_limit q - posted q n"
  using jq_reachable_inv[OF assms] by (simp add: jq_inv_def flow_ok_def)

theorem in_flight_bounded_witness: "in_flight sample_queue ''a'' = posted sample_queue ''a''"
  using in_flight_bounded[OF jq_reachable.new[OF sample_queue_new]] by blast

subsection \<open>Retries\<close>

text \<open>
  The attempts a shard makes when attempt after attempt fails, each failure meeting the registry
  and queue of its own moment.
\<close>

fun trail :: "(registry \<times> job_queue) list \<Rightarrow> string \<times> nat \<times> string list \<Rightarrow> (string \<times> nat \<times> string list) list" where
  "trail [] t = [t]"
| "trail ((r, q) # rs) t = t # (case next_try r q t of None \<Rightarrow> [] | Some t' \<Rightarrow> trail rs t')"

lemma trail_count:
  "m \<notin> set ex \<Longrightarrow> distinct ex \<Longrightarrow> a \<le> 1 \<Longrightarrow>
   count_list (map fst (trail rs (m, a, ex))) n \<le> (if n \<in> set ex then 0 else if n = m then 2 - a else 2)"
proof (induction rs arbitrary: m a ex)
  case (Cons rq rs)
  obtain r q where rq: "rq = (r, q)" by fastforce
  show ?case
  proof (cases "next_try r q (m, a, ex)")
    case None
    then show ?thesis using Cons.prems rq by auto
  next
    case (Some t)
    obtain m' a' ex' where t: "t = (m', a', ex')" by (cases t) auto
    have ok: "a' \<le> 1 \<and> m' \<notin> set ex' \<and> distinct ex'"
      using next_try_ok[OF Some[unfolded t]] Cons.prems by blast
    have IH: "count_list (map fst (trail rs t)) n
        \<le> (if n \<in> set ex' then 0 else if n = m' then 2 - a' else 2)"
      using Cons.IH[of m' ex' a'] ok t by simp
    have "a = 0 \<and> m' = m \<and> a' = 1 \<and> ex' = ex \<or> a = 1 \<and> a' = 0 \<and> ex' = ex @ [m]"
      using Some t Cons.prems(3) by (auto simp: next_try_def Let_def split: if_splits list.splits)
    then show ?thesis using IH Some rq Cons.prems(1) by (auto split: if_splits)
  qed
qed (auto simp: le_Suc_eq)

lemma trail_nodes:
  assumes "\<forall>(r, q) \<in> set rs. set (map np_id (list_profiles r)) \<subseteq> V"
  shows "fst ` set (trail rs (m, a, ex)) \<subseteq> insert m V"
  using assms
proof (induction rs arbitrary: m a ex)
  case (Cons rq rs)
  obtain r q where rq: "rq = (r, q)" by fastforce
  show ?case
  proof (cases "next_try r q (m, a, ex)")
    case (Some t)
    obtain m' a' ex' where t: "t = (m', a', ex')" by (cases t) auto
    have "ranked_nodes r q ex \<noteq> [] \<longrightarrow> set (ranked_nodes r q ex) \<subseteq> V" for ex
      using Cons.prems rq by (auto simp: ranked_nodes_def Let_def)
    then have "m' \<in> insert m V" using Some t
      by (auto simp: next_try_def Let_def split: if_splits list.splits) (metis list.distinct(1) list.set_intros(1) subsetD)
    then show ?thesis using Cons.IH[of m' a' ex'] Cons.prems Some t rq by auto
  qed (use rq in auto)
qed simp

text \<open>
  C26. A shard cannot retry forever: however the registry changes in between, it sends at most two
  requests to any one node and never returns to a node it has left, so if all nodes that ever appear
  lie in a finite set it gives up after at most two attempts per node.
\<close>

theorem shard_attempts_bounded:
  assumes "finite V" "\<forall>(r, q) \<in> set rs. set (map np_id (list_profiles r)) \<subseteq> V"
  shows "count_list (map fst (trail rs (first, 0, []))) n \<le> 2
    \<and> length (trail rs (first, 0, [])) \<le> 2 * (card V + 1)"
proof -
  let ?xs = "map fst (trail rs (first, 0, []))"
  have c: "count_list ?xs k \<le> 2" for k using trail_count[of first "[]" 0 rs k] by (simp split: if_splits)
  have "length ?xs = sum (count_list ?xs) (set ?xs)" by (rule sum_count_set[symmetric]) auto
  also have "\<dots> \<le> sum (\<lambda>_. 2) (set ?xs)" using c by (intro sum_mono)
  also have "\<dots> = 2 * card (set ?xs)" by simp
  also have "card (set ?xs) \<le> card (insert first V)"
    using trail_nodes[OF assms(2), of first 0 "[]"] assms(1) by (intro card_mono) auto
  also have "\<dots> \<le> card V + 1" using assms(1) by (simp add: card_insert_if)
  finally show ?thesis using c by simp
qed

theorem shard_attempts_bounded_witness:
  "map fst (trail (replicate 9 (busy_registry, sample_queue)) (''a'', 0, [])) = [''a'', ''a'', ''b'', ''b'']
   \<and> length (trail (replicate 9 (busy_registry, sample_queue)) (''a'', 0, [])) \<le> 2 * (card {''a'', ''b''} + 1)"
proof (intro conjI)
  show "map fst (trail (replicate 9 (busy_registry, sample_queue)) (''a'', 0, [])) = [''a'', ''a'', ''b'', ''b'']"
    by code_simp
  have "list_all (\<lambda>n. n \<in> set [''a'', ''b'']) (map np_id (list_profiles busy_registry))" by code_simp
  then have "set (map np_id (list_profiles busy_registry)) \<subseteq> {''a'', ''b''}" by (auto simp: list_all_iff)
  then show "length (trail (replicate 9 (busy_registry, sample_queue)) (''a'', 0, [])) \<le> 2 * (card {''a'', ''b''} + 1)"
    using shard_attempts_bounded[of "{''a'', ''b''}" "replicate 9 (busy_registry, sample_queue)" "''a''"] by auto
qed


subsection \<open>The life of a job\<close>

definition state_status_ok :: "task_state \<Rightarrow> job_status \<Rightarrow> bool" where
  "state_status_ok st js \<longleftrightarrow> (case st of Created \<Rightarrow> js = Queued | Started \<Rightarrow> js = Running
     | Ended e \<Rightarrow> e = None | Cancelled \<Rightarrow> True)"

definition status_ok :: "job_queue \<Rightarrow> bool" where
  "status_ok q \<longleftrightarrow> (\<forall>jid tk jb. map_of (jq_tasks q) jid = Some tk \<longrightarrow> map_of (jq_jobs q) jid = Some jb
     \<longrightarrow> state_status_ok (rt_state tk) (jb_status jb))"

lemma state_status_simps [simp]:
  "state_status_ok Created js \<longleftrightarrow> js = Queued" "state_status_ok Started js \<longleftrightarrow> js = Running"
  "state_status_ok (Ended e) js \<longleftrightarrow> e = None" "state_status_ok Cancelled js"
  by (simp_all add: state_status_ok_def)

lemma status_at: "status_ok q \<Longrightarrow> map_of (jq_tasks q) jid = Some tk \<Longrightarrow> map_of (jq_jobs q) jid = Some jb
    \<Longrightarrow> state_status_ok (rt_state tk) (jb_status jb)"
  by (simp add: status_ok_def)

definition forward :: "job \<Rightarrow> job \<Rightarrow> bool" where
  "forward jb jb' \<longleftrightarrow> jb_id jb' = jb_id jb \<and> jb_kind jb' = jb_kind jb \<and> jb_payload jb' = jb_payload jb
     \<and> (jb_status jb, jb_status jb') \<in> {(Queued, Queued), (Queued, Running), (Running, Running),
          (Running, Done), (Running, Failed), (Done, Done), (Failed, Failed)}"

lemma forward_refl: "forward jb jb"
  by (cases "jb_status jb") (simp_all add: forward_def)

definition moves :: "job_queue \<Rightarrow> job_queue \<Rightarrow> bool" where
  "moves q q' \<longleftrightarrow> status_ok q' \<and> (\<forall>jid jb. map_of (jq_jobs q) jid = Some jb \<longrightarrow>
     (\<exists>jb'. map_of (jq_jobs q') jid = Some jb' \<and> forward jb jb'))"

lemma moves_task:
  assumes "status_ok q" "map_of (jq_jobs q) jid = Some jb" "forward jb jb'" "state_status_ok (rt_state tk') (jb_status jb')"
    "map_of (jq_jobs q') = (map_of (jq_jobs q))(jid \<mapsto> jb')" "map_of (jq_tasks q') = (map_of (jq_tasks q))(jid \<mapsto> tk')"
  shows "moves q q'"
  using assms forward_refl by (auto simp: moves_def status_ok_def)

lemma moves_same_jobs:
  assumes "status_ok q" "map_of (jq_tasks q) jid = Some tk" "jq_jobs q' = jq_jobs q"
    "jq_tasks q' = AList.update jid tk' (jq_tasks q)" "rt_state tk' = rt_state tk"
  shows "moves q q'"
  using assms forward_refl by (auto simp: moves_def status_ok_def update_conv')

lemma moves_submit:
  assumes sub: "submit wall uuid reg kind payload fanout node_id q = Inr (jb, q')"
    and fresh: "uuid \<notin> set (keys (jq_jobs q))" and ok: "jq_inv q" "status_ok q"
  shows "moves q q'"
proof -
  have "uuid \<notin> set (keys (jq_tasks q))" using fresh ok(1) unfolding jq_inv_def books_ok_def by blast
  then have t: "map_of (jq_tasks q) uuid = None" "map_of (jq_jobs q) uuid = None"
    using fresh by (simp_all add: map_of_eq_None_iff)
  have "jb_status jb = Queued \<and> (\<exists>tk. rt_state tk = Created
      \<and> map_of (jq_jobs q') = (map_of (jq_jobs q))(uuid \<mapsto> jb) \<and> map_of (jq_tasks q') = (map_of (jq_tasks q))(uuid \<mapsto> tk))"
    using submit_Inr[OF sub] by (elim exE conjE) (rule conjI, simp, rule exI, rule conjI[rotated], rule conjI,
        simp add: update_conv', simp add: update_conv', simp)
  then show ?thesis using ok(2) t forward_refl
    by (auto simp: moves_def status_ok_def split: if_splits)
qed

lemma moves_dispatch:
  assumes ok: "jq_inv q" "status_ok q" and at: "map_of (jq_tasks q) jid = Some tk" "map_of (jq_jobs q) jid = Some jb"
  shows "moves q (dispatch_shard wall reg jb tk i q)"
proof -
  have b: "books_ok q" using ok by (simp add: jq_inv_def)
  note f = books_facts[OF b at]
  let ?q0 = "q\<lparr>jq_semaphores := AList.update (sh_node (rt_shards tk ! i)) (permits q (sh_node (rt_shards tk ! i))) (jq_semaphores q)\<rparr>"
  have "map_of (jq_assigned_nodes ?q0) (jb_id jb) \<noteq> None" using f(3) by simp
  note sf = shard_failed_shape[OF this, of wall reg tk i]
  have "\<exists>sh'. jq_tasks (dispatch_shard wall reg jb tk i q)
      = AList.update jid (tk\<lparr>rt_shards := (rt_shards tk)[i := sh']\<rparr>) (jq_tasks q)
      \<and> jq_jobs (dispatch_shard wall reg jb tk i q) = jq_jobs q"
  proof (cases "queue_profile reg (sh_node (rt_shards tk ! i))")
    case (Inl e)
    then show ?thesis using sf(1,5)[of e] f(1) by (auto simp: dispatch_shard_def Let_def)
  next
    case (Inr p)
    then show ?thesis using f(1) by (auto simp: dispatch_shard_def Let_def set_shard_def)
  qed
  then show ?thesis using moves_same_jobs[OF ok(2) at(1)] by fastforce
qed

lemma moves_resume:
  assumes ok: "jq_inv q" "status_ok q" and at: "map_of (jq_tasks q) jid = Some tk" "map_of (jq_jobs q) jid = Some jb"
  shows "moves q (resume_shard wall reg jb tk i reply q)"
proof -
  have b: "books_ok q" using ok by (simp add: jq_inv_def)
  note f = books_facts[OF b at]
  let ?q0 = "release_node (sh_node (rt_shards tk ! i)) q"
  have "map_of (jq_assigned_nodes ?q0) (jb_id jb) \<noteq> None" using f(3) by simp
  note sf = shard_failed_shape[OF this, of wall reg tk i]
  have "\<exists>sh'. jq_tasks (resume_shard wall reg jb tk i reply q)
      = AList.update jid (tk\<lparr>rt_shards := (rt_shards tk)[i := sh']\<rparr>) (jq_tasks q)
      \<and> jq_jobs (resume_shard wall reg jb tk i reply q) = jq_jobs q"
  proof (cases "request_outcome reply")
    case (Inl e)
    then show ?thesis using sf(1,5)[of e] f(1) by (auto simp: resume_shard_def Let_def)
  next
    case (Inr p)
    then show ?thesis using f(1) by (auto simp: resume_shard_def Let_def set_shard_def)
  qed
  then show ?thesis using moves_same_jobs[OF ok(2) at(1)] by fastforce
qed

lemma moves_cancel:
  assumes ok: "jq_inv q" "status_ok q" and at: "map_of (jq_tasks q) jid = Some tk" "map_of (jq_jobs q) jid = Some jb"
  shows "moves q (cancel_job now wall jb tk q)"
proof -
  have f: "jb_id jb = jid" "state_status_ok (rt_state tk) (jb_status jb)"
    using ok at status_at[OF ok(2) at] by (simp_all add: jq_inv_def books_ok_def)
  let ?tk' = "tk\<lparr>rt_state := Cancelled, rt_shards := map cancel_shard (rt_shards tk)\<rparr>"
  show ?thesis
  proof (cases "rt_state tk")
    case Created
    show ?thesis by (rule moves_task[OF ok(2) at(2), where jb' = jb and tk' = ?tk'])
        (use Created f at in \<open>auto simp: cancel_job_def update_conv' forward_refl\<close>)
  next
    case Started
    let ?jb1 = "jb\<lparr>jb_status := Failed, jb_finished_at := Some now, jb_result := Some [(''shards'', JList []),
        (''errors'', JList [JObj [(''error'', JStr ''cancelled'')]])]\<rparr>"
    show ?thesis by (rule moves_task[OF ok(2) at(2), where jb' = ?jb1 and tk' = ?tk'])
        (use Started f in \<open>auto simp: cancel_job_def Let_def update_conv' forward_def\<close>)
  qed (use ok forward_refl in \<open>auto simp: cancel_job_def moves_def\<close>)
qed

lemma moves_step:
  assumes "jq_step q q'" "jq_inv q" "status_ok q" shows "moves q q'"
  using assms
proof (induction rule: jq_step.induct)
  case (start q jid tk jb now wall)
  have f: "jb_id jb = jid" "jb_status jb = Queued"
    using start status_at[OF start(5,1,2)] by (simp_all add: jq_inv_def books_ok_def)
  show ?case by (rule moves_task[OF start(5,2), where jb' = "jb\<lparr>jb_status := Running, jb_started_at := Some now\<rparr>"
        and tk' = "tk\<lparr>rt_state := Started\<rparr>"])
      (use f in \<open>simp_all add: start_job_def Let_def update_conv' forward_def\<close>)
next
  case (finish q jid tk jb now wall)
  have f: "jb_id jb = jid" "jb_status jb = Running"
    using finish status_at[OF finish(6,1,2)] by (simp_all add: jq_inv_def books_ok_def)
  obtain jb1 ev msg where q': "finish_job now wall jb tk q = set_task jid (tk\<lparr>rt_state := Ended None\<rparr>)
      (jq_emit wall ev jb1 None msg (set_job jb1 q))" "jb_id jb1 = jid" "jb_kind jb1 = jb_kind jb"
      "jb_payload jb1 = jb_payload jb" "jb_status jb1 \<in> {Done, Failed}"
    using f(1) by (simp add: finish_job_def Let_def case_prod_beta)
  show ?case unfolding q'(1) by (rule moves_task[OF finish(6,2), where jb' = jb1 and tk' = "tk\<lparr>rt_state := Ended None\<rparr>"])
      (use f q' in \<open>auto simp: update_conv' forward_def\<close>)
next
  case (finished q jid tk jb now wall)
  have "rt_state tk = Cancelled \<or> rt_state tk = Ended None"
    using finished(3) status_at[OF finished(5,1,2)] by auto
  then have "task_finished now wall jb tk q = q\<lparr>jq_tasks := AList.delete (jb_id jb) (jq_tasks q)\<rparr>"
    by (auto simp: task_finished_def Let_def)
  then show ?case using finished(5) forward_refl by (auto simp: moves_def status_ok_def delete_conv' split: if_splits)
next
  case (close q)
  then show ?case using forward_refl by (auto simp: moves_def close_queue_def status_ok_def)
qed (auto intro: moves_submit moves_dispatch moves_resume moves_cancel)

lemma status_ok_reachable: "jq_reachable q \<Longrightarrow> status_ok q"
proof (induction rule: jq_reachable.induct)
  case (new secret to ito limit port eps tos q)
  then show ?case by (auto simp: new_queue_def status_ok_def split: if_splits)
next
  case (step q q')
  then show ?case using moves_step[OF step(2) jq_reachable_inv[OF step(1)]] by (simp add: moves_def)
qed

text \<open>
  C27. Jobs only move forward: whatever operation the queue performs next, every job it knows stays
  known with its id, kind and payload, and its status either stays or goes from queued to running or
  from running to done or failed; a done or failed job never changes its status again.
\<close>

theorem job_status_forward:
  assumes "jq_reachable q" "jq_step q q'" "map_of (jq_jobs q) jid = Some jb"
  shows "\<exists>jb'. map_of (jq_jobs q') jid = Some jb' \<and> forward jb jb'"
  using moves_step[OF assms(2) jq_reachable_inv[OF assms(1)] status_ok_reachable[OF assms(1)]] assms(3)
  by (auto simp: moves_def)

definition sample_submitted :: job_queue where
  "sample_submitted = (case submit of_int ''j1'' busy_registry ''exec'' [] 2 None sample_queue of Inr (_, q) \<Rightarrow> q)"

lemma sample_submitted_ok:
  "\<exists>jb. submit of_int ''j1'' busy_registry ''exec'' [] 2 None sample_queue = Inr (jb, sample_submitted)"
proof -
  have "isl (submit of_int ''j1'' busy_registry ''exec'' [] 2 None sample_queue) = False" by code_simp
  then show ?thesis
    by (cases "submit of_int ''j1'' busy_registry ''exec'' [] 2 None sample_queue") (auto simp: sample_submitted_def)
qed

lemma sample_submitted_reachable: "jq_reachable sample_submitted"
proof -
  obtain jb where s: "submit of_int ''j1'' busy_registry ''exec'' [] 2 None sample_queue = Inr (jb, sample_submitted)"
    using sample_submitted_ok by blast
  have "''j1'' \<notin> set (keys (jq_jobs sample_queue))" by (simp add: sample_queue_def new_queue_def)
  then show ?thesis using jq_reachable.step[OF jq_reachable.new[OF sample_queue_new] jq_step.submit[OF s]] by blast
qed

theorem job_status_forward_witness:
  "\<exists>jb jb'. map_of (jq_jobs sample_submitted) ''j1'' = Some jb
     \<and> map_of (jq_jobs (snd (close_queue sample_submitted))) ''j1'' = Some jb' \<and> forward jb jb'"
proof -
  have "map_option jb_kind (map_of (jq_jobs sample_submitted) ''j1'') = Some ''exec''" by code_simp
  then obtain jb where "map_of (jq_jobs sample_submitted) ''j1'' = Some jb" by auto
  then show ?thesis
    using job_status_forward[OF sample_submitted_reachable jq_step.close] by blast
qed

end
