(* ===== verification/Job_Outcome_Properties.thy ===== *)
theory Job_Outcome_Properties
  imports Job_Queue_Properties
begin

text \<open>What a job ends with, how search results are merged, and what leaves for a node.\<close>

subsection \<open>Collecting outcomes\<close>

definition successes :: "run_task \<Rightarrow> json list" where
  "successes tk = List.map_filter (\<lambda>s. case sh_pc s of Finished (Inr v) \<Rightarrow> Some v | _ \<Rightarrow> None) (rt_shards tk)"

definition failures :: "run_task \<Rightarrow> (json \<times> string) list" where
  "failures tk = List.map_filter (\<lambda>(i, s). case sh_pc s of Finished (Inl e) \<Rightarrow> Some (JInt (int i), err_text e) | _ \<Rightarrow> None)
     (enumerate 0 (rt_shards tk))"

definition all_finished :: "run_task \<Rightarrow> bool" where
  "all_finished tk \<longleftrightarrow> list_all (\<lambda>s. case sh_pc s of Finished _ \<Rightarrow> True | _ \<Rightarrow> False) (rt_shards tk)"

lemma collect_outcomes_eq:
  assumes "all_finished tk"
  shows "collect_outcomes 0 (shard_results tk) = (successes tk, failures tk)"
proof -
  have "collect_outcomes (int k) (List.map_filter (\<lambda>s. case sh_pc s of Finished r \<Rightarrow> Some r | _ \<Rightarrow> None) ss)
      = (List.map_filter (\<lambda>s. case sh_pc s of Finished (Inr v) \<Rightarrow> Some v | _ \<Rightarrow> None) ss,
         List.map_filter (\<lambda>(i, s). case sh_pc s of Finished (Inl e) \<Rightarrow> Some (JInt (int i), err_text e) | _ \<Rightarrow> None)
           (enumerate k ss))"
    if "list_all (\<lambda>s. case sh_pc s of Finished _ \<Rightarrow> True | _ \<Rightarrow> False) ss" for ss k
    using that
  proof (induction ss arbitrary: k)
    case (Cons s ss)
    show ?case using Cons.IH[of "Suc k"] Cons.prems
      by (cases "sh_pc s") (auto simp: List.map_filter_simps add.commute[of "int k" 1] split: sum.splits)
  qed (simp add: List.map_filter_simps)
  from this[of "rt_shards tk" 0] show ?thesis
    using assms by (simp add: all_finished_def shard_results_def successes_def failures_def)
qed

lemma map_filter_Nil: "List.map_filter f xs = [] \<longleftrightarrow> (\<forall>x \<in> set xs. f x = None)"
  by (induction xs) (auto simp: List.map_filter_simps split: option.splits)

lemma failures_Nil:
  "failures tk = [] \<longleftrightarrow> list_all (\<lambda>s. case sh_pc s of Finished (Inl _) \<Rightarrow> False | _ \<Rightarrow> True) (rt_shards tk)"
proof -
  have "set (rt_shards tk) = snd ` set (enumerate 0 (rt_shards tk))" by (metis list.set_map map_snd_enumerate)
  then show ?thesis unfolding failures_def map_filter_Nil list_all_iff
    by (force split: shard_pc.splits sum.splits)
qed

text \<open>
  C28. The end of a job reports every shard once and tells success from failure correctly: the
  result lists the values of the shards that succeeded in shard order and one error per failed
  shard with its index; a job that is not a search is done exactly when no shard failed, and a
  search is done exactly when in addition the results could be merged.
\<close>

theorem finish_job_outcome:
  assumes "all_finished tk"
  shows "\<exists>jb' result errors. map_of (jq_jobs (finish_job now wall jb tk q)) (jb_id jb) = Some jb'
    \<and> jb_finished_at jb' = Some now \<and> jb_result jb' = Some result
    \<and> map_of result ''shards'' = Some (JList (successes tk))
    \<and> map_of result ''errors'' = Some (JList (map error_json (failures tk @ errors)))
    \<and> (errors = [] \<longleftrightarrow> jb_kind jb \<noteq> ''search'' \<or> \<not> isl (merge_search_results (jb_payload jb) (successes tk)))
    \<and> jb_status jb' = (if errors = [] \<and> list_all (\<lambda>s. case sh_pc s of Finished (Inl _) \<Rightarrow> False | _ \<Rightarrow> True)
                          (rt_shards tk) then Done else Failed)"
proof -
  let ?m = "merge_search_results (jb_payload jb) (successes tk)"
  let ?errors = "if jb_kind jb = ''search'' then (case ?m of Inr _ \<Rightarrow> [] | Inl e \<Rightarrow> [(JNull, err_text e)]) else []"
  show ?thesis
    unfolding failures_Nil[symmetric]
    by (cases "jb_kind jb = ''search''"; cases ?m)
      (auto simp: finish_job_def Let_def collect_outcomes_eq[OF assms] update_conv' intro!: exI[of _ ?errors])
qed

definition sample_task :: run_task where
  "sample_task = \<lparr>rt_state = Started, rt_shards =
     [(new_shard [] ''a'')\<lparr>sh_pc := Finished (Inr JNull)\<rparr>,
      (new_shard [] ''b'')\<lparr>sh_pc := Finished (Inl (ShardExecutionError ''boom''))\<rparr>]\<rparr>"

definition sample_job :: job where
  "sample_job = \<lparr>jb_id = ''j1'', jb_kind = ''exec'', jb_payload = [], jb_node_id = None, jb_status = Running,
     jb_result = None, jb_started_at = Some 0, jb_finished_at = None\<rparr>"

theorem finish_job_outcome_witness:
  "\<exists>jb'. map_of (jq_jobs (finish_job 5 of_int sample_job sample_task sample_queue)) ''j1'' = Some jb'
     \<and> jb_status jb' = Failed"
proof -
  have f: "all_finished sample_task" by code_simp
  have "\<not> list_all (\<lambda>s. case sh_pc s of Finished (Inl _) \<Rightarrow> False | _ \<Rightarrow> True) (rt_shards sample_task)" by code_simp
  then show ?thesis using finish_job_outcome[OF f, of 5 of_int sample_job sample_queue]
    by (auto simp: sample_job_def)
qed

subsection \<open>Merging search results\<close>

definition all_hits :: "json list \<Rightarrow> merged_hit list" where
  "all_hits results = concat (map (\<lambda>r. snd (snd (shard_contribution r))) results)"

lemma sorted_hits_scores: "sorted_wrt (\<lambda>a b. mh_score b \<le> mh_score a) (sorted_hits results)"
proof -
  have "sorted (map (\<lambda>h. (- mh_score h, mh_node h, mh_path h)) (sorted_hits results))"
    by (simp add: sorted_hits_def)
  then show ?thesis unfolding sorted_map
    by (rule sorted_wrt_mono_rel[rotated]) (auto simp: less_eq_prod_def)
qed

text \<open>
  Merging search results keeps the best hits: the merged list is ordered by falling score, has
  as many hits as the limit allows, is drawn from the hits the shards returned, and no hit that was
  left out scores higher than one that was kept.
\<close>

theorem merge_keeps_best:
  assumes "merge_search_results payload results = Inr m"
  shows "\<exists>hs. map_of m ''hits'' = Some (JList (map (\<lambda>h. JObj (mh_json h)) hs))
    \<and> sorted_wrt (\<lambda>a b. mh_score b \<le> mh_score a) hs
    \<and> length hs = min (search_limit payload) (length (all_hits results))
    \<and> mset hs \<subseteq># mset (all_hits results)
    \<and> (\<forall>out \<in># mset (all_hits results) - mset hs. \<forall>h \<in> set hs. mh_score out \<le> mh_score h)"
proof -
  let ?s = "sorted_hits results" let ?k = "search_limit payload"
  have ms: "mset ?s = mset (all_hits results)" by (simp add: sorted_hits_def all_hits_def)
  have split: "?s = take ?k ?s @ drop ?k ?s" by simp
  have "mset (all_hits results) = mset (take ?k ?s) + mset (drop ?k ?s)"
    unfolding ms[symmetric] by (metis append_take_drop_id mset_append)
  then have diff: "mset (take ?k ?s) \<subseteq># mset (all_hits results)"
    "mset (all_hits results) - mset (take ?k ?s) = mset (drop ?k ?s)" by simp_all
  have "sorted_wrt (\<lambda>a b. mh_score b \<le> mh_score a) (take ?k ?s @ drop ?k ?s)"
    using sorted_hits_scores[of results] by simp
  then have st: "sorted_wrt (\<lambda>a b. mh_score b \<le> mh_score a) (take ?k ?s)"
    "\<forall>h \<in> set (take ?k ?s). \<forall>out \<in> set (drop ?k ?s). mh_score out \<le> mh_score h"
    unfolding sorted_wrt_append by blast+
  have len: "length (take ?k ?s) = min ?k (length (all_hits results))"
    using ms by (metis length_take min.commute size_mset)
  have "map_of m ''hits'' = Some (JList (map (\<lambda>h. JObj (mh_json h)) (take ?k ?s)))"
    using assms by (auto simp: merge_search_results_def Let_def split: if_splits)
  then show ?thesis using st len diff by (intro exI[of _ "take ?k ?s"]) simp
qed

definition sample_hit :: "string \<Rightarrow> rat \<Rightarrow> json" where
  "sample_hit path score = JObj [(''path'', JStr path), (''score'', JFloat score)]"

definition sample_results :: "json list" where
  "sample_results =
    [JObj [(''shard_index'', JInt 0), (''node_id'', JStr ''a''), (''result'', JObj [(''hits'', JList
       [sample_hit ''x'' (1/2), sample_hit ''y'' (1/4)])])],
     JObj [(''shard_index'', JInt 1), (''node_id'', JStr ''b''), (''result'', JObj [(''hits'', JList
       [sample_hit ''z'' (3/4)])])]]"

theorem merge_keeps_best_witness:
  "\<exists>m (hs :: merged_hit list). merge_search_results [(''limit'', JInt 2)] sample_results = Inr m
     \<and> map_of m ''hits'' = Some (JList (map (\<lambda>h. JObj (mh_json h)) hs)) \<and> length hs = 2"
proof -
  have "isl (merge_search_results [(''limit'', JInt 2)] sample_results) = False" by code_simp
  then obtain m where m: "merge_search_results [(''limit'', JInt 2)] sample_results = Inr m"
    by (cases "merge_search_results [(''limit'', JInt 2)] sample_results") auto
  have "min (search_limit [(''limit'', JInt 2)]) (length (all_hits sample_results)) = 2" by code_simp
  moreover obtain hs :: "merged_hit list" where "map_of m ''hits'' = Some (JList (map (\<lambda>h. JObj (mh_json h)) hs))"
    "length hs = min (search_limit [(''limit'', JInt 2)]) (length (all_hits sample_results))"
    using merge_keeps_best[OF m] by blast
  ultimately show ?thesis using m by (intro exI[of _ m] exI[of _ hs]) simp
qed

subsection \<open>The request that leaves for a node\<close>

text \<open>
  C30. What the queue sends, a node with the same pool secret accepts, and the queue waits longer
  than the node works: the request carries the fields of the job and shard under a signature that
  \<open>verify_job_request\<close> accepts exactly within its time window, and with the default timeouts the
  client timeout of the kinds with a ceiling of their own on the node exceeds that ceiling.
\<close>

theorem request_accepted_by_node:
  assumes "build_request frepr issued q jb profile i n payload = Inr rq"
    and "jq_timeout_by_kind q = AList.update ''index'' x DEFAULT_TIMEOUTS_S"
  shows "verify_job_request frepr (jq_pool_secret q) (rq_fields rq) (rq_signature rq) now
      = Inr (\<bar>now - issued\<bar> \<le> 30)
    \<and> rq_fields rq = \<lparr>jf_job_id = jb_id jb, jf_kind = jb_kind jb, jf_payload = payload, jf_shard_index = i,
        jf_shard_count = n, jf_issued_at = issued\<rparr>
    \<and> (jb_kind jb = ''infer'' \<longrightarrow> INFER_READY_TIMEOUT_S + INFER_REQUEST_TIMEOUT_S < rq_timeout rq)
    \<and> (jb_kind jb = ''bench'' \<longrightarrow> BENCH_TIMEOUT_S < rq_timeout rq)
    \<and> (jb_kind jb = ''exec'' \<longrightarrow> SANDBOX_MAX_TIMEOUT_S < rq_timeout rq)"
proof -
  let ?f = "\<lparr>jf_job_id = jb_id jb, jf_kind = jb_kind jb, jf_payload = payload, jf_shard_index = i,
        jf_shard_count = n, jf_issued_at = issued\<rparr>"
  obtain sig where sig: "sign_job_request frepr (jq_pool_secret q) ?f = Inr sig" "rq_fields rq = ?f"
    "rq_signature rq = sig" "rq_timeout rq = (case map_of (jq_timeout_by_kind q) (jb_kind jb) of
        None \<Rightarrow> jq_timeout_s q | Some t \<Rightarrow> t)"
    using assms(1) by (auto simp: build_request_def Let_def res_simps)
  have "verify_job_request frepr (jq_pool_secret q) ?f sig now = Inr (\<bar>now - issued\<bar> \<le> 30)"
    using sig(1) by (auto simp: verify_job_request_def sign_job_request_def JOB_AUTH_MAX_AGE_S_def
        compare_digest_def ascii_hexdigest split: if_splits)
  then show ?thesis using sig(2-4) assms(2)
    by (auto simp: update_conv' DEFAULT_TIMEOUTS_S_def INFER_READY_TIMEOUT_S_def INFER_REQUEST_TIMEOUT_S_def
        BENCH_TIMEOUT_S_def SANDBOX_MAX_TIMEOUT_S_def TIMEOUT_MARGIN_S_def)
qed

theorem request_accepted_by_node_witness:
  "\<exists>rq. build_request frac_text 100 sample_queue sample_job (sample_profile ''a'' ''10.0.0.1'') 0 1 [] = Inr rq
     \<and> verify_job_request frac_text ''pool'' (rq_fields rq) (rq_signature rq) 120 = Inr True
     \<and> SANDBOX_MAX_TIMEOUT_S < rq_timeout rq"
proof -
  have q: "jq_pool_secret sample_queue = ''pool''" "jq_endpoint_by_kind sample_queue = DEFAULT_ENDPOINTS"
    "jq_timeout_by_kind sample_queue = AList.update ''index'' 30 DEFAULT_TIMEOUTS_S"
    by (simp_all add: sample_queue_def new_queue_def)
  then obtain rq where rq: "build_request frac_text 100 sample_queue sample_job (sample_profile ''a'' ''10.0.0.1'') 0 1 []
      = Inr rq"
    by (simp add: build_request_def sign_job_request_def Let_def sample_job_def DEFAULT_ENDPOINTS_def dict_get_def)
  note r = request_accepted_by_node[OF rq q(3), of 120]
  have "verify_job_request frac_text ''pool'' (rq_fields rq) (rq_signature rq) 120 = Inr True"
    using r[THEN conjunct1] q(1) by simp
  moreover have "jb_kind sample_job = ''exec''" by (simp add: sample_job_def)
  then have "SANDBOX_MAX_TIMEOUT_S < rq_timeout rq" using r by blast
  ultimately show ?thesis using rq by blast
qed



end
