(* ===== verification/Model_Ladder.thy ===== *)
theory Model_Ladder
  imports Json
begin

text \<open>
  \<open>infer/models.py\<close>: the model ladder \<open>models.toml\<close> as parsed by \<open>tomllib\<close>, its validation and
  the look-ups over it. The parsed file is a value like a JSON document; TOML dates do not occur.
  A message that quotes an offending value keeps its fixed words.
\<close>

subsection \<open>Data\<close>

record ladder_spec =
  ls_model_id :: string
  ls_role :: string
  ls_repo :: string
  ls_include :: string
  ls_size_gb :: rat
  ls_params_total_b :: rat
  ls_params_active_b :: rat
  ls_priority :: int
  ls_total_layers :: int
  ls_claim :: string
  ls_notes :: string

definition BYTES_PER_GB :: int where "BYTES_PER_GB = 1000 ^ 3"
definition BYTES_PER_GIB :: int where "BYTES_PER_GIB = 1024 ^ 3"
definition BYTES_PER_MIB :: int where "BYTES_PER_MIB = 1024 ^ 2"

definition REQUIRED_KEYS :: "string list" where
  "REQUIRED_KEYS = [''role'', ''repo'', ''include'', ''size_gb'', ''priority'', ''total_layers'']"

definition weights_mib :: "ladder_spec \<Rightarrow> rat" where
  "weights_mib s = ls_size_gb s * of_int BYTES_PER_GB / of_int BYTES_PER_MIB"

definition weights_gib :: "ladder_spec \<Rightarrow> rat" where
  "weights_gib s = ls_size_gb s * of_int BYTES_PER_GB / of_int BYTES_PER_GIB"

definition sparsity :: "ladder_spec \<Rightarrow> rat res" where
  "sparsity s =
     (if ls_params_active_b s \<le> 0
      then Inl (ValueError (ls_model_id s @ '': params_active_b must be positive''))
      else Inr (ls_params_total_b s / ls_params_active_b s))"

subsection \<open>Reading the file\<close>

text \<open>
  \<open>isinstance(x, int)\<close>, which a \<open>bool\<close> passes too, and \<open>float(x)\<close>: of a number, of a text, and the
  \<open>TypeError\<close> of anything else.
\<close>

fun jint :: "json \<Rightarrow> int option" where
  "jint (JInt i) = Some i"
| "jint (JBool b) = Some (if b then 1 else 0)"
| "jint j = None"

definition float_of :: "json \<Rightarrow> rat res" where
  "float_of j =
     (case jnumber j of
        Some x \<Rightarrow> Inr x
      | None \<Rightarrow> (case j of
          JStr s \<Rightarrow> (case py_float s of Some x \<Rightarrow> Inr x
                    | None \<Rightarrow> Inl (ValueError ''could not convert string to float''))
        | _ \<Rightarrow> Inl (TypeError ''float() argument must be a string or a real number'')))"

definition parse_spec :: "string \<times> json \<Rightarrow> ladder_spec res" where
  "parse_spec entry =
     (let model_id = fst entry; name = ''models.'' @ model_id in
      case snd entry of
        JObj body \<Rightarrow>
          let missing = filter (\<lambda>k. k \<notin> set (keys body)) REQUIRED_KEYS in
          if missing \<noteq> [] then
            Inl (ValueError (name @ '' missing required key(s): '' @ str_join '', '' missing))
          else
          (case jnumber (jget body ''size_gb'') of
             None \<Rightarrow> Inl (ValueError (name @ ''.size_gb must be positive''))
           | Some size_gb \<Rightarrow>
          if size_gb \<le> 0 then Inl (ValueError (name @ ''.size_gb must be positive'')) else
          (case jint (jget body ''priority'') of
             None \<Rightarrow> Inl (ValueError (name @ ''.priority must be an int >= 1''))
           | Some priority \<Rightarrow>
          if priority < 1 then Inl (ValueError (name @ ''.priority must be an int >= 1'')) else
          (case jint (jget body ''total_layers'') of
             None \<Rightarrow> Inl (ValueError (name @ ''.total_layers must be an int >= 0''))
           | Some total_layers \<Rightarrow>
          if total_layers < 0 then Inl (ValueError (name @ ''.total_layers must be an int >= 0'')) else
          rbind (case map_of body ''params_total_b'' of None \<Rightarrow> Inr 0 | Some v \<Rightarrow> float_of v) (\<lambda>total_b.
          rbind (case map_of body ''params_active_b'' of None \<Rightarrow> Inr 0 | Some v \<Rightarrow> float_of v) (\<lambda>active_b.
          Inr \<lparr>ls_model_id = model_id,
               ls_role = json_str (jget body ''role''),
               ls_repo = json_str (jget body ''repo''),
               ls_include = json_str (jget body ''include''),
               ls_size_gb = size_gb,
               ls_params_total_b = total_b,
               ls_params_active_b = active_b,
               ls_priority = priority,
               ls_total_layers = total_layers,
               ls_claim = (case map_of body ''claim'' of None \<Rightarrow> [] | Some v \<Rightarrow> py_strip (json_str v)),
               ls_notes = (case map_of body ''notes'' of None \<Rightarrow> [] | Some v \<Rightarrow> py_strip (json_str v))\<rparr>)))))
      | _ \<Rightarrow> Inl (ValueError (name @ '' is not a table'')))"

fun duplicate_loop :: "(int, string) dict \<Rightarrow> ladder_spec list \<Rightarrow> unit res" where
  "duplicate_loop seen [] = Inr ()"
| "duplicate_loop seen (s # ss) =
     (case map_of seen (ls_priority s) of
        Some other \<Rightarrow> Inl (ValueError (''duplicate priority '' @ str_int (ls_priority s)
          @ '': models.'' @ other @ '' and models.'' @ ls_model_id s))
      | None \<Rightarrow> duplicate_loop (AList.update (ls_priority s) (ls_model_id s) seen) ss)"

definition reject_duplicate_priorities :: "ladder_spec list \<Rightarrow> unit res" where
  "reject_duplicate_priorities specs = duplicate_loop [] specs"

text \<open>
  The file is \<open>None\<close> when \<open>path.is_file()\<close> fails, else what \<open>tomllib.load\<close> gives: a table, or the
  \<open>ValueError\<close> of a text that is not TOML.
\<close>

type_synonym toml_file = "(string, json) dict res option"

definition load_ladder :: "toml_file \<Rightarrow> ladder_spec list res" where
  "load_ladder file =
     (case file of
        None \<Rightarrow> Inl (OSError ''model ladder not found'')
      | Some loaded \<Rightarrow> rbind loaded (\<lambda>raw.
          (case jget raw ''models'' of
             JObj models \<Rightarrow>
               if models = [] then Inl (ValueError ''no [models.*] tables'')
               else rbind (rmapM parse_spec models) (\<lambda>specs.
                    rbind (reject_duplicate_priorities specs) (\<lambda>_.
                      Inr (sort_key ls_priority specs)))
           | _ \<Rightarrow> Inl (ValueError ''no [models.*] tables''))))"

definition by_role :: "ladder_spec list \<Rightarrow> string \<Rightarrow> ladder_spec res" where
  "by_role specs role =
     (case filter (\<lambda>s. ls_role s = role) specs of
        [] \<Rightarrow> Inl (KeyError (''no model with role '' @ py_repr role @ ''. Known roles: ''
                @ str_join '', '' (sort (remdups (map ls_role specs)))))
      | [s] \<Rightarrow> Inr s
      | ms \<Rightarrow> Inl (KeyError (''role '' @ py_repr role @ '' is ambiguous across: ''
                @ str_join '', '' (map ls_model_id ms))))"

definition estimate_hours :: "rat \<Rightarrow> rat \<Rightarrow> rat res" where
  "estimate_hours size_gb mbps =
     (if mbps \<le> 0 then Inl (ValueError ''link speed must be positive'')
      else Inr ((size_gb * of_int BYTES_PER_GB * 8) / (mbps * 1000000) / 3600))"

subsection \<open>What a loaded ladder guarantees\<close>

text \<open>A rung as \<open>_parse_spec\<close> admits it.\<close>

definition valid_spec :: "ladder_spec \<Rightarrow> bool" where
  "valid_spec s \<longleftrightarrow> 0 < ls_size_gb s \<and> 1 \<le> ls_priority s \<and> 0 \<le> ls_total_layers s"

lemma parse_spec_valid: "parse_spec e = Inr s \<Longrightarrow> valid_spec s \<and> ls_model_id s = fst e"
  by (auto simp: parse_spec_def Let_def valid_spec_def res_simps
      split: json.splits option.splits if_splits)

lemma parse_specs_valid:
  "rmapM parse_spec es = Inr ss \<Longrightarrow> list_all valid_spec ss \<and> map ls_model_id ss = keys es"
proof (induction es arbitrary: ss)
  case (Cons e es)
  then obtain s rest where "parse_spec e = Inr s" "rmapM parse_spec es = Inr rest" "ss = s # rest"
    by (auto simp: res_simps)
  with Cons.IH parse_spec_valid[of e s] show ?case by auto
qed simp

lemma duplicate_loop_ok:
  "duplicate_loop seen ss = Inr () \<longleftrightarrow>
     distinct (map ls_priority ss) \<and> set (map ls_priority ss) \<inter> set (keys seen) = {}"
proof (induction ss arbitrary: seen)
  case (Cons s ss)
  have "map_of seen (ls_priority s) = None \<longleftrightarrow> ls_priority s \<notin> set (keys seen)"
    by (simp add: map_of_eq_None_iff)
  with Cons show ?case by (auto simp: set_keys_update simp del: set_map split: option.splits)
qed simp

text \<open>Ascending distinct priorities, valid rungs, and one rung for each table of the file.\<close>

lemma load_ladder_ok:
  assumes "load_ladder (Some (Inr raw)) = Inr specs"
  obtains models where "jget raw ''models'' = JObj models" and "models \<noteq> []"
    and "mset (map ls_model_id specs) = mset (keys models)"
    and "list_all valid_spec specs" and "sorted_wrt (<) (map ls_priority specs)"
proof -
  obtain models ss where m: "jget raw ''models'' = JObj models" "models \<noteq> []"
    and ss: "rmapM parse_spec models = Inr ss" "reject_duplicate_priorities ss = Inr ()"
    and sp: "specs = sort_key ls_priority ss"
    using assms by (auto simp: load_ladder_def res_simps split: json.splits if_splits)
  have v: "list_all valid_spec ss" "map ls_model_id ss = keys models"
    using parse_specs_valid[OF ss(1)] by auto
  have "distinct (map ls_priority specs)"
    using ss(2) unfolding sp reject_duplicate_priorities_def duplicate_loop_ok
    by (metis mset_eq_imp_distinct_iff mset_map mset_sort)
  then have "sorted_wrt (<) (map ls_priority specs)"
    unfolding sp by (simp add: strict_sorted_iff)
  moreover have "list_all valid_spec specs" using v(1) by (simp add: sp list_all_iff)
  moreover have "mset (map ls_model_id specs) = mset (keys models)"
    by (metis mset_map mset_sort sp v(2))
  ultimately show thesis using that m by blast
qed

end
