(* ===== verification/Capacity.thy ===== *)
theory Capacity
  imports Model_Ladder Contracts
begin

text \<open>
  \<open>infer/memory.py\<close>: what a node can give a model, what a model needs at a context length and
  concurrency, and the verdict of \<open>capacity_report\<close>. The report's columns of text are a record of
  the values they print; its verdict is a datatype with one constructor per branch.
\<close>

subsection \<open>Budgets\<close>

definition OS_RESERVE_MIB :: "(string, int) dict" where
  "OS_RESERVE_MIB = [(''linux-headless'', 800), (''linux-desktop'', 2500), (''linux-wsl'', 512)]"

definition VRAM_RESERVE_MIB :: int where "VRAM_RESERVE_MIB = 800"

definition DEFAULT_OVERHEAD_MIB :: rat where "DEFAULT_OVERHEAD_MIB = 1600"

record node_budget =
  nb_node_id :: string
  nb_ram_usable_mib :: int
  nb_vram_usable_mib :: int
  nb_os_class :: string
  nb_backend :: string
  nb_verified :: bool

definition total_usable_mib :: "node_budget \<Rightarrow> int" where
  "total_usable_mib b = nb_ram_usable_mib b + nb_vram_usable_mib b"

definition os_class_error :: "string \<Rightarrow> string \<Rightarrow> py_error" where
  "os_class_error subject os_class = ValueError (subject @ '': os_class must be one of ''
     @ str_join '', '' (sort (keys OS_RESERVE_MIB)) @ ''; got '' @ py_repr os_class)"

definition usable_vram :: "int \<Rightarrow> int" where
  "usable_vram vram = (if vram \<noteq> 0 then max 0 (vram - VRAM_RESERVE_MIB) else 0)"

definition budget_from_profile :: "node_profile \<Rightarrow> string \<Rightarrow> node_budget res" where
  "budget_from_profile profile os_class =
     (case map_of OS_RESERVE_MIB os_class of
        None \<Rightarrow> Inl (os_class_error (np_id profile) os_class)
      | Some reserve \<Rightarrow>
          if np_ram_total_mb profile \<le> 0 then
            Inl (ValueError (np_id profile @ '': ram_total_mb must be positive, got ''
              @ str_int (np_ram_total_mb profile)))
          else
            let measured = np_ram_free_mb profile in
            Inr \<lparr>nb_node_id = np_id profile,
                 nb_ram_usable_mib = (if measured > 0 then measured
                                      else max 0 (np_ram_total_mb profile - reserve)),
                 nb_vram_usable_mib = usable_vram (np_vram_total_mb profile),
                 nb_os_class = os_class,
                 nb_backend = np_backend profile,
                 nb_verified = (measured > 0)\<rparr>)"

text \<open>\<open>bool(x)\<close> of a parsed value.\<close>

definition parse_budget :: "json \<Rightarrow> node_budget res" where
  "parse_budget entry =
     (case entry of
        JObj body \<Rightarrow>
          let node_id = py_strip (case map_of body ''id'' of None \<Rightarrow> [] | Some v \<Rightarrow> json_str v);
              os_class = (case map_of body ''os_class'' of None \<Rightarrow> [] | Some v \<Rightarrow> json_str v);
              name = ''planning node '' @ node_id in
          if node_id = [] then Inl (ValueError ''every [[planning.nodes]] entry needs an id'') else
          (case map_of OS_RESERVE_MIB os_class of
             None \<Rightarrow> Inl (os_class_error name os_class)
           | Some reserve \<Rightarrow>
          (case jint (jget body ''ram_mb'') of
             None \<Rightarrow> Inl (ValueError (name @ '': ram_mb must be a positive int''))
           | Some ram_mb \<Rightarrow>
          if ram_mb \<le> 0 then Inl (ValueError (name @ '': ram_mb must be a positive int'')) else
          (case (case map_of body ''vram_mb'' of None \<Rightarrow> Some 0 | Some v \<Rightarrow> jint v) of
             None \<Rightarrow> Inl (ValueError (name @ '': vram_mb must be a non-negative int''))
           | Some vram_mb \<Rightarrow>
          if vram_mb < 0 then Inl (ValueError (name @ '': vram_mb must be a non-negative int'')) else
          Inr \<lparr>nb_node_id = node_id,
               nb_ram_usable_mib = max 0 (ram_mb - reserve),
               nb_vram_usable_mib = usable_vram vram_mb,
               nb_os_class = os_class,
               nb_backend = (case map_of body ''backend'' of None \<Rightarrow> ''cpu'' | Some v \<Rightarrow> json_str v),
               nb_verified = (case map_of body ''verified'' of None \<Rightarrow> False | Some v \<Rightarrow> jtruthy v)\<rparr>)))
      | _ \<Rightarrow> Inl (AttributeError ''get''))"

definition planning_budgets :: "toml_file \<Rightarrow> node_budget list res" where
  "planning_budgets file =
     (case file of
        None \<Rightarrow> Inl (OSError ''cluster file not found'')
      | Some loaded \<Rightarrow> rbind loaded (\<lambda>raw.
          (case map_of raw ''planning'' of
             None \<Rightarrow> Inl (ValueError ''no [[planning.nodes]] entries'')
           | Some (JObj planning) \<Rightarrow>
               (case jget planning ''nodes'' of
                  JList nodes \<Rightarrow>
                    if nodes = [] then Inl (ValueError ''no [[planning.nodes]] entries'')
                    else rmapM parse_budget nodes
                | _ \<Rightarrow> Inl (ValueError ''no [[planning.nodes]] entries''))
           | Some _ \<Rightarrow> Inl (AttributeError ''get''))))"

subsection \<open>The key-value cache\<close>

record kv_geometry =
  kg_layers :: int
  kg_kv_heads :: int
  kg_head_dim :: int
  kg_dtype_bytes :: int
  kg_full_attention_layers :: "int option"
  kg_source :: string

definition kv_geometry_init :: "int \<Rightarrow> int \<Rightarrow> int \<Rightarrow> int \<Rightarrow> int option \<Rightarrow> string \<Rightarrow> kv_geometry res" where
  "kv_geometry_init layers kv_heads head_dim dtype_bytes full source =
     (if min layers (min kv_heads (min head_dim dtype_bytes)) \<le> 0
      then Inl (ValueError ''KVGeometry fields must all be positive'')
      else if (case full of None \<Rightarrow> False | Some f \<Rightarrow> \<not> (0 < f \<and> f \<le> layers))
      then Inl (ValueError (''full_attention_layers must be in 1..'' @ str_int layers))
      else Inr \<lparr>kg_layers = layers, kg_kv_heads = kv_heads, kg_head_dim = head_dim,
                kg_dtype_bytes = dtype_bytes, kg_full_attention_layers = full, kg_source = source\<rparr>)"

text \<open>\<open>full_attention_layers or layers\<close>: a zero count would fall back as \<open>None\<close> does.\<close>

definition cached_layers :: "kv_geometry \<Rightarrow> int" where
  "cached_layers g = (case kg_full_attention_layers g of
     None \<Rightarrow> kg_layers g | Some f \<Rightarrow> if f = 0 then kg_layers g else f)"

definition kv_cache_mib :: "kv_geometry \<Rightarrow> int \<Rightarrow> int \<Rightarrow> rat res" where
  "kv_cache_mib g context_tokens slots =
     (if context_tokens \<le> 0 \<or> slots \<le> 0
      then Inl (ValueError (''context_tokens and slots must be positive, got ''
        @ str_int context_tokens @ '', '' @ str_int slots))
      else
        let bytes_per_token_per_layer = 2 * kg_kv_heads g * kg_head_dim g * kg_dtype_bytes g;
            total_bytes = bytes_per_token_per_layer * cached_layers g * context_tokens * slots
        in Inr (of_int total_bytes / of_int BYTES_PER_MIB))"

subsection \<open>Footprints and fits\<close>

record mem_footprint =
  fp_model_id :: string
  fp_weights_mib :: rat
  fp_kv_mib :: rat
  fp_overhead_mib :: rat
  fp_context_tokens :: int
  fp_slots :: int

definition total_mib :: "mem_footprint \<Rightarrow> rat" where
  "total_mib f = fp_weights_mib f + fp_kv_mib f + fp_overhead_mib f"

definition footprint :: "ladder_spec \<Rightarrow> kv_geometry \<Rightarrow> int \<Rightarrow> int \<Rightarrow> rat \<Rightarrow> mem_footprint res" where
  "footprint spec g context_tokens slots overhead_mib =
     rbind (kv_cache_mib g context_tokens slots) (\<lambda>kv.
       Inr \<lparr>fp_model_id = ls_model_id spec, fp_weights_mib = weights_mib spec, fp_kv_mib = kv,
            fp_overhead_mib = overhead_mib, fp_context_tokens = context_tokens, fp_slots = slots\<rparr>)"

record fit_result =
  ft_fits :: bool
  ft_required_mib :: rat
  ft_available_mib :: rat

definition headroom_mib :: "fit_result \<Rightarrow> rat" where
  "headroom_mib r = ft_available_mib r - ft_required_mib r"

definition mem_fits :: "node_budget \<Rightarrow> mem_footprint \<Rightarrow> fit_result" where
  "mem_fits b need =
     \<lparr>ft_fits = (total_mib need \<le> of_int (total_usable_mib b)), ft_required_mib = total_mib need,
      ft_available_mib = of_int (total_usable_mib b)\<rparr>"

definition fits_pooled :: "node_budget list \<Rightarrow> mem_footprint \<Rightarrow> fit_result" where
  "fits_pooled bs need =
     (let pooled = of_int (\<Sum>b\<leftarrow>bs. total_usable_mib b) in
      \<lparr>ft_fits = (total_mib need \<le> pooled), ft_required_mib = total_mib need, ft_available_mib = pooled\<rparr>)"

subsection \<open>The capacity report\<close>

datatype verdict =
    Does_not_fit
  | Not_a_claim "string list"
  | Claim_holds

record capacity_report =
  cr_need :: mem_footprint
  cr_rows :: "(string \<times> int \<times> fit_result) list"
  cr_pooled :: fit_result
  cr_verdict :: verdict
  cr_unverified :: "string list"
  cr_estimated :: bool

definition capacity_report :: "mem_footprint \<Rightarrow> node_budget list \<Rightarrow> kv_geometry \<Rightarrow> capacity_report res" where
  "capacity_report need budgets g =
     (if budgets = [] then Inl (ValueError ''no compute nodes to report on'')
      else
        let unverified = map nb_node_id (filter (\<lambda>b. \<not> nb_verified b) budgets);
            single = dict_of (map (\<lambda>b. (nb_node_id b, mem_fits b need)) budgets);
            pooled = fits_pooled budgets need;
            holders = map fst (filter (\<lambda>p. ft_fits (snd p)) single)
        in rbind (rmapM (\<lambda>b. rbind (dict_get single (nb_node_id b)) (\<lambda>r.
                    Inr (nb_node_id b, total_usable_mib b, r))) budgets) (\<lambda>rows.
           Inr \<lparr>cr_need = need, cr_rows = rows, cr_pooled = pooled,
                cr_verdict = (if \<not> ft_fits pooled then Does_not_fit
                              else if holders \<noteq> [] then Not_a_claim holders else Claim_holds),
                cr_unverified = unverified,
                cr_estimated = (kg_source g \<noteq> ''measured'')\<rparr>))"

subsection \<open>Lemmas\<close>

lemma usable_vram_nonneg [simp]: "0 \<le> usable_vram v"
  by (simp add: usable_vram_def)

lemma budget_from_profile_nonneg:
  "budget_from_profile p c = Inr b \<Longrightarrow> 0 \<le> nb_ram_usable_mib b \<and> 0 \<le> nb_vram_usable_mib b"
  by (auto simp: budget_from_profile_def Let_def split: option.splits if_splits)

lemma cached_layers_bounds:
  assumes "kv_geometry_init l h d t f s = Inr g"
  shows "0 < cached_layers g" and "cached_layers g \<le> kg_layers g"
  using assms by (auto simp: kv_geometry_init_def cached_layers_def split: option.splits if_splits)

lemma kv_cache_mib_Inr:
  "kv_cache_mib g c s = Inr kv \<longleftrightarrow> 0 < c \<and> 0 < s \<and>
     kv = of_int (2 * kg_kv_heads g * kg_head_dim g * kg_dtype_bytes g * cached_layers g * c * s)
        / of_int BYTES_PER_MIB"
  by (auto simp: kv_cache_mib_def Let_def)

end
