(* ===== verification/Model_Spec.thy ===== *)
theory Model_Spec
  imports Capacity Cost
begin

text \<open>
  \<open>infer/spec.py\<close>: the bridge from the ladder to the scheduler. \<open>_ladder()\<close> caches its first
  successful load; a call takes the cache and the file as they are and returns the cache afterwards.
\<close>

subsection \<open>Cache geometries\<close>

definition estimated_kv :: "int \<Rightarrow> int \<Rightarrow> int option \<Rightarrow> kv_geometry" where
  "estimated_kv layers head_dim full = \<lparr>kg_layers = layers, kg_kv_heads = 8, kg_head_dim = head_dim,
     kg_dtype_bytes = 2, kg_full_attention_layers = full, kg_source = ''estimated''\<rparr>"

definition GPT_OSS_120B_KV :: kv_geometry where
  "GPT_OSS_120B_KV = estimated_kv 36 64 (Some 18)"

definition KV_GEOMETRY :: "(string, kv_geometry) dict" where
  "KV_GEOMETRY =
     [(''calibration'', estimated_kv 28 128 None),
      (''embed'', estimated_kv 28 128 None),
      (''replica'', estimated_kv 36 128 None),
      (''castoff'', estimated_kv 24 64 (Some 12)),
      (''headline'', GPT_OSS_120B_KV)]"

subsection \<open>The cached ladder\<close>

type_synonym ladder_cache = "ladder_spec list option"

definition ladder :: "ladder_cache \<Rightarrow> toml_file \<Rightarrow> ladder_spec list res \<times> ladder_cache" where
  "ladder cache file =
     (case cache of
        Some specs \<Rightarrow> (Inr specs, cache)
      | None \<Rightarrow> (case load_ladder file of
          Inl e \<Rightarrow> (Inl e, None)
        | Inr specs \<Rightarrow> (Inr specs, Some specs)))"

definition reset_cache :: "ladder_cache \<Rightarrow> ladder_cache" where
  "reset_cache cache = None"

text \<open>The functions below take the result of \<open>_ladder()\<close>.\<close>

definition known_models :: "ladder_spec list res \<Rightarrow> string list res" where
  "known_models lad = rbind lad (\<lambda>specs. Inr (map ls_model_id specs))"

definition resolve_model_id :: "ladder_spec list res \<Rightarrow> string \<Rightarrow> string res" where
  "resolve_model_id lad identifier =
     (let wanted = py_strip identifier in
      rbind lad (\<lambda>specs.
        case find (\<lambda>s. ls_model_id s = wanted) specs of
          Some s \<Rightarrow> Inr (ls_model_id s)
        | None \<Rightarrow> (case find (\<lambda>s. ls_role s = wanted) specs of
            Some s \<Rightarrow> Inr (ls_model_id s)
          | None \<Rightarrow> Inl (KeyError (''unknown model '' @ py_repr identifier @ ''; pass one of: ''
              @ str_join '', '' (map ls_model_id specs))))))"

definition geometry_for :: "string \<Rightarrow> kv_geometry res" where
  "geometry_for model_id =
     (case map_of KV_GEOMETRY model_id of
        Some g \<Rightarrow> Inr g
      | None \<Rightarrow> Inl (ModelSpecUnavailable (''no KV cache geometry for '' @ py_repr model_id)))"

definition unverified_models :: "string list" where
  "unverified_models =
     map fst (filter (\<lambda>p. kg_source (snd p) \<noteq> ''measured'') (sort_key fst KV_GEOMETRY))"

definition scheduler_spec :: "ladder_spec list res \<Rightarrow> string \<Rightarrow> int \<Rightarrow> int \<Rightarrow> model_spec res" where
  "scheduler_spec lad model_id context slots =
     (if context \<le> 0 \<or> slots \<le> 0
      then Inl (ValueError (''context and slots must be positive, got ''
        @ str_int context @ '', '' @ str_int slots))
      else
        rbind (resolve_model_id lad model_id) (\<lambda>key.
        rbind lad (\<lambda>specs.
        rbind (case find (\<lambda>s. ls_model_id s = key) specs of Some s \<Rightarrow> Inr s | None \<Rightarrow> Inl StopIteration)
          (\<lambda>spec.
        rbind (geometry_for key) (\<lambda>g.
          let total_layers = ls_total_layers spec in
          if total_layers \<le> 0
          then Inl (ModelSpecUnavailable (key @ '' has no total_layers in models.toml''))
          else if kg_layers g \<noteq> total_layers
          then Inl (ModelSpecUnavailable (key @ '': models.toml says '' @ str_int total_layers
                 @ '' layers but its KV geometry says '' @ str_int (kg_layers g)))
          else
            rbind (kv_cache_mib g context slots) (\<lambda>kv_total_mib.
              Inr \<lparr>ms_model_id = key, ms_total_layers = total_layers,
                   ms_file_size_mb = weights_mib spec,
                   ms_kv_mb_per_layer = kv_total_mib / of_int total_layers\<rparr>))))))"

subsection \<open>Lemmas\<close>

lemma resolve_model_id_Inr:
  assumes "resolve_model_id (Inr specs) identifier = Inr key"
  shows "\<exists>s\<in>set specs. ls_model_id s = key \<and> (key = py_strip identifier \<or> ls_role s = py_strip identifier)"
  using assms by (force simp: resolve_model_id_def Let_def find_Some_iff in_set_conv_nth
      split: option.splits)

lemma resolve_model_id_Inl:
  "resolve_model_id (Inr specs) identifier = Inl e \<Longrightarrow>
     (\<exists>m. e = KeyError m) \<and> (\<forall>s\<in>set specs. ls_model_id s \<noteq> py_strip identifier \<and> ls_role s \<noteq> py_strip identifier)"
  by (auto simp: resolve_model_id_def Let_def find_None_iff split: option.splits)

lemma find_resolved:
  assumes "resolve_model_id (Inr specs) identifier = Inr key"
  shows "\<exists>s. find (\<lambda>s. ls_model_id s = key) specs = Some s \<and> s \<in> set specs \<and> ls_model_id s = key"
proof -
  have "\<exists>s\<in>set specs. ls_model_id s = key" using resolve_model_id_Inr[OF assms] by blast
  then obtain s where "find (\<lambda>s. ls_model_id s = key) specs = Some s"
    by (cases "find (\<lambda>s. ls_model_id s = key) specs") (auto simp: find_None_iff)
  then show ?thesis by (auto simp: find_Some_iff)
qed

text \<open>The two ways out of \<open>scheduler_spec\<close> on a ladder that loaded.\<close>

lemma scheduler_spec_Inr:
  assumes "scheduler_spec (Inr specs) m c n = Inr sp"
  obtains s g kvm where "resolve_model_id (Inr specs) m = Inr (ls_model_id s)" and "s \<in> set specs"
    and "map_of KV_GEOMETRY (ls_model_id s) = Some g" and "0 < ls_total_layers s"
    and "kg_layers g = ls_total_layers s" and "0 < c" and "0 < n" and "kv_cache_mib g c n = Inr kvm"
    and "sp = \<lparr>ms_model_id = ls_model_id s, ms_total_layers = ls_total_layers s,
           ms_file_size_mb = weights_mib s, ms_kv_mb_per_layer = kvm / of_int (ls_total_layers s)\<rparr>"
proof -
  obtain key where key: "resolve_model_id (Inr specs) m = Inr key" and cn: "0 < c" "0 < n"
    using assms by (auto simp: scheduler_spec_def res_simps split: if_splits)
  obtain s where s: "find (\<lambda>s. ls_model_id s = key) specs = Some s" "s \<in> set specs" "ls_model_id s = key"
    using find_resolved[OF key] by auto
  show thesis
    using assms that[of s] key s cn
    by (auto simp: scheduler_spec_def res_simps geometry_for_def Let_def split: if_splits option.splits)
qed

lemma scheduler_spec_Inl:
  assumes "scheduler_spec (Inr specs) m c n = Inl e"
  shows "(\<exists>t. e = ValueError t) \<and> (c \<le> 0 \<or> n \<le> 0)
       \<or> 0 < c \<and> 0 < n \<and> resolve_model_id (Inr specs) m = Inl e
       \<or> (\<exists>t. e = ModelSpecUnavailable t) \<and> 0 < c \<and> 0 < n"
proof (cases "c \<le> 0 \<or> n \<le> 0")
  case True
  then show ?thesis using assms by (auto simp: scheduler_spec_def)
next
  case False
  show ?thesis
  proof (cases "resolve_model_id (Inr specs) m")
    case (Inl e')
    then show ?thesis using False assms by (auto simp: scheduler_spec_def)
  next
    case (Inr key)
    then obtain s where "find (\<lambda>s. ls_model_id s = key) specs = Some s" using find_resolved by blast
    then show ?thesis using False Inr assms
      by (auto simp: scheduler_spec_def res_simps geometry_for_def kv_cache_mib_def Let_def
          split: if_splits option.splits)
  qed
qed

lemma kv_geometry_positive: "map_of KV_GEOMETRY k = Some g \<Longrightarrow>
    0 < kg_kv_heads g \<and> 0 < kg_head_dim g \<and> 0 < kg_dtype_bytes g \<and> 0 < cached_layers g"
  by (auto simp: KV_GEOMETRY_def GPT_OSS_120B_KV_def estimated_kv_def cached_layers_def split: if_splits)

lemma scheduler_spec_positive:
  assumes "scheduler_spec (Inr specs) m c n = Inr sp" and "list_all valid_spec specs"
  shows "0 < ms_total_layers sp" and "0 < ms_file_size_mb sp" and "0 < ms_kv_mb_per_layer sp"
proof -
  obtain s g kvm where s: "s \<in> set specs" "0 < ls_total_layers s" and cn: "0 < c" "0 < n"
    and g: "map_of KV_GEOMETRY (ls_model_id s) = Some g" and kvm: "kv_cache_mib g c n = Inr kvm"
    and sp: "sp = \<lparr>ms_model_id = ls_model_id s, ms_total_layers = ls_total_layers s,
           ms_file_size_mb = weights_mib s, ms_kv_mb_per_layer = kvm / of_int (ls_total_layers s)\<rparr>"
    using scheduler_spec_Inr[OF assms(1)] by metis
  have "valid_spec s" using s assms(2) by (simp add: list_all_iff)
  then show "0 < ms_file_size_mb sp"
    by (simp add: sp weights_mib_def valid_spec_def BYTES_PER_GB_def BYTES_PER_MIB_def)
  have "0 < 2 * kg_kv_heads g * kg_head_dim g * kg_dtype_bytes g * cached_layers g * c * n"
    using kv_geometry_positive[OF g] cn by simp
  then have "0 < rat_of_int (2 * kg_kv_heads g * kg_head_dim g * kg_dtype_bytes g * cached_layers g * c * n)"
    by (rule of_int_pos)
  moreover have "0 < rat_of_int BYTES_PER_MIB" by (simp add: BYTES_PER_MIB_def)
  ultimately have "0 < kvm" using kvm unfolding kv_cache_mib_Inr by (metis divide_pos_pos)
  then show "0 < ms_kv_mb_per_layer sp" using s by (simp add: sp)
  show "0 < ms_total_layers sp" using s by (simp add: sp)
qed

end
