(* ===== verification/Capacity_Properties.thy ===== *)
theory Capacity_Properties
  imports Model_Spec Plan_Properties
begin

text \<open>
  What the capacity arithmetic promises its two readers: the scheduler plans for the memory the
  model needs, and the capacity report claims what its numbers show.
\<close>

subsection \<open>A concrete ladder and cluster\<close>

definition sample_raw :: "(string, json) dict" where
  "sample_raw = [(''models'', JObj
     [(''headline'', JObj [(''role'', JStr ''headline''), (''repo'', JStr ''r''), (''include'', JStr ''*''),
         (''size_gb'', JFloat (634/10)), (''priority'', JInt 5), (''total_layers'', JInt 36)]),
      (''castoff'', JObj [(''role'', JStr ''castoff_capacity''), (''repo'', JStr ''r''), (''include'', JStr ''*''),
         (''size_gb'', JFloat (23/2)), (''priority'', JInt 4), (''total_layers'', JInt 24)])])]"

definition sample_ladder :: "ladder_spec list" where
  "sample_ladder = (case load_ladder (Some (Inr sample_raw)) of Inr ss \<Rightarrow> ss | Inl _ \<Rightarrow> [])"

lemma sample_ladder_loads: "load_ladder (Some (Inr sample_raw)) = Inr sample_ladder"
  by code_simp

definition sample_spec :: model_spec where
  "sample_spec = (case scheduler_spec (Inr sample_ladder) ''castoff_capacity'' 8192 1 of
     Inr sp \<Rightarrow> sp | Inl _ \<Rightarrow> ex_spec)"

lemma sample_spec_eq: "scheduler_spec (Inr sample_ladder) ''castoff_capacity'' 8192 1 = Inr sample_spec"
  by code_simp

definition sample_ms :: "node_metrics list" where
  "sample_ms = [ex_metrics ''a'' 8000, ex_metrics ''b'' 9000]"

definition sample_plan :: assignment where
  "sample_plan = (case plan ex_ps sample_ms sample_spec of Inr a \<Rightarrow> a | Inl _ \<Rightarrow> ex_plan)"

lemma sample_plan_eq: "plan ex_ps sample_ms sample_spec = Inr sample_plan"
  by code_simp

lemma sample_ms_ids: "distinct (map nm_node_id sample_ms)"
  by code_simp

subsection \<open>The scheduler and the memory model agree\<close>

lemma footprints_sum:
  assumes "0 < ms_total_layers sp" and "distinct (keys (as_layers a))"
  shows "rmapM (node_footprint_mb a sp) (keys (as_layers a)) =
     Inr (map (\<lambda>p. of_int (range_count (snd p)) * per_layer_mb sp) (as_layers a))"
proof -
  let ?c = "\<lambda>n. of_int (range_count (the (map_of (as_layers a) n))) * per_layer_mb sp"
  have "rmapM (node_footprint_mb a sp) (keys (as_layers a)) = Inr (map ?c (keys (as_layers a)))"
  proof (rule rmapM_ok)
    fix n assume "n \<in> set (keys (as_layers a))"
    then obtain r where "map_of (as_layers a) n = Some r" by (metis map_of_eq_None_iff not_None_eq set_map)
    then show "node_footprint_mb a sp n = Inr (?c n)" using assms(1) by (simp add: node_footprint_ok)
  qed
  also have "map ?c (keys (as_layers a)) = map (\<lambda>p. of_int (range_count (snd p)) * per_layer_mb sp) (as_layers a)"
    using assms(2) by (auto simp: map_of_is_SomeI)
  finally show ?thesis .
qed

lemma sum_of_int_scaled: "(\<Sum>p\<leftarrow>d. of_int (f p) * c) = of_int (\<Sum>p\<leftarrow>d. f p) * (c :: rat)"
  by (induction d) (simp_all add: distrib_right)

lemma plan_memory_total:
  assumes "distinct (map np_id ps)" "distinct (map nm_node_id ms)"
    and "0 < ms_total_layers sp" "0 \<le> per_layer_mb sp" "plan ps ms sp = Inr a"
  shows "\<exists>fs. rmapM (node_footprint_mb a sp) (keys (as_layers a)) = Inr fs
     \<and> sum_list fs = ms_file_size_mb sp + of_int (ms_total_layers sp) * ms_kv_mb_per_layer sp"
proof -
  note st = plan_Inr_stages[OF assms]
  have d: "distinct (keys (as_layers a))" using st(3) by (simp add: wf_layers_def)
  have "(\<Sum>p\<leftarrow>as_layers a. of_int (range_count (snd p)) * per_layer_mb sp)
      = of_int (\<Sum>p\<leftarrow>as_layers a. range_count (snd p)) * per_layer_mb sp"
    by (rule sum_of_int_scaled)
  also have "\<dots> = of_int (ms_total_layers sp) * per_layer_mb sp"
    using st(6) total_count_sum[OF d] by simp
  also have "\<dots> = ms_file_size_mb sp + of_int (ms_total_layers sp) * ms_kv_mb_per_layer sp"
    using assms(3) by (simp add: per_layer_mb_def distrib_left)
  finally show ?thesis using footprints_sum[OF assms(3) d] by auto
qed

text \<open>
  C32. The memory the scheduler plans for is the memory the model needs. When the ladder loads,
  \<open>scheduler_spec\<close> describes a model at a context and a concurrency, and the scheduler places it on
  a pool, the planned footprints of the nodes plus the compute overhead add up to the footprint
  that \<open>infer.memory\<close> computes for this rung of the ladder, at this context and this concurrency:
  spreading the cache over all layers rather than the cached ones loses nothing.
\<close>

theorem planned_memory_is_footprint:
  assumes "load_ladder (Some (Inr raw)) = Inr specs"
    and "scheduler_spec (Inr specs) model context slots = Inr sp"
    and "distinct (map np_id ps)" and "distinct (map nm_node_id ms)"
    and "plan ps ms sp = Inr a"
  shows "\<exists>s g need fs. s \<in> set specs \<and> ls_model_id s = ms_model_id sp
     \<and> geometry_for (ms_model_id sp) = Inr g
     \<and> footprint s g context slots overhead = Inr need
     \<and> rmapM (node_footprint_mb a sp) (keys (as_layers a)) = Inr fs
     \<and> sum_list fs + overhead = total_mib need"
proof -
  have v: "list_all valid_spec specs" using load_ladder_ok[OF assms(1)] by metis
  note pos = scheduler_spec_positive[OF assms(2) v]
  have "0 \<le> per_layer_mb sp" using pos by (simp add: per_layer_mb_def)
  from plan_memory_total[OF assms(3,4) pos(1) this assms(5)] obtain fs where
    fs: "rmapM (node_footprint_mb a sp) (keys (as_layers a)) = Inr fs"
      "sum_list fs = ms_file_size_mb sp + of_int (ms_total_layers sp) * ms_kv_mb_per_layer sp" by blast
  obtain s g kvm where s: "s \<in> set specs" "map_of KV_GEOMETRY (ls_model_id s) = Some g"
      "0 < ls_total_layers s" "kv_cache_mib g context slots = Inr kvm"
    and sp: "sp = \<lparr>ms_model_id = ls_model_id s, ms_total_layers = ls_total_layers s,
           ms_file_size_mb = weights_mib s, ms_kv_mb_per_layer = kvm / of_int (ls_total_layers s)\<rparr>"
    using scheduler_spec_Inr[OF assms(2)] by metis
  have "sum_list fs = weights_mib s + kvm" using fs(2) s(3) by (simp add: sp)
  with s fs(1) show ?thesis
    by (auto simp: footprint_def total_mib_def geometry_for_def sp)
qed

theorem planned_memory_is_footprint_witness:
  "\<exists>s g need fs. s \<in> set sample_ladder \<and> ls_model_id s = ms_model_id sample_spec
     \<and> geometry_for (ms_model_id sample_spec) = Inr g
     \<and> footprint s g 8192 1 DEFAULT_OVERHEAD_MIB = Inr need
     \<and> rmapM (node_footprint_mb sample_plan sample_spec) (keys (as_layers sample_plan)) = Inr fs
     \<and> sum_list fs + DEFAULT_OVERHEAD_MIB = total_mib need"
  by (rule planned_memory_is_footprint[OF sample_ladder_loads sample_spec_eq ex_ids(1) sample_ms_ids sample_plan_eq])

subsection \<open>The capacity claim\<close>

lemma fits_single_le:
  assumes "b \<in> set bs" and "\<And>b. b \<in> set bs \<Longrightarrow> 0 \<le> total_usable_mib b" and "ft_fits (mem_fits b need)"
  shows "ft_fits (fits_pooled bs need)"
proof -
  have "total_usable_mib b \<le> (\<Sum>b\<leftarrow>bs. total_usable_mib b)"
    using assms(1,2) by (intro member_le_sum_list) auto
  then have "rat_of_int (total_usable_mib b) \<le> of_int (\<Sum>b\<leftarrow>bs. total_usable_mib b)" by simp
  then show ?thesis using assms(3) by (simp add: mem_fits_def fits_pooled_def Let_def)
qed

lemma distinct_dict_of_id: "distinct (keys ps) \<Longrightarrow> dict_of ps = ps"
proof -
  have "distinct (keys ds @ keys qs) \<Longrightarrow> fold (\<lambda>(k, v) d. AList.update k v d) qs ds = ds @ qs" for ds qs
    by (induction qs arbitrary: ds) (auto simp: update_new)
  from this[of "[]" ps] show "distinct (keys ps) \<Longrightarrow> dict_of ps = ps" by (simp add: dict_of_def)
qed

lemma capacity_report_eq:
  assumes "bs \<noteq> []" and "distinct (map nb_node_id bs)"
  shows "\<exists>r. capacity_report need bs g = Inr r
     \<and> cr_rows r = map (\<lambda>b. (nb_node_id b, total_usable_mib b, mem_fits b need)) bs
     \<and> cr_pooled r = fits_pooled bs need
     \<and> cr_verdict r = (let holders = map nb_node_id (filter (\<lambda>b. ft_fits (mem_fits b need)) bs) in
          if \<not> ft_fits (fits_pooled bs need) then Does_not_fit
          else if holders \<noteq> [] then Not_a_claim holders else Claim_holds)"
proof -
  let ?single = "map (\<lambda>b. (nb_node_id b, mem_fits b need)) bs"
  have d: "distinct (keys ?single)" using assms(2) by (simp add: comp_def)
  have rows: "rmapM (\<lambda>b. rbind (dict_get ?single (nb_node_id b)) (\<lambda>r. Inr (nb_node_id b, total_usable_mib b, r))) bs
      = Inr (map (\<lambda>b. (nb_node_id b, total_usable_mib b, mem_fits b need)) bs)"
  proof (rule rmapM_ok)
    fix b assume "b \<in> set bs"
    then have "map_of ?single (nb_node_id b) = Some (mem_fits b need)"
      using d by (intro map_of_is_SomeI) auto
    then show "rbind (dict_get ?single (nb_node_id b)) (\<lambda>r. Inr (nb_node_id b, total_usable_mib b, r))
        = Inr (nb_node_id b, total_usable_mib b, mem_fits b need)" by (simp add: dict_get_def)
  qed
  have holders: "map fst (filter (\<lambda>p. ft_fits (snd p)) ?single)
      = map nb_node_id (filter (\<lambda>b. ft_fits (mem_fits b need)) bs)"
    by (simp add: filter_map comp_def)
  show ?thesis
    using assms(1) rows holders by (simp add: capacity_report_def Let_def distinct_dict_of_id[OF d])
qed

text \<open>
  C33. The verdict of \<open>capacity_report\<close> is what its numbers show. For a cluster of nodes with
  distinct names and non-negative budgets it says that the model does not fit when it does not fit
  the pooled memory; it names, in the order of the nodes, exactly those that hold the model alone
  when there are any; and it says that the claim holds exactly when the model fits the pool and no
  single node, in which case the cluster has at least two nodes.
\<close>

theorem capacity_verdict:
  assumes "bs \<noteq> []" and "distinct (map nb_node_id bs)" and "\<forall>b\<in>set bs. 0 \<le> total_usable_mib b"
  shows "\<exists>r. capacity_report need bs g = Inr r
    \<and> (cr_verdict r = Does_not_fit \<longleftrightarrow> of_int (\<Sum>b\<leftarrow>bs. total_usable_mib b) < total_mib need)
    \<and> (\<forall>hs. cr_verdict r = Not_a_claim hs \<longleftrightarrow> hs \<noteq> [] \<and>
         hs = map nb_node_id (filter (\<lambda>b. total_mib need \<le> of_int (total_usable_mib b)) bs))
    \<and> (cr_verdict r = Claim_holds \<longrightarrow> 2 \<le> length bs
         \<and> (\<forall>b\<in>set bs. of_int (total_usable_mib b) < total_mib need)
         \<and> total_mib need \<le> of_int (\<Sum>b\<leftarrow>bs. total_usable_mib b))"
proof -
  let ?H = "filter (\<lambda>b. total_mib need \<le> of_int (total_usable_mib b)) bs"
  obtain r where r: "capacity_report need bs g = Inr r"
    and v: "cr_verdict r = (let holders = map nb_node_id (filter (\<lambda>b. ft_fits (mem_fits b need)) bs) in
          if \<not> ft_fits (fits_pooled bs need) then Does_not_fit
          else if holders \<noteq> [] then Not_a_claim holders else Claim_holds)"
    using capacity_report_eq[OF assms(1,2)] by blast
  have pooled: "?H \<noteq> [] \<Longrightarrow> ft_fits (fits_pooled bs need)"
    using fits_single_le[of _ bs need] assms(3) by (fastforce simp: filter_empty_conv mem_fits_def)
  have two: "2 \<le> length bs" if "?H = []" "ft_fits (fits_pooled bs need)"
    using that assms(1) by (cases bs rule: remdups_adj.cases) (auto simp: fits_pooled_def Let_def split: if_splits)
  have v': "cr_verdict r = (if \<not> ft_fits (fits_pooled bs need) then Does_not_fit
      else if ?H \<noteq> [] then Not_a_claim (map nb_node_id ?H) else Claim_holds)"
    using v by (simp add: mem_fits_def Let_def)
  have alone: "?H = [] \<Longrightarrow> \<forall>b\<in>set bs. of_int (total_usable_mib b) < total_mib need"
    by (simp add: filter_empty_conv not_le)
  have pool: "ft_fits (fits_pooled bs need) \<longleftrightarrow> total_mib need \<le> of_int (\<Sum>b\<leftarrow>bs. total_usable_mib b)"
    by (simp add: fits_pooled_def Let_def)
  show ?thesis
    by (rule exI[of _ r], cases "?H = []")
      (use r v' pooled two alone pool in \<open>auto simp: not_le simp del: filter_empty_conv\<close>)
qed

definition sample_budget :: "string \<Rightarrow> int \<Rightarrow> node_budget" where
  "sample_budget n ram = \<lparr>nb_node_id = n, nb_ram_usable_mib = ram, nb_vram_usable_mib = 0,
     nb_os_class = ''linux-headless'', nb_backend = ''cpu'', nb_verified = True\<rparr>"

definition sample_need :: mem_footprint where
  "sample_need = \<lparr>fp_model_id = ''castoff'', fp_weights_mib = 10967, fp_kv_mib = 192,
     fp_overhead_mib = 1600, fp_context_tokens = 8192, fp_slots = 1\<rparr>"

theorem capacity_verdict_witness:
  "\<exists>r. capacity_report sample_need [sample_budget ''a'' 7000, sample_budget ''b'' 9000] GPT_OSS_120B_KV = Inr r
     \<and> cr_verdict r = Claim_holds"
proof -
  let ?bs = "[sample_budget ''a'' 7000, sample_budget ''b'' 9000]"
  have "?bs \<noteq> []" "distinct (map nb_node_id ?bs)" "\<forall>b\<in>set ?bs. 0 \<le> total_usable_mib b"
    by (simp_all add: sample_budget_def total_usable_mib_def)
  from capacity_verdict[OF this, of sample_need GPT_OSS_120B_KV] obtain r where
    r: "capacity_report sample_need ?bs GPT_OSS_120B_KV = Inr r"
      "cr_verdict r \<noteq> Does_not_fit" "\<forall>hs. cr_verdict r \<noteq> Not_a_claim hs"
    by (auto simp: sample_budget_def total_usable_mib_def sample_need_def total_mib_def)
  then have "cr_verdict r = Claim_holds" by (cases "cr_verdict r") auto
  with r(1) show ?thesis by blast
qed

end
