(* ===== verification/Control_Plane.thy ===== *)
theory Control_Plane
  imports Model_Spec Plan Job_Queue
begin

text \<open>
  \<open>ctl/main.py\<close>: the HTTP handlers of the control plane. The module's globals \<open>REGISTRY\<close>, \<open>AUTH\<close>,
  \<open>TELEMETRY\<close> and \<open>JOB_QUEUE\<close> are one record; a handler maps the request and this state to a
  response or an exception and the new state. An \<open>HTTPException\<close> carries the status the client sees;
  every other exception that leaves a handler is a 500. The field constraints of the request models
  answer 422 before the handler's body runs. The clocks and the random tokens are arguments.
\<close>

subsection \<open>State\<close>

record control_plane =
  cp_registry :: registry
  cp_auth :: auth_manager
  cp_telemetry :: telemetry
  cp_queue :: job_queue

definition DEFAULT_PLAN_CONTEXT :: int where "DEFAULT_PLAN_CONTEXT = 8192"

definition DEFAULT_PLAN_SLOTS :: int where "DEFAULT_PLAN_SLOTS = 1"

definition invalid_request :: py_error where
  "invalid_request = HTTPException 422 ''request validation failed''"

text \<open>\<open>asdict(profile)\<close>.\<close>

definition profile_dict :: "node_profile \<Rightarrow> (string, json) dict" where
  "profile_dict p =
     [(''id'', JStr (np_id p)), (''host'', JStr (np_host p)), (''cpu'', JStr (np_cpu p)),
      (''cores'', JInt (np_cores p)), (''ram_total_mb'', JInt (np_ram_total_mb p)),
      (''ram_free_mb'', JInt (np_ram_free_mb p)),
      (''gpu'', (case np_gpu p of None \<Rightarrow> JNull | Some g \<Rightarrow> JStr g)),
      (''vram_total_mb'', JInt (np_vram_total_mb p)), (''backend'', JStr (np_backend p)),
      (''mem_bandwidth_gbs'', JFloat (np_mem_bandwidth_gbs p)),
      (''tg_tok_s'', JFloat (np_tg_tok_s p)), (''pp_tok_s'', JFloat (np_pp_tok_s p)),
      (''rtt_ms'', JFloat (np_rtt_ms p)), (''state'', JStr (state_name (np_state p)))]"

subsection \<open>Nodes\<close>

definition get_nodes :: "control_plane \<Rightarrow> (string, json) dict list" where
  "get_nodes cp = map profile_dict (list_profiles (cp_registry cp))"

definition join_node :: "(rat \<Rightarrow> string) \<Rightarrow> rat \<Rightarrow> rat \<Rightarrow> (int \<Rightarrow> rat) \<Rightarrow> string \<Rightarrow> node_profile \<Rightarrow> string \<Rightarrow> string
    \<Rightarrow> control_plane \<Rightarrow> (string, json) dict res \<times> control_plane" where
  "join_node frepr auth_now now wall fresh profile nonce signature cp =
     (if nonce = [] \<or> length signature \<noteq> 64 then (Inl invalid_request, cp)
      else case complete_join frepr auth_now fresh (profile_dict profile) nonce signature (cp_auth cp) of
        (Inl e, a) \<Rightarrow>
          (Inl (case e of AuthenticationError m \<Rightarrow> HTTPException 403 m | _ \<Rightarrow> e), cp\<lparr>cp_auth := a\<rparr>)
      | (Inr token, a) \<Rightarrow>
          (case register now wall profile True (cp_registry cp) of (profile', r) \<Rightarrow>
             (Inr (profile_dict profile' @ [(''access_token'', JStr (nt_access_token token)),
                (''token_type'', JStr ''bearer''), (''expires_at'', JFloat (nt_expires_at token))]),
              cp\<lparr>cp_auth := a, cp_registry := r\<rparr>)))"

definition create_join_challenge :: "rat \<Rightarrow> string \<Rightarrow> string \<Rightarrow> control_plane
    \<Rightarrow> (string, json) dict res \<times> control_plane" where
  "create_join_challenge now fresh node_id cp =
     (if node_id = [] then (Inl invalid_request, cp)
      else case issue_challenge now fresh node_id (cp_auth cp) of
        Inl e \<Rightarrow> (Inl e, cp)
      | Inr (c, a) \<Rightarrow>
          (Inr [(''node_id'', JStr (jc_node_id c)), (''nonce'', JStr (jc_nonce c)),
                (''expires_at'', JFloat (jc_expires_at c))], cp\<lparr>cp_auth := a\<rparr>))"

definition delete_node :: "(int \<Rightarrow> rat) \<Rightarrow> string \<Rightarrow> control_plane \<Rightarrow> unit res \<times> control_plane" where
  "delete_node wall node_id cp =
     (case remove wall node_id (cp_registry cp) of
        (False, r) \<Rightarrow> (Inl (HTTPException 404 ''node not found''), cp\<lparr>cp_registry := r\<rparr>)
      | (True, r) \<Rightarrow>
          (Inr (), cp\<lparr>cp_registry := r, cp_telemetry := tl_remove node_id (cp_telemetry cp),
                      cp_auth := revoke node_id (cp_auth cp)\<rparr>))"

text \<open>\<open>casefold\<close> on ASCII is \<open>lower\<close>.\<close>

definition bearer_token :: "string option \<Rightarrow> string option" where
  "bearer_token authorization =
     (case authorization of
        None \<Rightarrow> None
      | Some text \<Rightarrow>
          (case py_partition (CHR '' '') text of (scheme, separator, token) \<Rightarrow>
             if separator = [] \<or> py_lower scheme \<noteq> ''bearer'' \<or> token = [] then None else Some token))"

definition heartbeat_response :: "node_record \<Rightarrow> (string, json) dict" where
  "heartbeat_response rec =
     [(''node_id'', JStr (np_id (nr_profile rec))),
      (''state'', JStr (state_name (np_state (nr_profile rec)))),
      (''missed_heartbeats'', JInt (nr_missed_heartbeats rec))]"

definition post_heartbeat :: "rat \<Rightarrow> rat \<Rightarrow> (int \<Rightarrow> rat) \<Rightarrow> string \<Rightarrow> node_metrics option \<Rightarrow> string option
    \<Rightarrow> control_plane \<Rightarrow> (string, json) dict res \<times> control_plane" where
  "post_heartbeat auth_now now wall node_id metrics authorization cp =
     (let denied = Inl (HTTPException 401 ''invalid or expired bearer token'') in
      case bearer_token authorization of
        None \<Rightarrow> (denied, cp)
      | Some token \<Rightarrow>
          (case validate_token auth_now node_id token (cp_auth cp) of
             (Inl e, a) \<Rightarrow> (Inl e, cp\<lparr>cp_auth := a\<rparr>)
           | (Inr False, a) \<Rightarrow> (denied, cp\<lparr>cp_auth := a\<rparr>)
           | (Inr True, a) \<Rightarrow>
               (case heartbeat now wall node_id metrics (cp_registry cp) of
                  Inl (KeyError _) \<Rightarrow> (Inl (HTTPException 404 ''node not found''), cp\<lparr>cp_auth := a\<rparr>)
                | Inl (ValueError m) \<Rightarrow> (Inl (HTTPException 422 m), cp\<lparr>cp_auth := a\<rparr>)
                | Inl e \<Rightarrow> (Inl e, cp\<lparr>cp_auth := a\<rparr>)
                | Inr (rec, r) \<Rightarrow>
                    (Inr (heartbeat_response rec),
                     cp\<lparr>cp_auth := a, cp_registry := r,
                        cp_telemetry := (case metrics of None \<Rightarrow> cp_telemetry cp
                           | Some m \<Rightarrow> tl_record m (cp_telemetry cp))\<rparr>))))"

subsection \<open>Plans and jobs\<close>

definition get_plan :: "ladder_spec list res \<Rightarrow> string \<Rightarrow> int \<Rightarrow> int \<Rightarrow> control_plane \<Rightarrow> assignment res" where
  "get_plan lad model context slots cp =
     (if model = [] \<or> context < 1 \<or> slots < 1 then Inl invalid_request
      else
        let profiles = list_profiles (cp_registry cp); metrics = latest_metrics (cp_registry cp) in
        if profiles = [] then Inl (HTTPException 503 ''no nodes are available'')
        else (case scheduler_spec lad model context slots of
            Inl (KeyError m) \<Rightarrow> Inl (HTTPException 404 (err_text (KeyError m)))
          | Inl (ModelSpecUnavailable m) \<Rightarrow> Inl (HTTPException 503 m)
          | Inl e \<Rightarrow> Inl e
          | Inr spec \<Rightarrow>
              (case plan profiles metrics spec of
                 Inr a \<Rightarrow> Inr a
               | Inl e \<Rightarrow> if is_runtime_error e \<or> is_value_error e
                          then Inl (HTTPException 503 (err_text e)) else Inl e)))"

text \<open>\<open>asdict(assignment)\<close>, the body of the answer; a JSON object keeps the order of its keys.\<close>

definition assignment_dict :: "assignment \<Rightarrow> (string, json) dict" where
  "assignment_dict a =
     [(''model_id'', JStr (as_model_id a)),
      (''layers'', JObj (map (\<lambda>(n, lo, hi). (n, JList [JInt lo, JInt hi])) (as_layers a))),
      (''n_cpu_moe'', JObj (map (\<lambda>(n, k). (n, JInt k)) (as_n_cpu_moe a))),
      (''tensor_split'', JList (map JFloat (as_tensor_split a))),
      (''predicted_tok_s'', JFloat (as_predicted_tok_s a)),
      (''rationale'', JStr (as_rationale a))]"

definition JOB_KINDS :: "string list" where
  "JOB_KINDS = [''infer'', ''exec'', ''index'', ''search'', ''bench'']"

definition create_job :: "(int \<Rightarrow> rat) \<Rightarrow> string \<Rightarrow> string \<Rightarrow> (string, json) dict \<Rightarrow> int \<Rightarrow> string option
    \<Rightarrow> control_plane \<Rightarrow> job_response res \<times> control_plane" where
  "create_job wall uuid kind payload fanout node_id cp =
     (if kind \<notin> set JOB_KINDS \<or> fanout < 1 \<or> 16 < fanout then (Inl invalid_request, cp)
      else case submit wall uuid (cp_registry cp) kind payload fanout node_id (cp_queue cp) of
        Inl (NodeUnavailableError m) \<Rightarrow> (Inl (HTTPException 404 m), cp)
      | Inl e \<Rightarrow>
          (Inl (if is_value_error e then HTTPException 422 (err_text e)
                else if is_runtime_error e then HTTPException 503 (err_text e) else e), cp)
      | Inr (jb, q) \<Rightarrow>
          (case response (jb_id jb) q of
             Inl e \<Rightarrow> Inl e
           | Inr None \<Rightarrow> Inl (HTTPException 500 ''job was not stored'')
           | Inr (Some resp) \<Rightarrow> Inr resp, cp\<lparr>cp_queue := q\<rparr>))"

definition get_job :: "string \<Rightarrow> control_plane \<Rightarrow> job_response res" where
  "get_job job_id cp =
     (case response job_id (cp_queue cp) of
        Inl e \<Rightarrow> Inl e
      | Inr None \<Rightarrow> Inl (HTTPException 404 ''job not found'')
      | Inr (Some resp) \<Rightarrow> Inr resp)"

definition get_metrics :: "control_plane \<Rightarrow> metrics_frame res" where
  "get_metrics cp = frame (cp_telemetry cp)"

subsection \<open>Start-up\<close>

text \<open>
  The fixture nodes and their metrics are arguments; \<open>heartbeat\<close> reads the metrics of a node from a
  dictionary keyed by node.
\<close>

fun seed_loop :: "rat \<Rightarrow> (int \<Rightarrow> rat) \<Rightarrow> (string, node_metrics) dict \<Rightarrow> node_profile list \<Rightarrow> registry
    \<Rightarrow> registry res" where
  "seed_loop now wall by_node [] r = Inr r"
| "seed_loop now wall by_node (p # ps) r =
     (let r1 = snd (register now wall p False r) in
      rbind (dict_get by_node (np_id p)) (\<lambda>m.
      rbind (heartbeat now wall (np_id p) (Some m) r1) (\<lambda>(_, r2).
        seed_loop now wall by_node ps r2)))"

definition seed_registry :: "rat \<Rightarrow> (int \<Rightarrow> rat) \<Rightarrow> node_profile list \<Rightarrow> node_metrics list \<Rightarrow> control_plane
    \<Rightarrow> control_plane res" where
  "seed_registry now wall profiles metrics cp =
     rbind (seed_loop now wall (metrics_by_id metrics) profiles (rg_reset (cp_registry cp))) (\<lambda>r.
       Inr (cp\<lparr>cp_registry := r, cp_auth := auth_reset (cp_auth cp),
               cp_telemetry := tl_reset (latest_metrics r) (cp_telemetry cp)\<rparr>))"

definition mock_nodes_requested :: "string option \<Rightarrow> bool" where
  "mock_nodes_requested env \<longleftrightarrow>
     py_lower (py_strip (case env of None \<Rightarrow> [] | Some s \<Rightarrow> s)) \<in> set [''1'', ''true'', ''yes'', ''on'']"

definition monitor_tick :: "rat \<Rightarrow> (int \<Rightarrow> rat) \<Rightarrow> control_plane \<Rightarrow> control_plane res" where
  "monitor_tick now wall cp =
     rbind (sweep now wall (cp_registry cp)) (\<lambda>(_, _, r). Inr (cp\<lparr>cp_registry := r\<rparr>))"

subsection \<open>The feed\<close>

datatype feed_message =
    Topology "(string, json) dict list"
  | Metrics_message metrics_frame
  | Registry_message registry_event
  | Queue_message queue_event
  | Flow_message string queue_event

record feed_state =
  fs_last_registry_sequence :: int
  fs_last_queue_sequence :: int
  fs_last_topology :: "(string, json) dict list"

text \<open>
  Every \<open>send_json\<close> may suspend the handler, so that one turn of the loop reads the state at four
  moments: for the topology, the metrics, the registry's events and the queue's events.
\<close>

record feed_reads =
  fd_topology :: control_plane
  fd_metrics :: control_plane
  fd_registry :: control_plane
  fd_queue :: control_plane

definition queue_message :: "queue_event \<Rightarrow> feed_message" where
  "queue_message e = (case qe_node_id e of None \<Rightarrow> Queue_message e | Some n \<Rightarrow> Flow_message n e)"

text \<open>\<open>last_..._sequence = event.sequence\<close> in the loop: the last event sent, if there was one.\<close>

definition cursor :: "('e \<Rightarrow> int) \<Rightarrow> int \<Rightarrow> 'e list \<Rightarrow> int" where
  "cursor sequence c es = (case es of [] \<Rightarrow> c | _ \<Rightarrow> sequence (last es))"

definition feed_turn :: "feed_reads \<Rightarrow> feed_state \<Rightarrow> (feed_message list \<times> feed_state) res" where
  "feed_turn reads fs =
     (let topology = get_nodes (fd_topology reads) in
      rbind (get_metrics (fd_metrics reads)) (\<lambda>metrics.
      let registry_events = rg_events_after (fs_last_registry_sequence fs) (cp_registry (fd_registry reads));
          queue_events = jq_events_after (fs_last_queue_sequence fs) (cp_queue (fd_queue reads))
      in Inr ((if topology \<noteq> fs_last_topology fs then [Topology topology] else [])
              @ [Metrics_message metrics] @ map Registry_message registry_events
              @ map queue_message queue_events,
              \<lparr>fs_last_registry_sequence = cursor re_sequence (fs_last_registry_sequence fs) registry_events,
               fs_last_queue_sequence = cursor qe_sequence (fs_last_queue_sequence fs) queue_events,
               fs_last_topology = topology\<rparr>)))"

fun feed_turns :: "feed_reads list \<Rightarrow> feed_state \<Rightarrow> feed_message list res" where
  "feed_turns [] fs = Inr []"
| "feed_turns (rd # rds) fs =
     rbind (feed_turn rd fs) (\<lambda>(msgs, fs'). rbind (feed_turns rds fs') (\<lambda>rest. Inr (msgs @ rest)))"

text \<open>What a client that stays connected over these turns receives.\<close>

definition send_feed :: "control_plane \<Rightarrow> feed_reads list \<Rightarrow> feed_message list res" where
  "send_feed cp rds =
     (let topology = get_nodes cp in
      rbind (feed_turns rds \<lparr>fs_last_registry_sequence = 0, fs_last_queue_sequence = 0,
                             fs_last_topology = topology\<rparr>) (\<lambda>msgs.
        Inr (Topology topology # msgs)))"

end
