(* ===== verification/Control_Plane_Properties.thy ===== *)
theory Control_Plane_Properties
  imports Control_Plane Capacity_Properties Job_Outcome_Properties Telemetry_Properties
begin

text \<open>
  The control plane as a whole: what the handlers promise when registry, authentication, telemetry,
  queue, ladder and scheduler work together.
\<close>

subsection \<open>Plans over live membership\<close>

lemma get_plan_cases:
  assumes "rg_reachable (cp_registry cp)" and "list_all valid_spec specs"
    and "model \<noteq> []" and "1 \<le> context" and "1 \<le> slots" and "get_plan (Inr specs) model context slots cp = Inl e"
  shows "(\<exists>d. e = HTTPException 503 d)
     \<or> (\<exists>d. e = HTTPException 404 d) \<and> list_profiles (cp_registry cp) \<noteq> []
        \<and> (\<forall>s\<in>set specs. ls_model_id s \<noteq> py_strip model \<and> ls_role s \<noteq> py_strip model)"
proof (cases "list_profiles (cp_registry cp) = []")
  case True
  then show ?thesis using assms by (auto simp: get_plan_def)
next
  case ne: False
  show ?thesis
  proof (cases "scheduler_spec (Inr specs) model context slots")
    case (Inl e')
    from scheduler_spec_Inl[OF this] assms(4,5)
    have "resolve_model_id (Inr specs) model = Inl e' \<or> (\<exists>t. e' = ModelSpecUnavailable t)" by auto
    then show ?thesis
      using assms ne Inl resolve_model_id_Inl[of specs model e'] by (auto simp: get_plan_def Let_def)
  next
    case (Inr sp)
    note pos = scheduler_spec_positive[OF Inr assms(2)]
    have per: "0 \<le> per_layer_mb sp" using pos by (simp add: per_layer_mb_def)
    obtain e' where e': "plan (list_profiles (cp_registry cp)) (latest_metrics (cp_registry cp)) sp = Inl e'"
      using assms ne Inr by (auto simp: get_plan_def Let_def split: sum.splits)
    from plan_raises[OF list_profiles_distinct[OF assms(1)] latest_metrics_distinct[OF assms(1)] pos(1) per e']
    show ?thesis using assms ne Inr e'
      by (auto simp: get_plan_def Let_def is_runtime_error_def is_value_error_def)
  qed
qed

text \<open>
  C34. \<open>GET /api/plan\<close> answers with a plan, 404 or 503 and nothing else, over every membership the
  registry can reach and every ladder that loads: a 404 means that there are nodes but no rung of
  the ladder has this name or role; a plan assigns layers to registered nodes only, each of which
  is not offline and has reported metrics.
\<close>

theorem get_plan_outcome:
  assumes "rg_reachable (cp_registry cp)" and "load_ladder (Some (Inr raw)) = Inr specs"
    and "model \<noteq> []" and "1 \<le> context" and "1 \<le> slots"
  shows "case get_plan (Inr specs) model context slots cp of
      Inr a \<Rightarrow> (\<forall>n\<in>set (keys (as_layers a)). \<exists>rec m. map_of (rg_nodes (cp_registry cp)) n = Some rec
                \<and> np_state (nr_profile rec) \<noteq> Offline \<and> m \<in> set (latest_metrics (cp_registry cp)) \<and> nm_node_id m = n)
    | Inl e \<Rightarrow> (\<exists>d. e = HTTPException 503 d)
        \<or> (\<exists>d. e = HTTPException 404 d) \<and> list_profiles (cp_registry cp) \<noteq> []
          \<and> (\<forall>s\<in>set specs. ls_model_id s \<noteq> py_strip model \<and> ls_role s \<noteq> py_strip model)"
proof -
  let ?ps = "list_profiles (cp_registry cp)" and ?ms = "latest_metrics (cp_registry cp)"
  have v: "list_all valid_spec specs" using load_ladder_ok[OF assms(2)] by metis
  show ?thesis
  proof (cases "get_plan (Inr specs) model context slots cp")
    case (Inl e)
    from get_plan_cases[OF assms(1) v assms(3-5) Inl] show ?thesis by (simp add: Inl)
  next
    case (Inr a)
    then obtain sp where sp: "scheduler_spec (Inr specs) model context slots = Inr sp" "plan ?ps ?ms sp = Inr a"
      by (auto simp: get_plan_def Let_def split: if_splits sum.splits py_error.splits)
    note pos = scheduler_spec_positive[OF sp(1) v]
    have per: "0 \<le> per_layer_mb sp" using pos by (simp add: per_layer_mb_def)
    note st = plan_Inr_stages[OF list_profiles_distinct[OF assms(1)] latest_metrics_distinct[OF assms(1)] pos(1) per sp(2)]
    have "\<exists>rec m. map_of (rg_nodes (cp_registry cp)) n = Some rec \<and> np_state (nr_profile rec) \<noteq> Offline
        \<and> m \<in> set ?ms \<and> nm_node_id m = n" if "n \<in> set (keys (as_layers a))" for n
    proof -
      from that st(4) obtain p where p: "p \<in> set (usable_profiles ?ps ?ms)" "np_id p = n" by auto
      then obtain rec where "map_of (rg_nodes (cp_registry cp)) n = Some rec" "nr_profile rec = p"
        using list_profiles_mem[OF assms(1)] by (auto simp: usable_profiles_def)
      moreover have "set (keys (metrics_by_id ?ms)) = nm_node_id ` set ?ms"
        using distinct_dict_of_id[of "map (\<lambda>m. (nm_node_id m, m)) ?ms"] latest_metrics_distinct[OF assms(1)]
        by (simp add: metrics_by_id_def comp_def image_image)
      ultimately show ?thesis using p unfolding usable_profiles_def by (auto simp del: set_map)
    qed
    then show ?thesis by (simp add: Inr)
  qed
qed

definition sample_plane :: control_plane where
  "sample_plane = \<lparr>cp_registry = busy_registry, cp_auth = \<lparr>am_pool_secret = ''pool'', am_challenge_ttl_s = 30,
     am_token_ttl_s = 60, am_challenges = [], am_tokens = []\<rparr>,
     cp_telemetry = sample_telemetry, cp_queue = sample_queue\<rparr>"

theorem get_plan_outcome_witness:
  "\<exists>d. get_plan (Inr sample_ladder) ''gpt-5'' 8192 1 sample_plane = Inl (HTTPException 404 d)
     \<and> (\<forall>s\<in>set sample_ladder. ls_role s \<noteq> ''gpt-5'')"
proof -
  have r: "rg_reachable (cp_registry sample_plane)" by (simp add: sample_plane_def busy_registry_reachable)
  have strip: "py_strip ''gpt-5'' = ''gpt-5''" by code_simp
  have "case get_plan (Inr sample_ladder) ''gpt-5'' 8192 1 sample_plane of
      Inl (HTTPException c d) \<Rightarrow> c = 404 | _ \<Rightarrow> False" by code_simp
  then obtain d where d: "get_plan (Inr sample_ladder) ''gpt-5'' 8192 1 sample_plane = Inl (HTTPException 404 d)"
    by (auto split: sum.splits py_error.splits)
  with get_plan_outcome[OF r sample_ladder_loads, of "''gpt-5''" 8192 1] show ?thesis
    by (auto simp: strip)
qed

subsection \<open>The feed\<close>

text \<open>Both logs only grow: every operation but the registry's reset appends.\<close>

lemma sweep_loop_extends:
  "sweep_loop now wall nodes r em rp = Inr (em', rp', r') \<Longrightarrow> \<exists>es. rg_events r' = rg_events r @ es"
proof (induction now wall nodes r em rp rule: sweep_loop.induct)
  case (2 now wall n rec rest r em rp)
  then show ?case by (fastforce simp: Let_def rg_emit_def split: if_splits)
qed auto

lemma rg_step_extends: "op \<noteq> Op_reset \<Longrightarrow> \<exists>es. rg_events (rg_step wall op r) = rg_events r @ es"
proof (cases op)
  case (Op_sweep now)
  then show ?thesis
    by (auto simp: sweep_def res_simps dest: sweep_loop_extends split: sum.splits)
qed (auto simp: register_def heartbeat_def remove_def rg_emit_def Let_def split: sum.splits option.splits if_splits)

definition rg_later :: "registry \<Rightarrow> registry \<Rightarrow> bool" where
  "rg_later r r' \<longleftrightarrow> (\<exists>wall ops. Op_reset \<notin> set ops \<and> r' = fold (rg_step wall) ops r)"

lemma rg_later_extends:
  assumes "rg_later r r'"
  shows "\<exists>es. rg_events r' = rg_events r @ es" and "rg_reachable r \<Longrightarrow> rg_reachable r'"
proof -
  obtain wall ops where ops: "Op_reset \<notin> set ops" "r' = fold (rg_step wall) ops r"
    using assms by (auto simp: rg_later_def)
  have "\<exists>es. rg_events (fold (rg_step wall) ops r) = rg_events r @ es"
    using ops(1) by (induction ops arbitrary: r) (simp, metis rg_step_extends append.assoc fold_simps(2) list.set_intros(1,2))
  then show "\<exists>es. rg_events r' = rg_events r @ es" using ops(2) by simp
  show "rg_reachable r \<Longrightarrow> rg_reachable r'" using ops(2) by (simp add: fold_reachable)
qed

lemma shard_failed_extends: "\<exists>es. jq_events (shard_failed wall reg jb tk i e q) = jq_events q @ es"
  by (auto simp: shard_failed_def Let_def set_shard_def set_task_def jq_emit_def split: py_error.splits option.splits)

lemma release_events [simp]: "jq_events (release_node n q) = jq_events q"
  by (simp add: release_node_def)

lemma fold_release_events [simp]: "jq_events (fold release_node ns q) = jq_events q"
  by (induction ns arbitrary: q) simp_all

lemma jq_step_extends: "jq_step q q' \<Longrightarrow> \<exists>es. jq_events q' = jq_events q @ es"
proof (induction rule: jq_step.induct)
  case (submit wall uuid reg kind payload fanout node_id q jb q')
  then show ?case by (auto simp: submit_def Let_def res_simps jq_emit_def split: if_splits)
next
  case (start q jid tk jb now wall)
  then show ?case by (simp add: start_job_def Let_def set_task_def set_job_def jq_emit_def)
next
  case (dispatch q jid tk jb i wall reg)
  let ?n = "sh_node (rt_shards tk ! i)"
  show ?case
    using shard_failed_extends[of wall reg jb tk i _
        "q\<lparr>jq_semaphores := AList.update ?n (permits q ?n) (jq_semaphores q)\<rparr>"]
    by (auto simp: dispatch_shard_def Let_def set_shard_def set_task_def jq_emit_def split: sum.splits)
next
  case (resume q jid tk jb i wall reg reply)
  show ?case
    using shard_failed_extends[of wall reg jb tk i _ "release_node (sh_node (rt_shards tk ! i)) q"]
    by (auto simp: resume_shard_def Let_def set_shard_def set_task_def split: sum.splits)
next
  case (finish q jid tk jb now wall)
  show ?case
    by (auto simp: finish_job_def Let_def set_task_def set_job_def jq_emit_def split: prod.splits)
next
  case (cancel q jid tk jb now wall)
  show ?case
    by (auto simp: cancel_job_def Let_def set_task_def set_job_def jq_emit_def split: task_state.splits)
next
  case (finished q jid tk jb now wall)
  show ?case
    by (auto simp: task_finished_def Let_def set_job_def jq_emit_def split: task_state.splits option.splits)
qed (auto simp: close_queue_def)

lemma jq_later_extends: "jq_step\<^sup>*\<^sup>* q q' \<Longrightarrow> \<exists>es. jq_events q' = jq_events q @ es"
  by (induction rule: rtranclp_induct) (auto dest!: jq_step_extends)

lemma jq_later_reachable: "jq_step\<^sup>*\<^sup>* q q' \<Longrightarrow> jq_reachable q \<Longrightarrow> jq_reachable q'"
  by (induction rule: rtranclp_induct) (auto intro: jq_reachable.step)

text \<open>The events a client reads out of the messages.\<close>

definition registry_part :: "feed_message list \<Rightarrow> registry_event list" where
  "registry_part msgs = List.map_filter (\<lambda>m. case m of Registry_message e \<Rightarrow> Some e | _ \<Rightarrow> None) msgs"

definition queue_part :: "feed_message list \<Rightarrow> queue_event list" where
  "queue_part msgs = List.map_filter
     (\<lambda>m. case m of Queue_message e \<Rightarrow> Some e | Flow_message _ e \<Rightarrow> Some e | _ \<Rightarrow> None) msgs"

lemma parts_append [simp]:
  "registry_part (xs @ ys) = registry_part xs @ registry_part ys"
  "queue_part (xs @ ys) = queue_part xs @ queue_part ys"
  by (simp_all add: registry_part_def queue_part_def map_filter_def)

lemma parts_Cons [simp]:
  "registry_part (Topology t # ms) = registry_part ms" "queue_part (Topology t # ms) = queue_part ms"
  "registry_part (Metrics_message f # ms) = registry_part ms" "queue_part (Metrics_message f # ms) = queue_part ms"
  by (simp_all add: registry_part_def queue_part_def map_filter_def)

lemma parts_map [simp]:
  "registry_part (map Registry_message es) = es" "queue_part (map Registry_message es) = []"
  "registry_part (map queue_message qs) = []" "queue_part (map queue_message qs) = qs"
  by (induction es; simp add: registry_part_def queue_part_def map_filter_def)+
    (induction qs; simp add: registry_part_def queue_part_def map_filter_def queue_message_def split: option.splits)+

lemma parts_Nil [simp]: "registry_part [] = []" "queue_part [] = []"
  by (simp_all add: registry_part_def queue_part_def map_filter_def)

lemma cursor_advance:
  "cursor re_sequence c (rg_events_after c r) = rlog.advance c r"
  "cursor qe_sequence c (jq_events_after c q) = qlog.advance c q"
  by (simp_all add: cursor_def rlog.advance_def qlog.advance_def rg_events_after_eq jq_events_after_eq
      split: list.splits)

lemma feed_turns_poll:
  assumes "\<forall>rd\<in>set rds. \<exists>f. frame (cp_telemetry (fd_metrics rd)) = Inr f"
  shows "\<exists>msgs. feed_turns rds fs = Inr msgs
     \<and> registry_part msgs = rlog.poll_all (fs_last_registry_sequence fs) (map (\<lambda>rd. cp_registry (fd_registry rd)) rds)
     \<and> queue_part msgs = qlog.poll_all (fs_last_queue_sequence fs) (map (\<lambda>rd. cp_queue (fd_queue rd)) rds)"
  using assms
proof (induction rds arbitrary: fs)
  case (Cons rd rds)
  obtain f where "frame (cp_telemetry (fd_metrics rd)) = Inr f" using Cons.prems by auto
  then obtain msgs fs' where t: "feed_turn rd fs = Inr (msgs, fs')"
    and p: "registry_part msgs = rg_events_after (fs_last_registry_sequence fs) (cp_registry (fd_registry rd))"
      "queue_part msgs = jq_events_after (fs_last_queue_sequence fs) (cp_queue (fd_queue rd))"
    and c: "fs_last_registry_sequence fs' = rlog.advance (fs_last_registry_sequence fs) (cp_registry (fd_registry rd))"
      "fs_last_queue_sequence fs' = qlog.advance (fs_last_queue_sequence fs) (cp_queue (fd_queue rd))"
    by (auto simp: feed_turn_def get_metrics_def Let_def cursor_advance)
  obtain rest where "feed_turns rds fs' = Inr rest"
    "registry_part rest = rlog.poll_all (fs_last_registry_sequence fs') (map (\<lambda>rd. cp_registry (fd_registry rd)) rds)"
    "queue_part rest = qlog.poll_all (fs_last_queue_sequence fs') (map (\<lambda>rd. cp_queue (fd_queue rd)) rds)"
    using Cons by (metis list.set_intros(2))
  then show ?case using t p c by (simp add: rg_events_after_eq jq_events_after_eq)
qed simp

lemma successively_reachable:
  assumes "\<And>s t. P s t \<Longrightarrow> R s \<Longrightarrow> R t"
  shows "successively P (s # ss) \<Longrightarrow> R s \<Longrightarrow> \<forall>t\<in>set (s # ss). R t"
  using assms by (induction ss arbitrary: s) auto

lemma rlog_grows: "successively rg_later rs \<Longrightarrow> rlog.grows rs"
  by (induction rs rule: rlog.grows.induct) (auto dest: rg_later_extends(1))

lemma qlog_grows: "successively jq_step\<^sup>*\<^sup>* qs \<Longrightarrow> qlog.grows qs"
  by (induction qs rule: qlog.grows.induct) (auto dest: jq_later_extends)

lemma registry_numbered: "rg_reachable r \<Longrightarrow> rlog.numbered r"
  using rg_reachable_inv[of r] by (simp add: rg_inv_def log_ok_def)

lemma queue_numbered: "jq_reachable q \<Longrightarrow> qlog.numbered q"
  using jq_reachable_inv[of q] by (simp add: jq_inv_def)

text \<open>
  C35. The feed misses nothing and repeats nothing. Over any number of turns, with the registry and
  the queue going through any operations between and during the turns (a reset of the registry
  excepted), \<open>/feed\<close> raises nothing, and the registry events it has sent are, in order, exactly the
  log of the registry as it was last read, and the queue events exactly the log of the queue.
\<close>

theorem feed_exactly_once:
  assumes "rds \<noteq> []"
    and "rg_reachable (cp_registry (fd_registry (hd rds)))"
    and "successively rg_later (map (\<lambda>rd. cp_registry (fd_registry rd)) rds)"
    and "jq_reachable (cp_queue (fd_queue (hd rds)))"
    and "successively jq_step\<^sup>*\<^sup>* (map (\<lambda>rd. cp_queue (fd_queue rd)) rds)"
    and "\<forall>rd\<in>set rds. tl_reachable (cp_telemetry (fd_metrics rd))"
  shows "\<exists>msgs. send_feed cp rds = Inr msgs
     \<and> registry_part msgs = rg_events (cp_registry (fd_registry (last rds)))
     \<and> queue_part msgs = jq_events (cp_queue (fd_queue (last rds)))"
proof -
  let ?rs = "map (\<lambda>rd. cp_registry (fd_registry rd)) rds" and ?qs = "map (\<lambda>rd. cp_queue (fd_queue rd)) rds"
  obtain rd rest where rds: "rds = rd # rest" using assms(1) by (cases rds) auto
  have "\<forall>r\<in>set ?rs. rg_reachable r"
    using assms(2,3) successively_reachable[of rg_later rg_reachable] rg_later_extends(2) unfolding rds by fastforce
  then have rnum: "\<forall>r\<in>set ?rs. rlog.numbered r" using registry_numbered by blast
  have "\<forall>q\<in>set ?qs. jq_reachable q"
    using assms(4,5) successively_reachable[of "jq_step\<^sup>*\<^sup>*" jq_reachable] jq_later_reachable unfolding rds by fastforce
  then have qnum: "\<forall>q\<in>set ?qs. qlog.numbered q" using queue_numbered by blast
  have fr: "\<forall>rd\<in>set rds. \<exists>f. frame (cp_telemetry (fd_metrics rd)) = Inr f"
    using assms(6) frame_shape by blast
  have "rlog.poll_all 0 ?rs = rg_events (last ?rs)"
    using rlog.poll_all_exact[OF rnum rlog_grows[OF assms(3)], of 0] assms(1) by simp
  moreover have "qlog.poll_all 0 ?qs = jq_events (last ?qs)"
    using qlog.poll_all_exact[OF qnum qlog_grows[OF assms(5)], of 0] assms(1) by simp
  moreover note feed_turns_poll[OF fr, of "\<lparr>fs_last_registry_sequence = 0, fs_last_queue_sequence = 0,
      fs_last_topology = get_nodes cp\<rparr>"]
  ultimately show ?thesis using assms(1) by (auto simp: send_feed_def Let_def last_map)
qed

definition sample_reads :: feed_reads where
  "sample_reads = \<lparr>fd_topology = sample_plane, fd_metrics = sample_plane, fd_registry = sample_plane,
     fd_queue = sample_plane\<rparr>"

definition later_reads :: feed_reads where
  "later_reads = (let cp = snd (delete_node of_int ''a'' sample_plane) in
     \<lparr>fd_topology = sample_plane, fd_metrics = sample_plane, fd_registry = cp, fd_queue = cp\<rparr>)"

theorem feed_exactly_once_witness:
  "\<exists>msgs. send_feed sample_plane [sample_reads, later_reads] = Inr msgs
     \<and> map re_event (registry_part msgs) = [''joined'', ''joined'', ''removed'']"
proof -
  let ?rds = "[sample_reads, later_reads]"
  have reg: "cp_registry (fd_registry later_reads) = snd (remove of_int ''a'' busy_registry)"
    by code_simp
  have "rg_later (cp_registry (fd_registry sample_reads)) (cp_registry (fd_registry later_reads))"
    unfolding rg_later_def reg by (intro exI[of _ of_int] exI[of _ "[Op_remove ''a'']"])
      (simp add: sample_reads_def sample_plane_def)
  then have r: "successively rg_later (map (\<lambda>rd. cp_registry (fd_registry rd)) ?rds)" by simp
  have q: "cp_queue (fd_queue later_reads) = sample_queue" "cp_queue (fd_queue sample_reads) = sample_queue"
    by code_simp+
  have t: "tl_reachable (cp_telemetry (fd_metrics rd))" if "rd \<in> set ?rds" for rd
    using that sample_telemetry_reachable[of "[]"] by (auto simp: sample_reads_def later_reads_def Let_def sample_plane_def)
  have "\<exists>msgs. send_feed sample_plane ?rds = Inr msgs
     \<and> registry_part msgs = rg_events (cp_registry (fd_registry (last ?rds)))
     \<and> queue_part msgs = jq_events (cp_queue (fd_queue (last ?rds)))"
    by (rule feed_exactly_once[OF _ _ r])
      (use t q in \<open>auto simp: sample_reads_def sample_plane_def busy_registry_reachable
         intro: jq_reachable.new[OF sample_queue_new]\<close>)
  moreover have "map re_event (rg_events (cp_registry (fd_registry later_reads))) = [''joined'', ''joined'', ''removed'']"
    by code_simp
  ultimately show ?thesis by auto
qed

subsection \<open>Removing a node\<close>

text \<open>
  C36. Deleting a node locks it out. When \<open>DELETE /api/nodes/{id}\<close> succeeds the node is gone from the
  membership and from the telemetry; every heartbeat in its name is answered 401 whatever bearer
  token it carries, and every join in its name is answered 403 whatever nonce and signature it
  carries, also a nonce that was issued to it before, and none of these requests changes the state.
  A deletion that fails is a 404 that changes nothing.
\<close>

theorem deleted_node_locked_out:
  assumes "rg_reachable (cp_registry cp)" and "delete_node wall n cp = (res, cp')"
  shows "case res of
      Inl e \<Rightarrow> e = HTTPException 404 ''node not found'' \<and> cp' = cp \<and> n \<notin> set (keys (rg_nodes (cp_registry cp)))
    | Inr _ \<Rightarrow> (\<forall>p\<in>set (list_profiles (cp_registry cp')). np_id p \<noteq> n)
        \<and> n \<notin> set (keys (tl_latest (cp_telemetry cp')))
        \<and> (\<forall>auth_now now w m token. post_heartbeat auth_now now w n m token cp'
             = (Inl (HTTPException 401 ''invalid or expired bearer token''), cp'))
        \<and> (\<forall>frepr auth_now now w fresh p nonce signature.
             np_id p = n \<longrightarrow> nonce \<noteq> [] \<longrightarrow> length signature = 64 \<longrightarrow>
             (\<exists>d. join_node frepr auth_now now w fresh p nonce signature cp' = (Inl (HTTPException 403 d), cp')))"
proof (cases "map_of (rg_nodes (cp_registry cp)) n")
  case None
  then have "n \<notin> set (keys (rg_nodes (cp_registry cp)))" by (simp add: map_of_eq_None_iff)
  moreover have "res = Inl (HTTPException 404 ''node not found'')" "cp' = cp"
    using assms(2) None by (auto simp: delete_node_def remove_def)
  ultimately show ?thesis by simp
next
  case (Some rec)
  then have res: "res = Inr ()" and cp': "cp' = cp\<lparr>cp_registry := snd (remove wall n (cp_registry cp)),
      cp_telemetry := tl_remove n (cp_telemetry cp), cp_auth := revoke n (cp_auth cp)\<rparr>"
    using assms(2) by (auto simp: delete_node_def remove_def)
  have "rg_reachable (cp_registry cp')"
    using rg_reachable.step[OF assms(1), of wall "Op_remove n"] by (simp add: cp')
  moreover have "map_of (rg_nodes (cp_registry cp')) n = None"
    by (simp add: cp' remove_def Some delete_conv')
  ultimately have nodes: "\<forall>p\<in>set (list_profiles (cp_registry cp')). np_id p \<noteq> n"
    using list_profiles_mem by fastforce
  have tel: "n \<notin> set (keys (tl_latest (cp_telemetry cp')))"
    by (simp add: cp' tl_remove_def flip: map_of_eq_None_iff) (simp add: delete_conv')
  have tok: "map_of (am_tokens (cp_auth cp')) n = None"
    by (simp add: cp' revoke_def delete_conv')
  have hb: "post_heartbeat auth_now now w n m token cp'
      = (Inl (HTTPException 401 ''invalid or expired bearer token''), cp')" for auth_now now w m token
    using tok by (cases "bearer_token token") (simp_all add: post_heartbeat_def validate_token_def Let_def)
  have ch: "jc_node_id c \<noteq> n" if "map_of (am_challenges (cp_auth cp')) nonce = Some c" for nonce c
    using map_of_SomeD[OF that] by (auto simp: cp' revoke_def)
  have jn: "\<exists>d. join_node frepr auth_now now w fresh p nonce signature cp' = (Inl (HTTPException 403 d), cp')"
    if "np_id p = n" "nonce \<noteq> []" "length signature = 64" for frepr auth_now now w fresh p nonce signature
    using that ch[of nonce]
    by (auto simp: join_node_def complete_join_def profile_dict_def jget_def split: option.splits)
  show ?thesis using res nodes tel hb jn by simp
qed

theorem deleted_node_locked_out_witness:
  "fst (delete_node of_int ''a'' sample_plane) = Inr ()
   \<and> fst (post_heartbeat 0 0 of_int ''a'' None (Some ''Bearer t'') (snd (delete_node of_int ''a'' sample_plane)))
     = Inl (HTTPException 401 ''invalid or expired bearer token'')"
proof -
  have r: "rg_reachable (cp_registry sample_plane)" by (simp add: sample_plane_def busy_registry_reachable)
  have ok: "fst (delete_node of_int ''a'' sample_plane) = Inr ()" by code_simp
  then have "delete_node of_int ''a'' sample_plane = (Inr (), snd (delete_node of_int ''a'' sample_plane))"
    by (metis prod.collapse)
  from deleted_node_locked_out[OF r this] ok show ?thesis by simp
qed

end
