(* ===== verification/Sandbox.thy ===== *)
theory Sandbox
  imports Join_Auth "HOL-Library.Sublist"
begin

text \<open>
  \<open>node/sandbox.py\<close>: the policy of \<open>/exec\<close>, the command line it builds, the bounded collection of
  the output and the audit log. The file system and the processes are the operating system's: path
  resolution, existence and \<open>which\<close> come as a record of functions, and running a command as a
  function from the command line to what happened. An absolute path is the list of its components.
  Output is kept as bytes; decoding it replaces what is not UTF-8.
\<close>

subsection \<open>Policy constants\<close>

definition MAX_TIMEOUT_S :: rat where "MAX_TIMEOUT_S = 30"

definition MAX_OUTPUT_CAP_BYTES :: int where "MAX_OUTPUT_CAP_BYTES = 1024 * 1024"

definition DEFAULT_ALLOWLIST :: "string list" where
  "DEFAULT_ALLOWLIST = [''cat'', ''grep'', ''head'', ''ls'', ''rg'', ''shasum'', ''sha256sum'', ''sort'',
     ''tail'', ''uniq'', ''wc'']"

definition FORBIDDEN_OPTIONS :: "string list" where
  "FORBIDDEN_OPTIONS = [''--dereference-recursive'', ''--follow'', ''--pre'', ''--pre-glob'', ''--output'',
     ''-L'', ''-o'', ''-R'']"

definition FORBIDDEN_OPTION_PREFIXES :: "string list" where
  "FORBIDDEN_OPTION_PREFIXES = [''--output='', ''--pre='', ''--pre-glob='']"

definition FORBIDDEN_SHORT_FLAGS :: "char list" where "FORBIDDEN_SHORT_FLAGS = ''LR''"

definition FORBIDDEN_SHORT_FLAGS_BY_COMMAND :: "(string, char list) dict" where
  "FORBIDDEN_SHORT_FLAGS_BY_COMMAND = [(''sort'', ''o'')]"

definition AUDIT_LOG_NAME :: string where "AUDIT_LOG_NAME = ''exec-audit.jsonl''"

subsection \<open>Paths\<close>

text \<open>\<open>PurePosixPath(text)\<close>: whether it is absolute, and its components without the root.\<close>

definition path_absolute :: "string \<Rightarrow> bool" where
  "path_absolute s = starts_with ''/'' s"

definition path_parts :: "string \<Rightarrow> string list" where
  "path_parts s = filter (\<lambda>c. c \<noteq> [] \<and> c \<noteq> ''.'') (py_split (CHR ''/'') s)"

definition path_name :: "string \<Rightarrow> string" where
  "path_name s = (case path_parts s of [] \<Rightarrow> [] | ps \<Rightarrow> last ps)"

definition path_text :: "string list \<Rightarrow> string" where
  "path_text ps = ''/'' @ str_join ''/'' ps"

record filesystem =
  fs_resolve :: "string list \<Rightarrow> string list"
  fs_exists :: "string list \<Rightarrow> bool"
  fs_is_dir :: "string list \<Rightarrow> bool"
  fs_which :: "string \<Rightarrow> string option"

subsection \<open>State\<close>

datatype sandbox_error = Sandbox_rejected string | Sandbox_execution_error string

record audit_entry =
  au_argv :: "string list"
  au_cwd :: string
  au_duration_ms :: rat
  au_invocation_hash :: string
  au_job_id :: "string option"
  au_message :: string
  au_status :: string
  au_timestamp :: rat

record sandbox =
  sb_root :: "string list"
  sb_allowlist :: "string list"
  sb_require_linux_isolation :: bool
  sb_bubblewrap :: "string option"
  sb_audit :: "audit_entry list"

text \<open>The \<open>bubblewrap\<close> argument: \<open>None\<close>, \<open>False\<close> or a path.\<close>

datatype bubblewrap_arg = From_path | No_bubblewrap | Bubblewrap string

definition new_sandbox :: "filesystem \<Rightarrow> string list \<Rightarrow> string list \<Rightarrow> bool option \<Rightarrow> bubblewrap_arg \<Rightarrow> sandbox" where
  "new_sandbox fs scratch_root allowlist require bubblewrap =
     \<lparr>sb_root = fs_resolve fs scratch_root, sb_allowlist = allowlist,
      sb_require_linux_isolation = (case require of None \<Rightarrow> True | Some b \<Rightarrow> b),
      sb_bubblewrap = (case bubblewrap of No_bubblewrap \<Rightarrow> None | Bubblewrap p \<Rightarrow> Some p
                       | From_path \<Rightarrow> fs_which fs ''bwrap''),
      sb_audit = []\<rparr>"

subsection \<open>Validation\<close>

definition forbidden_option :: "string \<Rightarrow> string \<Rightarrow> bool" where
  "forbidden_option command_name v =
     (if v \<in> set FORBIDDEN_OPTIONS \<or> list_ex (\<lambda>p. starts_with p v) FORBIDDEN_OPTION_PREFIXES then True
      else if \<not> starts_with ''-'' v \<or> starts_with ''--'' v then False
      else
        let bundled_flags = drop 1 v;
            forbidden = FORBIDDEN_SHORT_FLAGS
              @ (case map_of FORBIDDEN_SHORT_FLAGS_BY_COMMAND command_name of None \<Rightarrow> [] | Some f \<Rightarrow> f)
        in list_ex (\<lambda>flag. flag \<in> set bundled_flags) forbidden)"

definition jailed_path :: "filesystem \<Rightarrow> sandbox \<Rightarrow> string \<Rightarrow> sandbox_error + string list" where
  "jailed_path fs sb v =
     (if v = [] \<or> starts_with ''~'' v
      then Inl (Sandbox_rejected ''working directory must be relative to scratch'')
      else if path_absolute v \<or> ''..'' \<in> set (path_parts v)
      then Inl (Sandbox_rejected ''working directory escapes scratch'')
      else
        let resolved = fs_resolve fs (sb_root sb @ path_parts v) in
        if \<not> prefix (sb_root sb) resolved
        then Inl (Sandbox_rejected ''working directory escapes scratch'')
        else Inr resolved)"

definition option_value :: "string \<Rightarrow> string" where
  "option_value argument = (case py_partition (CHR ''='') argument of (h, sep, t) \<Rightarrow> if sep = [] then h else t)"

definition reject_escaping_argument :: "filesystem \<Rightarrow> sandbox \<Rightarrow> string list \<Rightarrow> string \<Rightarrow> sandbox_error + unit" where
  "reject_escaping_argument fs sb cwd argument =
     (if starts_with ''~'' argument then Inl (Sandbox_rejected ''home-directory paths are forbidden'')
      else
        let candidate = option_value argument in
        if path_absolute candidate \<or> ''..'' \<in> set (path_parts candidate)
        then Inl (Sandbox_rejected ''arguments may not address paths outside scratch'')
        else if fs_exists fs (cwd @ path_parts candidate)
          \<and> \<not> prefix (sb_root sb) (fs_resolve fs (cwd @ path_parts candidate))
        then Inl (Sandbox_rejected ''arguments may not follow links outside scratch'')
        else Inr ())"

definition valid_timeout :: "json \<Rightarrow> sandbox_error + rat" where
  "valid_timeout j =
     (case j of
        JBool _ \<Rightarrow> Inl (Sandbox_rejected ''timeout_s must be a number'')
      | _ \<Rightarrow> (case jnumber j of
          None \<Rightarrow> Inl (Sandbox_rejected ''timeout_s must be a number'')
        | Some t \<Rightarrow> if 0 < t \<and> t \<le> MAX_TIMEOUT_S then Inr t
                    else Inl (Sandbox_rejected ''timeout_s must be between 0 and 30.0'')))"

definition valid_cap :: "json \<Rightarrow> sandbox_error + int" where
  "valid_cap j =
     (case j of
        JInt k \<Rightarrow> if 1 \<le> k \<and> k \<le> MAX_OUTPUT_CAP_BYTES then Inr k
                  else Inl (Sandbox_rejected ''output_cap_bytes must be between 1 and 1048576'')
      | _ \<Rightarrow> Inl (Sandbox_rejected ''output_cap_bytes must be an integer''))"

definition validate :: "filesystem \<Rightarrow> sandbox \<Rightarrow> string list \<Rightarrow> string \<Rightarrow> json \<Rightarrow> json
    \<Rightarrow> sandbox_error + (string \<times> string list)" where
  "validate fs sb argv cwd timeout_s output_cap_bytes =
     (if argv = [] \<or> [] \<in> set argv then Inl (Sandbox_rejected ''argv must be a non-empty list of strings'')
      else
        let command_name = path_name (hd argv) in
        if hd argv \<noteq> command_name \<or> command_name \<notin> set (sb_allowlist sb)
        then Inl (Sandbox_rejected (''command '' @ py_repr (hd argv) @ '' is not allowlisted''))
        else if list_ex (forbidden_option command_name) (tl argv)
        then Inl (Sandbox_rejected ''command requests forbidden link or helper traversal'')
        else
          rbind (valid_timeout timeout_s) (\<lambda>_.
          rbind (valid_cap output_cap_bytes) (\<lambda>_.
          rbind (jailed_path fs sb cwd) (\<lambda>working_directory.
          if \<not> fs_is_dir fs working_directory
          then Inl (Sandbox_rejected ''working directory does not exist'')
          else
            rbind (rmapM (reject_escaping_argument fs sb working_directory) (tl argv)) (\<lambda>_.
            case fs_which fs command_name of
              None \<Rightarrow> Inl (Sandbox_rejected (''allowlisted command '' @ py_repr command_name @ '' is not installed''))
            | Some executable \<Rightarrow>
                if sb_require_linux_isolation sb \<and> sb_bubblewrap sb = None
                then Inl (Sandbox_rejected ''bubblewrap is required for isolated execution'')
                else Inr (executable, working_directory))))))"

subsection \<open>The command line\<close>

definition isolated_command :: "filesystem \<Rightarrow> sandbox \<Rightarrow> string \<Rightarrow> string list \<Rightarrow> string list \<Rightarrow> string list" where
  "isolated_command fs sb executable arguments cwd =
     (case sb_bubblewrap sb of
        None \<Rightarrow> executable # arguments
      | Some bwrap \<Rightarrow>
          [bwrap, ''--die-with-parent'', ''--new-session'', ''--unshare-net'', ''--proc'', ''/proc'',
           ''--dev'', ''/dev'', ''--bind'', path_text (sb_root sb), path_text (sb_root sb), ''--chdir'', path_text cwd]
          @ concat (map (\<lambda>p. if fs_exists fs (path_parts p) then [''--ro-bind'', p, p] else [])
              [''/usr'', ''/bin'', ''/lib'', ''/lib64''])
          @ [''--'', executable] @ arguments)"

definition invocation_hash :: "(rat \<Rightarrow> string) \<Rightarrow> string list \<Rightarrow> string \<Rightarrow> json \<Rightarrow> json \<Rightarrow> string" where
  "invocation_hash frepr argv cwd timeout_s output_cap_bytes =
     hexdigest (sha256 (json_dumps frepr (JObj [(''argv'', JList (map JStr argv)), (''cwd'', JStr cwd),
       (''output_cap_bytes'', output_cap_bytes), (''timeout_s'', timeout_s)])))"

subsection \<open>Collecting output\<close>

record output_collector =
  oc_cap :: int
  oc_stdout :: string
  oc_stderr :: string
  oc_truncated :: bool

definition new_collector :: "int \<Rightarrow> output_collector" where
  "new_collector cap = \<lparr>oc_cap = cap, oc_stdout = [], oc_stderr = [], oc_truncated = False\<rparr>"

datatype stream = Stdout | Stderr

text \<open>
  One turn of \<open>drain\<close> under the lock; the two reader threads interleave, so that a run is a list of
  chunks each with its stream.
\<close>

definition drain_chunk :: "stream \<times> string \<Rightarrow> output_collector \<Rightarrow> output_collector" where
  "drain_chunk sc oc =
     (case sc of (destination, chunk) \<Rightarrow>
        let retained = int (length (oc_stdout oc) + length (oc_stderr oc));
            remaining = max 0 (oc_cap oc - retained);
            kept = take (nat remaining) chunk;
            oc1 = (case destination of Stdout \<Rightarrow> oc\<lparr>oc_stdout := oc_stdout oc @ kept\<rparr>
                   | Stderr \<Rightarrow> oc\<lparr>oc_stderr := oc_stderr oc @ kept\<rparr>)
        in if int (length chunk) > remaining then oc1\<lparr>oc_truncated := True\<rparr> else oc1)"

definition drain :: "(stream \<times> string) list \<Rightarrow> output_collector \<Rightarrow> output_collector" where
  "drain chunks oc = fold drain_chunk chunks oc"

subsection \<open>Execution\<close>

text \<open>
  What the operating system does with a command: it cannot be started, or it writes chunks and
  exits with a code or is killed at the timeout.
\<close>

datatype process_run =
    Start_failed string
  | Process_ran "(stream \<times> string) list" "int option"

record sandbox_result =
  sr_invocation_hash :: string
  sr_argv :: "string list"
  sr_cwd :: string
  sr_exit_code :: "int option"
  sr_stdout :: string
  sr_stderr :: string
  sr_timed_out :: bool
  sr_truncated :: bool
  sr_duration_ms :: rat

definition result_ok :: "sandbox_result \<Rightarrow> bool" where
  "result_ok r \<longleftrightarrow> sr_exit_code r = Some 0 \<and> \<not> sr_timed_out r"

definition audit :: "rat \<Rightarrow> string \<Rightarrow> string list \<Rightarrow> string \<Rightarrow> string \<Rightarrow> string \<Rightarrow> rat \<Rightarrow> string option
    \<Rightarrow> sandbox \<Rightarrow> sandbox" where
  "audit wall hash argv cwd status message duration_ms job_id sb =
     sb\<lparr>sb_audit := sb_audit sb @ [\<lparr>au_argv = argv, au_cwd = cwd, au_duration_ms = py_round_n 3 duration_ms,
        au_invocation_hash = hash, au_job_id = job_id, au_message = message, au_status = status,
        au_timestamp = wall\<rparr>]\<rparr>"

definition exit_text :: "int option \<Rightarrow> string" where
  "exit_text code = ''exit_code='' @ (case code of None \<Rightarrow> ''None'' | Some c \<Rightarrow> str_int c)"

definition relative_text :: "string list \<Rightarrow> string list \<Rightarrow> string" where
  "relative_text base p = (case drop (length base) p of [] \<Rightarrow> ''.'' | ps \<Rightarrow> str_join ''/'' ps)"

text \<open>\<open>started\<close> and \<open>ended\<close> are the two readings of the clock, \<open>wall\<close> the time of the audit entry.\<close>

definition execute :: "(rat \<Rightarrow> string) \<Rightarrow> filesystem \<Rightarrow> (string list \<Rightarrow> string list \<Rightarrow> rat \<Rightarrow> process_run)
    \<Rightarrow> rat \<Rightarrow> rat \<Rightarrow> rat \<Rightarrow> string list \<Rightarrow> string \<Rightarrow> json \<Rightarrow> json \<Rightarrow> string option \<Rightarrow> sandbox
    \<Rightarrow> (sandbox_error + sandbox_result) \<times> sandbox" where
  "execute frepr fs run started ended wall argv cwd timeout_s output_cap_bytes job_id sb =
     (let hash = invocation_hash frepr argv cwd timeout_s output_cap_bytes;
          duration_ms = (ended - started) * 1000
      in case validate fs sb argv cwd timeout_s output_cap_bytes of
        Inl e \<Rightarrow>
          (Inl e, audit wall hash argv cwd ''refused''
             (case e of Sandbox_rejected m \<Rightarrow> m | Sandbox_execution_error m \<Rightarrow> m) duration_ms job_id sb)
      | Inr (executable, working_directory) \<Rightarrow>
          let command = isolated_command fs sb executable (tl argv) working_directory;
              timeout = (case jnumber timeout_s of None \<Rightarrow> 0 | Some t \<Rightarrow> t);
              cap = (case output_cap_bytes of JInt k \<Rightarrow> k | _ \<Rightarrow> 0)
          in (case run command working_directory timeout of
                Start_failed m \<Rightarrow>
                  (Inl (Sandbox_execution_error ''sandbox runtime could not start''),
                   audit wall hash argv cwd ''failed'' m duration_ms job_id sb)
              | Process_ran chunks exit_code \<Rightarrow>
                  let out = drain chunks (new_collector cap); timed_out = (exit_code = None) in
                  (Inr \<lparr>sr_invocation_hash = hash, sr_argv = argv,
                        sr_cwd = relative_text (sb_root sb) working_directory,
                        sr_exit_code = exit_code, sr_stdout = oc_stdout out, sr_stderr = oc_stderr out,
                        sr_timed_out = timed_out, sr_truncated = oc_truncated out,
                        sr_duration_ms = duration_ms\<rparr>,
                   audit wall hash argv cwd (if timed_out then ''timed_out'' else ''completed'')
                     (exit_text exit_code) duration_ms job_id sb)))"

end
