(* ===== verification/Sandbox_Properties.thy ===== *)
theory Sandbox_Properties
  imports Sandbox
begin

text \<open>
  The sandbox's contract: what a command that ran has passed, how much of its output is kept, and
  that every request leaves one line in the audit log.
\<close>

subsection \<open>Output\<close>

definition written :: "stream \<Rightarrow> (stream \<times> string) list \<Rightarrow> string" where
  "written s chunks = concat (map snd (filter (\<lambda>sc. fst sc = s) chunks))"

lemma written_simps [simp]:
  "written s [] = []" "written s (sc # cs) = (if fst sc = s then snd sc else []) @ written s cs"
  by (simp_all add: written_def)


lemma written_snoc [simp]:
  "written s (cs @ [sc]) = written s cs @ (if fst sc = s then snd sc else [])"
  by (simp add: written_def)



lemma drain_cap [simp]: "oc_cap (drain cs oc) = oc_cap oc"
  by (induction cs rule: rev_induct)
    (auto simp: drain_def drain_chunk_def Let_def split: prod.splits stream.splits)


subsection \<open>Policy\<close>









definition sample_fs :: filesystem where
  "sample_fs = \<lparr>fs_resolve = (\<lambda>p. p), fs_exists = (\<lambda>p. p = [''var'', ''a.txt'']),
     fs_is_dir = (\<lambda>p. p = [''var'']), fs_which = (\<lambda>n. Some (''/usr/bin/'' @ n))\<rparr>"

definition sample_sandbox :: sandbox where
  "sample_sandbox = new_sandbox sample_fs [''var''] DEFAULT_ALLOWLIST None From_path"




text \<open>
  Two commands the policy lets through although they write a file: \<open>uniq\<close> takes its output file as
  a second operand, here the audit log itself, and GNU \<open>sort\<close> accepts abbreviations of \<open>--output\<close>.
\<close>

lemma uniq_output_accepted:
  "\<exists>x. validate sample_fs sample_sandbox [''uniq'', ''a.txt'', AUDIT_LOG_NAME] ''.'' (JInt 5) (JInt 3) = Inr x"
  "\<exists>x. validate sample_fs sample_sandbox [''sort'', ''--outpu=b.txt'', ''a.txt''] ''.'' (JInt 5) (JInt 3) = Inr x"
proof -
  show "\<exists>x. validate sample_fs sample_sandbox [''uniq'', ''a.txt'', AUDIT_LOG_NAME] ''.'' (JInt 5) (JInt 3) = Inr x"
    by (rule exI[of _ "(''/usr/bin/uniq'', [''var''])"]) code_simp
  show "\<exists>x. validate sample_fs sample_sandbox [''sort'', ''--outpu=b.txt'', ''a.txt''] ''.'' (JInt 5) (JInt 3) = Inr x"
    by (rule exI[of _ "(''/usr/bin/sort'', [''var''])"]) code_simp
qed

end
