(* ===== verification/Number_Text.thy ===== *)
theory Number_Text
  imports Json
begin

text \<open>Numbers written by \<open>str\<close> and read by \<open>int\<close> and \<open>float\<close>.\<close>

subsection \<open>Words\<close>

definition word :: "string \<Rightarrow> bool" where
  "word v \<longleftrightarrow> v \<noteq> [] \<and> list_all (\<lambda>c. \<not> py_space c) v"

lemma strip_id:
  assumes "s \<noteq> []" "\<not> py_space (hd s)" "\<not> py_space (last s)"
  shows "py_strip s = s"
proof -
  have "dropWhile py_space s = s" using assms by (cases s) auto
  moreover have "\<not> py_space (hd (rev s))" "rev s \<noteq> []" using assms by (simp_all add: hd_rev)
  then have "dropWhile py_space (rev s) = rev s" by (cases "rev s") auto
  ultimately show ?thesis by (simp add: py_strip_def rstrip_while_def)
qed

lemma word_ends: "word v \<Longrightarrow> v \<noteq> [] \<and> \<not> py_space (hd v) \<and> \<not> py_space (last v)"
  by (auto simp: word_def list_all_iff)

subsection \<open>Numbers\<close>

lemma digit_char_value: "d < 10 \<Longrightarrow> (of_char (digit_char d) :: int) = 48 + int d"
proof -
  assume "d < 10"
  have "(of_char (digit_char d) :: int) = int (of_char (digit_char d))" by (simp only: of_nat_of_char)
  then show ?thesis using \<open>d < 10\<close> by (simp add: digit_char_def)
qed

abbreviation decimal :: "int \<Rightarrow> string \<Rightarrow> int" where
  "decimal \<equiv> foldl (\<lambda>a c. a * 10 + (of_char c - 48))"

lemma digits_of_all: "list_all is_digit_char s \<Longrightarrow> digits_of acc k s = (decimal acc s, k + length s, [])"
  by (induction s arbitrary: acc k) auto

lemma str_nat_all_digits: "list_all is_digit_char (str_nat n) \<and> str_nat n \<noteq> []"
proof (induction n rule: str_nat.induct)
  case (1 n)
  have "is_digit_char (digit_char d)" if "d < 10" for d
    using that by (simp add: is_digit_char_def digit_char_value)
  then show ?case using 1 by (subst (1 2) str_nat.simps) auto
qed

lemma decimal_str_nat: "decimal 0 (str_nat n) = int n"
proof (induction n rule: str_nat.induct)
  case (1 n)
  show ?case
  proof (cases "n < 10")
    case True
    then show ?thesis by (subst str_nat.simps) (simp add: digit_char_value)
  next
    case False
    with 1 have "decimal 0 (str_nat n) = int (n div 10) * 10 + int (n mod 10)"
      by (subst str_nat.simps) (simp add: digit_char_value)
    then show ?thesis by (simp add: of_nat_div of_nat_mod)
  qed
qed

lemma str_int_word: "word (str_int i)"
proof -
  have "\<not> py_space c" if "is_digit_char c" for c using that by (auto simp: is_digit_char_def py_space_def)
  then have "list_all (\<lambda>c. \<not> py_space c) (str_nat n)" for n
    using str_nat_all_digits[of n] by (auto simp: list_all_iff)
  then show ?thesis using str_nat_all_digits by (auto simp: word_def str_int_def py_space_def)
qed

lemma digits_of_str_nat: "digits_of 0 0 (str_nat n) = (int n, length (str_nat n), [])"
  using digits_of_all[of "str_nat n" 0 0] str_nat_all_digits[of n] decimal_str_nat[of n] by simp

lemma str_nat_sign: "read_sign (str_nat n) = (1, str_nat n)" and read_sign_minus: "read_sign (CHR ''-'' # s) = (-1, s)"
proof -
  obtain c r where cr: "str_nat n = c # r" "is_digit_char c"
    using str_nat_all_digits[of n] by (cases "str_nat n") auto
  have "c \<noteq> CHR ''-''" "c \<noteq> CHR ''+''" using cr(2) by (auto simp: is_digit_char_def)
  then show "read_sign (str_nat n) = (1, str_nat n)" by (simp add: read_sign_def cr(1))
qed (simp add: read_sign_def)

lemma strip_str_int: "py_strip (str_int i) = str_int i"
  using word_ends[OF str_int_word[of i]] strip_id by blast

text \<open>\<open>int(str(i))\<close> is \<open>i\<close>, and so is \<open>float(str(i))\<close> for a natural number.\<close>

lemma py_int_str_int [simp]: "py_int_of_text (str_int i) = Some i"
  using str_nat_all_digits[of "nat i"] str_nat_all_digits[of "nat (- i)"]
  by (cases "i < 0") (simp_all add: py_int_of_text_def strip_str_int, simp_all add: str_int_def str_nat_sign read_sign_minus digits_of_str_nat)

lemma py_float_str_int:
  assumes "0 \<le> i"
  shows "py_float (str_int i) = Some (of_int i)"
  using str_nat_all_digits[of "nat i"] assms
  by (simp add: py_float_def strip_str_int)
    (simp add: str_int_def str_nat_sign digits_of_str_nat read_exponent_def ten_power_def)

end
