(* ===== verification/Node_Agent.thy ===== *)
theory Node_Agent
  imports Sandbox Job_Queue Control_Plane
begin

text \<open>
  \<open>node/dain_node.py\<close>: the agent on a node. Probing the machine, joining and heart-beating against
  the control plane, the \<open>/metrics\<close> text, and the job endpoints. What psutil, the sockets, the
  environment and the HTTP client return are arguments; so are the results of the index, the
  inference backend and the benchmark, which an endpoint only forwards. \<open>Search_Plane\<close>, \<open>Inference\<close> and
  \<open>Node_Bench\<close> put the modules themselves in their place.
\<close>

subsection \<open>Constants\<close>

definition DEFAULT_NODE_PORT :: int where "DEFAULT_NODE_PORT = 9100"

definition DEFAULT_RPC_PORT :: int where "DEFAULT_RPC_PORT = 50052"

definition RPC_BINARY_NAME :: string where "RPC_BINARY_NAME = ''rpc-server''"

definition LOOPBACK :: string where "LOOPBACK = ''127.0.0.1''"

definition WILDCARD_ADDRESSES :: "string list" where
  "WILDCARD_ADDRESSES = ['''', ''0.0.0.0'', ''::'']"

subsection \<open>Addresses and profile\<close>

text \<open>
  \<open>iface_env\<close> is \<open>$DAIN_FABRIC_IFACE\<close>, \<open>interface_ipv4\<close> the address of an interface and
  \<open>route_source_ip\<close> the address the kernel would use to reach the control plane.
\<close>

definition detect_fabric_ip :: "string option \<Rightarrow> (string \<Rightarrow> string option) \<Rightarrow> (string \<Rightarrow> string option) \<Rightarrow> string \<Rightarrow> string" where
  "detect_fabric_ip iface_env interface_ipv4 route_source_ip ctl_host =
     (let by_route = (case route_source_ip ctl_host of
            None \<Rightarrow> LOOPBACK | Some a \<Rightarrow> if a \<noteq> [] \<and> a \<noteq> LOOPBACK then a else LOOPBACK)
      in case iface_env of
        None \<Rightarrow> by_route
      | Some iface \<Rightarrow>
          if iface = [] then by_route
          else (case interface_ipv4 iface of
              None \<Rightarrow> by_route | Some a \<Rightarrow> if a \<noteq> [] then a else by_route))"

fun first_model_name :: "string list \<Rightarrow> string option res" where
  "first_model_name [] = Inr None"
| "first_model_name (line # lines) =
     (if starts_with ''model name'' line
      then (case py_partition (CHR '':'') line of (_, sep, rest) \<Rightarrow>
              if sep = [] then Inl (IndexError ''list index out of range'') else Inr (Some (py_strip rest)))
      else first_model_name lines)"

definition read_cpu_model :: "string option \<Rightarrow> string \<Rightarrow> string \<Rightarrow> string res" where
  "read_cpu_model cpuinfo processor machine =
     (let fallback = (if processor \<noteq> [] then processor else if machine \<noteq> [] then machine else ''unknown'') in
      case cpuinfo of
        None \<Rightarrow> Inr fallback
      | Some text \<Rightarrow> rbind (first_model_name (splitlines text)) (\<lambda>m.
          Inr (case m of None \<Rightarrow> fallback | Some name \<Rightarrow> name)))"

definition build_local_profile :: "string \<Rightarrow> string \<Rightarrow> string \<Rightarrow> int option \<Rightarrow> int \<Rightarrow> int \<Rightarrow> node_profile" where
  "build_local_profile node_id fabric_ip cpu cpu_count memory_total memory_available =
     \<lparr>np_id = node_id, np_host = fabric_ip, np_cpu = cpu,
      np_cores = (case cpu_count of None \<Rightarrow> 1 | Some n \<Rightarrow> if n = 0 then 1 else n),
      np_ram_total_mb = memory_total div BYTES_PER_MIB, np_ram_free_mb = memory_available div BYTES_PER_MIB,
      np_gpu = None, np_vram_total_mb = 0, np_backend = ''cpu'', np_mem_bandwidth_gbs = 0,
      np_tg_tok_s = 0, np_pp_tok_s = 0, np_rtt_ms = 0, np_state = Joining\<rparr>"

text \<open>
  \<open>measured\<close> is the outcome of \<open>measure(bench)\<close>: \<open>None\<close> for the two exceptions caught, else the
  decode and prefill speeds, each of which may be missing.
\<close>

definition calibrate_profile :: "bool \<Rightarrow> (rat option \<times> rat option) option \<Rightarrow> node_profile \<Rightarrow> node_profile" where
  "calibrate_profile configured measured profile =
     (if \<not> configured then profile
      else case measured of
        None \<Rightarrow> profile
      | Some (None, _) \<Rightarrow> profile
      | Some (Some tg, pp) \<Rightarrow>
          if tg = 0 then profile
          else profile\<lparr>np_tg_tok_s := tg, np_pp_tok_s := (case pp of None \<Rightarrow> 0 | Some p \<Rightarrow> p)\<rparr>)"

definition sample_metrics :: "rat \<Rightarrow> rat \<Rightarrow> int \<Rightarrow> string \<Rightarrow> node_metrics" where
  "sample_metrics now cpu_percent memory_available node_id =
     \<lparr>nm_node_id = node_id, nm_timestamp = now, nm_cpu_percent = cpu_percent,
      nm_ram_free_mb = memory_available div BYTES_PER_MIB, nm_gpu_percent = None,
      nm_vram_free_mb = None, nm_jobs_running = 0\<rparr>"

subsection \<open>The local rpc-server\<close>

definition resolve_rpc_binary :: "filesystem \<Rightarrow> (string list \<Rightarrow> bool) \<Rightarrow> string list \<Rightarrow> string option" where
  "resolve_rpc_binary fs executable bin_dir =
     (let candidate = bin_dir @ [RPC_BINARY_NAME] in
      if fs_exists fs candidate \<and> \<not> fs_is_dir fs candidate \<and> executable candidate
      then Some (path_text candidate)
      else fs_which fs RPC_BINARY_NAME)"

text \<open>The command line that is started, if any.\<close>

definition start_rpc_server :: "string option \<Rightarrow> string \<Rightarrow> int \<Rightarrow> string list option res" where
  "start_rpc_server binary fabric_ip port =
     (if fabric_ip \<in> set WILDCARD_ADDRESSES
      then Inl (ValueError (''refusing to bind rpc-server to '' @ py_repr fabric_ip @ '': it has no authentication''))
      else Inr (map_option (\<lambda>b. [b, ''--host'', fabric_ip, ''-p'', str_int port, ''-c'']) binary))"

subsection \<open>Agent state and the control-plane client\<close>

record node_agent =
  na_profile :: node_profile
  na_ctl :: string
  na_pool_secret :: string
  na_bearer_token :: "string option"
  na_token_expires_at :: "rat option"
  na_node_port :: int
  na_rpc_port :: int
  na_sandbox :: sandbox

definition configure :: "node_profile \<Rightarrow> string \<Rightarrow> string \<Rightarrow> int \<Rightarrow> int \<Rightarrow> sandbox \<Rightarrow> node_agent" where
  "configure profile ctl pool_secret node_port rpc_port sb =
     \<lparr>na_profile = profile, na_ctl = ctl, na_pool_secret = pool_secret, na_bearer_token = None,
      na_token_expires_at = None, na_node_port = node_port, na_rpc_port = rpc_port, na_sandbox = sb\<rparr>"

definition join_url :: "node_agent \<Rightarrow> string" where
  "join_url ag = ''http://'' @ na_ctl ag @ ''/api/nodes/join''"

definition challenge_url :: "node_agent \<Rightarrow> string" where
  "challenge_url ag = join_url ag @ ''/challenge''"

definition heartbeat_url :: "node_agent \<Rightarrow> string" where
  "heartbeat_url ag = ''http://'' @ na_ctl ag @ ''/api/nodes/'' @ np_id (na_profile ag) @ ''/heartbeat''"

text \<open>
  The states of the contract. A report of anything else, which the control plane never sends, is
  ignored here and stored as it is by the source.
\<close>

definition state_of_name :: "string \<Rightarrow> node_state option" where
  "state_of_name s = find (\<lambda>st. state_name st = s) [Joining, Idle, Computing, Degraded, Offline]"

definition adopt_reported_state :: "json option \<Rightarrow> node_agent \<Rightarrow> node_agent" where
  "adopt_reported_state body ag =
     (case body of
        Some (JObj d) \<Rightarrow>
          (case jget d ''state'' of
             JStr s \<Rightarrow> (case state_of_name s of
                 Some st \<Rightarrow> ag\<lparr>na_profile := (na_profile ag)\<lparr>np_state := st\<rparr>\<rparr>
               | None \<Rightarrow> ag)
           | _ \<Rightarrow> ag)
      | _ \<Rightarrow> ag)"

text \<open>\<open>client.post\<close>: address, \<open>Authorization\<close> header and JSON body to the reply.\<close>

type_synonym http_post = "string \<Rightarrow> string option \<Rightarrow> json \<Rightarrow> http_reply"

definition join_pool :: "(rat \<Rightarrow> string) \<Rightarrow> http_post \<Rightarrow> node_agent \<Rightarrow> (bool \<times> node_agent) res" where
  "join_pool frepr post ag =
     (let ag0 = ag\<lparr>na_bearer_token := None, na_token_expires_at := None\<rparr> in
      case post (challenge_url ag0) None (JObj [(''node_id'', JStr (np_id (na_profile ag0)))]) of
        Transport_error _ \<Rightarrow> Inr (False, ag0)
      | Reply status _ body \<Rightarrow>
          if status \<noteq> 200 then Inr (False, ag0)
          else (case (case body of Some (JObj d) \<Rightarrow> jget d ''nonce'' | _ \<Rightarrow> JNull) of
              JStr nonce \<Rightarrow>
                if nonce = [] then Inr (False, ag0)
                else
                  let profile = JObj (profile_dict (na_profile ag0)) in
                  rbind (sign_join_challenge frepr (na_pool_secret ag0) nonce profile) (\<lambda>signature.
                  (case post (join_url ag0) None (JObj [(''profile'', profile), (''nonce'', JStr nonce),
                           (''signature'', JStr signature)]) of
                     Transport_error _ \<Rightarrow> Inr (False, ag0)
                   | Reply status2 _ body2 \<Rightarrow>
                       if status2 = 403 \<or> status2 \<noteq> 201 then Inr (False, ag0)
                       else
                         let d = (case body2 of Some (JObj d) \<Rightarrow> d | _ \<Rightarrow> []) in
                         (case (jget d ''access_token'', jnumber (jget d ''expires_at'')) of
                            (JStr token, Some expires) \<Rightarrow>
                              Inr (True, adopt_reported_state body2
                                (ag0\<lparr>na_bearer_token := Some token, na_token_expires_at := Some expires\<rparr>))
                          | _ \<Rightarrow> Inr (False, ag0))))
            | _ \<Rightarrow> Inr (False, ag0)))"

definition metrics_json :: "node_metrics \<Rightarrow> json" where
  "metrics_json m = JObj
     [(''node_id'', JStr (nm_node_id m)), (''timestamp'', JFloat (nm_timestamp m)),
      (''cpu_percent'', JFloat (nm_cpu_percent m)), (''ram_free_mb'', JInt (nm_ram_free_mb m)),
      (''gpu_percent'', (case nm_gpu_percent m of None \<Rightarrow> JNull | Some x \<Rightarrow> JFloat x)),
      (''vram_free_mb'', (case nm_vram_free_mb m of None \<Rightarrow> JNull | Some x \<Rightarrow> JInt x)),
      (''jobs_running'', JInt (nm_jobs_running m))]"

text \<open>\<open>False\<close> asks for a fresh join.\<close>

definition send_heartbeat :: "http_post \<Rightarrow> node_metrics \<Rightarrow> node_agent \<Rightarrow> bool \<times> node_agent" where
  "send_heartbeat post sample ag =
     (case na_bearer_token ag of
        None \<Rightarrow> (False, ag)
      | Some token \<Rightarrow>
          (case post (heartbeat_url ag) (Some (''Bearer '' @ token)) (JObj [(''metrics'', metrics_json sample)]) of
             Transport_error _ \<Rightarrow> (True, ag)
           | Reply status _ body \<Rightarrow>
               if status = 401 \<or> status = 403 \<or> status = 404
               then (False, ag\<lparr>na_bearer_token := None, na_token_expires_at := None\<rparr>)
               else if 400 \<le> status \<and> status \<le> 599 then (True, ag)
               else (True, adopt_reported_state body ag)))"

definition heartbeat_turn :: "(rat \<Rightarrow> string) \<Rightarrow> http_post \<Rightarrow> node_metrics \<Rightarrow> bool \<times> node_agent
    \<Rightarrow> (bool \<times> node_agent) res" where
  "heartbeat_turn frepr post sample st =
     (case st of (registered, ag) \<Rightarrow>
        if registered then Inr (send_heartbeat post sample ag) else join_pool frepr post ag)"

subsection \<open>The metrics text\<close>

definition newline :: string where "newline = [CHR 0x0A]"

definition metric_label :: "string \<Rightarrow> string" where
  "metric_label node_id = ''{node_id='' @ [dquote] @ node_id @ [dquote] @ ''}''"

definition metrics_lines :: "(rat \<Rightarrow> string) \<Rightarrow> node_metrics \<Rightarrow> bool \<Rightarrow> bool \<Rightarrow> bool \<Rightarrow> string list" where
  "metrics_lines frepr sample rpc_up infer_up bench_available =
     (let label = metric_label (nm_node_id sample); bit = (\<lambda>b. if b then ''1'' else ''0'') in
      [''# HELP node_cpu_utilisation CPU usage percent'',
       ''# TYPE node_cpu_utilisation gauge'',
       ''node_cpu_utilisation'' @ label @ '' '' @ frepr (nm_cpu_percent sample),
       ''# HELP node_memory_free_mib Available RAM in MiB'',
       ''# TYPE node_memory_free_mib gauge'',
       ''node_memory_free_mib'' @ label @ '' '' @ str_int (nm_ram_free_mb sample),
       ''# HELP node_rpc_server_up 1 when the local rpc-server is running'',
       ''# TYPE node_rpc_server_up gauge'',
       ''node_rpc_server_up'' @ label @ '' '' @ bit rpc_up,
       ''# HELP node_infer_up 1 when this node has an inference backend'',
       ''# TYPE node_infer_up gauge'',
       ''node_infer_up'' @ label @ '' '' @ bit infer_up,
       ''# HELP node_bench_available 1 when llama-bench and a model are present'',
       ''# TYPE node_bench_available gauge'',
       ''node_bench_available'' @ label @ '' '' @ bit bench_available])"

definition metrics_text :: "(rat \<Rightarrow> string) \<Rightarrow> node_metrics \<Rightarrow> bool \<Rightarrow> bool \<Rightarrow> bool \<Rightarrow> string" where
  "metrics_text frepr sample rpc_up infer_up bench_available =
     concat (map (\<lambda>line. line @ newline) (metrics_lines frepr sample rpc_up infer_up bench_available))"

subsection \<open>Job endpoints\<close>

record local_job_request =
  lj_fields :: job_fields
  lj_signature :: string

text \<open>The constraints of \<open>LocalJobRequest\<close>, then the signature.\<close>

definition local_request_valid :: "local_job_request \<Rightarrow> bool" where
  "local_request_valid rq \<longleftrightarrow> jf_job_id (lj_fields rq) \<noteq> []
     \<and> jf_kind (lj_fields rq) \<in> set [''exec'', ''index'', ''search'', ''infer'', ''bench'']
     \<and> 0 \<le> jf_shard_index (lj_fields rq) \<and> 1 \<le> jf_shard_count (lj_fields rq)
     \<and> 0 \<le> jf_issued_at (lj_fields rq) \<and> length (lj_signature rq) = 64"

definition authenticated_agent :: "(rat \<Rightarrow> string) \<Rightarrow> int \<Rightarrow> local_job_request \<Rightarrow> node_agent \<Rightarrow> unit res" where
  "authenticated_agent frepr now rq ag =
     (if \<not> local_request_valid rq then Inl invalid_request
      else
        rbind (verify_job_request frepr (na_pool_secret ag) (lj_fields rq) (lj_signature rq) now) (\<lambda>ok.
          if ok then Inr () else Inl (HTTPException 403 ''invalid job signature'')))"

definition require_kind :: "string \<Rightarrow> local_job_request \<Rightarrow> unit res" where
  "require_kind kind rq =
     (if jf_kind (lj_fields rq) \<noteq> kind then Inl (HTTPException 422 (''kind must be '' @ kind)) else Inr ())"

text \<open>The \<open>result\<close> object every endpoint opens with; later entries overwrite earlier ones.\<close>

definition job_reply :: "bool \<Rightarrow> local_job_request \<Rightarrow> node_agent \<Rightarrow> (string, json) dict \<Rightarrow> (string, json) dict" where
  "job_reply ok rq ag extra =
     [(''ok'', JBool ok),
      (''result'', JObj (dict_of ([(''node_id'', JStr (np_id (na_profile ag))),
         (''shard_index'', JInt (jf_shard_index (lj_fields rq))),
         (''shard_count'', JInt (jf_shard_count (lj_fields rq)))] @ extra)))]"

definition refresh_index :: "(rat \<Rightarrow> string) \<Rightarrow> int \<Rightarrow> (string, json) dict res \<Rightarrow> local_job_request \<Rightarrow> node_agent
    \<Rightarrow> (string, json) dict res" where
  "refresh_index frepr now stats rq ag =
     rbind (authenticated_agent frepr now rq ag) (\<lambda>_.
     rbind (require_kind ''index'' rq) (\<lambda>_.
     (case stats of
        Inl (EmbeddingUnavailableError m) \<Rightarrow> Inl (HTTPException 503 m)
      | Inl e \<Rightarrow> Inl e
      | Inr s \<Rightarrow> Inr (job_reply True rq ag s))))"

text \<open>The clauses around \<open>search_index.search(query, limit)\<close>.\<close>

definition search_status :: "py_error \<Rightarrow> py_error" where
  "search_status e =
     (case e of IndexNotReadyError m \<Rightarrow> HTTPException 409 m
      | EmbeddingUnavailableError m \<Rightarrow> HTTPException 503 m
      | ValueError m \<Rightarrow> HTTPException 422 m
      | _ \<Rightarrow> e)"

definition search :: "(rat \<Rightarrow> string) \<Rightarrow> int \<Rightarrow> string \<Rightarrow> (string \<Rightarrow> int \<Rightarrow> (string, json) dict list res) \<Rightarrow> local_job_request
    \<Rightarrow> node_agent \<Rightarrow> (string, json) dict res" where
  "search frepr now model_id search_index rq ag =
     rbind (authenticated_agent frepr now rq ag) (\<lambda>_.
     rbind (require_kind ''search'' rq) (\<lambda>_.
     let payload = jf_payload (lj_fields rq); n = np_id (na_profile ag) in
     (case jget payload ''query'' of
        JStr query \<Rightarrow>
          if py_strip query = [] then Inl (HTTPException 422 ''payload.query must not be empty'')
          else (case (case map_of payload ''limit'' of None \<Rightarrow> JInt 5 | Some v \<Rightarrow> v) of
              JInt limit \<Rightarrow>
                (case search_index query limit of
                   Inl e \<Rightarrow> Inl (search_status e)
                 | Inr hits \<Rightarrow>
                     rbind (rmapM (\<lambda>hit. rbind (dict_get hit ''path'') (\<lambda>path.
                         Inr (JObj (AList.update ''source'' (JStr (n @ '':'' @ json_str path))
                           (AList.update ''node_id'' (JStr n) hit))))) hits) (\<lambda>hs.
                       Inr (job_reply True rq ag [(''query'', JStr query), (''embedding_model'', JStr model_id),
                         (''hits'', JList hs)])))
            | _ \<Rightarrow> Inl (HTTPException 422 ''payload.limit must be an integer''))
      | _ \<Rightarrow> Inl (HTTPException 422 ''payload.query must not be empty''))))"

fun json_strings :: "json list \<Rightarrow> string list option" where
  "json_strings [] = Some []"
| "json_strings (JStr s # js) = map_option ((#) s) (json_strings js)"
| "json_strings (_ # js) = None"

definition result_dict :: "sandbox_result \<Rightarrow> (string, json) dict" where
  "result_dict r =
     [(''ok'', JBool (result_ok r)), (''invocation_hash'', JStr (sr_invocation_hash r)),
      (''argv'', JList (map JStr (sr_argv r))), (''cwd'', JStr (sr_cwd r)),
      (''exit_code'', (case sr_exit_code r of None \<Rightarrow> JNull | Some c \<Rightarrow> JInt c)),
      (''stdout'', JStr (sr_stdout r)), (''stderr'', JStr (sr_stderr r)),
      (''timed_out'', JBool (sr_timed_out r)), (''truncated'', JBool (sr_truncated r)),
      (''duration_ms'', JFloat (sr_duration_ms r))]"

text \<open>The sandbox is run with the arguments the payload gives.\<close>

type_synonym sandbox_exec = "string list \<Rightarrow> string \<Rightarrow> json \<Rightarrow> json \<Rightarrow> string option \<Rightarrow> sandbox
    \<Rightarrow> (sandbox_error + sandbox_result) \<times> sandbox"

definition exec_job :: "(rat \<Rightarrow> string) \<Rightarrow> int \<Rightarrow> sandbox_exec \<Rightarrow> local_job_request \<Rightarrow> node_agent
    \<Rightarrow> (string, json) dict res \<times> node_agent" where
  "exec_job frepr now exec rq ag =
     (case rbind (authenticated_agent frepr now rq ag) (\<lambda>_. require_kind ''exec'' rq) of
        Inl e \<Rightarrow> (Inl e, ag)
      | Inr _ \<Rightarrow>
          let payload = jf_payload (lj_fields rq);
              default = (\<lambda>k d. case map_of payload k of None \<Rightarrow> d | Some v \<Rightarrow> v)
          in (case (case jget payload ''argv'' of JList vs \<Rightarrow> json_strings vs | _ \<Rightarrow> None) of
                None \<Rightarrow> (Inl (HTTPException 422 ''payload.argv must be a list of strings''), ag)
              | Some argv \<Rightarrow>
                  (case default ''cwd'' (JStr ''.'') of
                     JStr cwd \<Rightarrow>
                       (case exec argv cwd (default ''timeout_s'' (JFloat 5)) (default ''output_cap_bytes'' (JInt 65536))
                               (Some (jf_job_id (lj_fields rq))) (na_sandbox ag) of
                          (Inl (Sandbox_rejected m), sb) \<Rightarrow> (Inl (HTTPException 422 m), ag\<lparr>na_sandbox := sb\<rparr>)
                        | (Inl (Sandbox_execution_error m), sb) \<Rightarrow> (Inl (HTTPException 503 m), ag\<lparr>na_sandbox := sb\<rparr>)
                        | (Inr r, sb) \<Rightarrow> (Inr (job_reply (result_ok r) rq ag (result_dict r)), ag\<lparr>na_sandbox := sb\<rparr>))
                   | _ \<Rightarrow> (Inl (HTTPException 422 ''payload.cwd must be a string''), ag))))"

text \<open>\<open>/infer\<close> and \<open>/bench\<close> map the two exceptions of their backend to 422 and 503.\<close>

definition backend_job :: "string \<Rightarrow> (py_error \<Rightarrow> bool) \<Rightarrow> (rat \<Rightarrow> string) \<Rightarrow> int \<Rightarrow> ((string, json) dict \<Rightarrow> (string, json) dict res)
    \<Rightarrow> local_job_request \<Rightarrow> node_agent \<Rightarrow> (string, json) dict res" where
  "backend_job kind unavailable frepr now backend rq ag =
     rbind (authenticated_agent frepr now rq ag) (\<lambda>_.
     rbind (require_kind kind rq) (\<lambda>_.
     (case backend (jf_payload (lj_fields rq)) of
        Inl (ValueError m) \<Rightarrow> Inl (HTTPException 422 m)
      | Inl e \<Rightarrow> Inl (if unavailable e then HTTPException 503 (err_text e) else e)
      | Inr result \<Rightarrow> Inr (job_reply True rq ag result))))"

definition infer :: "(rat \<Rightarrow> string) \<Rightarrow> int \<Rightarrow> ((string, json) dict \<Rightarrow> (string, json) dict res)
    \<Rightarrow> local_job_request \<Rightarrow> node_agent \<Rightarrow> (string, json) dict res" where
  "infer = backend_job ''infer'' (\<lambda>e. case e of InferenceUnavailableError _ \<Rightarrow> True | _ \<Rightarrow> False)"

definition bench :: "(rat \<Rightarrow> string) \<Rightarrow> int \<Rightarrow> ((string, json) dict \<Rightarrow> (string, json) dict res)
    \<Rightarrow> local_job_request \<Rightarrow> node_agent \<Rightarrow> (string, json) dict res" where
  "bench = backend_job ''bench'' (\<lambda>e. case e of BenchUnavailableError _ \<Rightarrow> True | _ \<Rightarrow> False)"

end
