(* ===== verification/Node_Agent_Properties.thy ===== *)
theory Node_Agent_Properties
  imports Number_Text Node_Agent Job_Outcome_Properties Telemetry_Properties
begin

text \<open>
  The node agent against its two peers in the control plane: the telemetry fan-in that reads its
  metrics text and the job queue that reads its replies.
\<close>

subsection \<open>Lines and words\<close>

lemma split_lines_line:
  "list_all (\<lambda>c. \<not> line_break c) l \<Longrightarrow>
     split_lines acc (l @ newline @ rest) = (rev acc @ l) # split_lines [] rest"
  by (induction l arbitrary: acc) (auto simp: newline_def line_break_def)

lemma splitlines_lines:
  assumes "\<forall>l\<in>set ls. list_all (\<lambda>c. \<not> line_break c) l"
  shows "splitlines (concat (map (\<lambda>l. l @ newline) ls)) = ls"
  using assms
proof (induction ls)
  case (Cons l ls)
  then show ?case using split_lines_line[of l "[]" "concat (map (\<lambda>l. l @ newline) ls)"]
    by (simp add: splitlines_def)
qed (simp add: splitlines_def)

lemma space_is_space [simp]: "py_space (CHR '' '')"
  by (simp add: py_space_def)

lemma takeWhile_word: "list_all (\<lambda>c. \<not> py_space c) v \<Longrightarrow>
   takeWhile (\<lambda>c. \<not> py_space c) (rev v @ CHR '' '' # r) = rev v"
  "list_all (\<lambda>c. \<not> py_space c) v \<Longrightarrow>
   dropWhile (\<lambda>c. \<not> py_space c) (rev v @ CHR '' '' # r) = CHR '' '' # r"
  by (auto simp: takeWhile_append dropWhile_append list_all_iff)

lemma rsplit1_sample:
  assumes "name \<noteq> []" "\<not> py_space (hd name)" "\<not> py_space (last name)" "word v"
  shows "py_strip (name @ '' '' @ v) = name @ '' '' @ v" and "rsplit1 (name @ '' '' @ v) = [name, v]"
proof -
  show s: "py_strip (name @ '' '' @ v) = name @ '' '' @ v"
    by (rule strip_id) (use assms word_ends[of v] in auto)
  have "\<not> py_space (hd (rev name))" "rev name \<noteq> []" using assms by (simp_all add: hd_rev)
  then have "dropWhile py_space (rev name) = rev name" by (cases "rev name") auto
  then show "rsplit1 (name @ '' '' @ v) = [name, v]"
    unfolding rsplit1_def s using assms takeWhile_word[of v "rev name"] by (simp add: Let_def word_def)
qed

lemma prometheus_sample:
  assumes "name \<noteq> []" "\<not> py_space (hd name)" "hd name \<noteq> CHR ''#''" "\<not> py_space (last name)" "word v"
    and "py_float v = Some x"
  shows "prometheus_line (name @ '' '' @ v) ms = AList.update name x ms"
proof -
  obtain c r where n: "name = c # r" "c \<noteq> CHR ''#''" using assms(1,3) by (cases name) auto
  have r: "rsplit1 (name @ '' '' @ v) = [name, v]" and s: "py_strip (name @ '' '' @ v) = name @ '' '' @ v"
    using rsplit1_sample[OF assms(1,2,4,5)] by blast+
  have "\<not> starts_with ''#'' (name @ '' '' @ v)" using n by (simp add: starts_with_def)
  then show ?thesis using assms(1,6) by (simp only: prometheus_line.simps s r Let_def) simp
qed

lemma prometheus_comment: "prometheus_line (CHR ''#'' # s) ms = ms"
proof -
  have "\<exists>t. py_strip (CHR ''#'' # s) = CHR ''#'' # t"
  proof -
    let ?t = "dropWhile py_space (rev (CHR ''#'' # s))"
    have h: "\<not> py_space (CHR ''#'')" by (simp add: py_space_def)
    then have "dropWhile py_space (rev s @ [CHR ''#'']) = dropWhile py_space (rev s) @ [CHR ''#'']"
      by (metis dropWhile_append3)
    then show ?thesis using h by (simp add: py_strip_def rstrip_while_def)
  qed
  then show ?thesis by (auto simp: starts_with_def)
qed

subsection \<open>The metrics text is read back\<close>

definition no_break :: "string \<Rightarrow> bool" where
  "no_break s \<longleftrightarrow> list_all (\<lambda>c. \<not> line_break c) s"

lemma no_break_append [simp]: "no_break (s @ t) \<longleftrightarrow> no_break s \<and> no_break t"
  by (simp add: no_break_def)

lemma no_break_Cons [simp]: "no_break (c # s) \<longleftrightarrow> \<not> line_break c \<and> no_break s"
  by (simp add: no_break_def)

lemma no_break_Nil [simp]: "no_break []"
  by (simp add: no_break_def)

lemma word_no_break: "word v \<Longrightarrow> no_break v"
  by (auto simp: word_def no_break_def list_all_iff py_space_def line_break_def)

lemma label_no_break: "no_break node_id \<Longrightarrow> no_break (metric_label node_id)"
  by (simp add: metric_label_def line_break_def)

lemma metrics_lines_no_break:
  assumes "no_break (nm_node_id sample)" and "word (frepr (nm_cpu_percent sample))"
  shows "\<forall>l\<in>set (metrics_lines frepr sample rpc_up infer_up bench_up). no_break l"
  using assms label_no_break[OF assms(1)] word_no_break[OF assms(2)] word_no_break[OF str_int_word]
  by (simp add: metrics_lines_def Let_def line_break_def)

lemma bit_texts: "word ''1''" "word ''0''" "py_float ''1'' = Some 1" "py_float ''0'' = Some 0"
  by code_simp+

text \<open>The dictionary the fan-in builds: one entry for each of the five samples.\<close>

lemma parse_metrics_text:
  assumes "no_break (nm_node_id sample)" and "word (frepr (nm_cpu_percent sample))"
    and "py_float (frepr (nm_cpu_percent sample)) = Some cpu" and "0 \<le> nm_ram_free_mb sample"
  defines "label \<equiv> metric_label (nm_node_id sample)"
  shows "parse_prometheus (metrics_text frepr sample rpc_up infer_up bench_up) =
    AList.update (''node_bench_available'' @ label) (if bench_up then 1 else 0)
     (AList.update (''node_infer_up'' @ label) (if infer_up then 1 else 0)
      (AList.update (''node_rpc_server_up'' @ label) (if rpc_up then 1 else 0)
       (AList.update (''node_memory_free_mib'' @ label) (of_int (nm_ram_free_mb sample))
        (AList.update (''node_cpu_utilisation'' @ label) cpu []))))"
proof -
  have lines: "splitlines (metrics_text frepr sample rpc_up infer_up bench_up) = metrics_lines frepr sample rpc_up infer_up bench_up"
    unfolding metrics_text_def
    by (rule splitlines_lines)
      (use metrics_lines_no_break[of sample frepr] assms(1,2) in \<open>simp add: no_break_def\<close>)
  have last: "last (metric_label n) = CHR ''}''" "metric_label n \<noteq> []" for n by (simp_all add: metric_label_def)
  have bit: "word (if b then ''1'' else ''0'')" "py_float (if b then ''1'' else ''0'') = Some (if b then 1 else 0)" for b
    by (cases b; simp add: bit_texts)+
  have "prometheus_line (m @ label @ '' '' @ v) ms = AList.update (m @ label) x ms"
    if "m \<noteq> []" "\<not> py_space (hd m)" "hd m \<noteq> CHR ''#''" "word v" "py_float v = Some x" for m v x ms
    using prometheus_sample[of "m @ label" v x ms] that last[of "nm_node_id sample"]
    by (simp add: label_def py_space_def)
  note sample = this
  have steps:
    "prometheus_line (''node_cpu_utilisation'' @ label @ '' '' @ frepr (nm_cpu_percent sample)) ms
       = AList.update (''node_cpu_utilisation'' @ label) cpu ms"
    "prometheus_line (''node_memory_free_mib'' @ label @ '' '' @ str_int (nm_ram_free_mb sample)) ms
       = AList.update (''node_memory_free_mib'' @ label) (of_int (nm_ram_free_mb sample)) ms"
    "prometheus_line (''node_rpc_server_up'' @ label @ '' '' @ (if b then ''1'' else ''0'')) ms
       = AList.update (''node_rpc_server_up'' @ label) (if b then 1 else 0) ms"
    "prometheus_line (''node_infer_up'' @ label @ '' '' @ (if b then ''1'' else ''0'')) ms
       = AList.update (''node_infer_up'' @ label) (if b then 1 else 0) ms"
    "prometheus_line (''node_bench_available'' @ label @ '' '' @ (if b then ''1'' else ''0'')) ms
       = AList.update (''node_bench_available'' @ label) (if b then 1 else 0) ms" for b ms
    by (rule sample; simp add: py_space_def assms(2,3) str_int_word py_float_str_int[OF assms(4)] bit bit_texts)+
  show ?thesis
    unfolding parse_prometheus_def lines metrics_lines_def Let_def label_def[symmetric]
    by (simp only: fold_simps steps prometheus_comment)
qed

text \<open>
  C37. What a node measures is what the control plane records. For a node id without line breaks,
  and a CPU reading whose text reads back as itself, polling a node that answers \<open>/metrics\<close> with the
  agent's text yields exactly the sample the agent took, with the poller's own time stamp: the CPU
  percentage, the free memory in MiB, no GPU figures and no running jobs.
\<close>

theorem metrics_round_trip:
  assumes "get (tl_node_url t profile) =
      Inr (200, metrics_text frepr (sample_metrics sampled cpu memory (np_id profile)) rpc_up infer_up bench_up)"
    and "no_break (np_id profile)" and "word (frepr cpu)" and "py_float (frepr cpu) = Some cpu" and "0 \<le> memory"
  shows "poll_node get now t profile = Inr ((sample_metrics sampled cpu memory (np_id profile))\<lparr>nm_timestamp := now\<rparr>)"
proof -
  let ?s = "sample_metrics sampled cpu memory (np_id profile)"
  have ram: "0 \<le> nm_ram_free_mb ?s" using assms(5) by (simp add: sample_metrics_def BYTES_PER_MIB_def)
  have eq: "nm_node_id ?s = np_id profile" "nm_cpu_percent ?s = cpu" by (simp_all add: sample_metrics_def)
  have parse: "parse_prometheus (metrics_text frepr ?s rpc_up infer_up bench_up) =
    AList.update (''node_bench_available'' @ metric_label (np_id profile)) (if bench_up then 1 else 0)
     (AList.update (''node_infer_up'' @ metric_label (np_id profile)) (if infer_up then 1 else 0)
      (AList.update (''node_rpc_server_up'' @ metric_label (np_id profile)) (if rpc_up then 1 else 0)
       (AList.update (''node_memory_free_mib'' @ metric_label (np_id profile)) (of_int (nm_ram_free_mb ?s))
        (AList.update (''node_cpu_utilisation'' @ metric_label (np_id profile)) cpu []))))"
    using parse_metrics_text[of ?s frepr cpu rpc_up infer_up bench_up] assms(2-4) ram by (simp only: eq)
  show ?thesis
    unfolding poll_node_def assms(1)
    by (simp add: raise_for_status_def parse required_metric_def optional_metric_def optional_integer_metric_def
        metric_value_def starts_with_def metric_label_def Let_def)
      (simp add: sample_metrics_def py_int_def)
qed

theorem metrics_round_trip_witness:
  "poll_node (\<lambda>url. Inr (200, metrics_text (\<lambda>_. ''12.5'') (sample_metrics 3 (25/2) (1024 * 1024 * 900) ''a'') True False True))
     7 sample_telemetry (sample_profile ''a'' ''10.0.0.1'')
   = Inr ((sample_metrics 3 (25/2) (1024 * 1024 * 900) ''a'')\<lparr>nm_timestamp := 7\<rparr>)"
proof -
  have "np_id (sample_profile ''a'' ''10.0.0.1'') = ''a''" by (simp add: sample_profile_def)
  moreover have "word ''12.5''" "py_float ''12.5'' = Some (25/2)" by code_simp+
  moreover have "no_break ''a''" by (simp add: line_break_def)
  ultimately show ?thesis
    using metrics_round_trip[where get = "\<lambda>url. Inr (200, metrics_text (\<lambda>_. ''12.5'')
        (sample_metrics 3 (25/2) (1024 * 1024 * 900) ''a'') True False True)"
        and profile = "sample_profile ''a'' ''10.0.0.1''" and sampled = 3 and cpu = "25/2" and t = sample_telemetry
        and memory = "1024 * 1024 * 900" and frepr = "\<lambda>_. ''12.5''" and now = 7
        and rpc_up = True and infer_up = False and bench_up = True]
    by simp
qed

subsection \<open>A command that fails\<close>

lemma exec_job_Inr:
  assumes "exec_job frepr now exec rq ag = (Inr body, ag')"
  shows "\<exists>r. body = job_reply (result_ok r) rq ag (result_dict r)"
  using assms by (auto simp: exec_job_def Let_def split: sum.splits option.splits json.splits prod.splits sandbox_error.splits)

lemma failed_reply_outcome:
  "request_outcome (Reply 200 text (Some (JObj (job_reply False rq ag extra)))) = Inl (ValueError ''node rejected the job'')"
  by (simp add: request_outcome_def raise_for_status_def job_reply_def)

lemma shard_failed_value:
  assumes "i < length (rt_shards tk)"
  defines "sh \<equiv> rt_shards tk ! i"
  shows "\<exists>tk'. map_of (jq_tasks (shard_failed wall reg jb tk i (ValueError m) q)) (jb_id jb) = Some tk'
    \<and> (if sh_attempt sh = 0
       then sh_node (rt_shards tk' ! i) = sh_node sh \<and> sh_attempt (rt_shards tk' ! i) = 1 \<and> sh_pc (rt_shards tk' ! i) = Acquiring
       else (case ranked_nodes reg q (sh_attempted sh @ [sh_node sh]) of
           other # _ \<Rightarrow> sh_node (rt_shards tk' ! i) = other \<and> sh_pc (rt_shards tk' ! i) = Acquiring
         | [] \<Rightarrow> sh_pc (rt_shards tk' ! i) = Finished (Inl (ShardExecutionError
             (''shard '' @ str_nat i @ '' exhausted available nodes: '' @ m)))))"
  using assms(1) by (auto simp: sh_def shard_failed_def retryable_def next_try_def Let_def set_shard_def update_conv'
      split: list.splits)

text \<open>
  C38. A command that exits with a failure is run again. When the sandbox ran a command that timed
  out or returned another exit code than 0, the node's reply is complete (it carries the exit code
  and the output), yet the job queue reads it as a failed node: a first attempt is sent to the same
  node again, a second one goes to the next eligible node or, when there is none, ends the shard
  with an error from which exit code and output are gone.
\<close>

theorem failing_exec_is_retried:
  assumes "exec_job frepr now exec rq ag = (Inr body, ag')" and "map_of body ''ok'' \<noteq> Some (JBool True)"
    and "i < length (rt_shards tk)"
  shows "let sh = rt_shards tk ! i; n = sh_node sh;
             q' = resume_shard wall reg jb tk i (Reply 200 text (Some (JObj body))) q
    in (\<exists>r. \<not> result_ok r \<and> body = job_reply False rq ag (result_dict r))
     \<and> (\<exists>tk'. map_of (jq_tasks q') (jb_id jb) = Some tk'
       \<and> (if sh_attempt sh = 0
          then sh_node (rt_shards tk' ! i) = n \<and> sh_attempt (rt_shards tk' ! i) = 1 \<and> sh_pc (rt_shards tk' ! i) = Acquiring
          else (case ranked_nodes reg (release_node n q) (sh_attempted sh @ [n]) of
              other # _ \<Rightarrow> sh_node (rt_shards tk' ! i) = other \<and> sh_pc (rt_shards tk' ! i) = Acquiring
            | [] \<Rightarrow> sh_pc (rt_shards tk' ! i) = Finished (Inl (ShardExecutionError
                (''shard '' @ str_nat i @ '' exhausted available nodes: '' @ ''node rejected the job''))))))"
proof -
  obtain r where r: "body = job_reply (result_ok r) rq ag (result_dict r)" using exec_job_Inr[OF assms(1)] by blast
  have fail: "\<not> result_ok r" using assms(2) by (auto simp: r job_reply_def)
  then have body: "body = job_reply False rq ag (result_dict r)" using r by simp
  have out: "request_outcome (Reply 200 text (Some (JObj body))) = Inl (ValueError ''node rejected the job'')"
    unfolding body by (rule failed_reply_outcome)
  let ?q = "release_node (sh_node (rt_shards tk ! i)) q"
  have rs: "resume_shard wall reg jb tk i (Reply 200 text (Some (JObj body))) q
      = shard_failed wall reg jb tk i (ValueError ''node rejected the job'') ?q"
    by (simp add: resume_shard_def out Let_def)
  show ?thesis
    unfolding Let_def rs
  proof (rule conjI)
    show "\<exists>r. \<not> result_ok r \<and> body = job_reply False rq ag (result_dict r)" using fail body by blast
  qed (rule shard_failed_value[OF assms(3)])
qed

definition failing_request :: local_job_request where
  "failing_request = (let f = \<lparr>jf_job_id = ''j1'', jf_kind = ''exec'',
       jf_payload = [(''argv'', JList [JStr ''grep'', JStr ''x''])], jf_shard_index = 0, jf_shard_count = 1,
       jf_issued_at = 100\<rparr>
     in \<lparr>lj_fields = f, lj_signature = hexdigest (hmac_sha256 ''pool'' (canonical_job_request frac_text f))\<rparr>)"

definition sample_agent :: node_agent where
  "sample_agent = configure (sample_profile ''a'' ''10.0.0.1'') ''ctl:8000'' ''pool'' 9100 50052
     \<lparr>sb_root = [''var''], sb_allowlist = DEFAULT_ALLOWLIST, sb_require_linux_isolation = True,
      sb_bubblewrap = Some ''bwrap'', sb_audit = []\<rparr>"

text \<open>\<open>grep\<close> exits with 1 when no line matches.\<close>

definition no_match :: sandbox_exec where
  "no_match argv cwd timeout cap job sb =
     (Inr \<lparr>sr_invocation_hash = ''h'', sr_argv = argv, sr_cwd = cwd, sr_exit_code = Some 1, sr_stdout = [],
           sr_stderr = [], sr_timed_out = False, sr_truncated = False, sr_duration_ms = 4\<rparr>, sb)"

theorem failing_exec_is_retried_witness:
  "\<exists>body ag' tk'. exec_job frac_text 110 no_match failing_request sample_agent = (Inr body, ag')
     \<and> map_of (jq_tasks (resume_shard of_int busy_registry sample_job
         \<lparr>rt_state = Started, rt_shards = [(new_shard [] ''a'')\<lparr>sh_pc := Posted\<rparr>]\<rparr> 0
         (Reply 200 [] (Some (JObj body))) sample_queue)) ''j1'' = Some tk'
     \<and> sh_attempt (rt_shards tk' ! 0) = 1 \<and> sh_pc (rt_shards tk' ! 0) = Acquiring"
proof -
  have "verify_job_request frac_text ''pool'' (lj_fields failing_request) (lj_signature failing_request) 110 = Inr True"
    by (simp add: verify_job_request_def sign_job_request_def failing_request_def Let_def compare_digest_def
        ascii_hexdigest JOB_AUTH_MAX_AGE_S_def)
  moreover have "local_request_valid failing_request"
    by (simp add: local_request_valid_def failing_request_def Let_def length_hexdigest length_hmac_sha256)
  ultimately have auth: "rbind (authenticated_agent frac_text 110 failing_request sample_agent)
      (\<lambda>_. require_kind ''exec'' failing_request) = Inr ()"
    by (simp add: authenticated_agent_def sample_agent_def configure_def require_kind_def)
      (simp add: failing_request_def Let_def)
  have payload: "jf_payload (lj_fields failing_request) = [(''argv'', JList [JStr ''grep'', JStr ''x''])]"
    by (simp add: failing_request_def Let_def)
  define body ag' where "body = projr (fst (exec_job frac_text 110 no_match failing_request sample_agent))"
    and "ag' = snd (exec_job frac_text 110 no_match failing_request sample_agent)"
  then have e: "exec_job frac_text 110 no_match failing_request sample_agent = (Inr body, ag')"
      "map_of body ''ok'' = Some (JBool False)"
    by (simp_all add: exec_job_def auth payload jget_def no_match_def Let_def job_reply_def result_ok_def)
  let ?tk = "\<lparr>rt_state = Started, rt_shards = [(new_shard [] ''a'')\<lparr>sh_pc := Posted\<rparr>]\<rparr>"
  from failing_exec_is_retried[OF e(1), of 0 ?tk of_int busy_registry sample_job "[]" sample_queue] e(2)
  obtain tk' where "map_of (jq_tasks (resume_shard of_int busy_registry sample_job ?tk 0
        (Reply 200 [] (Some (JObj body))) sample_queue)) ''j1'' = Some tk'"
      "sh_attempt (rt_shards tk' ! 0) = 1 \<and> sh_pc (rt_shards tk' ! 0) = Acquiring"
    by (auto simp: Let_def new_shard_def sample_job_def)
  then show ?thesis using e(1) by blast
qed

end
