(* ===== verification/Launch.thy ===== *)
theory Launch
  imports Control_Plane
begin

text \<open>
  \<open>infer/launch.py\<close>, the command lines of llama.cpp, and \<open>scripts/serve_head.py\<close>, the operator
  script that starts the head over the live membership and restarts it when that changes. What the
  control plane answers and what the disk holds are arguments.
\<close>

subsection \<open>Members and cluster settings\<close>

record head_member =
  hm_node_id :: string
  hm_host :: string
  hm_os_class :: string
  hm_backend :: string
  hm_is_head :: bool

record cluster =
  cl_paths :: "(string, string) dict"
  cl_rpc_port :: int
  cl_llama_port :: int
  cl_ctl_port :: int
  cl_mdns_service :: string
  cl_pinned_commit :: string
  cl_replan_debounce_s :: rat
  cl_min_workers :: int

definition path_for :: "cluster \<Rightarrow> string \<Rightarrow> string res" where
  "path_for cl key =
     (case map_of (cl_paths cl) key of
        Some p \<Rightarrow> Inr p
      | None \<Rightarrow> Inl (KeyError (''cluster.toml has no [paths].'' @ key)))"

definition binary :: "cluster \<Rightarrow> string \<Rightarrow> string res" where
  "binary cl name = rbind (path_for cl ''llama'') (\<lambda>p. Inr (p @ ''/'' @ name))"

definition model_file :: "cluster \<Rightarrow> string \<Rightarrow> string \<Rightarrow> string res" where
  "model_file cl model_id filename =
     rbind (path_for cl ''models'') (\<lambda>p. Inr (p @ ''/'' @ model_id @ ''/'' @ filename))"

text \<open>\<open>int(x)\<close> of a parsed value.\<close>

definition int_text :: "string \<Rightarrow> int option" where
  "int_text text =
     (case read_sign (py_strip text) of (sg, s) \<Rightarrow>
        (case digits_of 0 0 s of (v, n, rest) \<Rightarrow> if 0 < n \<and> rest = [] then Some (sg * v) else None))"

definition int_of :: "json \<Rightarrow> int res" where
  "int_of j =
     (case jnumber j of
        Some x \<Rightarrow> Inr (py_int x)
      | None \<Rightarrow> (case j of
          JStr s \<Rightarrow> (case int_text s of Some i \<Rightarrow> Inr i
                    | None \<Rightarrow> Inl (ValueError ''invalid literal for int() with base 10''))
        | _ \<Rightarrow> Inl (TypeError ''int() argument must be a string, a bytes-like object or a real number'')))"

text \<open>\<open>raw[section]\<close> as a table; a section of another type has no \<open>items\<close> or \<open>get\<close>.\<close>

definition table_of :: "(string, json) dict \<Rightarrow> string \<Rightarrow> (string, json) dict res" where
  "table_of raw section =
     rbind (dict_get raw section) (\<lambda>v. case v of JObj d \<Rightarrow> Inr d | _ \<Rightarrow> Inl (AttributeError ''get''))"

definition load_cluster :: "toml_file \<Rightarrow> cluster res" where
  "load_cluster file =
     (case file of
        None \<Rightarrow> Inl (OSError ''cluster file not found'')
      | Some loaded \<Rightarrow> rbind loaded (\<lambda>raw.
          case filter (\<lambda>section. section \<notin> set (keys raw)) [''discovery'', ''paths'', ''llama'', ''membership''] of
            section # _ \<Rightarrow> Inl (ValueError (''cluster.toml is missing the ['' @ section @ ''] section''))
          | [] \<Rightarrow>
              rbind (table_of raw ''paths'') (\<lambda>paths.
              rbind (table_of raw ''discovery'') (\<lambda>discovery.
              rbind (dict_get discovery ''rpc_port'') (\<lambda>v1. rbind (int_of v1) (\<lambda>rpc_port.
              rbind (dict_get discovery ''llama_port'') (\<lambda>v2. rbind (int_of v2) (\<lambda>llama_port.
              rbind (dict_get discovery ''ctl_port'') (\<lambda>v3. rbind (int_of v3) (\<lambda>ctl_port.
              rbind (dict_get discovery ''mdns_service'') (\<lambda>mdns.
              rbind (table_of raw ''llama'') (\<lambda>llama.
              rbind (table_of raw ''membership'') (\<lambda>membership.
              rbind (case map_of membership ''replan_debounce_s'' of None \<Rightarrow> Inr 5 | Some v \<Rightarrow> float_of v) (\<lambda>debounce.
              rbind (case map_of membership ''min_workers'' of None \<Rightarrow> Inr 0 | Some v \<Rightarrow> int_of v) (\<lambda>min_workers.
              Inr \<lparr>cl_paths = map (\<lambda>(k, v). (k, json_str v)) paths, cl_rpc_port = rpc_port,
                   cl_llama_port = llama_port, cl_ctl_port = ctl_port, cl_mdns_service = json_str mdns,
                   cl_pinned_commit = (case map_of llama ''pinned_commit'' of
                      None \<Rightarrow> ''UNVERIFIED'' | Some v \<Rightarrow> json_str v),
                   cl_replan_debounce_s = debounce, cl_min_workers = min_workers\<rparr>)))))))))))))))"

subsection \<open>Command lines\<close>

definition split_head :: "head_member list \<Rightarrow> (head_member \<times> head_member list) res" where
  "split_head members =
     (case filter hm_is_head members of
        [h] \<Rightarrow> Inr (h, filter (\<lambda>m. \<not> hm_is_head m) members)
      | heads \<Rightarrow> Inl (ValueError (''expected exactly one head in membership, found '' @ str_nat (length heads))))"

definition rpc_endpoints :: "cluster \<Rightarrow> head_member list \<Rightarrow> string" where
  "rpc_endpoints cl workers = str_join '','' (map (\<lambda>w. hm_host w @ '':'' @ str_int (cl_rpc_port cl)) workers)"

definition verify_build_command :: "cluster \<Rightarrow> string list res" where
  "verify_build_command cl = rbind (binary cl ''llama-server'') (\<lambda>b. Inr [b, ''--version''])"

definition rpc_worker_command :: "cluster \<Rightarrow> string \<Rightarrow> string list res" where
  "rpc_worker_command cl bind_address =
     (if bind_address \<in> set [''0.0.0.0'', ''::'', '''']
      then Inl (ValueError (''refusing to bind rpc-server to '' @ py_repr bind_address
             @ '': it has no authentication. Pass the fabric interface address for this node.''))
      else rbind (binary cl ''rpc-server'') (\<lambda>b.
             Inr [b, ''--host'', bind_address, ''-p'', str_int (cl_rpc_port cl), ''-c'']))"

text \<open>A placement as \<open>fetch_placement\<close> reads it from the answer of \<open>/api/plan\<close>.\<close>

record head_placement =
  pc_model_id :: json
  pc_layers :: "(string, json) dict"
  pc_n_cpu_moe :: "(string, json) dict"
  pc_tensor_split :: "json list"

definition assert_plan_matches_membership :: "head_placement \<Rightarrow> head_member list \<Rightarrow> unit res" where
  "assert_plan_matches_membership pl members =
     (if length (pc_tensor_split pl) \<noteq> length members
      then Inl (ValueError (''placement is stale: tensor_split has '' @ str_nat (length (pc_tensor_split pl))
             @ '' shares but membership has '' @ str_nat (length members)
             @ '' node(s). Re-plan against current membership.''))
      else if set (keys (pc_layers pl)) \<noteq> set (map hm_node_id members)
      then Inl (ValueError ''placement is stale. Re-plan against current membership.'')
      else Inr ())"

text \<open>\<open>f"{share:.4f}"\<close> for a non-negative share.\<close>

definition pad4 :: "string \<Rightarrow> string" where
  "pad4 s = replicate (4 - length s) (CHR ''0'') @ s"

definition fixed4 :: "rat \<Rightarrow> string" where
  "fixed4 x = (let k = py_round (x * 10000) in str_int (k div 10000) @ ''.'' @ pad4 (str_int (k mod 10000)))"

definition share_text :: "json \<Rightarrow> string res" where
  "share_text j =
     (case jnumber j of
        Some x \<Rightarrow> Inr (fixed4 x)
      | None \<Rightarrow> (case j of JStr _ \<Rightarrow> Inl (ValueError ''Unknown format code'')
                 | _ \<Rightarrow> Inl (TypeError ''unsupported format string'')))"

text \<open>\<open>list(placement.layers).index(node_id)\<close>.\<close>

fun index_of :: "string \<Rightarrow> string list \<Rightarrow> nat option" where
  "index_of k [] = None"
| "index_of k (x # xs) = (if x = k then Some 0 else map_option Suc (index_of k xs))"

definition member_share :: "head_placement \<Rightarrow> head_member \<Rightarrow> json res" where
  "member_share pl m =
     (case index_of (hm_node_id m) (keys (pc_layers pl)) of
        None \<Rightarrow> Inl (ValueError ''not in list'')
      | Some i \<Rightarrow> if i < length (pc_tensor_split pl) then Inr (pc_tensor_split pl ! i)
                  else Inl (IndexError ''list index out of range''))"

definition llama_server_command :: "cluster \<Rightarrow> string \<Rightarrow> head_member list \<Rightarrow> head_placement option \<Rightarrow> int \<Rightarrow> int
    \<Rightarrow> string list res" where
  "llama_server_command cl file members placement context slots =
     rbind (split_head members) (\<lambda>(head, workers).
     if int (length workers) < cl_min_workers cl
     then Inl (ValueError (''only '' @ str_nat (length workers) @ '' worker(s); cluster.min_workers is ''
            @ str_int (cl_min_workers cl)))
     else
       rbind (binary cl ''llama-server'') (\<lambda>b.
       let command = [b, ''-m'', file, ''-c'', str_int context, ''-np'', str_int slots, ''-fa'', ''on'',
                      ''--jinja'', ''--metrics'', ''--host'', hm_host head, ''--port'', str_int (cl_llama_port cl)]
             @ (if workers \<noteq> [] then [''--rpc'', rpc_endpoints cl workers] else [])
       in case placement of
            None \<Rightarrow> Inr (command @ [''--fit'', ''on''])
          | Some pl \<Rightarrow>
              rbind (assert_plan_matches_membership pl members) (\<lambda>_.
              rbind (rmapM (\<lambda>m. rbind (member_share pl m) share_text) (head # workers)) (\<lambda>shares.
              Inr (command @ [''-ngl'', ''999'', ''--tensor-split'', str_join '','' shares]
                @ (case map_of (pc_n_cpu_moe pl) (hm_node_id head) of
                     None \<Rightarrow> [] | Some JNull \<Rightarrow> [] | Some v \<Rightarrow> [''--n-cpu-moe'', json_str v]))))))"

definition solo_probe_command :: "cluster \<Rightarrow> head_member \<Rightarrow> string \<Rightarrow> int \<Rightarrow> string list res" where
  "solo_probe_command cl m file context =
     rbind (binary cl ''llama-server'') (\<lambda>b.
       Inr [b, ''-m'', file, ''-c'', str_int context, ''-ngl'', ''999'', ''--fit'', ''off'', ''--host'', hm_host m,
            ''--port'', str_int (cl_llama_port cl)])"

definition llama_bench_command :: "cluster \<Rightarrow> string \<Rightarrow> int \<Rightarrow> string list res" where
  "llama_bench_command cl file repetitions =
     rbind (binary cl ''llama-bench'') (\<lambda>b.
       Inr [b, ''-m'', file, ''-p'', ''512'', ''-n'', ''128'', ''-r'', str_int repetitions, ''-o'', ''json''])"

subsection \<open>\<open>scripts/serve_head.py\<close>: membership\<close>

definition DEFAULT_OS_CLASS :: string where "DEFAULT_OS_CLASS = ''linux-headless''"

text \<open>\<open>HeadError\<close> is a \<open>RuntimeError\<close>.\<close>

definition os_class_entry :: "json \<Rightarrow> (string \<times> string) option" where
  "os_class_entry node =
     (case node of
        JObj d \<Rightarrow> (case map_of d ''id'' of
            None \<Rightarrow> None
          | Some i \<Rightarrow> Some (json_str i,
              case map_of d ''os_class'' of None \<Rightarrow> DEFAULT_OS_CLASS | Some v \<Rightarrow> json_str v))
      | _ \<Rightarrow> None)"

definition os_class_map :: "toml_file \<Rightarrow> (string, string) dict res" where
  "os_class_map file =
     (case file of
        None \<Rightarrow> Inr []
      | Some loaded \<Rightarrow> rbind loaded (\<lambda>raw.
          (case map_of raw ''planning'' of
             None \<Rightarrow> Inr []
           | Some (JObj planning) \<Rightarrow>
               (case map_of planning ''nodes'' of
                  None \<Rightarrow> Inr []
                | Some (JList nodes) \<Rightarrow> Inr (dict_of (List.map_filter os_class_entry nodes))
                | Some _ \<Rightarrow> Inl (TypeError ''object is not iterable''))
           | Some _ \<Rightarrow> Inl (AttributeError ''get''))))"

definition to_member :: "(string, string) dict \<Rightarrow> bool \<Rightarrow> (string, json) dict \<Rightarrow> head_member res" where
  "to_member os_classes is_head node =
     rbind (dict_get node ''id'') (\<lambda>i.
     rbind (dict_get node ''host'') (\<lambda>h.
     let node_id = json_str i in
     Inr \<lparr>hm_node_id = node_id, hm_host = json_str h,
          hm_os_class = (case map_of os_classes node_id of None \<Rightarrow> DEFAULT_OS_CLASS | Some c \<Rightarrow> c),
          hm_backend = (case map_of node ''backend'' of None \<Rightarrow> ''cpu'' | Some v \<Rightarrow> json_str v),
          hm_is_head = is_head\<rparr>))"

definition build_members :: "(string, json) dict list \<Rightarrow> string \<Rightarrow> (string, string) dict \<Rightarrow> string list
    \<Rightarrow> head_member list res" where
  "build_members nodes head_id os_classes excluded =
     (if head_id \<in> set excluded then Inl (RuntimeError (''head '' @ py_repr head_id @ '' cannot also be excluded''))
      else
        let alive = filter (\<lambda>n. jget n ''state'' \<noteq> JStr ''offline'' \<and> json_str (jget n ''id'') \<notin> set excluded) nodes in
        if alive = [] then Inl (RuntimeError ''no live nodes'')
        else
          rbind (rmapM (\<lambda>n. rbind (dict_get n ''id'') (\<lambda>i. Inr (json_str i, n))) alive) (\<lambda>pairs.
          let by_id = dict_of pairs in
          case map_of by_id head_id of
            None \<Rightarrow> Inl (RuntimeError (''head '' @ py_repr head_id @ '' is not in live membership (''
                     @ str_join '', '' (sort (keys by_id)) @ ''). Pass --head with one of those.''))
          | Some head_node \<Rightarrow>
              rbind (to_member os_classes True head_node) (\<lambda>h.
              rbind (rmapM (\<lambda>i. rbind (dict_get by_id i) (to_member os_classes False))
                       (sort (filter (\<lambda>i. i \<noteq> head_id) (keys by_id)))) (\<lambda>ws.
              Inr (h # ws)))))"

definition membership_key :: "head_member list \<Rightarrow> (string \<times> string) list" where
  "membership_key members = map (\<lambda>m. (hm_node_id m, hm_host m)) members"

definition excluded_node_ids :: "string \<Rightarrow> string list" where
  "excluded_node_ids v = filter (\<lambda>i. i \<noteq> []) (map py_strip (py_split (CHR '','') v))"

text \<open>
  \<open>directory\<close> is the sorted list of \<open>*.gguf\<close> paths in the model's directory, \<open>None\<close> when that is no
  directory.
\<close>

definition resolve_model_file :: "cluster \<Rightarrow> string list option \<Rightarrow> string \<Rightarrow> string option \<Rightarrow> string res" where
  "resolve_model_file cl directory model_id filename =
     (case filename of
        Some (c # f) \<Rightarrow> model_file cl model_id (c # f)
      | _ \<Rightarrow>
          rbind (path_for cl ''models'') (\<lambda>p.
          case directory of
            None \<Rightarrow> Inl (RuntimeError (''no model directory '' @ p @ ''/'' @ model_id))
          | Some [] \<Rightarrow> Inl (RuntimeError (''no .gguf under '' @ p @ ''/'' @ model_id))
          | Some [c] \<Rightarrow> Inr c
          | Some cs \<Rightarrow> Inl (RuntimeError (p @ ''/'' @ model_id @ '' holds several GGUFs; pass --file''))))"

subsection \<open>\<open>scripts/serve_head.py\<close>: starting and watching\<close>

text \<open>The query of \<open>fetch_placement\<close>: the model alone.\<close>

definition placement_query :: "string \<Rightarrow> (string, string) dict" where
  "placement_query model_id = [(''model'', model_id)]"

definition fetch_placement :: "http_reply \<Rightarrow> head_placement option res" where
  "fetch_placement reply =
     (case reply of
        Transport_error _ \<Rightarrow> Inr None
      | Reply status _ body \<Rightarrow>
          if status \<noteq> 200 then Inr None
          else (case body of
              None \<Rightarrow> Inl (ValueError ''invalid JSON'')
            | Some (JObj d) \<Rightarrow>
                rbind (dict_get d ''model_id'') (\<lambda>model_id.
                rbind (dict_get d ''layers'') (\<lambda>layers.
                rbind (case layers of JObj l \<Rightarrow> Inr l | _ \<Rightarrow> Inl (AttributeError ''items'')) (\<lambda>l.
                rbind (case map_of d ''n_cpu_moe'' of None \<Rightarrow> Inr [] | Some (JObj m) \<Rightarrow> Inr m
                       | Some _ \<Rightarrow> Inl (AttributeError ''get'')) (\<lambda>moe.
                rbind (dict_get d ''tensor_split'') (\<lambda>split.
                rbind (case split of JList ts \<Rightarrow> Inr ts | _ \<Rightarrow> Inl (TypeError ''tensor_split'')) (\<lambda>ts.
                Inr (Some \<lparr>pc_model_id = model_id, pc_layers = l, pc_n_cpu_moe = moe, pc_tensor_split = ts\<rparr>)))))))
            | Some _ \<Rightarrow> Inl (TypeError ''indices must be integers'')))"

record head_args =
  ha_model :: string
  ha_file :: "string option"
  ha_head :: string
  ha_ctl :: "string option"
  ha_context :: int
  ha_slots :: int
  ha_placement :: bool
  ha_exclude :: string

text \<open>
  What the script reads while it plans: the answer of \<open>/api/nodes\<close> (a \<open>HeadError\<close> when the control
  plane is unreachable), of \<open>/api/plan\<close>, the cluster file and the model directory.
\<close>

record head_world =
  hw_nodes :: "(string, json) dict list res"
  hw_plan :: http_reply
  hw_cluster_file :: toml_file
  hw_directory :: "string list option"

definition live_members :: "head_args \<Rightarrow> head_world \<Rightarrow> head_member list res" where
  "live_members args w =
     rbind (hw_nodes w) (\<lambda>nodes.
     rbind (os_class_map (hw_cluster_file w)) (\<lambda>classes.
       build_members nodes (ha_head args) classes (excluded_node_ids (ha_exclude args))))"

definition plan_command :: "head_args \<Rightarrow> cluster \<Rightarrow> head_world \<Rightarrow> (string list \<times> head_member list) res" where
  "plan_command args cl w =
     rbind (live_members args w) (\<lambda>members.
     rbind (resolve_model_file cl (hw_directory w) (ha_model args) (ha_file args)) (\<lambda>file.
     rbind (if ha_placement args then fetch_placement (hw_plan w) else Inr None) (\<lambda>placement.
     rbind (llama_server_command cl file members placement (ha_context args) (ha_slots args)) (\<lambda>command.
       Inr (command, members)))))"

text \<open>
  \<open>--watch\<close>: what one turn of the loop does. \<open>w\<close> is what the turn reads first, \<open>w2\<close> what the
  restart reads, \<open>now\<close> the clock.
\<close>

record watch_state =
  ws_current :: "(string \<times> string) list"
  ws_changed_at :: "rat option"

datatype watch_action = Keep | Restart "string list" | Give_up py_error

definition is_head_error :: "py_error \<Rightarrow> bool" where
  "is_head_error e \<longleftrightarrow> (case e of RuntimeError _ \<Rightarrow> True | _ \<Rightarrow> False)"

definition watch_turn :: "head_args \<Rightarrow> cluster \<Rightarrow> rat \<Rightarrow> head_world \<Rightarrow> head_world \<Rightarrow> watch_state
    \<Rightarrow> (watch_action \<times> watch_state) res" where
  "watch_turn args cl now w w2 ws =
     (case live_members args w of
        Inl e \<Rightarrow> if is_head_error e then Inr (Keep, ws) else Inl e
      | Inr latest \<Rightarrow>
          if membership_key latest = ws_current ws then Inr (Keep, ws\<lparr>ws_changed_at := None\<rparr>)
          else (case ws_changed_at ws of
              None \<Rightarrow> Inr (Keep, ws\<lparr>ws_changed_at := Some now\<rparr>)
            | Some t \<Rightarrow>
                if now - t < cl_replan_debounce_s cl then Inr (Keep, ws)
                else (case plan_command args cl w2 of
                    Inl (RuntimeError m) \<Rightarrow> Inr (Give_up (RuntimeError m), ws)
                  | Inl (ValueError m) \<Rightarrow> Inr (Give_up (ValueError m), ws)
                  | Inl (KeyError m) \<Rightarrow> Inr (Give_up (KeyError m), ws)
                  | Inl e \<Rightarrow> Inl e
                  | Inr (command, members) \<Rightarrow>
                      Inr (Restart command, \<lparr>ws_current = membership_key members, ws_changed_at = None\<rparr>))))"

end
