(* ===== verification/Launch_Properties.thy ===== *)
theory Launch_Properties
  imports Launch Control_Plane_Properties
begin

text \<open>
  From the plan to the command line: the shares the head passes to llama.cpp are those of the
  scheduler's plan, device by device, or the head refuses to start.
\<close>

subsection \<open>Membership\<close>

lemma to_member_id: "to_member cls is_head node = Inr m \<Longrightarrow>
    hm_is_head m = is_head \<and> (\<exists>i. map_of node ''id'' = Some i \<and> hm_node_id m = json_str i)"
  by (auto simp: to_member_def res_simps Let_def)

lemma pairs_ids:
  assumes "rmapM (\<lambda>n. rbind (dict_get n ''id'') (\<lambda>i. Inr (json_str i, n))) nodes = Inr pairs"
    and "map_of (dict_of pairs) k = Some node"
  shows "\<exists>i. map_of node ''id'' = Some i \<and> json_str i = k"
proof -
  have mem: "(k, node) \<in> set pairs"
    using map_of_SomeD[of "rev pairs" k node] assms(2) by (simp add: map_of_dict_of)
  have "\<exists>i. map_of (snd p) ''id'' = Some i \<and> json_str i = fst p" if "p \<in> set pairs" for p
    using assms(1) that by (induction nodes arbitrary: pairs) (auto simp: res_simps)
  from this[OF mem] show ?thesis by simp
qed

lemma workers_ids:
  assumes "rmapM (\<lambda>i. rbind (dict_get d i) (to_member cls False)) ks = Inr ws"
    and "\<And>k node. map_of d k = Some node \<Longrightarrow> \<exists>i. map_of node ''id'' = Some i \<and> json_str i = k"
  shows "map hm_node_id ws = ks \<and> list_all (\<lambda>m. \<not> hm_is_head m) ws"
  using assms(1)
proof (induction ks arbitrary: ws)
  case (Cons k ks)
  then obtain node w rest where "map_of d k = Some node" "to_member cls False node = Inr w" "ws = w # rest"
      "rmapM (\<lambda>i. rbind (dict_get d i) (to_member cls False)) ks = Inr rest"
    by (auto simp: res_simps)
  then show ?case using Cons.IH[of rest] assms(2)[of k node] to_member_id[of cls False node w] by auto
qed simp

lemma build_members_shape:
  assumes "build_members nodes h cls ex = Inr ms"
  obtains hd' ws where "ms = hd' # ws" and "hm_is_head hd'" and "hm_node_id hd' = h"
    and "list_all (\<lambda>m. \<not> hm_is_head m) ws" and "distinct (map hm_node_id ms)" and "sorted (map hm_node_id ws)"
proof -
  define alive where "alive = filter (\<lambda>n. jget n ''state'' \<noteq> JStr ''offline'' \<and> json_str (jget n ''id'') \<notin> set ex) nodes"
  obtain pairs hn m ws where p: "rmapM (\<lambda>n. rbind (dict_get n ''id'') (\<lambda>i. Inr (json_str i, n))) alive = Inr pairs"
    and h: "map_of (dict_of pairs) h = Some hn" "to_member cls True hn = Inr m"
    and w: "rmapM (\<lambda>i. rbind (dict_get (dict_of pairs) i) (to_member cls False))
             (sort (filter (\<lambda>i. i \<noteq> h) (keys (dict_of pairs)))) = Inr ws" and ms: "ms = m # ws"
    using assms unfolding build_members_def alive_def[symmetric]
    by (auto simp: res_simps Let_def split: if_splits option.splits)
  note ids = workers_ids[OF w pairs_ids[OF p]]
  have m: "hm_is_head m" "hm_node_id m = h"
    using to_member_id[OF h(2)] pairs_ids[OF p h(1)] by auto
  have "distinct (map hm_node_id ms)" using ids m by (simp add: ms)
  moreover have "sorted (map hm_node_id ws)" using ids by simp
  ultimately show thesis using that ms m ids by blast
qed

lemma split_head_shape:
  "hm_is_head h \<Longrightarrow> list_all (\<lambda>m. \<not> hm_is_head m) ws \<Longrightarrow> split_head (h # ws) = Inr (h, ws)"
proof -
  assume h: "hm_is_head h" and ws: "list_all (\<lambda>m. \<not> hm_is_head m) ws"
  have "filter hm_is_head ws = []" "filter (\<lambda>m. \<not> hm_is_head m) ws = ws"
    using ws by (auto simp: filter_empty_conv filter_id_conv list_all_iff)
  then show ?thesis using h by (simp add: split_head_def)
qed

subsection \<open>Shares\<close>

lemma index_of_nth: "k \<in> set xs \<Longrightarrow> \<exists>i < length xs. index_of k xs = Some i \<and> xs ! i = k"
proof (induction xs)
  case (Cons x xs)
  then show ?case by (cases "x = k") fastforce+
qed simp

definition plan_share :: "assignment \<Rightarrow> int \<Rightarrow> string \<Rightarrow> rat" where
  "plan_share a layers n = py_round_n 4 (of_int (cnt (as_layers a) n) / of_int layers)"

lemma fetched_placement:
  "fetch_placement (Reply 200 text (Some (JObj (assignment_dict a)))) = Inr (Some
     \<lparr>pc_model_id = JStr (as_model_id a), pc_layers = map (\<lambda>(n, lo, hi). (n, JList [JInt lo, JInt hi])) (as_layers a),
      pc_n_cpu_moe = map (\<lambda>(n, k). (n, JInt k)) (as_n_cpu_moe a), pc_tensor_split = map JFloat (as_tensor_split a)\<rparr>)"
  by (simp add: fetch_placement_def assignment_dict_def dict_get_def)

lemma plan_shares:
  assumes "distinct (map np_id ps)" "distinct (map nm_node_id ms)"
    and "0 < ms_total_layers spec" "0 \<le> per_layer_mb spec" "plan ps ms spec = Inr a"
  shows "as_tensor_split a = map (plan_share a (ms_total_layers spec)) (keys (as_layers a))"
    and "distinct (keys (as_layers a))"
proof -
  note st = plan_Inr_stages[OF assms]
  have wf: "distinct (keys (as_layers a))" "\<forall>n \<in> set (keys (as_layers a)). 0 \<le> cnt (as_layers a) n"
    using st(3) by (simp_all add: wf_layers_def del: set_map)
  have "sorted (keys (as_layers a))" by (simp add: st(4))
  then show "as_tensor_split a = map (plan_share a (ms_total_layers spec)) (keys (as_layers a))"
    using tensor_split_sorted[OF wf(1) _ wf(2) st(6) assms(3)] st(7) by (simp add: plan_share_def)
  show "distinct (keys (as_layers a))" by (rule wf(1))
qed

lemma member_share_plan:
  assumes "as_tensor_split a = map (plan_share a layers) (keys (as_layers a))"
    and "pc_layers pl = map (\<lambda>(n, lo, hi). (n, JList [JInt lo, JInt hi])) (as_layers a)"
    and "pc_tensor_split pl = map JFloat (as_tensor_split a)" and "hm_node_id m \<in> set (keys (as_layers a))"
  shows "rbind (member_share pl m) share_text = Inr (fixed4 (plan_share a layers (hm_node_id m)))"
proof -
  have k: "keys (pc_layers pl) = keys (as_layers a)" by (simp add: assms(2) split_def comp_def)
  obtain i where i: "i < length (keys (as_layers a))" "index_of (hm_node_id m) (keys (as_layers a)) = Some i"
      "keys (as_layers a) ! i = hm_node_id m"
    using index_of_nth[OF assms(4)] by blast
  then show ?thesis using assms(1,3) by (simp add: member_share_def k share_text_def)
qed

lemma matches_membership:
  assumes "pc_layers pl = map (\<lambda>(n, lo, hi). (n, JList [JInt lo, JInt hi])) (as_layers a)"
    and "pc_tensor_split pl = map JFloat (as_tensor_split a)" and "length (as_tensor_split a) = length (as_layers a)"
    and "distinct (keys (as_layers a))" and "distinct (map hm_node_id members)"
  shows "if set (map hm_node_id members) = set (keys (as_layers a))
    then assert_plan_matches_membership pl members = Inr ()
    else \<exists>m. assert_plan_matches_membership pl members = Inl (ValueError m)"
proof -
  have k: "keys (pc_layers pl) = keys (as_layers a)" by (simp add: assms(1) split_def comp_def)
  show ?thesis
  proof (cases "set (map hm_node_id members) = set (keys (as_layers a))")
    case True
    then have "length (map hm_node_id members) = length (keys (as_layers a))"
      using assms(4,5) by (metis distinct_card)
    then show ?thesis using True assms(2,3) k
      by (simp add: assert_plan_matches_membership_def del: set_map)
  next
    case False
    have "set (keys (pc_layers pl)) \<noteq> set (map hm_node_id members)" using False k by metis
    then show ?thesis using False by (simp add: assert_plan_matches_membership_def del: set_map)
  qed
qed

lemma server_command_shares:
  assumes "as_tensor_split a = map (plan_share a layers) (keys (as_layers a))" and "distinct (keys (as_layers a))"
    and "pc_layers pl = map (\<lambda>(n, lo, hi). (n, JList [JInt lo, JInt hi])) (as_layers a)"
    and "pc_tensor_split pl = map JFloat (as_tensor_split a)"
    and "hm_is_head h" and "list_all (\<lambda>m. \<not> hm_is_head m) ws" and "distinct (map hm_node_id (h # ws))"
    and "binary cl ''llama-server'' = Inr b" and "cl_min_workers cl \<le> int (length ws)"
  shows "if set (map hm_node_id (h # ws)) = set (keys (as_layers a))
    then \<exists>opts moe. llama_server_command cl mfile (h # ws) (Some pl) context slots = Inr (opts
          @ (if ws \<noteq> [] then [''--rpc'', rpc_endpoints cl ws] else [])
          @ [''-ngl'', ''999'', ''--tensor-split'',
             str_join '','' (map (\<lambda>m. fixed4 (plan_share a layers (hm_node_id m))) (h # ws))] @ moe)
    else \<exists>e. llama_server_command cl mfile (h # ws) (Some pl) context slots = Inl (ValueError e)"
proof -
  note server = split_head_shape[OF assms(5,6)] assms(8)
  have few: "(int (length ws) < cl_min_workers cl) = False" using assms(9) by simp
  have len: "length (as_tensor_split a) = length (as_layers a)" by (simp add: assms(1))
  note match = matches_membership[OF assms(3,4) len assms(2,7)]
  show ?thesis
  proof (cases "set (map hm_node_id (h # ws)) = set (keys (as_layers a))")
    case True
    then have ok: "assert_plan_matches_membership pl (h # ws) = Inr ()" using match by metis
    have shares: "rmapM (\<lambda>m. rbind (member_share pl m) share_text) (h # ws)
        = Inr (map (\<lambda>m. fixed4 (plan_share a layers (hm_node_id m))) (h # ws))"
    proof (rule rmapM_ok)
      fix x assume "x \<in> set (h # ws)"
      then have "hm_node_id x \<in> set (keys (as_layers a))" using True by (metis image_eqI set_map)
      then show "rbind (member_share pl x) share_text = Inr (fixed4 (plan_share a layers (hm_node_id x)))"
        by (rule member_share_plan[OF assms(1,3,4)])
    qed
    have "\<exists>opts moe. llama_server_command cl mfile (h # ws) (Some pl) context slots = Inr (opts
          @ (if ws \<noteq> [] then [''--rpc'', rpc_endpoints cl ws] else [])
          @ [''-ngl'', ''999'', ''--tensor-split'',
             str_join '','' (map (\<lambda>m. fixed4 (plan_share a layers (hm_node_id m))) (h # ws))] @ moe)"
      unfolding llama_server_command_def server rbind.simps prod.case option.case ok shares Let_def few if_False append_assoc
      by (rule exI, rule exI, rule refl)
    with True show ?thesis by argo
  next
    case False
    then obtain e where "assert_plan_matches_membership pl (h # ws) = Inl (ValueError e)" using match by metis
    then have "\<exists>e. llama_server_command cl mfile (h # ws) (Some pl) context slots = Inl (ValueError e)"
      by (simp add: llama_server_command_def server few Let_def)
    with False show ?thesis by argo
  qed
qed

text \<open>
  C40. The head runs the scheduler's plan or does not start. Let the control plane answer
  \<open>/api/nodes\<close> and \<open>/api/plan\<close> over a reachable registry, and let the operator's script find the
  model file, the binary and enough workers. If the plan covers exactly the members the script
  starts, the command it builds lists the workers' endpoints in the order of the members behind the
  head and, in the same order and starting with the head, the share of each member's own layers in
  the plan, to four decimals. If plan and membership differ in a single node, the script raises
  \<open>ValueError\<close> instead.
\<close>

theorem head_runs_the_plan:
  assumes "rg_reachable (cp_registry cp)" and "load_ladder (Some (Inr raw)) = Inr specs"
    and "get_plan (Inr specs) model context slots cp = Inr a"
    and "hw_nodes w = Inr (get_nodes cp)" and "hw_plan w = Reply 200 text (Some (JObj (assignment_dict a)))"
    and "live_members args w = Inr members" and "ha_placement args"
    and "resolve_model_file cl (hw_directory w) (ha_model args) (ha_file args) = Inr file"
    and "binary cl ''llama-server'' = Inr b" and "cl_min_workers cl < int (length members)"
  shows "\<exists>layers. (\<Sum>p\<leftarrow>as_layers a. range_count (snd p)) = layers \<and> 0 < layers
    \<and> (if set (map hm_node_id members) = set (keys (as_layers a))
      then \<exists>opts moe. plan_command args cl w = Inr (opts
            @ (if tl members \<noteq> [] then [''--rpc'', rpc_endpoints cl (tl members)] else [])
            @ [''-ngl'', ''999'', ''--tensor-split'',
               str_join '','' (map (\<lambda>m. fixed4 (plan_share a layers (hm_node_id m))) members)] @ moe, members)
      else \<exists>e. plan_command args cl w = Inl (ValueError e))"
proof -
  let ?ps = "list_profiles (cp_registry cp)" and ?ms = "latest_metrics (cp_registry cp)"
  have v: "list_all valid_spec specs" using load_ladder_ok[OF assms(2)] by metis
  obtain sp where sp: "scheduler_spec (Inr specs) model context slots = Inr sp" "plan ?ps ?ms sp = Inr a"
    using assms(3) by (auto simp: get_plan_def Let_def split: if_splits sum.splits py_error.splits)
  note pos = scheduler_spec_positive[OF sp(1) v]
  have per: "0 \<le> per_layer_mb sp" using pos by (simp add: per_layer_mb_def)
  note pl_facts = list_profiles_distinct[OF assms(1)] latest_metrics_distinct[OF assms(1)] pos(1) per sp(2)
  note sh = plan_shares[OF pl_facts]
  have L: "(\<Sum>p\<leftarrow>as_layers a. range_count (snd p)) = ms_total_layers sp"
    using plan_Inr_stages(6)[OF pl_facts] total_count_sum[OF sh(2)] by simp
  obtain classes where bm: "build_members (get_nodes cp) (ha_head args) classes (excluded_node_ids (ha_exclude args)) = Inr members"
    using assms(4,6) by (auto simp: live_members_def res_simps)
  obtain h ws where m: "members = h # ws" "hm_is_head h" "list_all (\<lambda>m. \<not> hm_is_head m) ws" "distinct (map hm_node_id members)"
    using build_members_shape[OF bm] by metis
  define pl where "pl = \<lparr>pc_model_id = JStr (as_model_id a), pc_layers = map (\<lambda>(n, lo, hi). (n, JList [JInt lo, JInt hi])) (as_layers a),
      pc_n_cpu_moe = map (\<lambda>(n, k). (n, JInt k)) (as_n_cpu_moe a), pc_tensor_split = map JFloat (as_tensor_split a)\<rparr>"
  have pc: "pc_layers pl = map (\<lambda>(n, lo, hi). (n, JList [JInt lo, JInt hi])) (as_layers a)"
    "pc_tensor_split pl = map JFloat (as_tensor_split a)" by (simp_all add: pl_def)
  have fetch: "fetch_placement (hw_plan w) = Inr (Some pl)" by (simp add: assms(5) fetched_placement pl_def)
  have cmd: "plan_command args cl w = rbind (llama_server_command cl file members (Some pl) (ha_context args) (ha_slots args))
      (\<lambda>command. Inr (command, members))"
    using assms(6-8) fetch by (simp add: plan_command_def)
  have enough: "cl_min_workers cl \<le> int (length ws)" using assms(10) m(1) by simp
  note server = server_command_shares[OF sh pc m(2,3) m(4)[unfolded m(1)] assms(9) enough,
      of "file" "ha_context args" "ha_slots args"]
  have "if set (map hm_node_id members) = set (keys (as_layers a))
      then \<exists>opts moe. plan_command args cl w = Inr (opts
            @ (if tl members \<noteq> [] then [''--rpc'', rpc_endpoints cl (tl members)] else [])
            @ [''-ngl'', ''999'', ''--tensor-split'',
               str_join '','' (map (\<lambda>m. fixed4 (plan_share a (ms_total_layers sp) (hm_node_id m))) members)] @ moe, members)
      else \<exists>e. plan_command args cl w = Inl (ValueError e)"
  proof (cases "set (map hm_node_id (h # ws)) = set (keys (as_layers a))")
    case True
    from server[unfolded if_P[OF this]] obtain opts moe where
      "llama_server_command cl file (h # ws) (Some pl) (ha_context args) (ha_slots args) = Inr (opts
          @ (if ws \<noteq> [] then [''--rpc'', rpc_endpoints cl ws] else [])
          @ [''-ngl'', ''999'', ''--tensor-split'',
             str_join '','' (map (\<lambda>m. fixed4 (plan_share a (ms_total_layers sp) (hm_node_id m))) (h # ws))] @ moe)"
      by blast
    note eq = this
    show ?thesis
      unfolding cmd m(1) if_P[OF True] eq rbind.simps list.sel by (rule exI, rule exI, rule refl)
  next
    case False
    then show ?thesis using server unfolding cmd m(1) by (auto simp del: set_map)
  qed
  then show ?thesis using L pos(1) by blast
qed

definition head_registry :: registry where
  "head_registry = fold (rg_step of_int)
     [Op_register 0 (ex_profile ''b'' 10) True, Op_register 0 (ex_profile ''a'' 30) True,
      Op_heartbeat 1 ''a'' (Some (ex_metrics ''a'' 8000)), Op_heartbeat 1 ''b'' (Some (ex_metrics ''b'' 9000))]
     (new_registry 2 3 True)"

definition head_plane :: control_plane where
  "head_plane = sample_plane\<lparr>cp_registry := head_registry\<rparr>"

definition head_plan :: assignment where
  "head_plan = (case get_plan (Inr sample_ladder) ''castoff'' 8192 1 head_plane of Inr a \<Rightarrow> a | Inl _ \<Rightarrow> ex_plan)"

definition sample_args :: head_args where
  "sample_args = \<lparr>ha_model = ''castoff'', ha_file = Some ''m.gguf'', ha_head = ''b'', ha_ctl = None,
     ha_context = 8192, ha_slots = 1, ha_placement = True, ha_exclude = []\<rparr>"

definition sample_cluster :: cluster where
  "sample_cluster = \<lparr>cl_paths = [(''llama'', ''/opt/bin''), (''models'', ''/srv'')], cl_rpc_port = 50052,
     cl_llama_port = 8080, cl_ctl_port = 8000, cl_mdns_service = ''_dain._tcp'', cl_pinned_commit = ''c'',
     cl_replan_debounce_s = 5, cl_min_workers = 1\<rparr>"

definition sample_world :: head_world where
  "sample_world = \<lparr>hw_nodes = Inr (get_nodes head_plane), hw_plan = Reply 200 [] (Some (JObj (assignment_dict head_plan))),
     hw_cluster_file = None, hw_directory = None\<rparr>"

definition sample_members :: "head_member list" where
  "sample_members = map (\<lambda>(n, h). \<lparr>hm_node_id = n, hm_host = ''10.0.0.1'', hm_os_class = ''linux-headless'',
     hm_backend = ''cpu'', hm_is_head = h\<rparr>) [(''b'', True), (''a'', False)]"

lemma head_plan_made:
  "case get_plan (Inr sample_ladder) ''castoff'' 8192 1 head_plane of
     Inr a \<Rightarrow> keys (as_layers a) = [''a'', ''b''] | Inl _ \<Rightarrow> False"
  by code_simp

lemma sample_members_live: "build_members (get_nodes head_plane) ''b'' [] [] = Inr sample_members"
  by code_simp

lemma sample_head_facts:
  "get_plan (Inr sample_ladder) ''castoff'' 8192 1 head_plane = Inr head_plan"
  "live_members sample_args sample_world = Inr sample_members"
  "keys (as_layers head_plan) = [''a'', ''b'']"
proof -
  show "get_plan (Inr sample_ladder) ''castoff'' 8192 1 head_plane = Inr head_plan"
    and "keys (as_layers head_plan) = [''a'', ''b'']"
    using head_plan_made by (simp_all add: head_plan_def split: sum.splits)
  have "excluded_node_ids [] = []" by code_simp
  then show "live_members sample_args sample_world = Inr sample_members"
    by (simp add: live_members_def sample_args_def sample_world_def os_class_map_def sample_members_live)
qed

theorem head_runs_the_plan_witness:
  "\<exists>command. plan_command sample_args sample_cluster sample_world = Inr (command, sample_members)
     \<and> ''--tensor-split'' \<in> set command \<and> rpc_endpoints sample_cluster (tl sample_members) \<in> set command"
proof -
  have r: "rg_reachable (cp_registry head_plane)"
    by (simp add: head_plane_def) (simp only: head_registry_def, intro fold_reachable rg_reachable.start, simp_all)
  have w: "hw_nodes sample_world = Inr (get_nodes head_plane)"
    "hw_plan sample_world = Reply 200 [] (Some (JObj (assignment_dict head_plan)))" "ha_placement sample_args"
    by (simp_all add: sample_world_def sample_args_def)
  have f: "resolve_model_file sample_cluster (hw_directory sample_world) (ha_model sample_args) (ha_file sample_args)
      = Inr ''/srv/castoff/m.gguf''" "binary sample_cluster ''llama-server'' = Inr ''/opt/bin/llama-server''"
    by code_simp+
  have n: "cl_min_workers sample_cluster < int (length sample_members)" "tl sample_members \<noteq> []"
    by (simp_all add: sample_cluster_def sample_members_def)
  have same: "set (map hm_node_id sample_members) = set (keys (as_layers head_plan))"
    unfolding sample_head_facts(3) by (auto simp: sample_members_def)
  from head_runs_the_plan[OF r sample_ladder_loads sample_head_facts(1) w(1,2) sample_head_facts(2) w(3) f n(1), unfolded if_P[OF same]]
  obtain layers opts moe where "plan_command sample_args sample_cluster sample_world = Inr (opts
      @ (if tl sample_members \<noteq> [] then [''--rpc'', rpc_endpoints sample_cluster (tl sample_members)] else [])
      @ [''-ngl'', ''999'', ''--tensor-split'',
         str_join '','' (map (\<lambda>m. fixed4 (plan_share head_plan layers (hm_node_id m))) sample_members)] @ moe, sample_members)"
    by blast
  with n(2) show ?thesis by auto
qed

subsection \<open>Watching\<close>

text \<open>
  A return to the running membership cancels a pending restart. Otherwise the debounce measures from
  the first change: whatever differs from the running membership after that time restarts the head,
  also a membership that has only just changed again.
\<close>

lemma membership_unchanged_keeps:
  assumes "live_members args w = Inr latest" and "membership_key latest = ws_current ws"
  shows "watch_turn args cl now w w2 ws = Inr (Keep, ws\<lparr>ws_changed_at := None\<rparr>)"
  using assms by (simp add: watch_turn_def)

lemma debounce_ignores_later_changes:
  assumes "live_members args w = Inr latest" and "membership_key latest \<noteq> ws_current ws"
    and "ws_changed_at ws = Some t" and "cl_replan_debounce_s cl \<le> now - t"
    and "plan_command args cl w2 = Inr (command, members)"
  shows "watch_turn args cl now w w2 ws
    = Inr (Restart command, \<lparr>ws_current = membership_key members, ws_changed_at = None\<rparr>)"
  using assms by (simp add: watch_turn_def not_less)

end
