(* ===== verification/File_Index.thy ===== *)
theory File_Index
  imports Json
begin

text \<open>
  The semantic document index of a node, \<open>node/index.py\<close>: \<open>LocalEmbeddingModel\<close> (the lazily loaded
  adapter of the embedding library), \<open>LocalFileIndex\<close> (\<open>refresh\<close>, \<open>_read_document\<close>, \<open>search\<close>) and
  the text functions of the module.

  Parameters stand for code outside the sources. \<open>new_model\<close> is the constructor of
  \<open>fastembed.TextEmbedding\<close>, \<open>passage_embed\<close> and \<open>query_embed\<close> are its methods, \<open>sqroot\<close> is
  \<open>math.sqrt\<close>, and an \<open>fs_view\<close> holds what the file system answers during one refresh. The index
  reaches the embedding model only through the two functions of the \<open>EmbeddingModel\<close> protocol, each
  of which returns the model's next state; the interface \<open>embedding_model\<close> states what they promise.

  Texts here are 8-bit, so \<open>casefold\<close> is ASCII lower case and the ellipsis of a cut snippet stands at
  its code page 1252 place.
\<close>

subsection \<open>Constants\<close>

definition DEFAULT_INDEX_ROOT :: string where
  "DEFAULT_INDEX_ROOT = ''/srv/dain/index''"

definition DEFAULT_EMBED_MODEL :: string where
  "DEFAULT_EMBED_MODEL = ''BAAI/bge-small-en-v1.5''"

definition DEFAULT_RESULT_LIMIT :: int where
  "DEFAULT_RESULT_LIMIT = 5"

definition MAX_RESULT_LIMIT :: int where
  "MAX_RESULT_LIMIT = 20"

definition MAX_FILE_BYTES :: int where
  "MAX_FILE_BYTES = 1000000"

definition MAX_INDEX_BYTES :: int where
  "MAX_INDEX_BYTES = 256 * 1024 * 1024"

definition MAX_INDEX_FILES :: int where
  "MAX_INDEX_FILES = 10000"

definition MAX_SNIPPET_CHARS :: nat where
  "MAX_SNIPPET_CHARS = 240"

definition MAX_EMBED_CHARS :: nat where
  "MAX_EMBED_CHARS = 4000"

definition TEXT_SUFFIXES :: "string list" where
  "TEXT_SUFFIXES = [''.c'', ''.cpp'', ''.csv'', ''.h'', ''.hpp'', ''.java'', ''.js'', ''.json'',
     ''.log'', ''.md'', ''.py'', ''.rs'', ''.toml'', ''.ts'', ''.tsx'', ''.txt'', ''.yaml'', ''.yml'']"

subsection \<open>Text functions of the module\<close>

definition token_char :: "char \<Rightarrow> bool" where
  "token_char c \<longleftrightarrow> is_digit_char c \<or> c = CHR ''_'' \<or> (97 \<le> (of_char c :: int) \<and> (of_char c :: int) \<le> 122)"

definition tokenize :: "string \<Rightarrow> string list" where
  "tokenize v = char_runs token_char [] (py_lower v)"

definition ellipsis :: char where
  "ellipsis = CHR 0x85"

definition snippet_lines :: "string \<Rightarrow> string list" where
  "snippet_lines text = filter (\<lambda>l. l \<noteq> []) (map py_strip (splitlines text))"

definition matching_line :: "string list \<Rightarrow> string list \<Rightarrow> string" where
  "matching_line ls terms =
     (case filter (\<lambda>l. list_ex (\<lambda>t. py_in t (py_lower l)) terms) ls of
        l # _ \<Rightarrow> l
      | [] \<Rightarrow> (case ls of l # _ \<Rightarrow> l | [] \<Rightarrow> []))"

definition make_snippet :: "string \<Rightarrow> string list \<Rightarrow> string" where
  "make_snippet text terms =
     (let collapsed = str_join '' '' (py_words (matching_line (snippet_lines text) terms))
      in if length collapsed \<le> MAX_SNIPPET_CHARS then collapsed
         else rstrip_while py_space (take (MAX_SNIPPET_CHARS - 1) collapsed) @ [ellipsis])"

definition embedding_text :: "string \<Rightarrow> string" where
  "embedding_text text = take MAX_EMBED_CHARS text"

definition enabled_flag :: "string option \<Rightarrow> bool" where
  "enabled_flag v = (case v of None \<Rightarrow> False
     | Some s \<Rightarrow> py_lower (py_strip s) \<in> set [''1'', ''true'', ''yes'', ''on''])"

subsection \<open>Vectors\<close>

definition normalise :: "(rat \<Rightarrow> rat) \<Rightarrow> rat list \<Rightarrow> rat list res" where
  "normalise sqroot v =
     (let magnitude = sqroot (\<Sum>x\<leftarrow>v. x * x)
      in if magnitude = 0 then Inl (EmbeddingUnavailableError ''embedding model returned a zero vector'')
         else Inr (map (\<lambda>x. x / magnitude) v))"

definition cosine_similarity :: "rat list \<Rightarrow> rat list \<Rightarrow> rat res" where
  "cosine_similarity l r =
     (if length l = length r then Inr (\<Sum>(a, b)\<leftarrow>zip l r. a * b)
      else if length r < length l then Inl (ValueError ''zip() argument 2 is shorter than argument 1'')
      else Inl (ValueError ''zip() argument 2 is longer than argument 1''))"

subsection \<open>The embedding adapter\<close>

record 'm local_embedding =
  le_model_id :: string
  le_cache_dir :: "string option"
  le_local_files_only :: bool
  le_model :: "'m option"

text \<open>\<open>cache_dir or os.getenv(...)\<close> takes the variable when the argument is missing or empty.\<close>

definition new_embedding ::
  "(string, string) dict \<Rightarrow> string \<Rightarrow> string option \<Rightarrow> bool option \<Rightarrow> 'm local_embedding" where
  "new_embedding env model_id cache_dir only =
     \<lparr>le_model_id = model_id,
      le_cache_dir = (case cache_dir of Some (c # cs) \<Rightarrow> Some (c # cs)
                      | _ \<Rightarrow> map_of env ''DAIN_EMBED_CACHE''),
      le_local_files_only = (case only of None \<Rightarrow> \<not> enabled_flag (map_of env ''DAIN_EMBED_ALLOW_DOWNLOAD'')
                             | Some b \<Rightarrow> b),
      le_model = None\<rparr>"

definition embedding_from_environment :: "(string, string) dict \<Rightarrow> 'm local_embedding" where
  "embedding_from_environment env =
     new_embedding env (case map_of env ''DAIN_EMBED_MODEL'' of Some m \<Rightarrow> m | None \<Rightarrow> DEFAULT_EMBED_MODEL)
       None None"

definition load_model ::
  "(string \<Rightarrow> string option \<Rightarrow> bool \<Rightarrow> 'm res) \<Rightarrow> 'm local_embedding \<Rightarrow> 'm res \<times> 'm local_embedding" where
  "load_model new_model e =
     (case le_model e of
        Some m \<Rightarrow> (Inr m, e)
      | None \<Rightarrow>
          (case new_model (le_model_id e) (le_cache_dir e) (le_local_files_only e) of
             Inr m \<Rightarrow> (Inr m, e\<lparr>le_model := Some m\<rparr>)
           | Inl x \<Rightarrow> (Inl (EmbeddingUnavailableError
               (''local embedding model '' @ py_repr (le_model_id e) @ '' is unavailable'')), e)))"

definition embedding_failed :: "'m local_embedding \<Rightarrow> py_error \<Rightarrow> py_error" where
  "embedding_failed e x = (case x of EmbeddingUnavailableError m \<Rightarrow> x
     | _ \<Rightarrow> EmbeddingUnavailableError (''local embedding model '' @ py_repr (le_model_id e) @ '' failed''))"

definition embed_documents ::
  "(string \<Rightarrow> string option \<Rightarrow> bool \<Rightarrow> 'm res) \<Rightarrow> ('m \<Rightarrow> string list \<Rightarrow> rat list list res)
   \<Rightarrow> 'm local_embedding \<Rightarrow> string list \<Rightarrow> rat list list res \<times> 'm local_embedding" where
  "embed_documents new_model passage_embed e texts =
     (if texts = [] then (Inr [], e)
      else let (r, e') = load_model new_model e
           in (rcatch (rbind r (\<lambda>m. passage_embed m texts)) (\<lambda>x. Inl (embedding_failed e x)), e'))"

text \<open>\<open>next(iter(...))\<close> of an empty result raises \<open>StopIteration\<close>, which the last clause turns over.\<close>

definition embed_query ::
  "(string \<Rightarrow> string option \<Rightarrow> bool \<Rightarrow> 'm res) \<Rightarrow> ('m \<Rightarrow> string \<Rightarrow> rat list list res)
   \<Rightarrow> 'm local_embedding \<Rightarrow> string \<Rightarrow> rat list res \<times> 'm local_embedding" where
  "embed_query new_model query_embed e q =
     (let (r, e') = load_model new_model e
      in (rcatch (rbind (rbind r (\<lambda>m. query_embed m q))
                   (\<lambda>vs. case vs of v # _ \<Rightarrow> Inr v | [] \<Rightarrow> Inl StopIteration))
            (\<lambda>x. Inl (embedding_failed e x)), e'))"

subsection \<open>The file system during one refresh\<close>

text \<open>
  \<open>fe_parts\<close> are the components of a path \<open>rglob\<close> yields, \<open>fe_resolved\<close> those of
  \<open>path.resolve(strict=True)\<close>. A size is read twice: before the text, and again for the document.
\<close>

record fs_entry =
  fe_parts :: "string list"
  fe_symlink :: bool
  fe_is_file :: bool
  fe_resolved :: "string list res"
  fe_size :: "int res"
  fe_text :: "string res"
  fe_size_again :: "int res"

record fs_view =
  fv_root :: "string list"
  fv_is_dir :: bool
  fv_entries :: "fs_entry list"

definition abs_path_text :: "string list \<Rightarrow> string" where
  "abs_path_text parts = CHR ''/'' # str_join ''/'' parts"

text \<open>\<open>path.suffix\<close>: from the last point of the name, unless it starts or ends the name.\<close>

definition path_suffix :: "string list \<Rightarrow> string" where
  "path_suffix parts =
     (let name = (if parts = [] then [] else last parts);
          ext = rev (takeWhile (\<lambda>c. c \<noteq> CHR ''.'') (rev name))
      in if CHR ''.'' \<in> set name \<and> ext \<noteq> [] \<and> length ext + 1 < length name
         then CHR ''.'' # ext else [])"

definition relative_to :: "string list \<Rightarrow> string list \<Rightarrow> string list res" where
  "relative_to path base =
     (if take (length base) path = base then Inr (drop (length base) path)
      else Inl (ValueError (py_repr (abs_path_text path) @ '' is not in the subpath of '' @ py_repr (abs_path_text base))))"

definition posix :: "string list \<Rightarrow> string" where
  "posix parts = (if parts = [] then ''.'' else str_join ''/'' parts)"

subsection \<open>The index\<close>

record indexed_document =
  id_path :: string
  id_text :: string
  id_embedding :: "rat list"
  id_size_bytes :: int

record 'e file_index =
  fi_max_files :: int
  fi_max_total_bytes :: int
  fi_embedder :: 'e
  fi_documents :: "indexed_document list"
  fi_indexed_at :: "rat option"
  fi_indexed_bytes :: int
  fi_embedding_dimensions :: nat
  fi_generation :: nat

definition new_index :: "int \<Rightarrow> int \<Rightarrow> 'e \<Rightarrow> 'e file_index res" where
  "new_index max_files max_total_bytes embedder =
     (if max_files \<le> 0 then Inl (ValueError ''max_files must be greater than zero'')
      else if max_total_bytes \<le> 0 then Inl (ValueError ''max_total_bytes must be greater than zero'')
      else Inr \<lparr>fi_max_files = max_files, fi_max_total_bytes = max_total_bytes,
                fi_embedder = embedder, fi_documents = [], fi_indexed_at = None,
                fi_indexed_bytes = 0, fi_embedding_dimensions = 0, fi_generation = 0\<rparr>)"

definition index_root_from_environment :: "(string, string) dict \<Rightarrow> string" where
  "index_root_from_environment env =
     (case map_of env ''DAIN_INDEX_ROOT'' of Some r \<Rightarrow> r | None \<Rightarrow> DEFAULT_INDEX_ROOT)"

definition caught_read :: "py_error \<Rightarrow> bool" where
  "caught_read e = (case e of OSError _ \<Rightarrow> True | ValueError _ \<Rightarrow> True | _ \<Rightarrow> False)"

text \<open>
  \<open>_read_document\<close>. The \<open>try\<close> covers resolving, the containment test, the first size and the text;
  the second \<open>stat\<close> is outside it.
\<close>

definition read_text_of :: "string list \<Rightarrow> fs_entry \<Rightarrow> (string list \<times> string) option res" where
  "read_text_of base p =
     rcatch
       (rbind (fe_resolved p) (\<lambda>resolved.
        rbind (relative_to resolved base) (\<lambda>rel.
        rbind (fe_size p) (\<lambda>size.
        if size > MAX_FILE_BYTES then Inr None
        else rbind (fe_text p) (\<lambda>text. Inr (Some (rel, text)))))))
       (\<lambda>e. if caught_read e then Inr None else Inl e)"

definition read_document :: "string list \<Rightarrow> fs_entry \<Rightarrow> indexed_document option res" where
  "read_document base p =
     (if fe_symlink p \<or> \<not> fe_is_file p then Inr None
      else if py_lower (path_suffix (fe_parts p)) \<notin> set TEXT_SUFFIXES then Inr None
      else rbind (read_text_of base p) (\<lambda>r.
        case r of None \<Rightarrow> Inr None
        | Some (rel, text) \<Rightarrow>
            if py_strip text = [] then Inr None
            else rbind (fe_size_again p) (\<lambda>size.
              Inr (Some \<lparr>id_path = posix rel, id_text = text, id_embedding = [], id_size_bytes = size\<rparr>))))"

text \<open>The scan over the sorted paths; \<open>documents\<close> is kept newest first.\<close>

fun scan_loop ::
  "int \<Rightarrow> int \<Rightarrow> string list \<Rightarrow> fs_entry list \<Rightarrow> indexed_document list \<Rightarrow> int
   \<Rightarrow> (indexed_document list \<times> int) res" where
  "scan_loop max_files max_bytes base [] docs bytes = Inr (rev docs, bytes)"
| "scan_loop max_files max_bytes base (p # ps) docs bytes =
     (if int (length docs) \<ge> max_files then Inr (rev docs, bytes)
      else rbind (read_document base p) (\<lambda>r.
        case r of
          None \<Rightarrow> scan_loop max_files max_bytes base ps docs bytes
        | Some d \<Rightarrow>
            if bytes + id_size_bytes d > max_bytes then Inr (rev docs, bytes)
            else scan_loop max_files max_bytes base ps (d # docs) (bytes + id_size_bytes d)))"

definition scan :: "'e file_index \<Rightarrow> fs_view \<Rightarrow> (indexed_document list \<times> int) res" where
  "scan idx w =
     (if fv_is_dir w
      then scan_loop (fi_max_files idx) (fi_max_total_bytes idx) (fv_root w)
             (sort_key fe_parts (fv_entries w)) [] 0
      else Inr ([], 0))"

text \<open>The checks on the vectors, and the documents with their unit vectors.\<close>

definition attach_vectors ::
  "(rat \<Rightarrow> rat) \<Rightarrow> indexed_document list \<Rightarrow> rat list list \<Rightarrow> (indexed_document list \<times> nat) res" where
  "attach_vectors sqroot docs vectors =
     (if length vectors \<noteq> length docs
      then Inl (EmbeddingUnavailableError ''embedding model returned the wrong number of vectors'')
      else let dimensions = length (hd vectors)
           in if dimensions = 0 \<or> list_ex (\<lambda>v. length v \<noteq> dimensions) vectors
              then Inl (EmbeddingUnavailableError ''embedding model returned inconsistent vector dimensions'')
              else rbind (rmapM (\<lambda>(d, v). rbind (normalise sqroot v) (\<lambda>u.
                      Inr \<lparr>id_path = id_path d, id_text = id_text d, id_embedding = u,
                           id_size_bytes = id_size_bytes d\<rparr>)) (zip docs vectors))
                   (\<lambda>ds. Inr (ds, dimensions)))"

definition index_stats :: "('e \<Rightarrow> string) \<Rightarrow> string list \<Rightarrow> 'e file_index \<Rightarrow> json" where
  "index_stats model_id base idx = JObj
     [(''root'', JStr (abs_path_text base)),
      (''files_indexed'', JInt (int (length (fi_documents idx)))),
      (''bytes_indexed'', JInt (fi_indexed_bytes idx)),
      (''indexed_at'', (case fi_indexed_at idx of None \<Rightarrow> JNull | Some t \<Rightarrow> JFloat t)),
      (''embedding_model'', JStr (model_id (fi_embedder idx))),
      (''embedding_dimensions'', JInt (int (fi_embedding_dimensions idx)))]"

text \<open>
  \<open>refresh\<close> from the moment it holds \<open>refresh_lock\<close>: \<open>observed\<close> is the generation it read before
  waiting for the lock. The new documents are published in one step.
\<close>

definition refresh_locked ::
  "('e \<Rightarrow> string list \<Rightarrow> rat list list res \<times> 'e) \<Rightarrow> ('e \<Rightarrow> string) \<Rightarrow> (rat \<Rightarrow> rat) \<Rightarrow> nat \<Rightarrow> fs_view
   \<Rightarrow> rat \<Rightarrow> 'e file_index \<Rightarrow> json res \<times> 'e file_index" where
  "refresh_locked embedf model_id sqroot observed w now idx =
     (if fi_generation idx \<noteq> observed then (Inr (index_stats model_id (fv_root w) idx), idx)
      else case scan idx w of
        Inl x \<Rightarrow> (Inl x, idx)
      | Inr (docs, bytes) \<Rightarrow>
          let (r, e) = (if docs = [] then (Inr ([], 0), fi_embedder idx)
                        else let (vs, e) = embedf (fi_embedder idx) (map (\<lambda>d. embedding_text (id_text d)) docs)
                             in (rbind vs (attach_vectors sqroot docs), e));
              idx1 = idx\<lparr>fi_embedder := e\<rparr>
          in case r of
               Inl x \<Rightarrow> (Inl x, idx1)
             | Inr (docs', dims) \<Rightarrow>
                 let idx2 = idx1\<lparr>fi_documents := docs', fi_indexed_at := Some now,
                                 fi_indexed_bytes := bytes, fi_embedding_dimensions := dims,
                                 fi_generation := fi_generation idx + 1\<rparr>
                 in (Inr (index_stats model_id (fv_root w) idx2), idx2))"

text \<open>\<open>refresh\<close> when no other refresh runs between its two locked sections.\<close>

definition refresh ::
  "('e \<Rightarrow> string list \<Rightarrow> rat list list res \<times> 'e) \<Rightarrow> ('e \<Rightarrow> string) \<Rightarrow> (rat \<Rightarrow> rat) \<Rightarrow> fs_view
   \<Rightarrow> rat \<Rightarrow> 'e file_index \<Rightarrow> json res \<times> 'e file_index" where
  "refresh embedf model_id sqroot w now idx =
     refresh_locked embedf model_id sqroot (fi_generation idx) w now idx"

subsection \<open>Search\<close>

record search_hit =
  sh_path :: string
  sh_score :: rat
  sh_snippet :: string

definition hit_json :: "search_hit \<Rightarrow> json" where
  "hit_json h = JObj [(''path'', JStr (sh_path h)), (''score'', JFloat (sh_score h)),
     (''snippet'', JStr (sh_snippet h))]"

definition hit_key :: "search_hit \<Rightarrow> rat \<times> string" where
  "hit_key h = (- sh_score h, sh_path h)"

definition score_document :: "rat list \<Rightarrow> string list \<Rightarrow> indexed_document \<Rightarrow> search_hit res" where
  "score_document qe terms d =
     rbind (cosine_similarity (id_embedding d) qe) (\<lambda>score.
       Inr \<lparr>sh_path = id_path d, sh_score = py_round_n 4 score,
            sh_snippet = make_snippet (id_text d) terms\<rparr>)"

definition rank_documents ::
  "rat list \<Rightarrow> string \<Rightarrow> int \<Rightarrow> indexed_document list \<Rightarrow> search_hit list res" where
  "rank_documents qe query limit docs =
     rbind (rmapM (score_document qe (remdups (tokenize query))) docs) (\<lambda>hits.
       Inr (take (nat limit) (sort_key hit_key hits)))"

definition search_index ::
  "('e \<Rightarrow> string \<Rightarrow> rat list res \<times> 'e) \<Rightarrow> (rat \<Rightarrow> rat) \<Rightarrow> string \<Rightarrow> int \<Rightarrow> 'e file_index
   \<Rightarrow> search_hit list res \<times> 'e file_index" where
  "search_index embedf sqroot query limit idx =
     (let query = py_strip query in
      if query = [] then (Inl (ValueError ''query must not be empty''), idx)
      else if \<not> (1 \<le> limit \<and> limit \<le> MAX_RESULT_LIMIT)
        then (Inl (ValueError (''limit must be between 1 and '' @ str_int MAX_RESULT_LIMIT)), idx)
      else if fi_indexed_at idx = None
        then (Inl (IndexNotReadyError ''index is not ready; submit an index job first''), idx)
      else if fi_documents idx = [] then (Inr [], idx)
      else let (v, e) = embedf (fi_embedder idx) query
           in (rbind (rbind v (normalise sqroot)) (\<lambda>qe.
                 if length qe \<noteq> length (id_embedding (hd (fi_documents idx)))
                 then Inl (EmbeddingUnavailableError ''query and document embedding dimensions do not match'')
                 else rank_documents qe query limit (fi_documents idx)),
               idx\<lparr>fi_embedder := e\<rparr>))"

end
