(* ===== verification/File_Index_Properties.thy ===== *)
theory File_Index_Properties
  imports File_Index
begin

text \<open>
  What the document index guarantees: the interface of the embedding model and what it gives the
  index, the bounds and the confinement every reachable index keeps (C11), and the ranking a search
  returns (C12).
\<close>

subsection \<open>The embedding model as the index sees it\<close>

locale embedding_model =
  fixes docs :: "'e \<Rightarrow> string list \<Rightarrow> rat list list res \<times> 'e"
    and ask :: "'e \<Rightarrow> string \<Rightarrow> rat list res \<times> 'e"
    and model_id :: "'e \<Rightarrow> string"
  assumes docs_error: "fst (docs e ts) = Inl x \<Longrightarrow> \<exists>m. x = EmbeddingUnavailableError m"
    and ask_error: "fst (ask e q) = Inl x \<Longrightarrow> \<exists>m. x = EmbeddingUnavailableError m"
    and docs_model: "model_id (snd (docs e ts)) = model_id e"
    and ask_model: "model_id (snd (ask e q)) = model_id e"

lemma embedding_failed_kind: "\<exists>m. embedding_failed e x = EmbeddingUnavailableError m"
  by (cases x) (auto simp: embedding_failed_def)

lemma load_model_id: "le_model_id (snd (load_model new_model e)) = le_model_id e"
  by (auto simp: load_model_def split: option.splits sum.splits)

interpretation le: embedding_model "embed_documents new_model passage_embed"
    "embed_query new_model query_embed" le_model_id
  for new_model passage_embed query_embed
proof
  fix e :: "'a local_embedding" and ts x
  show "fst (embed_documents new_model passage_embed e ts) = Inl x \<Longrightarrow> \<exists>m. x = EmbeddingUnavailableError m"
    using embedding_failed_kind[of e]
    by (auto simp: embed_documents_def Let_def res_simps split: if_splits prod.splits)
  show "le_model_id (snd (embed_documents new_model passage_embed e ts)) = le_model_id e"
    using load_model_id[of new_model e] by (auto simp: embed_documents_def split: prod.splits)
next
  fix e :: "'a local_embedding" and q x
  show "fst (embed_query new_model query_embed e q) = Inl x \<Longrightarrow> \<exists>m. x = EmbeddingUnavailableError m"
    using embedding_failed_kind[of e]
    by (auto simp: embed_query_def Let_def res_simps split: if_splits prod.splits)
  show "le_model_id (snd (embed_query new_model query_embed e q)) = le_model_id e"
    using load_model_id[of new_model e] by (auto simp: embed_query_def split: prod.splits)
qed

subsection \<open>The scan\<close>

definition size_sum :: "indexed_document list \<Rightarrow> int" where
  "size_sum ds = (\<Sum>d\<leftarrow>ds. id_size_bytes d)"

definition indexed_file :: "fs_view \<Rightarrow> indexed_document \<Rightarrow> bool" where
  "indexed_file w d \<longleftrightarrow> (\<exists>p \<in> set (fv_entries w). \<exists>rel n.
     \<not> fe_symlink p \<and> fe_is_file p \<and> py_lower (path_suffix (fe_parts p)) \<in> set TEXT_SUFFIXES
     \<and> fe_resolved p = Inr (fv_root w @ rel) \<and> id_path d = posix rel
     \<and> fe_size p = Inr n \<and> n \<le> MAX_FILE_BYTES \<and> fe_text p = Inr (id_text d) \<and> py_strip (id_text d) \<noteq> []
     \<and> fe_size_again p = Inr (id_size_bytes d))"

lemma relative_to_Inr: "relative_to path base = Inr rel \<longleftrightarrow> path = base @ rel"
  by (auto simp: relative_to_def) (metis append_take_drop_id)

lemma read_text_of_Some:
  "read_text_of base p = Inr (Some (rel, text)) \<longleftrightarrow>
     (\<exists>n. fe_resolved p = Inr (base @ rel) \<and> fe_size p = Inr n \<and> n \<le> MAX_FILE_BYTES \<and> fe_text p = Inr text)"
  by (cases "fe_size p") (auto simp: read_text_of_def res_simps relative_to_Inr not_less split: if_splits)

lemma read_document_Some:
  "read_document base p = Inr (Some d) \<longleftrightarrow>
     \<not> fe_symlink p \<and> fe_is_file p \<and> py_lower (path_suffix (fe_parts p)) \<in> set TEXT_SUFFIXES
     \<and> (\<exists>rel. read_text_of base p = Inr (Some (rel, id_text d)) \<and> py_strip (id_text d) \<noteq> []
          \<and> id_path d = posix rel \<and> id_embedding d = [] \<and> fe_size_again p = Inr (id_size_bytes d))"
  by (cases d) (auto simp: read_document_def res_simps split: if_splits option.split_asm)

lemma read_document_file:
  assumes "read_document (fv_root w) p = Inr (Some d)" and "p \<in> set (fv_entries w)"
  shows "indexed_file w d"
  using assms(1) unfolding read_document_Some read_text_of_Some indexed_file_def
  by (intro bexI[OF _ assms(2)]) blast

lemma scan_loop_bounds:
  assumes "scan_loop mf mb base ps docs bytes = Inr (ds, b)" and "int (length docs) \<le> mf"
    and "bytes = size_sum docs" and "bytes \<le> mb"
  shows "int (length ds) \<le> mf \<and> b = size_sum ds \<and> b \<le> mb"
  using assms
proof (induction ps arbitrary: docs bytes)
  case Nil
  then show ?case by (auto simp: size_sum_def rev_map[symmetric] sum_list_rev)
next
  case (Cons p ps)
  show ?case
  proof (cases "int (length docs) \<ge> mf")
    case True
    with Cons.prems show ?thesis by (auto simp: size_sum_def rev_map[symmetric] sum_list_rev)
  next
    case False
    with Cons.prems(1) obtain r where r: "read_document base p = Inr r" by (auto simp: res_simps)
    show ?thesis
    proof (cases r)
      case None
      with Cons r False show ?thesis by simp
    next
      case (Some d)
      show ?thesis
      proof (cases "bytes + id_size_bytes d > mb")
        case True
        with Cons.prems r Some False show ?thesis
          by (auto simp: size_sum_def rev_map[symmetric] sum_list_rev)
      next
        case fits: False
        have "scan_loop mf mb base ps (d # docs) (bytes + id_size_bytes d) = Inr (ds, b)"
          using Cons.prems(1) r Some False fits by simp
        then show ?thesis using Cons.IH[of "d # docs"] False fits Cons.prems(3)
          by (simp add: size_sum_def add.commute)
      qed
    qed
  qed
qed

lemma scan_loop_source:
  assumes "scan_loop mf mb base ps docs bytes = Inr (ds, b)" and "d \<in> set ds"
  shows "d \<in> set docs \<or> (\<exists>p \<in> set ps. read_document base p = Inr (Some d))"
  using assms
proof (induction ps arbitrary: docs bytes)
  case Nil
  then show ?case by auto
next
  case (Cons p ps)
  from Cons.prems(1) consider "ds = rev docs"
    | "scan_loop mf mb base ps docs bytes = Inr (ds, b)"
    | x where "read_document base p = Inr (Some x)"
        "scan_loop mf mb base ps (x # docs) (bytes + id_size_bytes x) = Inr (ds, b)"
    by (auto simp: res_simps split: if_splits option.split_asm)
  then show ?case
  proof cases
    case 1
    with Cons.prems(2) show ?thesis by simp
  next
    case 2
    with Cons.IH[OF 2] Cons.prems(2) show ?thesis by auto
  next
    case 3
    with Cons.IH[OF 3(2)] Cons.prems(2) show ?thesis by auto
  qed
qed

lemma scan_ok:
  assumes "scan idx w = Inr (ds, b)" and "0 \<le> fi_max_files idx" and "0 \<le> fi_max_total_bytes idx"
  shows "int (length ds) \<le> fi_max_files idx \<and> b = size_sum ds \<and> b \<le> fi_max_total_bytes idx
    \<and> (\<forall>d \<in> set ds. indexed_file w d)"
proof (cases "fv_is_dir w")
  case True
  note loop = assms(1)[unfolded scan_def if_P[OF True]]
  have "\<forall>d \<in> set ds. indexed_file w d"
    using scan_loop_source[OF loop] read_document_file[of w] by fastforce
  with scan_loop_bounds[OF loop] assms(2,3) show ?thesis by (simp add: size_sum_def)
next
  case False
  with assms show ?thesis by (simp add: scan_def size_sum_def)
qed

subsection \<open>Vectors\<close>

lemma normalise_length: "normalise s v = Inr u \<Longrightarrow> length u = length v"
  by (auto simp: normalise_def Let_def split: if_splits)

definition same_file :: "indexed_document \<Rightarrow> indexed_document \<Rightarrow> bool" where
  "same_file d d' \<longleftrightarrow> id_path d = id_path d' \<and> id_text d = id_text d' \<and> id_size_bytes d = id_size_bytes d'"

lemma attach_rmapM:
  assumes "rmapM (\<lambda>(d, v). rbind (normalise s v) (\<lambda>u.
      Inr \<lparr>id_path = id_path d, id_text = id_text d, id_embedding = u, id_size_bytes = id_size_bytes d\<rparr>))
      (zip docs vs) = Inr ds"
    and "length vs = length docs" and "\<forall>v \<in> set vs. length v = n"
  shows "list_all2 same_file ds docs \<and> (\<forall>d \<in> set ds. length (id_embedding d) = n)"
  using assms
proof (induction docs arbitrary: vs ds)
  case Nil
  then show ?case by simp
next
  case (Cons d docs)
  then obtain v vs' where vs: "vs = v # vs'" by (cases vs) auto
  with Cons show ?case by (auto simp: res_simps same_file_def normalise_length)
qed

lemma attach_vectors_ok:
  assumes "attach_vectors s docs vs = Inr (ds, n)"
  shows "list_all2 same_file ds docs \<and> (\<forall>d \<in> set ds. length (id_embedding d) = n) \<and> 0 < n"
  using assms attach_rmapM[of s docs vs ds n]
  by (auto simp: attach_vectors_def Let_def res_simps list_ex_iff split: if_splits)

lemma attach_vectors_error:
  "attach_vectors s docs vs = Inl x \<Longrightarrow> \<exists>m. x = EmbeddingUnavailableError m"
proof -
  have "rmapM (\<lambda>(d, v). rbind (normalise s v) (\<lambda>u.
      Inr \<lparr>id_path = id_path d, id_text = id_text d, id_embedding = u, id_size_bytes = id_size_bytes d\<rparr>)) xs
      = Inl x \<Longrightarrow> \<exists>m. x = EmbeddingUnavailableError m" for xs
    by (induction xs) (auto simp: res_simps normalise_def Let_def split: if_splits)
  then show "attach_vectors s docs vs = Inl x \<Longrightarrow> \<exists>m. x = EmbeddingUnavailableError m"
    by (auto simp: attach_vectors_def Let_def res_simps split: if_splits)
qed

lemma same_file_sum: "list_all2 same_file ds docs \<Longrightarrow> size_sum ds = size_sum docs"
  by (induction rule: list_all2_induct) (auto simp: size_sum_def same_file_def)

lemma same_file_indexed:
  assumes "list_all2 same_file ds docs" and "\<forall>d \<in> set docs. indexed_file w d" and "d \<in> set ds"
  shows "indexed_file w d"
proof -
  obtain d' where "d' \<in> set docs" "same_file d d'"
    using assms(1,3) by (metis in_set_conv_nth list_all2_conv_all_nth)
  with assms(2) show ?thesis by (auto simp: indexed_file_def same_file_def)
qed

subsection \<open>Every reachable index\<close>

definition index_ok :: "'e file_index \<Rightarrow> bool" where
  "index_ok idx \<longleftrightarrow> 0 < fi_max_files idx \<and> 0 < fi_max_total_bytes idx
     \<and> int (length (fi_documents idx)) \<le> fi_max_files idx
     \<and> fi_indexed_bytes idx = size_sum (fi_documents idx)
     \<and> fi_indexed_bytes idx \<le> fi_max_total_bytes idx
     \<and> (\<forall>d \<in> set (fi_documents idx). length (id_embedding d) = fi_embedding_dimensions idx)
     \<and> (fi_embedding_dimensions idx = 0 \<longleftrightarrow> fi_documents idx = [])
     \<and> (fi_indexed_at idx = None \<longleftrightarrow> fi_generation idx = 0)
     \<and> (fi_indexed_at idx = None \<longrightarrow> fi_documents idx = [])"

lemma index_ok_embedder [simp]: "index_ok (idx\<lparr>fi_embedder := e\<rparr>) = index_ok idx"
  by (simp add: index_ok_def)

text \<open>
  Indexes a node's process can hold: created with the two limits, refreshed against any of the
  views \<open>views\<close> of its root, at any time and with any generation observed beforehand (refreshes may
  wait for each other), and searched.
\<close>

inductive index_reach ::
  "('e \<Rightarrow> string list \<Rightarrow> rat list list res \<times> 'e) \<Rightarrow> ('e \<Rightarrow> string \<Rightarrow> rat list res \<times> 'e) \<Rightarrow> ('e \<Rightarrow> string)
   \<Rightarrow> (rat \<Rightarrow> rat) \<Rightarrow> fs_view set \<Rightarrow> int \<Rightarrow> int \<Rightarrow> 'e file_index \<Rightarrow> bool"
  for docs ask model_id sqroot views max_files max_bytes where
  start: "new_index max_files max_bytes e = Inr idx \<Longrightarrow>
    index_reach docs ask model_id sqroot views max_files max_bytes idx"
| refreshed: "index_reach docs ask model_id sqroot views max_files max_bytes idx \<Longrightarrow> w \<in> views \<Longrightarrow>
    index_reach docs ask model_id sqroot views max_files max_bytes
      (snd (refresh_locked docs model_id sqroot observed w now idx))"
| searched: "index_reach docs ask model_id sqroot views max_files max_bytes idx \<Longrightarrow>
    index_reach docs ask model_id sqroot views max_files max_bytes (snd (search_index ask sqroot q n idx))"

lemma search_index_state: "\<exists>e. snd (search_index ask sqroot q n idx) = idx\<lparr>fi_embedder := e\<rparr>"
  by (auto simp: search_index_def Let_def split: prod.splits intro: exI[of _ "fi_embedder idx"])

text \<open>A refresh leaves the published documents alone or publishes a complete new set.\<close>

lemma refresh_cases:
  obtains (kept) e where "snd (refresh_locked docs model_id sqroot observed w now idx) = idx\<lparr>fi_embedder := e\<rparr>"
  | (published) e ds' ds b n where "scan idx w = Inr (ds, b)" "list_all2 same_file ds' ds"
      "\<forall>d \<in> set ds'. length (id_embedding d) = n" "n = 0 \<longleftrightarrow> ds' = []"
      "snd (refresh_locked docs model_id sqroot observed w now idx) =
         idx\<lparr>fi_embedder := e, fi_documents := ds', fi_indexed_at := Some now, fi_indexed_bytes := b,
             fi_embedding_dimensions := n, fi_generation := fi_generation idx + 1\<rparr>"
proof (cases "fi_generation idx \<noteq> observed \<or> (\<exists>x. scan idx w = Inl x)")
  case True
  then have "snd (refresh_locked docs model_id sqroot observed w now idx) = idx\<lparr>fi_embedder := fi_embedder idx\<rparr>"
    by (auto simp: refresh_locked_def)
  then show ?thesis by (rule kept)
next
  case False
  then obtain ds b where sc: "scan idx w = Inr (ds, b)" by (cases "scan idx w") auto
  show ?thesis
  proof (cases "ds = []")
    case True
    with sc False show ?thesis
      by (intro published[of "[]" b "[]" 0 "fi_embedder idx"]) (auto simp: refresh_locked_def Let_def)
  next
    case ne: False
    obtain vs e where em: "docs (fi_embedder idx) (map (\<lambda>d. embedding_text (id_text d)) ds) = (vs, e)"
      by (cases "docs (fi_embedder idx) (map (\<lambda>d. embedding_text (id_text d)) ds)")
    show ?thesis
    proof (cases "rbind vs (attach_vectors sqroot ds)")
      case (Inl x)
      with sc False ne em show ?thesis by (intro kept[of e]) (auto simp: refresh_locked_def Let_def)
    next
      case (Inr r)
      obtain ds' n where r: "r = (ds', n)" by (cases r)
      with Inr obtain v where "vs = Inr v" "attach_vectors sqroot ds v = Inr (ds', n)"
        by (auto simp: res_simps)
      with attach_vectors_ok[of sqroot ds v ds' n]
      have a: "list_all2 same_file ds' ds" "\<forall>d \<in> set ds'. length (id_embedding d) = n" "0 < n" by auto
      moreover have "ds' \<noteq> []" using a(1) ne by auto
      ultimately show ?thesis using sc False ne em Inr r
        by (intro published[of ds b ds' n e]) (auto simp: refresh_locked_def Let_def)
    qed
  qed
qed

lemma refresh_ok:
  assumes "index_ok idx"
  shows "index_ok (snd (refresh_locked docs model_id sqroot observed w now idx))"
proof (cases rule: refresh_cases[of docs model_id sqroot observed w now idx])
  case (kept e)
  with assms show ?thesis by simp
next
  case (published e ds' ds b n)
  have "int (length ds) \<le> fi_max_files idx \<and> b = size_sum ds \<and> b \<le> fi_max_total_bytes idx"
    using scan_ok[OF published(1)] assms by (simp add: index_ok_def)
  moreover have "size_sum ds' = size_sum ds" using published(2) by (rule same_file_sum)
  moreover have "length ds' = length ds" using published(2) by (rule list_all2_lengthD)
  ultimately show ?thesis using published(3,4) assms unfolding published(5)
    by (simp add: index_ok_def)
qed

lemma refresh_limits:
  "fi_max_files (snd (refresh_locked docs model_id sqroot observed w now idx)) = fi_max_files idx"
  "fi_max_total_bytes (snd (refresh_locked docs model_id sqroot observed w now idx)) = fi_max_total_bytes idx"
  by (cases rule: refresh_cases[of docs model_id sqroot observed w now idx]; simp)+

lemma reach_ok:
  assumes "index_reach docs ask model_id sqroot views max_files max_bytes idx"
  shows "index_ok idx \<and> fi_max_files idx = max_files \<and> fi_max_total_bytes idx = max_bytes"
  using assms
proof (induction rule: index_reach.induct)
  case (start e idx)
  then show ?case by (auto simp: new_index_def index_ok_def size_sum_def split: if_splits)
next
  case (refreshed idx w observed now)
  then show ?case using refresh_ok[of idx] by (simp add: refresh_limits)
next
  case (searched idx q n)
  then show ?case using search_index_state[of ask sqroot q n idx] by auto
qed

lemma reach_confined:
  assumes "index_reach docs ask model_id sqroot views max_files max_bytes idx"
  shows "\<forall>d \<in> set (fi_documents idx). \<exists>w \<in> views. indexed_file w d"
  using assms
proof (induction rule: index_reach.induct)
  case (start e idx)
  then show ?case by (auto simp: new_index_def split: if_splits)
next
  case (refreshed idx w observed now)
  show ?case
  proof (cases rule: refresh_cases[of docs model_id sqroot observed w now idx])
    case (kept e)
    with refreshed show ?thesis by simp
  next
    case (published e ds' ds b n)
    have "0 < fi_max_files idx" "0 < fi_max_total_bytes idx"
      using reach_ok[OF refreshed(1)] by (auto simp: index_ok_def)
    then have "\<forall>d \<in> set ds. indexed_file w d" using scan_ok[OF published(1)] by simp
    with same_file_indexed[OF published(2)] refreshed(2) show ?thesis unfolding published(5) by auto
  qed
next
  case (searched idx q n)
  then show ?case using search_index_state[of ask sqroot q n idx] by auto
qed


subsection \<open>Ranking\<close>

lemma rstrip_while_length: "length (rstrip_while p s) \<le> length s"
  by (simp add: rstrip_while_def) (metis length_dropWhile_le length_rev)

lemma make_snippet_length: "length (make_snippet text terms) \<le> MAX_SNIPPET_CHARS"
proof (cases "length (str_join '' '' (py_words (matching_line (snippet_lines text) terms))) \<le> MAX_SNIPPET_CHARS")
  case True
  then show ?thesis by (simp add: make_snippet_def)
next
  case False
  have "length (rstrip_while py_space (take 239 c)) \<le> 239" for c
    using rstrip_while_length[of py_space "take 239 c"] by simp
  from this[of "str_join '' '' (py_words (matching_line (snippet_lines text) terms))"] False show ?thesis
    by (simp add: make_snippet_def MAX_SNIPPET_CHARS_def)
qed

definition cosine :: "rat list \<Rightarrow> rat list \<Rightarrow> rat" where
  "cosine l r = (\<Sum>(a, b)\<leftarrow>zip l r. a * b)"

definition hit_of :: "rat list \<Rightarrow> string list \<Rightarrow> indexed_document \<Rightarrow> search_hit" where
  "hit_of qe terms d = \<lparr>sh_path = id_path d, sh_score = py_round_n 4 (cosine (id_embedding d) qe),
     sh_snippet = make_snippet (id_text d) terms\<rparr>"

lemma rank_documents_ok:
  assumes "\<forall>d \<in> set ds. length (id_embedding d) = length qe"
  shows "rank_documents qe q n ds =
    Inr (take (nat n) (sort_key hit_key (map (hit_of qe (remdups (tokenize q))) ds)))"
proof -
  have "rmapM (score_document qe t) ds = Inr (map (hit_of qe t) ds)" for t
    by (rule rmapM_ok) (use assms in \<open>simp add: score_document_def cosine_similarity_def hit_of_def cosine_def\<close>)
  then show ?thesis by (simp add: rank_documents_def)
qed

lemma take_sort_key:
  fixes f :: "'a \<Rightarrow> 'b::linorder"
  shows "\<exists>rest. mset (take k (sort_key f xs)) + mset rest = mset xs
    \<and> sorted (map f (take k (sort_key f xs)))
    \<and> (\<forall>x \<in> set (take k (sort_key f xs)). \<forall>y \<in> set rest. f x \<le> f y)"
proof (intro exI[of _ "drop k (sort_key f xs)"] conjI)
  have s: "sorted (map f (take k (sort_key f xs) @ drop k (sort_key f xs)))" by simp
  show "mset (take k (sort_key f xs)) + mset (drop k (sort_key f xs)) = mset xs"
    by (metis append_take_drop_id mset_append mset_sort)
  show "sorted (map f (take k (sort_key f xs)))"
    and "\<forall>x \<in> set (take k (sort_key f xs)). \<forall>y \<in> set (drop k (sort_key f xs)). f x \<le> f y"
    using s unfolding map_append sorted_append by auto
qed

lemma search_index_result:
  assumes "index_ok idx" and "py_strip q \<noteq> []" and "1 \<le> n" "n \<le> MAX_RESULT_LIMIT"
    and "fi_documents idx \<noteq> []" and "ask (fi_embedder idx) (py_strip q) = (Inr v, e)"
    and "length v = fi_embedding_dimensions idx" and "normalise sqroot v = Inr u"
  shows "fst (search_index ask sqroot q n idx) =
    Inr (take (nat n) (sort_key hit_key (map (hit_of u (remdups (tokenize (py_strip q)))) (fi_documents idx))))"
proof -
  have l: "length u = fi_embedding_dimensions idx" using normalise_length[OF assms(8)] assms(7) by simp
  have d: "\<forall>d \<in> set (fi_documents idx). length (id_embedding d) = length u" "fi_indexed_at idx \<noteq> None"
    using assms(1,5) l by (auto simp: index_ok_def)
  then have "length (id_embedding (hd (fi_documents idx))) = length u" using assms(5) by simp
  with assms d show ?thesis
    by (simp add: search_index_def Let_def rank_documents_ok[OF d(1)])
qed

context embedding_model begin

text \<open>
  With an embedding model that keeps its promise, the only \<open>ValueError\<close> a search raises is the
  caller's: the strict \<open>zip\<close> of \<open>cosine_similarity\<close> never fails on a reachable index.
\<close>

lemma search_error:
  assumes "index_ok idx" and "fst (search_index ask s q n idx) = Inl x"
  shows "py_strip q = [] \<and> x = ValueError ''query must not be empty''
    \<or> py_strip q \<noteq> [] \<and> \<not> (1 \<le> n \<and> n \<le> MAX_RESULT_LIMIT)
       \<and> x = ValueError (''limit must be between 1 and '' @ str_int MAX_RESULT_LIMIT)
    \<or> py_strip q \<noteq> [] \<and> 1 \<le> n \<and> n \<le> MAX_RESULT_LIMIT \<and> fi_indexed_at idx = None
       \<and> x = IndexNotReadyError ''index is not ready; submit an index job first''
    \<or> py_strip q \<noteq> [] \<and> 1 \<le> n \<and> n \<le> MAX_RESULT_LIMIT \<and> fi_documents idx \<noteq> []
       \<and> (\<exists>m. x = EmbeddingUnavailableError m)"
proof (cases "py_strip q = [] \<or> \<not> (1 \<le> n \<and> n \<le> MAX_RESULT_LIMIT) \<or> fi_indexed_at idx = None
    \<or> fi_documents idx = []")
  case True
  with assms(2) show ?thesis by (auto simp: search_index_def Let_def split: if_splits)
next
  case False
  obtain r e where a: "ask (fi_embedder idx) (py_strip q) = (r, e)" by (cases "ask (fi_embedder idx) (py_strip q)")
  have "fst (search_index ask s q n idx) = rbind (rbind r (normalise s)) (\<lambda>qe.
       if length qe \<noteq> length (id_embedding (hd (fi_documents idx)))
       then Inl (EmbeddingUnavailableError ''query and document embedding dimensions do not match'')
       else rank_documents qe (py_strip q) n (fi_documents idx))"
    using False a by (auto simp: search_index_def Let_def)
  note e = this[unfolded assms(2), symmetric]
  have "rank_documents qe (py_strip q) n (fi_documents idx) \<noteq> Inl x"
    if "length qe = length (id_embedding (hd (fi_documents idx)))" for qe
    using rank_documents_ok[of "fi_documents idx" qe] that assms(1) False by (auto simp: index_ok_def)
  with e have "\<exists>m. x = EmbeddingUnavailableError m"
    using ask_error[of "fi_embedder idx" "py_strip q" x] a
    by (auto simp: res_simps normalise_def Let_def split: if_splits)
  with False show ?thesis by blast
qed

lemma refresh_model: "model_id (fi_embedder (snd (refresh_locked docs model_id s observed w now idx))) =
    model_id (fi_embedder idx)"
  using docs_model[of "fi_embedder idx" "map (\<lambda>d. embedding_text (id_text d)) (fst (projr (scan idx w)))"]
  by (auto simp: refresh_locked_def Let_def split: sum.splits prod.splits if_splits)

lemma refresh_error:
  assumes "fst (refresh_locked docs model_id s observed w now idx) = Inl x"
  shows "(\<exists>m. x = EmbeddingUnavailableError m) \<or> scan idx w = Inl x"
  using assms docs_error[of "fi_embedder idx" "map (\<lambda>d. embedding_text (id_text d)) (fst (projr (scan idx w)))" x]
    attach_vectors_error[of s _ _ x]
  by (auto simp: refresh_locked_def Let_def res_simps split: sum.splits prod.splits if_splits)

end


text \<open>
  C11. The index stays within its limits and inside its root. Whatever refreshes and searches ran
  before, waiting for each other or not, with whatever answers of the file system and the embedding
  model: the index holds at most \<open>max_files\<close> documents of at most \<open>max_total_bytes\<close> bytes together,
  the byte count it reports is their sum, all embeddings have the one positive dimension it reports,
  and every document is the text of a regular file, no symbolic link, with an allowed suffix, whose
  resolved path lies below the root, filed under its path relative to the root.
\<close>

theorem index_bounded_and_confined:
  assumes "index_reach docs ask model_id sqroot views max_files max_bytes idx"
  shows "int (length (fi_documents idx)) \<le> max_files
    \<and> fi_indexed_bytes idx = (\<Sum>d\<leftarrow>fi_documents idx. id_size_bytes d)
    \<and> fi_indexed_bytes idx \<le> max_bytes
    \<and> (\<forall>d \<in> set (fi_documents idx). length (id_embedding d) = fi_embedding_dimensions idx)
    \<and> (0 < fi_embedding_dimensions idx \<longleftrightarrow> fi_documents idx \<noteq> [])
    \<and> (\<forall>d \<in> set (fi_documents idx). \<exists>w \<in> views. \<exists>p \<in> set (fv_entries w). \<exists>rel.
         \<not> fe_symlink p \<and> fe_is_file p \<and> py_lower (path_suffix (fe_parts p)) \<in> set TEXT_SUFFIXES
         \<and> fe_resolved p = Inr (fv_root w @ rel) \<and> id_path d = posix rel \<and> fe_text p = Inr (id_text d))"
proof -
  have "\<forall>d \<in> set (fi_documents idx). \<exists>w \<in> views. \<exists>p \<in> set (fv_entries w). \<exists>rel.
      \<not> fe_symlink p \<and> fe_is_file p \<and> py_lower (path_suffix (fe_parts p)) \<in> set TEXT_SUFFIXES
      \<and> fe_resolved p = Inr (fv_root w @ rel) \<and> id_path d = posix rel \<and> fe_text p = Inr (id_text d)"
    using reach_confined[OF assms] unfolding indexed_file_def by blast
  with reach_ok[OF assms] show ?thesis by (auto simp: index_ok_def size_sum_def)
qed

definition sample_entry :: "string \<Rightarrow> string \<Rightarrow> fs_entry" where
  "sample_entry name text = \<lparr>fe_parts = [''srv'', name], fe_symlink = False, fe_is_file = True,
     fe_resolved = Inr [''srv'', name], fe_size = Inr (int (length text)), fe_text = Inr text,
     fe_size_again = Inr (int (length text))\<rparr>"

definition sample_view :: fs_view where
  "sample_view = \<lparr>fv_root = [''srv''], fv_is_dir = True,
     fv_entries = [sample_entry ''b.txt'' ''GPU notes'', sample_entry ''a.md'' ''ram'', sample_entry ''x.bin'' ''raw'']\<rparr>"

definition sample_vector :: "string \<Rightarrow> rat list" where
  "sample_vector t = (if t = ''ram'' then [4, 3] else [3, 4])"

abbreviation sample_docs ::
  "unit local_embedding \<Rightarrow> string list \<Rightarrow> rat list list res \<times> unit local_embedding" where
  "sample_docs \<equiv> embed_documents (\<lambda>_ _ _. Inr ()) (\<lambda>_ ts. Inr (map sample_vector ts))"

abbreviation sample_ask :: "unit local_embedding \<Rightarrow> string \<Rightarrow> rat list res \<times> unit local_embedding" where
  "sample_ask \<equiv> embed_query (\<lambda>_ _ _. Inr ()) (\<lambda>_ q. Inr [sample_vector q])"

definition sample_sqroot :: "rat \<Rightarrow> rat" where
  "sample_sqroot x = (if x = 25 then 5 else x)"

definition sample_start :: "unit local_embedding file_index" where
  "sample_start = projr (new_index 10 100 (embedding_from_environment []))"

definition sample_index :: "unit local_embedding file_index" where
  "sample_index = snd (refresh_locked sample_docs le_model_id sample_sqroot 0 sample_view 7 sample_start)"

lemma sample_index_documents: "fi_documents sample_index =
    [\<lparr>id_path = ''a.md'', id_text = ''ram'', id_embedding = [4/5, 3/5], id_size_bytes = 3\<rparr>,
     \<lparr>id_path = ''b.txt'', id_text = ''GPU notes'', id_embedding = [3/5, 4/5], id_size_bytes = 9\<rparr>]
  \<and> fi_embedding_dimensions sample_index = 2"
  by code_simp

lemma sample_index_reach:
  "index_reach sample_docs sample_ask le_model_id sample_sqroot {sample_view} 10 100 sample_index"
proof -
  have "new_index 10 100 (embedding_from_environment []) = Inr sample_start"
    by (simp add: sample_start_def new_index_def)
  from index_reach.refreshed[OF index_reach.start[OF this], of sample_view "{sample_view}"]
  show ?thesis unfolding sample_index_def by simp
qed

theorem index_bounded_and_confined_witness:
  "length (fi_documents sample_index) = 2 \<and> fi_indexed_bytes sample_index = 12 \<and> (12 :: int) \<le> 100"
  using index_bounded_and_confined[OF sample_index_reach] sample_index_documents by simp

text \<open>
  C12. A search returns the best documents. On any index the node can hold, with a well-formed query
  and an embedding of the index's dimension that is not the zero vector, the search succeeds; its
  hits are the first \<open>min(limit, number of documents)\<close> of all documents ordered by falling cosine
  score, rounded to four places, and then by path: they come in that order, none of the documents
  left out ranks before any of them, each score is within half a unit of the fourth place of the
  cosine, and no snippet is longer than 240 characters. The documents are not changed.
\<close>

theorem search_returns_best:
  assumes "index_reach docs ask model_id sqroot views max_files max_bytes idx"
    and "py_strip q \<noteq> []" and "1 \<le> n \<and> n \<le> 20" and "fi_documents idx \<noteq> []"
    and "ask (fi_embedder idx) (py_strip q) = (Inr v, e)"
    and "length v = fi_embedding_dimensions idx" and "normalise sqroot v = Inr u"
  shows "\<exists>hits rest. search_index ask sqroot q n idx = (Inr hits, idx\<lparr>fi_embedder := e\<rparr>)
    \<and> mset hits + mset rest =
        mset (map (hit_of u (remdups (tokenize (py_strip q)))) (fi_documents idx))
    \<and> length hits = min (nat n) (length (fi_documents idx))
    \<and> sorted (map (\<lambda>h. (- sh_score h, sh_path h)) hits)
    \<and> (\<forall>h \<in> set hits. \<forall>r \<in> set rest. (- sh_score h, sh_path h) \<le> (- sh_score r, sh_path r))
    \<and> (\<forall>h \<in> set hits. length (sh_snippet h) \<le> 240
         \<and> (\<exists>d \<in> set (fi_documents idx). sh_path h = id_path d
              \<and> \<bar>sh_score h - (\<Sum>(a, b)\<leftarrow>zip (id_embedding d) u. a * b)\<bar> \<le> 1 / 20000))"
proof -
  let ?all = "map (hit_of u (remdups (tokenize (py_strip q)))) (fi_documents idx)"
  let ?hits = "take (nat n) (sort_key hit_key ?all)"
  have ok: "index_ok idx" using reach_ok[OF assms(1)] by simp
  have r: "fst (search_index ask sqroot q n idx) = Inr ?hits"
    by (rule search_index_result[OF ok assms(2)]) (use assms in \<open>simp_all add: MAX_RESULT_LIMIT_def\<close>)
  have st: "snd (search_index ask sqroot q n idx) = idx\<lparr>fi_embedder := e\<rparr>"
    using assms(2-5) ok by (auto simp: search_index_def MAX_RESULT_LIMIT_def index_ok_def)
  obtain rest where rest: "mset ?hits + mset rest = mset ?all" "sorted (map hit_key ?hits)"
      "\<forall>x \<in> set ?hits. \<forall>y \<in> set rest. hit_key x \<le> hit_key y"
    using take_sort_key[of "nat n" hit_key ?all] by blast
  have mem: "set ?hits \<subseteq> set ?all" using set_take_subset[of "nat n" "sort_key hit_key ?all"] by simp
  have each: "\<forall>h \<in> set ?hits. length (sh_snippet h) \<le> 240
      \<and> (\<exists>d \<in> set (fi_documents idx). sh_path h = id_path d
           \<and> \<bar>sh_score h - (\<Sum>(a, b)\<leftarrow>zip (id_embedding d) u. a * b)\<bar> \<le> 1 / 20000)"
  proof
    fix h assume "h \<in> set ?hits"
    then obtain d where d: "d \<in> set (fi_documents idx)" "h = hit_of u (remdups (tokenize (py_strip q))) d"
      using mem by auto
    show "length (sh_snippet h) \<le> 240
      \<and> (\<exists>d \<in> set (fi_documents idx). sh_path h = id_path d
           \<and> \<bar>sh_score h - (\<Sum>(a, b)\<leftarrow>zip (id_embedding d) u. a * b)\<bar> \<le> 1 / 20000)"
      using d make_snippet_length[of "id_text d"] py_round_n_error[of 4 "cosine (id_embedding d) u"]
      by (auto simp: hit_of_def MAX_SNIPPET_CHARS_def cosine_def intro!: bexI[of _ d])
  qed
  have "search_index ask sqroot q n idx = (Inr ?hits, idx\<lparr>fi_embedder := e\<rparr>)"
    using r st by (metis prod.collapse)
  moreover have "length ?hits = min (nat n) (length (fi_documents idx))" by simp
  ultimately show ?thesis using rest each unfolding hit_key_def by blast
qed

theorem search_returns_best_witness:
  "map sh_path (projr (fst (search_index sample_ask sample_sqroot ''  gpu '' 1 sample_index))) = [''b.txt'']
   \<and> (\<exists>hits. fst (search_index sample_ask sample_sqroot ''  gpu '' 1 sample_index) = Inr hits \<and> length hits = 1)"
proof -
  have f: "fi_embedder sample_index = \<lparr>le_model_id = DEFAULT_EMBED_MODEL, le_cache_dir = None,
      le_local_files_only = True, le_model = Some ()\<rparr>" "py_strip ''  gpu '' \<noteq> []"
      "normalise sample_sqroot [3, 4] = Inr [3/5, 4/5]"
    by code_simp+
  have q: "sample_ask (fi_embedder sample_index) (py_strip ''  gpu '') = (Inr [3, 4], fi_embedder sample_index)"
    by code_simp
  have "fi_documents sample_index \<noteq> []" "length [3, 4 :: rat] = fi_embedding_dimensions sample_index"
    using sample_index_documents by auto
  from search_returns_best[OF sample_index_reach f(2) _ this(1) q this(2) f(3), of 1]
  have "\<exists>hits. fst (search_index sample_ask sample_sqroot ''  gpu '' 1 sample_index) = Inr hits \<and> length hits = 1"
    using sample_index_documents by auto
  moreover have "map sh_path (projr (fst (search_index sample_ask sample_sqroot ''  gpu '' 1 sample_index))) = [''b.txt'']"
    by code_simp
  ultimately show ?thesis by blast
qed

end
