(* ===== verification/Inference.thy ===== *)
theory Inference
  imports Job_Queue
begin

text \<open>
  Local inference on a node, \<open>node/infer.py\<close>: where requests go (an endpoint, or a supervised
  \<open>llama-server\<close>), starting and stopping the supervised process, waiting until it is ready, and one
  completion with its reply flattened.

  The operating system and the HTTP client are arguments: what files exist, what starting a process
  returns, the exit code a poll sees, the clock, and what each request gets back (\<open>http_reply\<close>, whose
  transport error carries \<open>type(exc).__name__: exc\<close>). A process is its pid.
\<close>

subsection \<open>Constants and settings\<close>

definition INFER_LLAMA_BIN_DIR :: string where
  "INFER_LLAMA_BIN_DIR = ''/opt/dain/llama.cpp/build/bin''"

definition SERVER_BINARY_NAME :: string where
  "SERVER_BINARY_NAME = ''llama-server''"

definition DEFAULT_LLAMA_PORT :: int where
  "DEFAULT_LLAMA_PORT = 8080"

definition DEFAULT_CONTEXT :: int where
  "DEFAULT_CONTEXT = 8192"

definition DEFAULT_SLOTS :: int where
  "DEFAULT_SLOTS = 1"

definition INFER_LOOPBACK :: string where
  "INFER_LOOPBACK = ''127.0.0.1''"

definition DEFAULT_MAX_TOKENS :: int where
  "DEFAULT_MAX_TOKENS = 256"

definition DEFAULT_TEMPERATURE :: rat where
  "DEFAULT_TEMPERATURE = 7 / 10"

definition MAX_PROMPT_CHARS :: int where
  "MAX_PROMPT_CHARS = 8000"

definition READY_POLL_S :: rat where
  "READY_POLL_S = 1 / 2"

definition clean_env :: "string option \<Rightarrow> string option" where
  "clean_env v = (let text = py_strip (case v of None \<Rightarrow> [] | Some s \<Rightarrow> s)
     in if text = [] then None else Some text)"

definition int_env :: "(string, string) dict \<Rightarrow> string \<Rightarrow> int \<Rightarrow> int" where
  "int_env env name fallback =
     (case clean_env (map_of env name) of
        None \<Rightarrow> fallback
      | Some raw \<Rightarrow> (case py_int_of_text raw of None \<Rightarrow> fallback | Some i \<Rightarrow> i))"

text \<open>The disk, as \<open>Path.is_file\<close>, \<open>os.access(..., X_OK)\<close> and \<open>shutil.which\<close> see it.\<close>

record host_files =
  hf_is_file :: "string \<Rightarrow> bool"
  hf_executable :: "string \<Rightarrow> bool"
  hf_which :: "string \<Rightarrow> string option"

definition resolve_binary :: "host_files \<Rightarrow> string \<Rightarrow> string \<Rightarrow> string option" where
  "resolve_binary fs bin_dir name =
     (let candidate = path_child bin_dir name in
      if hf_is_file fs candidate \<and> hf_executable fs candidate then Some candidate
      else map_option path_norm (hf_which fs name))"

definition resolve_server_binary :: "host_files \<Rightarrow> string \<Rightarrow> string option" where
  "resolve_server_binary fs bin_dir = resolve_binary fs bin_dir SERVER_BINARY_NAME"

subsection \<open>State\<close>

text \<open>\<open>li_client\<close> is the HTTP client: \<open>Some closed\<close> when there is one.\<close>

record local_inference =
  li_endpoint :: "string option"
  li_model_file :: "string option"
  li_port :: int
  li_context :: int
  li_slots :: int
  li_bin_dir :: string
  li_ready_timeout_s :: rat
  li_client :: "bool option"
  li_proc :: "int option"
  li_ready :: bool

definition inference_from_environment :: "(string, string) dict \<Rightarrow> local_inference" where
  "inference_from_environment env =
     \<lparr>li_endpoint = clean_env (map_of env ''DAIN_LLAMA_ENDPOINT''),
      li_model_file = clean_env (map_of env ''DAIN_INFER_MODEL''),
      li_port = int_env env ''DAIN_LLAMA_PORT'' DEFAULT_LLAMA_PORT,
      li_context = int_env env ''DAIN_INFER_CONTEXT'' DEFAULT_CONTEXT,
      li_slots = int_env env ''DAIN_INFER_SLOTS'' DEFAULT_SLOTS,
      li_bin_dir = (case map_of env ''DAIN_LLAMA_BIN'' of Some d \<Rightarrow> d | None \<Rightarrow> INFER_LLAMA_BIN_DIR),
      li_ready_timeout_s = INFER_READY_TIMEOUT_S, li_client = None, li_proc = None, li_ready = False\<rparr>"

definition supervises :: "local_inference \<Rightarrow> bool" where
  "supervises li \<longleftrightarrow> li_endpoint li = None \<and> li_model_file li \<noteq> None"

definition infer_configured :: "local_inference \<Rightarrow> bool" where
  "infer_configured li \<longleftrightarrow> li_endpoint li \<noteq> None \<or> li_model_file li \<noteq> None"

definition infer_base_url :: "local_inference \<Rightarrow> string" where
  "infer_base_url li = (case li_endpoint li of
      Some e \<Rightarrow> rstrip_while (\<lambda>c. c = CHR ''/'') e
    | None \<Rightarrow> ''http://'' @ INFER_LOOPBACK @ '':'' @ str_int (li_port li))"

text \<open>\<open>polls pid\<close> is what \<open>proc.poll()\<close> answers now: \<open>None\<close> while the process lives.\<close>

definition running :: "(int \<Rightarrow> int option) \<Rightarrow> local_inference \<Rightarrow> bool" where
  "running polls li =
     (if \<not> supervises li then infer_configured li
      else (case li_proc li of None \<Rightarrow> False | Some pid \<Rightarrow> polls pid = None))"

definition server_command :: "host_files \<Rightarrow> local_inference \<Rightarrow> string list res" where
  "server_command fs li =
     (case li_model_file li of
        None \<Rightarrow> Inl (InferenceUnavailableError ''$DAIN_INFER_MODEL is not set'')
      | Some model \<Rightarrow>
          if \<not> hf_is_file fs model then Inl (InferenceUnavailableError (''model file not found: '' @ model))
          else (case resolve_server_binary fs (li_bin_dir li) of
              None \<Rightarrow> Inl (InferenceUnavailableError
                (''no '' @ SERVER_BINARY_NAME @ '' under '' @ li_bin_dir li @ '' or on PATH''))
            | Some b \<Rightarrow> Inr [b, ''-m'', model, ''-c'', str_int (li_context li), ''-np'', str_int (li_slots li),
                ''-fa'', ''on'', ''-ngl'', ''999'', ''--metrics'', ''--host'', INFER_LOOPBACK,
                ''--port'', str_int (li_port li)]))"

text \<open>\<open>start\<close>: \<open>popen\<close> returns the new pid or raises \<open>OSError\<close>, which is not caught.\<close>

definition infer_start :: "host_files \<Rightarrow> (int \<Rightarrow> int option) \<Rightarrow> (string list \<Rightarrow> int res) \<Rightarrow> local_inference
    \<Rightarrow> unit res \<times> local_inference" where
  "infer_start fs polls popen li =
     (if \<not> supervises li \<or> running polls li then (Inr (), li)
      else case server_command fs li of
        Inl e \<Rightarrow> (Inr (), li)
      | Inr command \<Rightarrow>
          let li1 = li\<lparr>li_ready := False\<rparr>
          in case popen command of
               Inl e \<Rightarrow> (Inl e, li1)
             | Inr pid \<Rightarrow> (Inr (), li1\<lparr>li_proc := Some pid\<rparr>))"

text \<open>\<open>stop\<close>: the signals the old process gets, and the state; \<open>ends\<close> says whether it ends in time.\<close>

datatype stop_signal = Terminate int | Kill int

definition infer_stop :: "(int \<Rightarrow> int option) \<Rightarrow> (int \<Rightarrow> bool) \<Rightarrow> local_inference
    \<Rightarrow> stop_signal list \<times> local_inference" where
  "infer_stop polls ends li =
     (let li1 = li\<lparr>li_proc := None, li_ready := False\<rparr>
      in case li_proc li of
           None \<Rightarrow> ([], li1)
         | Some pid \<Rightarrow>
             if polls pid \<noteq> None then ([], li1)
             else (if ends pid then [Terminate pid] else [Terminate pid, Kill pid], li1))"

definition ensure_client :: "local_inference \<Rightarrow> local_inference" where
  "ensure_client li = (if li_client li = None \<or> li_client li = Some True then li\<lparr>li_client := Some False\<rparr> else li)"

definition infer_aclose :: "local_inference \<Rightarrow> local_inference" where
  "infer_aclose li = li\<lparr>li_client := None\<rparr>"

subsection \<open>Readiness\<close>

text \<open>
  What one request meets: the clock when the deadline is set, then at turn \<open>k\<close> of the waiting loop the
  clock, the poll of the supervised process and the answer of \<open>/health\<close>; then the answer to the
  completion request and the seconds it took.
\<close>

record infer_world =
  iw_start :: rat
  iw_now :: "nat \<Rightarrow> rat"
  iw_exit :: "nat \<Rightarrow> int option"
  iw_health :: "nat \<Rightarrow> http_reply"
  iw_post :: "json \<Rightarrow> http_reply"
  iw_elapsed :: rat

partial_function (option) ready_loop ::
  "infer_world \<Rightarrow> local_inference \<Rightarrow> rat \<Rightarrow> nat \<Rightarrow> string \<Rightarrow> unit res option" where
  "ready_loop w li deadline k last_error =
     (if iw_now w k < deadline then
        (case (if supervises li \<and> li_proc li \<noteq> None then iw_exit w k else None) of
           Some code \<Rightarrow> Some (Inl (InferenceUnavailableError
             (SERVER_BINARY_NAME @ '' exited with code '' @ str_int code)))
         | None \<Rightarrow>
             (case iw_health w k of
                Reply status text body \<Rightarrow>
                  if status = 200 then Some (Inr ())
                  else ready_loop w li deadline (Suc k) (''HTTP '' @ str_int status)
              | Transport_error m \<Rightarrow> ready_loop w li deadline (Suc k) m))
      else Some (Inl (InferenceUnavailableError
        (infer_base_url li @ '' not ready after '' @ str_int (py_round (li_ready_timeout_s li)) @ ''s (''
         @ last_error @ '')''))))"

definition await_ready :: "infer_world \<Rightarrow> local_inference \<Rightarrow> (unit res \<times> local_inference) option" where
  "await_ready w li =
     (if \<not> infer_configured li then
        Some (Inl (InferenceUnavailableError
          (''no inference backend on this node: set $DAIN_INFER_MODEL to a GGUF to run one here, or ''
           @ ''$DAIN_LLAMA_ENDPOINT to forward to an existing '' @ SERVER_BINARY_NAME)), li)
      else if li_ready li then Some (Inr (), li)
      else let li1 = ensure_client li
           in map_option (\<lambda>r. (r, if r = Inr () then li1\<lparr>li_ready := True\<rparr> else li1))
                (ready_loop w li1 (iw_start w + li_ready_timeout_s li) 0 ''no response''))"

subsection \<open>One completion\<close>

text \<open>\<open>_normalise\<close>: a body that is not an object has no \<open>get\<close>.\<close>

definition jround :: "nat \<Rightarrow> json \<Rightarrow> json" where
  "jround n j = (case j of JInt i \<Rightarrow> JInt i | JBool b \<Rightarrow> JInt (if b then 1 else 0)
     | JFloat x \<Rightarrow> JFloat (py_round_n n x) | _ \<Rightarrow> JNull)"

definition as_dict :: "json \<Rightarrow> (string, json) dict" where
  "as_dict j = (case j of JObj d \<Rightarrow> d | _ \<Rightarrow> [])"

definition first_choice :: "json \<Rightarrow> json \<times> json" where
  "first_choice choices =
     (case choices of
        JList (JObj c # cs) \<Rightarrow>
          (case jget c ''message'' of
             JObj m \<Rightarrow> (if jtruthy (jget m ''content'') then jget m ''content'' else JStr [])
           | _ \<Rightarrow> JStr [],
           jget c ''finish_reason'')
      | _ \<Rightarrow> (JStr [], JNull))"

definition speed_of :: "rat \<Rightarrow> (string, json) dict \<Rightarrow> (string, json) dict \<Rightarrow> json" where
  "speed_of elapsed usage timings =
     (if jget timings ''predicted_per_second'' = JNull \<and> elapsed > 0
      then (case jget usage ''completion_tokens'' of
              JInt n \<Rightarrow> JFloat (of_int n / elapsed)
            | JBool b \<Rightarrow> JFloat ((if b then 1 else 0) / elapsed)
            | _ \<Rightarrow> JNull)
      else jget timings ''predicted_per_second'')"

definition normalise_reply :: "json \<Rightarrow> rat \<Rightarrow> string \<Rightarrow> (string, json) dict res" where
  "normalise_reply data elapsed endpoint =
     (case data of
        JObj d \<Rightarrow>
          let (text, finish_reason) = first_choice (jget d ''choices'');
              usage = as_dict (jget d ''usage'');
              timings = as_dict (jget d ''timings'')
          in Inr [(''text'', text), (''model'', jget d ''model''), (''endpoint'', JStr endpoint),
                  (''finish_reason'', finish_reason),
                  (''prompt_tokens'', jget usage ''prompt_tokens''),
                  (''completion_tokens'', jget usage ''completion_tokens''),
                  (''tok_s'', jround 2 (speed_of elapsed usage timings)),
                  (''duration_s'', JFloat (py_round_n 3 elapsed))]
      | _ \<Rightarrow> Inl (AttributeError (''object has no attribute '' @ py_repr ''get'')))"

text \<open>The checks of \<open>complete\<close> on the payload, in the order they are made.\<close>

definition infer_request :: "(string, json) dict \<Rightarrow> (string \<times> json \<times> json) res" where
  "infer_request payload =
     (case jget payload ''prompt'' of
        JStr prompt \<Rightarrow>
          if py_strip prompt = [] then Inl (ValueError ''payload.prompt must not be empty'')
          else if int (length prompt) > MAX_PROMPT_CHARS
            then Inl (ValueError (''payload.prompt is '' @ str_int (int (length prompt)) @ '' chars; the cap is ''
              @ str_int MAX_PROMPT_CHARS))
          else
            let max_tokens = (case map_of payload ''max_tokens'' of None \<Rightarrow> JInt DEFAULT_MAX_TOKENS | Some v \<Rightarrow> v);
                temperature = (case map_of payload ''temperature'' of None \<Rightarrow> JFloat DEFAULT_TEMPERATURE | Some v \<Rightarrow> v)
            in (case max_tokens of
                  JInt _ \<Rightarrow>
                    (case temperature of
                       JInt _ \<Rightarrow> Inr (prompt, max_tokens, temperature)
                     | JFloat _ \<Rightarrow> Inr (prompt, max_tokens, temperature)
                     | _ \<Rightarrow> Inl (ValueError ''payload.temperature must be a number''))
                | _ \<Rightarrow> Inl (ValueError ''payload.max_tokens must be an integer''))
      | _ \<Rightarrow> Inl (ValueError ''payload.prompt must not be empty''))"

definition completion_body :: "string \<Rightarrow> json \<Rightarrow> json \<Rightarrow> json" where
  "completion_body prompt max_tokens temperature = JObj
     [(''messages'', JList [JObj [(''role'', JStr ''user''), (''content'', JStr prompt)]]),
      (''max_tokens'', max_tokens), (''temperature'', temperature), (''stream'', JBool False)]"

definition completion_reply :: "string \<Rightarrow> http_reply \<Rightarrow> json res" where
  "completion_reply url reply =
     (case reply of
        Transport_error m \<Rightarrow> Inl (InferenceUnavailableError (url @ '' request failed: '' @ m))
      | Reply status text body \<Rightarrow>
          (case raise_for_status status of
             Inl e \<Rightarrow> Inl (InferenceUnavailableError (url @ '' request failed: HTTPStatusError: '' @ err_text e))
           | Inr _ \<Rightarrow> (case body of
               None \<Rightarrow> Inl (InferenceUnavailableError (url @ '' returned a non-JSON body''))
             | Some data \<Rightarrow> Inr data)))"

definition complete :: "infer_world \<Rightarrow> (string, json) dict \<Rightarrow> local_inference
    \<Rightarrow> ((string, json) dict res \<times> local_inference) option" where
  "complete w payload li =
     (case infer_request payload of
        Inl e \<Rightarrow> Some (Inl e, li)
      | Inr (prompt, max_tokens, temperature) \<Rightarrow>
          (case await_ready w li of
             None \<Rightarrow> None
           | Some (Inl e, li1) \<Rightarrow> Some (Inl e, li1)
           | Some (Inr _, li1) \<Rightarrow>
               Some (rbind (completion_reply (infer_base_url li1) (iw_post w (completion_body prompt max_tokens temperature)))
                       (\<lambda>data. normalise_reply data (iw_elapsed w) (infer_base_url li1)),
                     ensure_client li1)))"

end
