(* ===== verification/Node_Bench.thy ===== *)
theory Node_Bench
  imports Inference Node_Agent
begin

text \<open>
  The local benchmark of a node, \<open>node/bench.py\<close>: the command line of \<open>llama-bench\<close>, the checks on a
  bench job, reading its JSON rows by phase, and \<open>measure\<close>, which calibrates the node's profile before
  it joins (\<open>calibrate_profile\<close> of \<open>node/dain_node.py\<close>).

  The outcome of \<open>subprocess.run\<close> is an argument; a completed run carries its texts and the JSON
  reading of \<open>stdout\<close>, \<open>None\<close> where \<open>json.loads\<close> raises \<open>ValueError\<close>. Numbers are finite.
\<close>

subsection \<open>Constants and results\<close>

definition BENCH_BINARY_NAME :: string where
  "BENCH_BINARY_NAME = ''llama-bench''"

definition DEFAULT_PROMPT_TOKENS :: int where
  "DEFAULT_PROMPT_TOKENS = 512"

definition DEFAULT_GEN_TOKENS :: int where
  "DEFAULT_GEN_TOKENS = 128"

definition DEFAULT_REPETITIONS :: int where
  "DEFAULT_REPETITIONS = 3"

definition MAX_REPETITIONS :: int where
  "MAX_REPETITIONS = 10"

definition MAX_BENCH_TOKENS :: int where
  "MAX_BENCH_TOKENS = 4096"

text \<open>\<open>br_model\<close> and \<open>br_build_commit\<close> are passed on as parsed.\<close>

record bench_result =
  br_pp_tok_s :: "rat option"
  br_tg_tok_s :: "rat option"
  br_pp_stddev :: "rat option"
  br_tg_stddev :: "rat option"
  br_model :: json
  br_build_commit :: json
  br_n_gpu_layers :: "int option"
  br_n_threads :: "int option"
  br_repetitions :: int

definition jfloat_opt :: "rat option \<Rightarrow> json" where
  "jfloat_opt x = (case x of None \<Rightarrow> JNull | Some v \<Rightarrow> JFloat v)"

definition jint_opt :: "int option \<Rightarrow> json" where
  "jint_opt x = (case x of None \<Rightarrow> JNull | Some v \<Rightarrow> JInt v)"

definition bench_dict :: "bench_result \<Rightarrow> (string, json) dict" where
  "bench_dict r =
     [(''pp_tok_s'', jfloat_opt (br_pp_tok_s r)), (''tg_tok_s'', jfloat_opt (br_tg_tok_s r)),
      (''pp_stddev'', jfloat_opt (br_pp_stddev r)), (''tg_stddev'', jfloat_opt (br_tg_stddev r)),
      (''model'', br_model r), (''build_commit'', br_build_commit r),
      (''n_gpu_layers'', jint_opt (br_n_gpu_layers r)), (''n_threads'', jint_opt (br_n_threads r)),
      (''repetitions'', JInt (br_repetitions r))]"

subsection \<open>Reading the rows\<close>

definition as_float :: "json \<Rightarrow> rat option" where
  "as_float v = (case v of JInt i \<Rightarrow> Some (of_int i) | JFloat x \<Rightarrow> Some x | _ \<Rightarrow> None)"

definition as_int :: "json \<Rightarrow> int option" where
  "as_int v = (case v of JInt i \<Rightarrow> Some i | JFloat x \<Rightarrow> Some (py_int x) | _ \<Rightarrow> None)"

text \<open>\<open>_as_int(v) or d\<close>.\<close>

definition int_or :: "json \<Rightarrow> int \<Rightarrow> int" where
  "int_or v d = (case as_int v of None \<Rightarrow> d | Some i \<Rightarrow> if i = 0 then d else i)"

type_synonym bench_row = "(string, json) dict"

text \<open>One turn of the loop over the rows: the prefill row and the decode row found so far.\<close>

definition phase_step :: "json \<Rightarrow> bench_row option \<times> bench_row option \<Rightarrow> bench_row option \<times> bench_row option" where
  "phase_step row acc =
     (case row of
        JObj r \<Rightarrow>
          let n_prompt = int_or (jget r ''n_prompt'') 0; n_gen = int_or (jget r ''n_gen'') 0
          in if n_prompt > 0 \<and> n_gen = 0 then (Some r, snd acc)
             else if n_gen > 0 \<and> n_prompt = 0 then (fst acc, Some r)
             else acc
      | _ \<Rightarrow> acc)"

definition phase_rows :: "json list \<Rightarrow> bench_row option \<times> bench_row option" where
  "phase_rows rows = fold phase_step rows (None, None)"

definition row_get :: "bench_row option \<Rightarrow> string \<Rightarrow> json" where
  "row_get r k = jget (case r of None \<Rightarrow> [] | Some d \<Rightarrow> d) k"

definition parse_bench_json :: "json option \<Rightarrow> bench_result res" where
  "parse_bench_json raw =
     (case raw of
        None \<Rightarrow> Inl (BenchUnavailableError (BENCH_BINARY_NAME @ '' did not emit JSON (was -o json passed?)''))
      | Some (JList (x # xs)) \<Rightarrow>
          (case phase_rows (x # xs) of
             (None, None) \<Rightarrow> Inl (BenchUnavailableError (BENCH_BINARY_NAME @ '' output had no prefill or decode row''))
           | (pp, tg) \<Rightarrow>
               let reference = (if tg = None then pp else tg)
               in Inr \<lparr>br_pp_tok_s = as_float (row_get pp ''avg_ts''),
                       br_tg_tok_s = as_float (row_get tg ''avg_ts''),
                       br_pp_stddev = as_float (row_get pp ''stddev_ts''),
                       br_tg_stddev = as_float (row_get tg ''stddev_ts''),
                       br_model = (if jtruthy (row_get reference ''model_type'') then row_get reference ''model_type''
                                   else row_get reference ''model_filename''),
                       br_build_commit = row_get reference ''build_commit'',
                       br_n_gpu_layers = as_int (row_get reference ''n_gpu_layers''),
                       br_n_threads = as_int (row_get reference ''n_threads''),
                       br_repetitions = int_or (row_get reference ''reps'') DEFAULT_REPETITIONS\<rparr>)
      | Some _ \<Rightarrow> Inl (BenchUnavailableError (BENCH_BINARY_NAME @ '' returned no measurements'')))"

subsection \<open>Running it\<close>

record local_bench =
  lb_model_file :: "string option"
  lb_bin_dir :: string
  lb_repetitions :: int
  lb_prompt_tokens :: int
  lb_gen_tokens :: int
  lb_timeout_s :: rat

definition bench_from_environment :: "(string, string) dict \<Rightarrow> local_bench" where
  "bench_from_environment env =
     \<lparr>lb_model_file = (case clean_env (map_of env ''DAIN_BENCH_MODEL'') of
          Some m \<Rightarrow> Some m | None \<Rightarrow> clean_env (map_of env ''DAIN_INFER_MODEL'')),
      lb_bin_dir = (case map_of env ''DAIN_LLAMA_BIN'' of Some d \<Rightarrow> d | None \<Rightarrow> INFER_LLAMA_BIN_DIR),
      lb_repetitions = DEFAULT_REPETITIONS, lb_prompt_tokens = DEFAULT_PROMPT_TOKENS,
      lb_gen_tokens = DEFAULT_GEN_TOKENS, lb_timeout_s = BENCH_TIMEOUT_S\<rparr>"

definition resolve_bench_binary :: "host_files \<Rightarrow> string \<Rightarrow> string option" where
  "resolve_bench_binary fs bin_dir = resolve_binary fs bin_dir BENCH_BINARY_NAME"

definition bench_configured :: "local_bench \<Rightarrow> bool" where
  "bench_configured lb \<longleftrightarrow> lb_model_file lb \<noteq> None"

definition bench_available :: "host_files \<Rightarrow> local_bench \<Rightarrow> bool" where
  "bench_available fs lb \<longleftrightarrow> bench_configured lb \<and> resolve_bench_binary fs (lb_bin_dir lb) \<noteq> None"

definition bench_command :: "host_files \<Rightarrow> local_bench \<Rightarrow> string \<Rightarrow> int \<Rightarrow> int \<Rightarrow> int \<Rightarrow> string list res" where
  "bench_command fs lb model_file repetitions prompt_tokens gen_tokens =
     (case resolve_bench_binary fs (lb_bin_dir lb) of
        None \<Rightarrow> Inl (BenchUnavailableError (''no '' @ BENCH_BINARY_NAME @ '' under '' @ lb_bin_dir lb @ '' or on PATH''))
      | Some b \<Rightarrow>
          if \<not> hf_is_file fs model_file then Inl (BenchUnavailableError (''model file not found: '' @ model_file))
          else Inr [b, ''-m'', model_file, ''-p'', str_int prompt_tokens, ''-n'', str_int gen_tokens,
                    ''-r'', str_int repetitions, ''-o'', ''json''])"

definition override :: "(string, json) dict \<Rightarrow> string \<Rightarrow> int \<Rightarrow> json" where
  "override payload name v = (case map_of payload name of None \<Rightarrow> JInt v | Some j \<Rightarrow> j)"

definition checked_count :: "string \<Rightarrow> json \<Rightarrow> int \<Rightarrow> int res" where
  "checked_count name v cap =
     (case v of
        JInt i \<Rightarrow>
          if 1 \<le> i \<and> i \<le> cap then Inr i
          else Inl (ValueError (''payload.'' @ name @ '' must be between 1 and '' @ str_int cap))
      | _ \<Rightarrow> Inl (ValueError (''payload.'' @ name @ '' must be an integer'')))"

definition bench_resolve :: "(string, json) dict \<Rightarrow> local_bench \<Rightarrow> (string \<times> int \<times> int \<times> int) res" where
  "bench_resolve payload lb =
     (case (case map_of payload ''model'' of
              None \<Rightarrow> (case lb_model_file lb of None \<Rightarrow> JNull | Some m \<Rightarrow> JStr m) | Some v \<Rightarrow> v) of
        JStr model \<Rightarrow>
          if py_strip model = [] then Inl (BenchUnavailableError
            (''no model to benchmark: set $DAIN_BENCH_MODEL (or $DAIN_INFER_MODEL) on this node, or pass payload.model''))
          else
            rbind (checked_count ''repetitions'' (override payload ''repetitions'' (lb_repetitions lb)) MAX_REPETITIONS) (\<lambda>r.
            rbind (checked_count ''prompt_tokens'' (override payload ''prompt_tokens'' (lb_prompt_tokens lb)) MAX_BENCH_TOKENS) (\<lambda>p.
            rbind (checked_count ''gen_tokens'' (override payload ''gen_tokens'' (lb_gen_tokens lb)) MAX_BENCH_TOKENS) (\<lambda>g.
            Inr (py_strip model, r, p, g))))
      | _ \<Rightarrow> Inl (BenchUnavailableError
            (''no model to benchmark: set $DAIN_BENCH_MODEL (or $DAIN_INFER_MODEL) on this node, or pass payload.model'')))"

datatype process_outcome =
    Timeout_expired
  | Os_error string
  | Completed int string string "json option"

definition last_chars :: "nat \<Rightarrow> string \<Rightarrow> string" where
  "last_chars n s = drop (length s - n) s"

definition run_subprocess :: "process_outcome \<Rightarrow> rat \<Rightarrow> json option res" where
  "run_subprocess out timeout_s =
     (case out of
        Timeout_expired \<Rightarrow> Inl (BenchUnavailableError
          (BENCH_BINARY_NAME @ '' exceeded '' @ str_int (py_round timeout_s) @ ''s''))
      | Os_error m \<Rightarrow> Inl (BenchUnavailableError (''could not run '' @ BENCH_BINARY_NAME @ '': '' @ m))
      | Completed code stdout stderr body \<Rightarrow>
          if code \<noteq> 0 then Inl (BenchUnavailableError
            (BENCH_BINARY_NAME @ '' exited '' @ str_int code @ '': ''
             @ last_chars 400 (py_strip (if stderr \<noteq> [] then stderr else stdout))))
          else Inr body)"

definition bench_run :: "host_files \<Rightarrow> (string list \<Rightarrow> process_outcome) \<Rightarrow> local_bench \<Rightarrow> (string, json) dict
    \<Rightarrow> (string, json) dict res" where
  "bench_run fs exec lb payload =
     rbind (bench_resolve payload lb) (\<lambda>(model, r, p, g).
     rbind (bench_command fs lb model r p g) (\<lambda>command.
     rbind (run_subprocess (exec command) (lb_timeout_s lb)) (\<lambda>raw.
     rbind (parse_bench_json raw) (\<lambda>measured.
       Inr (dict_of (bench_dict measured @
         [(''model_file'', JStr model), (''prompt_tokens'', JInt p), (''gen_tokens'', JInt g),
          (''repetitions'', JInt r)]))))))"

text \<open>\<open>measure\<close>: a bench job at the defaults; the result's fields are read back out of its dict.\<close>

definition opt_rat :: "json \<Rightarrow> rat option" where
  "opt_rat v = (case v of JFloat x \<Rightarrow> Some x | _ \<Rightarrow> None)"

definition opt_int :: "json \<Rightarrow> int option" where
  "opt_int v = (case v of JInt i \<Rightarrow> Some i | _ \<Rightarrow> None)"

definition measure_bench :: "host_files \<Rightarrow> (string list \<Rightarrow> process_outcome) \<Rightarrow> local_bench \<Rightarrow> bench_result res" where
  "measure_bench fs exec lb =
     rbind (bench_run fs exec lb []) (\<lambda>payload.
     rbind (dict_get payload ''pp_tok_s'') (\<lambda>pp. rbind (dict_get payload ''tg_tok_s'') (\<lambda>tg.
     rbind (dict_get payload ''pp_stddev'') (\<lambda>pps. rbind (dict_get payload ''tg_stddev'') (\<lambda>tgs.
     rbind (dict_get payload ''model'') (\<lambda>m. rbind (dict_get payload ''build_commit'') (\<lambda>c.
     rbind (dict_get payload ''n_gpu_layers'') (\<lambda>ngl. rbind (dict_get payload ''n_threads'') (\<lambda>nt.
     rbind (dict_get payload ''repetitions'') (\<lambda>r.
       Inr \<lparr>br_pp_tok_s = opt_rat pp, br_tg_tok_s = opt_rat tg, br_pp_stddev = opt_rat pps,
            br_tg_stddev = opt_rat tgs, br_model = m, br_build_commit = c,
            br_n_gpu_layers = opt_int ngl, br_n_threads = opt_int nt,
            br_repetitions = (case r of JInt i \<Rightarrow> i | _ \<Rightarrow> DEFAULT_REPETITIONS)\<rparr>))))))))))"

text \<open>The calibration of a profile before the join, over the node's own bench.\<close>

definition calibrate_with_bench :: "host_files \<Rightarrow> (string list \<Rightarrow> process_outcome) \<Rightarrow> local_bench \<Rightarrow> node_profile
    \<Rightarrow> node_profile res" where
  "calibrate_with_bench fs exec lb profile =
     (case measure_bench fs exec lb of
        Inr r \<Rightarrow> Inr (calibrate_profile (bench_configured lb) (Some (br_tg_tok_s r, br_pp_tok_s r)) profile)
      | Inl e \<Rightarrow>
          if \<not> bench_configured lb \<or> (case e of BenchUnavailableError _ \<Rightarrow> True | ValueError _ \<Rightarrow> True | _ \<Rightarrow> False)
          then Inr (calibrate_profile (bench_configured lb) None profile)
          else Inl e)"

end
