(* ===== verification/Node_Bench_Properties.thy ===== *)
theory Node_Bench_Properties
  imports Node_Bench
begin

text \<open>
  What the local benchmark guarantees: the bounds of a job's parameters, the errors it raises, and that
  calibration reads the decode and the prefill speed from the right rows in whatever order they come
  (C23).
\<close>

subsection \<open>Rows by phase\<close>

definition is_prefill :: "bench_row \<Rightarrow> bool" where
  "is_prefill r \<longleftrightarrow> int_or (jget r ''n_prompt'') 0 > 0 \<and> int_or (jget r ''n_gen'') 0 = 0"

definition is_decode :: "bench_row \<Rightarrow> bool" where
  "is_decode r \<longleftrightarrow> int_or (jget r ''n_gen'') 0 > 0 \<and> int_or (jget r ''n_prompt'') 0 = 0"

lemma phases_apart: "is_prefill r \<Longrightarrow> \<not> is_decode r"
  by (auto simp: is_prefill_def is_decode_def)

definition objects :: "json list \<Rightarrow> bench_row list" where
  "objects rows = concat (map (\<lambda>row. case row of JObj r \<Rightarrow> [r] | _ \<Rightarrow> []) rows)"

definition last_such :: "('a \<Rightarrow> bool) \<Rightarrow> 'a option \<Rightarrow> 'a list \<Rightarrow> 'a option" where
  "last_such p d xs = fold (\<lambda>x acc. if p x then Some x else acc) xs d"

lemma phase_step_JObj:
  "phase_step (JObj r) acc = (if is_prefill r then Some r else fst acc, if is_decode r then Some r else snd acc)"
  by (cases acc) (auto simp: phase_step_def is_prefill_def is_decode_def Let_def)

lemma phase_fold: "fold phase_step rows acc =
    (last_such is_prefill (fst acc) (objects rows), last_such is_decode (snd acc) (objects rows))"
proof (induction rows arbitrary: acc)
  case Nil
  then show ?case by (simp add: objects_def last_such_def)
next
  case (Cons row rows)
  show ?case
  proof (cases "\<exists>r. row = JObj r")
    case True
    with Cons show ?thesis by (auto simp: objects_def last_such_def phase_step_JObj)
  next
    case False
    then have "phase_step row acc = acc" "objects (row # rows) = objects rows"
      by (cases row; simp add: phase_step_def objects_def)+
    with Cons show ?thesis by simp
  qed
qed

lemma last_such_filter: "last_such p d xs = (case rev (filter p xs) of [] \<Rightarrow> d | x # _ \<Rightarrow> Some x)"
proof (induction xs arbitrary: d)
  case Nil
  then show ?case by (simp add: last_such_def)
next
  case (Cons x xs)
  have "last_such p d (x # xs) = last_such p (if p x then Some x else d) xs" by (simp add: last_such_def)
  then show ?case by (auto simp: Cons split: list.split)
qed

text \<open>Which rows are found does not depend on the order, as long as no phase has two of them.\<close>

lemma mset_objects: "mset rows = mset rows' \<Longrightarrow> mset (objects rows) = mset (objects rows')"
proof -
  have "mset (objects xs) = (\<Sum>row \<in># mset xs. mset (case row of JObj r \<Rightarrow> [r] | _ \<Rightarrow> []))" for xs
    by (induction xs) (simp_all add: objects_def)
  then show "mset rows = mset rows' \<Longrightarrow> mset (objects rows) = mset (objects rows')" by simp
qed

lemma last_such_mset:
  assumes "mset xs = mset ys" and "filter p ys = [y]"
  shows "last_such p None xs = Some y"
proof -
  have "mset (filter p xs) = {#y#}" using assms by (metis mset_filter mset_single_iff)
  then have "filter p xs = [y]" by (metis mset_single_iff)
  then show ?thesis by (simp add: last_such_filter)
qed

lemma phase_rows_found:
  assumes "mset rows = mset (JObj pp # JObj tg # rest)" and "is_prefill pp" and "is_decode tg"
    and "\<forall>r. JObj r \<in> set rest \<longrightarrow> \<not> is_prefill r \<and> \<not> is_decode r"
  shows "phase_rows rows = (Some pp, Some tg)"
proof -
  let ?os = "objects (JObj pp # JObj tg # rest)"
  have rest: "filter is_prefill (objects rest) = []" "filter is_decode (objects rest) = []"
    using assms(4) by (auto simp: objects_def filter_empty_conv split: json.splits)
  have os: "?os = pp # tg # objects rest" by (simp add: objects_def)
  have "\<not> is_decode pp" "\<not> is_prefill tg" using assms(2,3) phases_apart by blast+
  with assms(2,3) rest os have "filter is_prefill ?os = [pp]" "filter is_decode ?os = [tg]" by auto
  with last_such_mset[OF mset_objects[OF assms(1)]] show ?thesis
    by (simp add: phase_rows_def phase_fold)
qed

subsection \<open>Errors and bounds\<close>

lemma parse_bench_error: "parse_bench_json raw = Inl e \<Longrightarrow> \<exists>m. e = BenchUnavailableError m"
  by (auto simp: parse_bench_json_def Let_def split: option.splits json.splits list.splits prod.splits)

lemma checked_count_Inr: "checked_count n v cap = Inr i \<longleftrightarrow> v = JInt i \<and> 1 \<le> i \<and> i \<le> cap"
  by (auto simp: checked_count_def split: json.splits)

lemma checked_count_Inl: "checked_count n v cap = Inl e \<Longrightarrow> \<exists>m. e = ValueError m"
  by (auto simp: checked_count_def split: json.splits if_splits)

lemma bench_resolve_bounds:
  assumes "bench_resolve payload lb = Inr (m, r, p, g)"
  shows "m \<noteq> [] \<and> 1 \<le> r \<and> r \<le> 10 \<and> 1 \<le> p \<and> p \<le> 4096 \<and> 1 \<le> g \<and> g \<le> 4096"
  using assms
  by (auto simp: bench_resolve_def res_simps checked_count_Inr MAX_REPETITIONS_def MAX_BENCH_TOKENS_def
      split: json.splits if_splits)

lemma bench_resolve_error:
  "bench_resolve payload lb = Inl e \<Longrightarrow> (\<exists>m. e = ValueError m) \<or> (\<exists>m. e = BenchUnavailableError m)"
  by (auto simp: bench_resolve_def res_simps dest: checked_count_Inl split: json.splits if_splits)

lemma bench_run_error:
  assumes "bench_run fs exec lb payload = Inl e"
  shows "(\<exists>m. e = ValueError m) \<or> (\<exists>m. e = BenchUnavailableError m)"
proof -
  have cmd: "\<exists>m. x = BenchUnavailableError m" if "bench_command fs lb model r p g = Inl x" for model r p g x
    using that by (auto simp: bench_command_def split: option.splits if_splits)
  have sub: "\<exists>m. x = BenchUnavailableError m" if "run_subprocess out t = Inl x" for out t x
    using that by (auto simp: run_subprocess_def split: process_outcome.splits if_splits)
  from assms consider "bench_resolve payload lb = Inl e"
    | model r p g where "bench_command fs lb model r p g = Inl e"
    | out where "run_subprocess out (lb_timeout_s lb) = Inl e"
    | raw where "parse_bench_json raw = Inl e"
    unfolding bench_run_def by (auto simp: rbind_eq_Inl)
  then show ?thesis using bench_resolve_error cmd sub parse_bench_error by cases blast+
qed

lemma bench_dict_get:
  "map_of (dict_of (bench_dict b @ [(''model_file'', m), (''prompt_tokens'', p), (''gen_tokens'', g), (''repetitions'', r)]))
   = (map_of (bench_dict b))(''model_file'' \<mapsto> m, ''prompt_tokens'' \<mapsto> p, ''gen_tokens'' \<mapsto> g, ''repetitions'' \<mapsto> r)"
proof -
  have "distinct (keys (bench_dict b))" by (simp add: bench_dict_def)
  then show ?thesis by (simp add: map_of_dict_of map_of_rev_distinct map_add_upd)
qed

text \<open>What \<open>measure\<close> reads back from the job's result is what the rows said.\<close>

lemma measure_bench_Inr:
  assumes "bench_resolve [] lb = Inr (m, r, p, g)" and "bench_command fs lb m r p g = Inr command"
    and "run_subprocess (exec command) (lb_timeout_s lb) = Inr raw" and "parse_bench_json raw = Inr b"
  shows "measure_bench fs exec lb = Inr (b\<lparr>br_repetitions := r\<rparr>)"
proof -
  have run: "bench_run fs exec lb [] = Inr (dict_of (bench_dict b @
      [(''model_file'', JStr m), (''prompt_tokens'', JInt p), (''gen_tokens'', JInt g), (''repetitions'', JInt r)]))"
    using assms by (simp add: bench_run_def)
  have o: "opt_rat (jfloat_opt x) = x" "opt_int (jint_opt i) = i" for x i
    by (cases x; simp add: opt_rat_def jfloat_opt_def) (cases i; simp add: opt_int_def jint_opt_def)
  show ?thesis
    by (simp add: measure_bench_def run dict_get_def bench_dict_get, simp add: bench_dict_def o)
qed

lemma measure_bench_error:
  assumes "measure_bench fs exec lb = Inl e"
  shows "(\<exists>m. e = ValueError m) \<or> (\<exists>m. e = BenchUnavailableError m)"
proof (cases "bench_run fs exec lb []")
  case (Inl x)
  with assms bench_run_error[of fs exec lb "[]"] show ?thesis by (simp add: measure_bench_def)
next
  case (Inr d)
  then obtain m r p g command raw b where "bench_resolve [] lb = Inr (m, r, p, g)"
      "bench_command fs lb m r p g = Inr command" "run_subprocess (exec command) (lb_timeout_s lb) = Inr raw"
      "parse_bench_json raw = Inr b"
    by (auto simp: bench_run_def res_simps)
  from measure_bench_Inr[of lb m r p g fs command exec raw b, OF this] assms show ?thesis by simp
qed

text \<open>Calibration is never fatal: whatever the bench does, a profile comes out, changed in the speeds only.\<close>

lemma calibration_never_fatal:
  "\<exists>q. calibrate_with_bench fs exec lb profile = Inr q \<and> q\<lparr>np_tg_tok_s := 0, np_pp_tok_s := 0\<rparr> =
     profile\<lparr>np_tg_tok_s := 0, np_pp_tok_s := 0\<rparr>"
proof (cases "measure_bench fs exec lb")
  case (Inl e)
  with measure_bench_error[OF Inl] show ?thesis
    by (auto simp: calibrate_with_bench_def calibrate_profile_def)
next
  case (Inr r)
  then show ?thesis
    by (cases "br_tg_tok_s r") (auto simp: calibrate_with_bench_def calibrate_profile_def)
qed

subsection \<open>Calibration\<close>

lemma parse_bench_phases:
  assumes "phase_rows rows = (Some pp, Some tg)" and "rows \<noteq> []"
  shows "\<exists>b. parse_bench_json (Some (JList rows)) = Inr b
    \<and> br_pp_tok_s b = as_float (jget pp ''avg_ts'') \<and> br_tg_tok_s b = as_float (jget tg ''avg_ts'')"
  using assms by (cases rows) (auto simp: parse_bench_json_def row_get_def Let_def)

lemma default_bench_resolve:
  assumes "lb_model_file (bench_from_environment env) = Some m"
  shows "bench_resolve [] (bench_from_environment env) = Inr (m, 3, 512, 128)"
proof -
  have "\<exists>s. m = py_strip s \<and> m \<noteq> []"
    using assms by (auto simp: bench_from_environment_def clean_env_def Let_def split: option.splits if_splits)
  then obtain s where s: "m = py_strip s" "m \<noteq> []" by blast
  have "py_strip (py_strip s) = py_strip s" for s
  proof -
    have d: "dropWhile py_space (rstrip_while py_space (dropWhile py_space s)) =
        rstrip_while py_space (dropWhile py_space s)"
    proof (cases "rstrip_while py_space (dropWhile py_space s)")
      case (Cons c cs)
      obtain u where u: "dropWhile py_space s = rstrip_while py_space (dropWhile py_space s) @ u"
        unfolding rstrip_while_def
        by (metis rev_append rev_rev_ident takeWhile_dropWhile_id)
      then have "hd (dropWhile py_space s) = c" "dropWhile py_space s \<noteq> []" using Cons by auto
      then have "\<not> py_space c" using hd_dropWhile by blast
      with Cons show ?thesis by simp
    qed simp
    then show ?thesis by (simp add: py_strip_def rstrip_while_def)
  qed
  with s assms show ?thesis
    by (simp add: bench_resolve_def override_def checked_count_def bench_from_environment_def
        DEFAULT_REPETITIONS_def DEFAULT_PROMPT_TOKENS_def DEFAULT_GEN_TOKENS_def MAX_REPETITIONS_def
        MAX_BENCH_TOKENS_def)
qed

text \<open>
  C23. Calibration never takes prefill for decode. On a node whose model and \<open>llama-bench\<close> exist, let
  the run print JSON rows that are, in any order, one prefill row, one decode row and others of neither
  phase. Then the profile the node joins with has the decode row's speed as its decode speed and the
  prefill row's as its prefill speed, and nothing else changed.
\<close>

theorem calibration_reads_phases:
  assumes "lb_model_file (bench_from_environment env) = Some m" and "hf_is_file fs m"
    and "resolve_bench_binary fs (lb_bin_dir (bench_from_environment env)) = Some b"
    and "exec [b, ''-m'', m, ''-p'', ''512'', ''-n'', ''128'', ''-r'', ''3'', ''-o'', ''json''] =
           Completed 0 out err (Some (JList rows))"
    and "mset rows = mset (JObj pp # JObj tg # rest)"
    and "is_prefill pp" and "is_decode tg"
    and "\<forall>r. JObj r \<in> set rest \<longrightarrow> \<not> is_prefill r \<and> \<not> is_decode r"
    and "as_float (jget tg ''avg_ts'') = Some t" and "t \<noteq> 0" and "as_float (jget pp ''avg_ts'') = Some p"
  shows "calibrate_with_bench fs exec (bench_from_environment env) profile =
    Inr (profile\<lparr>np_tg_tok_s := t, np_pp_tok_s := p\<rparr>)"
proof -
  let ?lb = "bench_from_environment env"
  have n: "str_int 512 = ''512''" "str_int 128 = ''128''" "str_int 3 = ''3''" by code_simp+
  have c: "bench_command fs ?lb m 3 512 128 =
      Inr [b, ''-m'', m, ''-p'', ''512'', ''-n'', ''128'', ''-r'', ''3'', ''-o'', ''json'']"
    using assms(2,3) n by (simp add: bench_command_def)
  have "rows \<noteq> []" using assms(5) by auto
  then obtain r where r: "parse_bench_json (Some (JList rows)) = Inr r"
      "br_pp_tok_s r = Some p" "br_tg_tok_s r = Some t"
    using parse_bench_phases[OF phase_rows_found[OF assms(5-8)]] assms(9,11) by auto
  have s: "run_subprocess (exec [b, ''-m'', m, ''-p'', ''512'', ''-n'', ''128'', ''-r'', ''3'', ''-o'', ''json''])
      (lb_timeout_s ?lb) = Inr (Some (JList rows))"
    using assms(4) by (simp add: run_subprocess_def)
  have "measure_bench fs exec ?lb = Inr (r\<lparr>br_repetitions := 3\<rparr>)"
    by (rule measure_bench_Inr[where fs = fs and exec = exec, OF default_bench_resolve[OF assms(1)] c s r(1)])
  with r assms(1,10) show ?thesis
    by (simp add: calibrate_with_bench_def calibrate_profile_def bench_configured_def)
qed

definition sample_prefill_row :: bench_row where
  "sample_prefill_row = [(''n_prompt'', JInt 512), (''n_gen'', JInt 0), (''avg_ts'', JFloat 300)]"

definition sample_decode_row :: bench_row where
  "sample_decode_row = [(''n_prompt'', JInt 0), (''n_gen'', JInt 128), (''avg_ts'', JFloat (61 / 2))]"

definition sample_host :: host_files where
  "sample_host = \<lparr>hf_is_file = (\<lambda>_. True), hf_executable = (\<lambda>_. True), hf_which = (\<lambda>_. None)\<rparr>"

theorem calibration_reads_phases_witness:
  "\<forall>profile. \<exists>q. calibrate_with_bench sample_host
      (\<lambda>_. Completed 0 [] [] (Some (JList [JObj sample_decode_row, JNull, JObj sample_prefill_row])))
      (bench_from_environment [(''DAIN_INFER_MODEL'', ''m.gguf'')]) profile = Inr q
    \<and> np_tg_tok_s q = 61 / 2 \<and> np_pp_tok_s q = 300"
proof
  fix profile :: node_profile
  have f: "lb_model_file (bench_from_environment [(''DAIN_INFER_MODEL'', ''m.gguf'')]) = Some ''m.gguf''"
    "hf_is_file sample_host ''m.gguf''"
    "resolve_bench_binary sample_host (lb_bin_dir (bench_from_environment [(''DAIN_INFER_MODEL'', ''m.gguf'')])) =
       Some ''/opt/dain/llama.cpp/build/bin/llama-bench''"
    "is_prefill sample_prefill_row" "is_decode sample_decode_row"
    "as_float (jget sample_decode_row ''avg_ts'') = Some (61 / 2)"
    "as_float (jget sample_prefill_row ''avg_ts'') = Some 300"
    by code_simp+
  have m: "mset [JObj sample_decode_row, JNull, JObj sample_prefill_row] =
      mset (JObj sample_prefill_row # JObj sample_decode_row # [JNull])"
    by simp
  from calibration_reads_phases[where profile = profile, OF f(1,2,3) refl m f(4,5) _ f(6) _ f(7)]
  show "\<exists>q. calibrate_with_bench sample_host
      (\<lambda>_. Completed 0 [] [] (Some (JList [JObj sample_decode_row, JNull, JObj sample_prefill_row])))
      (bench_from_environment [(''DAIN_INFER_MODEL'', ''m.gguf'')]) profile = Inr q
    \<and> np_tg_tok_s q = 61 / 2 \<and> np_pp_tok_s q = 300"
    by simp
qed

end
