(* ===== verification/Bench_Record.thy ===== *)
theory Bench_Record
  imports Json
begin

text \<open>
  The benchmark record, \<open>infer/bench.py\<close>: measurements, the CSV file they are appended to and read
  from, and the two lookups. The text of a file is a \<open>string\<close>, \<open>None\<close> where there is none. The CSV part
  is what the standard library's \<open>csv\<close> does with the default dialect on files opened with
  \<open>newline=""\<close>, for fields below its size limit. \<open>str\<close> of a float is a parameter, as is the time stamp
  a measurement without one gets.
\<close>

subsection \<open>Constants\<close>

definition BENCHMARK_IDS :: "string list" where
  "BENCHMARK_IDS = [''capacity'', ''ttft'', ''decode'', ''mtp'', ''fanout'', ''placement'', ''recovery'']"

definition UNITS :: "(string, string) dict" where
  "UNITS = [(''loads'', ''bool''), (''tok_s'', ''tok/s''), (''ttft_ms'', ''ms''), (''wall_clock_s'', ''s''),
     (''speedup'', ''x''), (''recovery_s'', ''s'')]"

definition CSV_COLUMNS :: "string list" where
  "CSV_COLUMNS = [''benchmark_id'', ''model_id'', ''node_set'', ''n_nodes'', ''variant'', ''metric'', ''value'',
     ''unit'', ''repetitions'', ''recorded_at'', ''notes'']"

subsection \<open>Measurements\<close>

record measurement =
  me_benchmark_id :: "string option"
  me_model_id :: "string option"
  me_node_set :: "string option"
  me_n_nodes :: int
  me_variant :: "string option"
  me_metric :: "string option"
  me_value :: rat
  me_unit :: "string option"
  me_repetitions :: int
  me_recorded_at :: "string option"
  me_notes :: "string option"

text \<open>
  A text of a measurement is \<open>None\<close> where it was read from a row with too few fields; \<open>not text\<close> is then
  true as well. \<open>__post_init__\<close> works on the fields as given.
\<close>

definition blank :: "string option \<Rightarrow> bool" where
  "blank t \<longleftrightarrow> t = None \<or> t = Some []"

definition opt_repr :: "string option \<Rightarrow> string" where
  "opt_repr t = (case t of None \<Rightarrow> ''None'' | Some s \<Rightarrow> py_repr s)"

definition em_dash :: string where "em_dash = [CHR 0xE2, CHR 0x80, CHR 0x94]"

definition new_measurement :: "string \<Rightarrow> measurement \<Rightarrow> measurement res" where
  "new_measurement stamp m =
     (if me_benchmark_id m \<notin> set (map Some BENCHMARK_IDS)
      then Inl (ValueError (''benchmark_id must be one of '' @ str_join '', '' BENCHMARK_IDS @ ''; got ''
             @ opt_repr (me_benchmark_id m)))
      else if me_n_nodes m < 1
      then Inl (ValueError (''n_nodes must be at least 1, got '' @ str_int (me_n_nodes m)))
      else if me_repetitions m < 1
      then Inl (ValueError (''repetitions must be at least 1, got '' @ str_int (me_repetitions m)))
      else if blank (me_metric m)
      then Inl (ValueError (''metric is required '' @ em_dash @ '' a value with no metric is unreadable''))
      else Inr (m\<lparr>me_recorded_at := (if blank (me_recorded_at m) then Some stamp else me_recorded_at m),
                  me_unit := (if blank (me_unit m)
                    then Some (case Option.bind (me_metric m) (map_of UNITS) of None \<Rightarrow> [] | Some u \<Rightarrow> u)
                    else me_unit m)\<rparr>))"

subsection \<open>The csv module\<close>

definition COMMA :: char where "COMMA = CHR '',''"
definition CR :: char where "CR = CHR 0x0D"
definition LF :: char where "LF = CHR 0x0A"

text \<open>\<open>QUOTE_MINIMAL\<close>; a row of one empty field is quoted so that it is no blank line.\<close>

definition csv_needs_quotes :: "string \<Rightarrow> bool" where
  "csv_needs_quotes f \<longleftrightarrow> list_ex (\<lambda>c. c = COMMA \<or> c = dquote \<or> c = CR \<or> c = LF) f"

definition csv_quoted :: "string \<Rightarrow> string" where
  "csv_quoted f = dquote # concat (map (\<lambda>c. if c = dquote then [dquote, dquote] else [c]) f) @ [dquote]"

definition csv_field :: "string \<Rightarrow> string" where
  "csv_field f = (if csv_needs_quotes f then csv_quoted f else f)"

definition csv_row :: "string list \<Rightarrow> string" where
  "csv_row fs = (if fs = [[]] then csv_quoted [] else str_join [COMMA] (map csv_field fs)) @ [CR, LF]"

text \<open>
  The reader's states. \<open>acc\<close> is the field read so far and \<open>fs\<close> the finished fields of the row, both
  latest first. Outside quotes a row ends at a carriage return, a line feed or both; text that ends
  without one still ends its row.
\<close>

datatype csv_state = Start_record | Start_field | In_field | In_quoted | Quote_in_quoted

fun csv_parse :: "csv_state \<Rightarrow> string \<Rightarrow> string list \<Rightarrow> string \<Rightarrow> string list list" where
  "csv_parse st acc fs [] = (if st = Start_record then [] else [rev (rev acc # fs)])"
| "csv_parse st acc fs (c # s) =
     (if st = In_quoted
      then if c = dquote then csv_parse Quote_in_quoted acc fs s else csv_parse In_quoted (c # acc) fs s
      else if c = CR \<or> c = LF
      then (if st = Start_record then [] else rev (rev acc # fs))
             # csv_parse Start_record [] [] (if c = CR \<and> s \<noteq> [] \<and> hd s = LF then tl s else s)
      else if c = COMMA then csv_parse Start_field [] (rev acc # fs) s
      else if c = dquote \<and> (st = Start_record \<or> st = Start_field) then csv_parse In_quoted acc fs s
      else if c = dquote \<and> st = Quote_in_quoted then csv_parse In_quoted (c # acc) fs s
      else csv_parse In_field (c # acc) fs s)"

definition csv_rows :: "string \<Rightarrow> string list list" where
  "csv_rows text = csv_parse Start_record [] [] text"

text \<open>
  \<open>DictReader\<close>: the first row names the columns, blank rows are skipped, missing fields are \<open>None\<close>.
  Fields beyond the named ones go under the key \<open>None\<close>, which nothing here reads.
\<close>

definition dict_row :: "string list \<Rightarrow> string list \<Rightarrow> (string, string option) dict" where
  "dict_row names row = dict_of (zip names (map Some row @ replicate (length names - length row) None))"

definition dict_rows :: "string list \<Rightarrow> string list list \<Rightarrow> (string, string option) dict list" where
  "dict_rows names rows = map (dict_row names) (filter (\<lambda>r. r \<noteq> []) rows)"

subsection \<open>Appending\<close>

definition measurement_fields :: "(rat \<Rightarrow> string) \<Rightarrow> measurement \<Rightarrow> string list" where
  "measurement_fields frepr m =
     (let cell = (\<lambda>t. case t of None \<Rightarrow> [] | Some s \<Rightarrow> s) in
      [cell (me_benchmark_id m), cell (me_model_id m), cell (me_node_set m), str_int (me_n_nodes m),
       cell (me_variant m), cell (me_metric m), frepr (me_value m), cell (me_unit m),
       str_int (me_repetitions m), cell (me_recorded_at m), cell (me_notes m)])"

definition append_measurement :: "(rat \<Rightarrow> string) \<Rightarrow> measurement \<Rightarrow> string option \<Rightarrow> string option" where
  "append_measurement frepr m file_text =
     (let old = (case file_text of None \<Rightarrow> [] | Some t \<Rightarrow> t);
          header = (if old = [] then csv_row CSV_COLUMNS else [])
      in Some (old @ header @ csv_row (measurement_fields frepr m)))"

subsection \<open>Loading\<close>

definition row_repr :: "(string, string option) dict \<Rightarrow> string" where
  "row_repr row = ''{'' @ str_join '', '' (map (\<lambda>(k, v). py_repr k @ '': '' @ opt_repr v) row) @ ''}''"

text \<open>\<open>int(x)\<close> and \<open>float(x)\<close> of a field or \<open>None\<close>.\<close>

definition none_type :: string where "none_type = py_repr ''NoneType''"

definition int_field :: "string option \<Rightarrow> int res" where
  "int_field v = (case v of
     None \<Rightarrow> Inl (TypeError (''int() argument must be a string, a bytes-like object or a real number, not '' @ none_type))
   | Some s \<Rightarrow> (case py_int_of_text s of
       None \<Rightarrow> Inl (ValueError (''invalid literal for int() with base 10: '' @ py_repr s)) | Some i \<Rightarrow> Inr i))"

definition float_field :: "string option \<Rightarrow> rat res" where
  "float_field v = (case v of
     None \<Rightarrow> Inl (TypeError (''float() argument must be a string or a real number, not '' @ none_type))
   | Some s \<Rightarrow> (case py_float s of
       None \<Rightarrow> Inl (ValueError (''could not convert string to float: '' @ py_repr s)) | Some x \<Rightarrow> Inr x))"

definition malformed_row :: "(string, string option) dict \<Rightarrow> py_error \<Rightarrow> py_error" where
  "malformed_row row e =
     (case e of
        KeyError _ \<Rightarrow> ValueError (''malformed benchmark row '' @ row_repr row @ '': '' @ err_text e)
      | TypeError _ \<Rightarrow> ValueError (''malformed benchmark row '' @ row_repr row @ '': '' @ err_text e)
      | ValueError _ \<Rightarrow> ValueError (''malformed benchmark row '' @ row_repr row @ '': '' @ err_text e)
      | _ \<Rightarrow> e)"

definition row_to_measurement :: "string \<Rightarrow> (string, string option) dict \<Rightarrow> measurement res" where
  "row_to_measurement stamp row =
     rcatch
       (rbind (dict_get row ''benchmark_id'') (\<lambda>benchmark_id.
        rbind (dict_get row ''model_id'') (\<lambda>model_id.
        rbind (dict_get row ''node_set'') (\<lambda>node_set.
        rbind (dict_get row ''n_nodes'') (\<lambda>n_nodes. rbind (int_field n_nodes) (\<lambda>nodes.
        rbind (dict_get row ''variant'') (\<lambda>variant.
        rbind (dict_get row ''metric'') (\<lambda>metric.
        rbind (dict_get row ''value'') (\<lambda>v. rbind (float_field v) (\<lambda>x.
        rbind (dict_get row ''unit'') (\<lambda>u.
        rbind (dict_get row ''repetitions'') (\<lambda>r. rbind (if blank r then Inr 1 else int_field r) (\<lambda>repetitions.
        rbind (dict_get row ''recorded_at'') (\<lambda>recorded_at.
        rbind (dict_get row ''notes'') (\<lambda>notes.
          new_measurement stamp
            \<lparr>me_benchmark_id = benchmark_id, me_model_id = model_id, me_node_set = node_set, me_n_nodes = nodes,
             me_variant = variant, me_metric = metric, me_value = x, me_unit = u,
             me_repetitions = repetitions, me_recorded_at = recorded_at, me_notes = notes\<rparr>)))))))))))))))
       (\<lambda>e. Inl (malformed_row row e))"

text \<open>\<open>path\<close> is the printed path; \<open>FileNotFoundError\<close> is an \<open>OSError\<close>.\<close>

definition load_measurements :: "string \<Rightarrow> string \<Rightarrow> string option \<Rightarrow> measurement list res" where
  "load_measurements stamp path file_text =
     (case file_text of
        None \<Rightarrow> Inl (OSError (''benchmark record not found: '' @ path))
      | Some t \<Rightarrow>
          let rows = csv_rows t;
              names = (case rows of [] \<Rightarrow> [] | r # _ \<Rightarrow> r);
              missing = filter (\<lambda>c. c \<notin> set names) CSV_COLUMNS
          in if missing \<noteq> []
             then Inl (ValueError (path @ '' is missing column(s): '' @ str_join '', '' (sort missing)))
             else rmapM (row_to_measurement stamp) (dict_rows names (tl rows)))"

subsection \<open>Lookups\<close>

definition measurement_matches :: "string \<Rightarrow> string \<Rightarrow> string option \<Rightarrow> int option \<Rightarrow> measurement \<Rightarrow> bool" where
  "measurement_matches benchmark_id metric variant n_nodes m \<longleftrightarrow>
     me_benchmark_id m = Some benchmark_id \<and> me_metric m = Some metric
     \<and> (variant = None \<or> me_variant m = variant) \<and> (n_nodes = None \<or> Some (me_n_nodes m) = n_nodes)"

definition slide_number :: "measurement list \<Rightarrow> string \<Rightarrow> string \<Rightarrow> string option \<Rightarrow> int option \<Rightarrow> rat res" where
  "slide_number ms benchmark_id metric variant n_nodes =
     (case filter (measurement_matches benchmark_id metric variant n_nodes) ms of
        [] \<Rightarrow> Inl (KeyError (''no measurement for benchmark_id='' @ py_repr benchmark_id @ '' metric='' @ py_repr metric))
      | [m] \<Rightarrow> Inr (me_value m)
      | matches \<Rightarrow> Inl (KeyError (str_nat (length matches) @ '' measurements match benchmark_id='' @ py_repr benchmark_id
          @ '' metric='' @ py_repr metric @ '' (''
          @ str_join '', '' (map (\<lambda>m. (case me_variant m of None \<Rightarrow> ''None'' | Some v \<Rightarrow> v) @ ''/''
               @ str_int (me_n_nodes m) @ ''n'') matches)
          @ ''). Narrow with variant= or n_nodes=.'')))"

definition missing_benchmarks :: "measurement list \<Rightarrow> string list" where
  "missing_benchmarks ms = filter (\<lambda>name. Some name \<notin> set (map me_benchmark_id ms)) BENCHMARK_IDS"

end
