(* ===== verification/Bench_Record_Properties.thy ===== *)
theory Bench_Record_Properties
  imports Bench_Record Number_Text
begin

text \<open>
  The benchmark file reads back as what was appended to it, whatever the notes and names contain:
  commas, quotes and line breaks of either kind.
\<close>

subsection \<open>Fields and rows\<close>

lemma csv_chars: "COMMA \<noteq> dquote" "COMMA \<noteq> CR" "COMMA \<noteq> LF" "CR \<noteq> LF" "dquote \<noteq> CR" "dquote \<noteq> LF"
  "dquote \<noteq> COMMA" "CR \<noteq> COMMA" "LF \<noteq> COMMA" "LF \<noteq> CR" "CR \<noteq> dquote" "LF \<noteq> dquote"
  by (simp_all add: COMMA_def CR_def LF_def)

lemma csv_plain:
  assumes "\<not> csv_needs_quotes f" "st \<in> {Start_record, Start_field, In_field}"
  shows "csv_parse st acc fs (f @ s) = csv_parse (if f = [] then st else In_field) (rev f @ acc) fs s"
  using assms
proof (induction f arbitrary: st acc)
  case (Cons c f)
  then show ?case using Cons.IH[of In_field "c # acc"] by (auto simp: csv_needs_quotes_def)
qed simp

lemma csv_body:
  "csv_parse In_quoted acc fs (concat (map (\<lambda>c. if c = dquote then [dquote, dquote] else [c]) f) @ dquote # s)
    = csv_parse Quote_in_quoted (rev f @ acc) fs s"
  by (induction f arbitrary: acc) (auto simp: csv_chars)

text \<open>After a field the reader holds it, in a state where a separator ends it.\<close>

lemma csv_field_read:
  assumes "st \<in> {Start_record, Start_field}"
  shows "\<exists>st'. csv_parse st [] fs (csv_field f @ s) = csv_parse st' (rev f) fs s \<and> st' \<noteq> In_quoted
    \<and> (st' = Start_record \<longrightarrow> st = Start_record \<and> f = [])"
proof (cases "csv_needs_quotes f")
  case True
  then show ?thesis using assms csv_body[of "[]" fs f s]
    by (intro exI[of _ Quote_in_quoted]) (auto simp: csv_field_def csv_quoted_def csv_chars)
next
  case False
  then show ?thesis using csv_plain[OF False, of st "[]" fs s] assms
    by (intro exI[of _ "if f = [] then st else In_field"]) (auto simp: csv_field_def)
qed

lemma csv_fields_read:
  assumes "st = Start_field \<or> st = Start_record \<and> finished = [] \<and> f # fs \<noteq> [[]]"
  shows "csv_parse st [] finished (str_join [COMMA] (map csv_field (f # fs)) @ CR # LF # s)
    = (rev finished @ f # fs) # csv_parse Start_record [] [] s"
  using assms
proof (induction fs arbitrary: f st finished)
  case Nil
  obtain st' where st': "csv_parse st [] finished (csv_field f @ CR # LF # s) = csv_parse st' (rev f) finished (CR # LF # s)"
    "st' \<noteq> In_quoted" "st' = Start_record \<longrightarrow> st = Start_record \<and> f = []"
    using csv_field_read[of st finished f "CR # LF # s"] Nil by auto
  then show ?case using Nil by (auto simp: csv_chars)
next
  case (Cons g fs)
  let ?rest = "str_join [COMMA] (map csv_field (g # fs)) @ CR # LF # s"
  obtain st' where st': "csv_parse st [] finished (csv_field f @ COMMA # ?rest) = csv_parse st' (rev f) finished (COMMA # ?rest)"
    "st' \<noteq> In_quoted"
    using csv_field_read[of st finished f "COMMA # ?rest"] Cons.prems by auto
  have "csv_parse st' (rev f) finished (COMMA # ?rest) = csv_parse Start_field [] (f # finished) ?rest"
    using st'(2) by (simp add: csv_chars)
  also have "\<dots> = (rev (f # finished) @ g # fs) # csv_parse Start_record [] [] s" by (rule Cons.IH) simp
  finally show ?case using st'(1) by simp
qed

lemma csv_row_read: "fs \<noteq> [] \<Longrightarrow> csv_parse Start_record [] [] (csv_row fs @ s) = fs # csv_parse Start_record [] [] s"
proof (cases "fs = [[]]")
  case True
  then show ?thesis by (simp add: csv_row_def csv_quoted_def csv_chars)
next
  case False
  assume "fs \<noteq> []"
  then obtain g gs where g: "fs = g # gs" by (cases fs) auto
  from csv_fields_read[of Start_record "[]" g gs s] False show ?thesis by (auto simp: csv_row_def g)
qed

lemma csv_rows_read: "\<forall>r \<in> set rows. r \<noteq> [] \<Longrightarrow> csv_rows (concat (map csv_row rows)) = rows"
  unfolding csv_rows_def by (induction rows) (auto simp: csv_row_read)

subsection \<open>The file\<close>

lemma append_measurements:
  assumes "t \<noteq> []"
  shows "fold (append_measurement frepr) ms (Some t) = Some (t @ concat (map (csv_row \<circ> measurement_fields frepr) ms))"
  using assms by (induction ms arbitrary: t) (auto simp: append_measurement_def Let_def)

lemma csv_row_nonempty: "csv_row r \<noteq> []"
  by (simp add: csv_row_def)

lemma appended_file:
  assumes "f = None \<or> f = Some []" "ms \<noteq> []"
  shows "fold (append_measurement frepr) ms f
    = Some (concat (map csv_row (CSV_COLUMNS # map (measurement_fields frepr) ms)))"
proof -
  obtain m ms' where ms: "ms = m # ms'" using assms(2) by (cases ms) auto
  have "append_measurement frepr m f = Some (csv_row CSV_COLUMNS @ csv_row (measurement_fields frepr m))"
    using assms(1) by (auto simp: append_measurement_def)
  then show ?thesis using append_measurements csv_row_nonempty by (simp add: ms comp_def)
qed

text \<open>
  A measurement as the module hands it out: made from texts, at a real time, with a value whose text
  reads back.
\<close>

definition texts_given :: "measurement \<Rightarrow> bool" where
  "texts_given m \<longleftrightarrow> me_model_id m \<noteq> None \<and> me_node_set m \<noteq> None \<and> me_variant m \<noteq> None \<and> me_notes m \<noteq> None"

definition recorded :: "(rat \<Rightarrow> string) \<Rightarrow> measurement \<Rightarrow> bool" where
  "recorded frepr m \<longleftrightarrow> (\<exists>stamp given. new_measurement stamp given = Inr m \<and> stamp \<noteq> [] \<and> texts_given given)
     \<and> py_float (frepr (me_value m)) = Some (me_value m)"

lemma recordedI:
  assumes "new_measurement stamp g = Inr m" "stamp \<noteq> []" "texts_given g" "py_float (frepr (me_value g)) = Some (me_value g)"
  shows "recorded frepr m"
proof -
  have "me_value m = me_value g" using assms(1) by (auto simp: new_measurement_def split: if_splits)
  then show ?thesis using assms unfolding recorded_def by auto
qed

lemma recorded_fields:
  assumes "recorded frepr m"
  obtains b mo ns v me u r no where "m = \<lparr>me_benchmark_id = Some b, me_model_id = Some mo, me_node_set = Some ns,
      me_n_nodes = me_n_nodes m, me_variant = Some v, me_metric = Some me, me_value = me_value m, me_unit = Some u,
      me_repetitions = me_repetitions m, me_recorded_at = Some r, me_notes = Some no\<rparr>"
    "b \<in> set BENCHMARK_IDS" "1 \<le> me_n_nodes m" "1 \<le> me_repetitions m" "me \<noteq> []" "r \<noteq> []"
    "u = [] \<longrightarrow> map_of UNITS me \<in> {None, Some []}" "py_float (frepr (me_value m)) = Some (me_value m)"
proof -
  obtain stamp given where g: "new_measurement stamp given = Inr m" "stamp \<noteq> []" "texts_given given"
    and f: "py_float (frepr (me_value m)) = Some (me_value m)"
    using assms unfolding recorded_def by blast
  have m: "m = given\<lparr>me_recorded_at := (if blank (me_recorded_at given) then Some stamp else me_recorded_at given),
                  me_unit := (if blank (me_unit given)
                    then Some (case Option.bind (me_metric given) (map_of UNITS) of None \<Rightarrow> [] | Some u \<Rightarrow> u)
                    else me_unit given)\<rparr>"
    and c: "me_benchmark_id given \<in> set (map Some BENCHMARK_IDS)" "1 \<le> me_n_nodes given" "1 \<le> me_repetitions given"
      "\<not> blank (me_metric given)"
    using g(1) by (auto simp: new_measurement_def split: if_splits)
  obtain b mo ns v me no where t: "me_benchmark_id given = Some b" "b \<in> set BENCHMARK_IDS" "me_model_id given = Some mo"
      "me_node_set given = Some ns" "me_variant given = Some v" "me_metric given = Some me" "me \<noteq> []" "me_notes given = Some no"
    using c(1,4) g(3) by (auto simp: texts_given_def blank_def)
  obtain r where r: "me_recorded_at m = Some r" "r \<noteq> []"
    using m g(2) by (cases "me_recorded_at given"; cases "the (me_recorded_at given) = []") (auto simp: blank_def)
  obtain u where u: "me_unit m = Some u" "u = [] \<longrightarrow> map_of UNITS me \<in> {None, Some []}"
    using m t(6) by (cases "me_unit given"; cases "the (me_unit given) = []") (auto simp: blank_def split: option.splits)
  have "m = \<lparr>me_benchmark_id = Some b, me_model_id = Some mo, me_node_set = Some ns,
      me_n_nodes = me_n_nodes m, me_variant = Some v, me_metric = Some me, me_value = me_value m, me_unit = Some u,
      me_repetitions = me_repetitions m, me_recorded_at = Some r, me_notes = Some no\<rparr>"
    by (rule measurement.equality) (use t r u m in simp_all)
  moreover have "me_n_nodes m = me_n_nodes given" "me_repetitions m = me_repetitions given" using m by simp_all
  ultimately show thesis using that[of b mo ns v me u r no] t(2,7) r(2) u(2) c(2,3) f by simp
qed

lemma dict_row_columns:
  "dict_row CSV_COLUMNS [a, b, c, d, e, f, g, h, i, j, k] = [(''benchmark_id'', Some a), (''model_id'', Some b),
     (''node_set'', Some c), (''n_nodes'', Some d), (''variant'', Some e), (''metric'', Some f), (''value'', Some g),
     (''unit'', Some h), (''repetitions'', Some i), (''recorded_at'', Some j), (''notes'', Some k)]"
  by (simp add: dict_row_def dict_of_def CSV_COLUMNS_def)

lemma row_read_back:
  assumes "recorded frepr m"
  shows "row_to_measurement stamp (dict_row CSV_COLUMNS (measurement_fields frepr m)) = Inr m"
proof -
  from assms obtain b mo ns v me u r no where m: "m = \<lparr>me_benchmark_id = Some b, me_model_id = Some mo,
      me_node_set = Some ns, me_n_nodes = me_n_nodes m, me_variant = Some v, me_metric = Some me, me_value = me_value m,
      me_unit = Some u, me_repetitions = me_repetitions m, me_recorded_at = Some r, me_notes = Some no\<rparr>"
    and c: "b \<in> set BENCHMARK_IDS" "1 \<le> me_n_nodes m" "1 \<le> me_repetitions m" "me \<noteq> []" "r \<noteq> []"
      "u = [] \<longrightarrow> map_of UNITS me \<in> {None, Some []}" "py_float (frepr (me_value m)) = Some (me_value m)"
    by (rule recorded_fields)
  let ?k = "me_n_nodes m" and ?x = "me_value m" and ?n = "me_repetitions m"
  have f: "measurement_fields frepr m = [b, mo, ns, str_int ?k, v, me, frepr ?x, u, str_int ?n, r, no]"
    by (subst m) (simp add: measurement_fields_def)
  have s: "str_int ?n \<noteq> []" using str_int_word[of ?n] by (simp add: word_def)
  have i: "int_field (Some (str_int i)) = Inr i" for i by (simp add: int_field_def)
  have x: "float_field (Some (frepr ?x)) = Inr ?x" using c(7) by (simp add: float_field_def)
  have "row_to_measurement stamp (dict_row CSV_COLUMNS (measurement_fields frepr m))
    = rcatch (new_measurement stamp m) (\<lambda>e. Inl (malformed_row (dict_row CSV_COLUMNS (measurement_fields frepr m)) e))"
    unfolding f dict_row_columns
    by (simp add: row_to_measurement_def dict_get_def i x s blank_def m[symmetric])
  also have "new_measurement stamp m = Inr m"
    using c(1-6) by (subst (1 2) m) (auto simp: new_measurement_def blank_def)
  finally show ?thesis by simp
qed

text \<open>
  C8. The benchmark record keeps what was measured. Measurements appended one after another to a new or
  empty file are loaded again as they were, all of them and in order, whatever commas, quotes and line
  breaks their names and notes contain; and a slide asks for exactly one of them.
\<close>

theorem record_round_trip:
  assumes "\<forall>m \<in> set ms. recorded frepr m" "ms \<noteq> []" "file_text = None \<or> file_text = Some []"
  shows "load_measurements stamp path (fold (append_measurement frepr) ms file_text) = Inr ms
    \<and> (\<forall>x. slide_number ms b k v n = Inr x \<longleftrightarrow> (\<exists>m. filter (measurement_matches b k v n) ms = [m] \<and> x = me_value m))"
proof
  let ?rows = "map (measurement_fields frepr) ms"
  have ne: "\<forall>r \<in> set (CSV_COLUMNS # ?rows). r \<noteq> []" by (auto simp: CSV_COLUMNS_def measurement_fields_def Let_def)
  have f: "filter (\<lambda>r. r \<noteq> []) ?rows = ?rows" using ne by (simp add: filter_id_conv)
  have "rmapM (row_to_measurement stamp) (map (dict_row CSV_COLUMNS \<circ> measurement_fields frepr) ms) = Inr ms"
    using assms(1) row_read_back by (induction ms) auto
  then show "load_measurements stamp path (fold (append_measurement frepr) ms file_text) = Inr ms"
    unfolding appended_file[OF assms(3,2)]
    by (simp add: load_measurements_def Let_def csv_rows_read[OF ne] dict_rows_def f del: list.map)
  show "\<forall>x. slide_number ms b k v n = Inr x \<longleftrightarrow> (\<exists>m. filter (measurement_matches b k v n) ms = [m] \<and> x = me_value m)"
    by (auto simp: slide_number_def split: list.splits)
qed

text \<open>Two measurements whose notes hold a comma, quotes and a line break.\<close>

definition given_capacity :: measurement where
  "given_capacity = \<lparr>me_benchmark_id = Some ''capacity'', me_model_id = Some ''castoff'', me_node_set = Some ''all'',
     me_n_nodes = 4, me_variant = Some ''-'', me_metric = Some ''loads'', me_value = 1, me_unit = Some [],
     me_repetitions = 1, me_recorded_at = Some [], me_notes = Some (''fits, '' @ [dquote] @ ''pooled'' @ [dquote, LF] @ ''only'')\<rparr>"

definition given_decode :: measurement where
  "given_decode = given_capacity\<lparr>me_benchmark_id := Some ''decode'', me_metric := Some ''tok_s'', me_value := 29/2\<rparr>"

definition sample_record :: "measurement list" where
  "sample_record = map (\<lambda>g. projr (new_measurement ''now'' g)) [given_capacity, given_decode]"

definition sample_text :: "rat \<Rightarrow> string" where
  "sample_text x = (if x = 1 then ''1.0'' else ''14.5'')"

theorem record_round_trip_witness:
  "load_measurements ''later'' ''b.csv'' (fold (append_measurement sample_text) sample_record None) = Inr sample_record
   \<and> slide_number sample_record ''decode'' ''tok_s'' None None = Inr (29/2)"
proof -
  have v: "py_float (sample_text 1) = Some 1" "py_float (sample_text (29/2)) = Some (29/2)" by code_simp+
  have g: "new_measurement ''now'' given_capacity = Inr (projr (new_measurement ''now'' given_capacity))"
    "new_measurement ''now'' given_decode = Inr (projr (new_measurement ''now'' given_decode))" by code_simp+
  have r: "\<forall>m \<in> set sample_record. recorded sample_text m"
    using recordedI[OF g(1)] recordedI[OF g(2)] v
    by (simp add: sample_record_def texts_given_def given_decode_def given_capacity_def)
  have n: "sample_record \<noteq> []" by (simp add: sample_record_def)
  have "filter (measurement_matches ''decode'' ''tok_s'' None None) sample_record = [sample_record ! 1]
      \<and> me_value (sample_record ! 1) = 29/2"
    by code_simp
  with record_round_trip[OF r n, of None "''later''" "''b.csv''" "''decode''" "''tok_s''" None None] show ?thesis by auto
qed

end
