(* ===== verification/Http_Answer.thy ===== *)
theory Http_Answer
  imports Control_Plane
begin

text \<open>What a client sees of a handler of \<open>ctl/main.py\<close> or \<open>node/dain_node.py\<close>: its result as an HTTP reply.\<close>

definition rmap :: "('a \<Rightarrow> 'b) \<Rightarrow> 'a res \<Rightarrow> 'b res" where
  "rmap f r = rbind r (\<lambda>x. Inr (f x))"

text \<open>An \<open>HTTPException\<close> carries its detail; any other exception is a 500 without JSON.\<close>

definition http_answer :: "json res \<Rightarrow> http_reply" where
  "http_answer r =
     (case r of
        Inr j \<Rightarrow> Reply 200 [] (Some j)
      | Inl (HTTPException code m) \<Rightarrow> Reply code [] (Some (JObj [(''detail'', JStr m)]))
      | Inl e \<Rightarrow> Reply 500 ''Internal Server Error'' None)"

text \<open>\<open>status_code=201\<close> of a route.\<close>

definition created :: "http_reply \<Rightarrow> http_reply" where
  "created r = (case r of Reply code t b \<Rightarrow> Reply (if code = 200 then 201 else code) t b | _ \<Rightarrow> r)"

end
