(* ===== verification/Join_Plane.thy ===== *)
theory Join_Plane
  imports Http_Answer Node_Agent
begin

text \<open>
  The control plane as the node agent reaches it over HTTP: the bodies that \<open>JoinChallengeRequest\<close>,
  \<open>JoinRequest\<close> and \<open>HeartbeatRequest\<close> of \<open>ctl/main.py\<close> read, the three routes a node uses, and the
  agent's \<open>client.post\<close> over them. The decoders read the JSON the agent writes; any other shape is a
  422 (pydantic would also take numbers written as text, which the agent never sends).
\<close>

subsection \<open>Bodies\<close>

definition decode_str :: "json \<Rightarrow> string option" where
  "decode_str j = (case j of JStr s \<Rightarrow> Some s | _ \<Rightarrow> None)"

definition decode_int :: "json \<Rightarrow> int option" where
  "decode_int j = (case j of JInt i \<Rightarrow> Some i | _ \<Rightarrow> None)"

definition decode_opt :: "(json \<Rightarrow> 'a option) \<Rightarrow> json \<Rightarrow> 'a option option" where
  "decode_opt f j = (case j of JNull \<Rightarrow> Some None | _ \<Rightarrow> map_option Some (f j))"

lemma decode_simps [simp]:
  "decode_str (JStr s) = Some s" "decode_int (JInt i) = Some i"
  "decode_opt f JNull = Some None" "decode_opt decode_str (JStr s) = Some (Some s)"
  "decode_opt decode_int (JInt i) = Some (Some i)" "decode_opt jnumber (JFloat x) = Some (Some x)"
  by (simp_all add: decode_str_def decode_int_def decode_opt_def)

definition decode_profile :: "json \<Rightarrow> node_profile option" where
  "decode_profile j = (case j of JObj d \<Rightarrow>
     Option.bind (decode_str (jget d ''id'')) (\<lambda>i.
     Option.bind (decode_str (jget d ''host'')) (\<lambda>host.
     Option.bind (decode_str (jget d ''cpu'')) (\<lambda>cpu.
     Option.bind (decode_int (jget d ''cores'')) (\<lambda>cores.
     Option.bind (decode_int (jget d ''ram_total_mb'')) (\<lambda>ram_total.
     Option.bind (decode_int (jget d ''ram_free_mb'')) (\<lambda>ram_free.
     Option.bind (decode_opt decode_str (jget d ''gpu'')) (\<lambda>gpu.
     Option.bind (decode_int (jget d ''vram_total_mb'')) (\<lambda>vram.
     Option.bind (decode_str (jget d ''backend'')) (\<lambda>backend.
     Option.bind (jnumber (jget d ''mem_bandwidth_gbs'')) (\<lambda>bandwidth.
     Option.bind (jnumber (jget d ''tg_tok_s'')) (\<lambda>tg.
     Option.bind (jnumber (jget d ''pp_tok_s'')) (\<lambda>pp.
     Option.bind (jnumber (jget d ''rtt_ms'')) (\<lambda>rtt.
     Option.bind (Option.bind (decode_str (jget d ''state'')) state_of_name) (\<lambda>st.
       Some \<lparr>np_id = i, np_host = host, np_cpu = cpu, np_cores = cores, np_ram_total_mb = ram_total,
             np_ram_free_mb = ram_free, np_gpu = gpu, np_vram_total_mb = vram, np_backend = backend,
             np_mem_bandwidth_gbs = bandwidth, np_tg_tok_s = tg, np_pp_tok_s = pp, np_rtt_ms = rtt,
             np_state = st\<rparr>))))))))))))))
   | _ \<Rightarrow> None)"

definition decode_metrics :: "json \<Rightarrow> node_metrics option" where
  "decode_metrics j = (case j of JObj d \<Rightarrow>
     Option.bind (decode_str (jget d ''node_id'')) (\<lambda>i.
     Option.bind (jnumber (jget d ''timestamp'')) (\<lambda>stamp.
     Option.bind (jnumber (jget d ''cpu_percent'')) (\<lambda>cpu.
     Option.bind (decode_int (jget d ''ram_free_mb'')) (\<lambda>ram.
     Option.bind (decode_opt jnumber (jget d ''gpu_percent'')) (\<lambda>gpu.
     Option.bind (decode_opt decode_int (jget d ''vram_free_mb'')) (\<lambda>vram.
     Option.bind (decode_int (jget d ''jobs_running'')) (\<lambda>jobs.
       Some \<lparr>nm_node_id = i, nm_timestamp = stamp, nm_cpu_percent = cpu, nm_ram_free_mb = ram,
             nm_gpu_percent = gpu, nm_vram_free_mb = vram, nm_jobs_running = jobs\<rparr>)))))))
   | _ \<Rightarrow> None)"

lemma state_of_name_state_name [simp]: "state_of_name (state_name s) = Some s"
  by (cases s) (simp_all add: state_of_name_def)

lemma decode_profile_dict [simp]: "decode_profile (JObj (profile_dict p)) = Some p"
  by (cases p; cases "np_gpu p") (simp_all add: decode_profile_def profile_dict_def jget_def)

lemma decode_metrics_json [simp]: "decode_metrics (metrics_json m) = Some m"
  by (cases m; cases "nm_gpu_percent m"; cases "nm_vram_free_mb m")
    (simp_all add: decode_metrics_def metrics_json_def jget_def)

subsection \<open>Routes\<close>

text \<open>The clocks and the randomness of one request.\<close>

record request_env =
  re_auth_now :: rat
  re_now :: rat
  re_wall :: "int \<Rightarrow> rat"
  re_fresh :: string

definition challenge_route :: "request_env \<Rightarrow> json \<Rightarrow> control_plane \<Rightarrow> http_reply \<times> control_plane" where
  "challenge_route env body cp =
     (case (case body of JObj d \<Rightarrow> decode_str (jget d ''node_id'') | _ \<Rightarrow> None) of
        None \<Rightarrow> (http_answer (Inl invalid_request), cp)
      | Some node_id \<Rightarrow>
          (case create_join_challenge (re_auth_now env) (re_fresh env) node_id cp of
             (r, cp') \<Rightarrow> (http_answer (rmap JObj r), cp')))"

definition join_route :: "(rat \<Rightarrow> string) \<Rightarrow> request_env \<Rightarrow> json \<Rightarrow> control_plane \<Rightarrow> http_reply \<times> control_plane" where
  "join_route frepr env body cp =
     (case (case body of JObj d \<Rightarrow>
          (case (decode_profile (jget d ''profile''), decode_str (jget d ''nonce''), decode_str (jget d ''signature'')) of
             (Some p, Some n, Some s) \<Rightarrow> Some (p, n, s) | _ \<Rightarrow> None)
        | _ \<Rightarrow> None) of
        None \<Rightarrow> (http_answer (Inl invalid_request), cp)
      | Some (profile, nonce, signature) \<Rightarrow>
          (case join_node frepr (re_auth_now env) (re_now env) (re_wall env) (re_fresh env)
                  profile nonce signature cp of
             (r, cp') \<Rightarrow> (created (http_answer (rmap JObj r)), cp')))"

definition heartbeat_route :: "request_env \<Rightarrow> string \<Rightarrow> string option \<Rightarrow> json \<Rightarrow> control_plane
    \<Rightarrow> http_reply \<times> control_plane" where
  "heartbeat_route env node_id authorization body cp =
     (case (case body of JObj d \<Rightarrow>
          (case jget d ''metrics'' of JNull \<Rightarrow> Some None | j \<Rightarrow> map_option Some (decode_metrics j))
        | _ \<Rightarrow> None) of
        None \<Rightarrow> (http_answer (Inl invalid_request), cp)
      | Some metrics \<Rightarrow>
          (case post_heartbeat (re_auth_now env) (re_now env) (re_wall env) node_id metrics authorization cp of
             (r, cp') \<Rightarrow> (http_answer (rmap JObj r), cp')))"

subsection \<open>The agent's client over the routes\<close>

text \<open>
  \<open>join_pool\<close> posts twice: the challenge reaches the plane \<open>cp0\<close>, the join a later plane \<open>cp1\<close>.
  Any other address is a 404.
\<close>

definition not_found :: http_reply where
  "not_found = Reply 404 [] (Some (JObj [(''detail'', JStr ''Not Found'')]))"

definition join_post :: "(rat \<Rightarrow> string) \<Rightarrow> node_agent \<Rightarrow> request_env \<Rightarrow> control_plane
    \<Rightarrow> request_env \<Rightarrow> control_plane \<Rightarrow> http_post" where
  "join_post frepr ag env0 cp0 env1 cp1 url authorization body =
     (if url = challenge_url ag then fst (challenge_route env0 body cp0)
      else if url = join_url ag then fst (join_route frepr env1 body cp1)
      else not_found)"

definition heartbeat_post :: "node_agent \<Rightarrow> request_env \<Rightarrow> control_plane \<Rightarrow> http_post" where
  "heartbeat_post ag env cp url authorization body =
     (if url = heartbeat_url ag then fst (heartbeat_route env (np_id (na_profile ag)) authorization body cp)
      else not_found)"

text \<open>The body of the second post, given the nonce of the first.\<close>

definition join_body :: "(rat \<Rightarrow> string) \<Rightarrow> node_agent \<Rightarrow> string \<Rightarrow> json" where
  "join_body frepr ag nonce =
     JObj [(''profile'', JObj (profile_dict (na_profile ag))), (''nonce'', JStr nonce),
       (''signature'', (case sign_join_challenge frepr (na_pool_secret ag) nonce
            (JObj (profile_dict (na_profile ag))) of Inr s \<Rightarrow> JStr s | Inl _ \<Rightarrow> JNull))]"

end
