(* ===== verification/Join_Plane_Properties.thy ===== *)
theory Join_Plane_Properties
  imports Join_Plane Auth_Properties Node_Agent_Properties Control_Plane_Properties
begin















end
