(* ===== verification/Search_Plane.thy ===== *)
theory Search_Plane
  imports Http_Answer Node_Agent File_Index
begin

text \<open>
  A search from the queue through the nodes' indexes and back: the \<open>/search\<close> endpoint of
  \<open>node/dain_node.py\<close> over the index of \<open>node/index.py\<close>, reached with a request the queue built, and
  what \<open>ctl/queue.py\<close> keeps of the reply.
\<close>

definition hit_dict :: "search_hit \<Rightarrow> (string, json) dict" where
  "hit_dict h = [(''path'', JStr (sh_path h)), (''score'', JFloat (sh_score h)), (''snippet'', JStr (sh_snippet h))]"

lemma hit_json_dict: "hit_json h = JObj (hit_dict h)"
  by (simp add: hit_json_def hit_dict_def)

text \<open>\<open>agent.search_index.search\<close> as the endpoint calls it.\<close>

definition index_search :: "('e \<Rightarrow> string \<Rightarrow> rat list res \<times> 'e) \<Rightarrow> (rat \<Rightarrow> rat) \<Rightarrow> 'e file_index
    \<Rightarrow> string \<Rightarrow> int \<Rightarrow> (string, json) dict list res" where
  "index_search embedq sqroot idx query limit = rmap (map hit_dict) (fst (search_index embedq sqroot query limit idx))"

text \<open>The body the queue posts, as \<open>LocalJobRequest\<close> reads it.\<close>

definition local_request :: "job_request \<Rightarrow> local_job_request" where
  "local_request rq = \<lparr>lj_fields = rq_fields rq, lj_signature = rq_signature rq\<rparr>"

definition node_search :: "(rat \<Rightarrow> string) \<Rightarrow> int \<Rightarrow> ('e \<Rightarrow> string \<Rightarrow> rat list res \<times> 'e) \<Rightarrow> ('e \<Rightarrow> string)
    \<Rightarrow> (rat \<Rightarrow> rat) \<Rightarrow> 'e file_index \<Rightarrow> node_agent \<Rightarrow> job_request \<Rightarrow> http_reply" where
  "node_search frepr now embedq model_id sqroot idx ag rq =
     http_answer (rmap JObj (search frepr now (model_id (fi_embedder idx)) (index_search embedq sqroot idx)
       (local_request rq) ag))"

text \<open>The entry a shard that succeeded leaves in \<open>result["shards"]\<close>.\<close>

definition shard_json :: "nat \<Rightarrow> string \<Rightarrow> json \<Rightarrow> json" where
  "shard_json i node_id result =
     JObj [(''shard_index'', JInt (int i)), (''node_id'', JStr node_id), (''result'', result)]"

definition hit_entry :: "string \<Rightarrow> search_hit \<Rightarrow> json" where
  "hit_entry n h = JObj (AList.update ''source'' (JStr (n @ '':'' @ sh_path h))
     (AList.update ''node_id'' (JStr n) (hit_dict h)))"

end
