(* ===== verification/Search_Plane_Properties.thy ===== *)
theory Search_Plane_Properties
  imports Search_Plane File_Index_Properties Node_Agent_Properties
begin

text \<open>
  A pooled search is exact: merging the best hits of every node gives the best of all documents of the
  pool, although no node sends more than its own best ones.
\<close>

subsection \<open>The best of the best\<close>

lemma sorted_filter_split:
  fixes r :: "'a::linorder"
  shows "sorted L \<Longrightarrow> filter (\<lambda>x. x \<le> r) L @ filter (\<lambda>x. \<not> x \<le> r) L = L"
proof (induction L)
  case (Cons a L)
  show ?case
  proof (cases "a \<le> r")
    case False
    then have "filter (\<lambda>x. x \<le> r) L = []" using Cons.prems by (auto simp: filter_empty_conv)
    with Cons False show ?thesis by auto
  qed (use Cons in auto)
qed simp

lemma insort_late:
  fixes r :: "'a::linorder"
  assumes "sorted L" "k \<le> length (filter (\<lambda>x. x \<le> r) L)"
  shows "take k (insort r L) = take k L"
  using assms
proof (induction L arbitrary: k)
  case Nil
  then show ?case by simp
next
  case (Cons a L)
  show ?case
  proof (cases "r \<le> a")
    case False
    then show ?thesis using Cons by (cases k) (auto split: if_splits)
  next
    case True
    have "x = r" if "x \<in> set (take k (a # L))" for x
    proof -
      let ?f = "filter (\<lambda>x. x \<le> r) (a # L)"
      have "take k (?f @ filter (\<lambda>x. \<not> x \<le> r) (a # L)) = take k ?f"
        using Cons.prems(2) by simp
      then have "take k (a # L) = take k ?f" unfolding sorted_filter_split[OF Cons.prems(1)] .
      then have "x \<in> set ?f" using that by (metis in_set_takeD)
      then have "x \<le> r" "x \<in> set (a # L)" by (simp_all only: set_filter mem_Collect_eq)
      then show ?thesis using Cons.prems(1) True by fastforce
    qed
    then have t: "take k (a # L) = replicate (length (take k (a # L))) r"
      by (metis replicate_eqI)
    have "take k (r # a # L) = take k (a # L)"
    proof (cases k)
      case (Suc j)
      have "length (take k (a # L)) = k"
        using Cons.prems(2) by (metis length_filter_le length_take min.absorb2 order_trans)
      with t have r: "take k (a # L) = replicate k r" by simp
      have "take j (a # L) = take j (take k (a # L))" unfolding take_take by (simp add: Suc min_def)
      also have "\<dots> = replicate j r" unfolding r take_replicate by (simp add: Suc min_def)
      finally show ?thesis unfolding r by (simp add: Suc)
    qed simp
    with True show ?thesis by (cases L) auto
  qed
qed

lemma take_sort_drop:
  fixes ys :: "'a::linorder list"
  assumes "\<forall>r \<in> set rest. k \<le> length (filter (\<lambda>x. x \<le> r) ys)"
  shows "take k (sort (rest @ ys)) = take k (sort ys)"
  using assms
proof (induction rest)
  case (Cons r rest)
  have "length (filter (\<lambda>x. x \<le> r) (sort (rest @ ys))) = length (filter (\<lambda>x. x \<le> r) (rest @ ys))"
    by (metis mset_filter mset_sort size_mset)
  then have "k \<le> length (filter (\<lambda>x. x \<le> r) (sort (rest @ ys)))" using Cons.prems by fastforce
  from insort_late[OF _ this] Cons show ?case by simp
qed simp

lemma take_sort_pruned:
  fixes xs :: "'a::linorder list"
  shows "take k (sort (take k (sort xs) @ ys)) = take k (sort (xs @ ys))"
proof -
  let ?t = "take k (sort xs)" and ?d = "drop k (sort xs)"
  have "\<forall>r \<in> set ?d. k \<le> length (filter (\<lambda>x. x \<le> r) (?t @ ys))"
  proof
    fix r assume r: "r \<in> set ?d"
    then have "length ?t = k" by (cases "k \<le> length xs") auto
    moreover have "sorted (?t @ ?d)" by simp
    then have "\<forall>x \<in> set ?t. x \<le> r" using r unfolding sorted_append by blast
    then have "filter (\<lambda>x. x \<le> r) ?t = ?t" by simp
    ultimately show "k \<le> length (filter (\<lambda>x. x \<le> r) (?t @ ys))" by simp
  qed
  from take_sort_drop[OF this] have "take k (sort (?d @ ?t @ ys)) = take k (sort (?t @ ys))" .
  moreover have "mset (?d @ ?t @ ys) = mset (xs @ ys)"
    by (metis append_take_drop_id mset_append mset_sort union_commute append_assoc)
  then have "sort (?d @ ?t @ ys) = sort (xs @ ys)" by (metis properties_for_sort mset_sort sorted_sort)
  ultimately show ?thesis by simp
qed

lemma take_sort_concat:
  fixes xss :: "'a::linorder list list"
  shows "take k (sort (concat (map (\<lambda>xs. take k (sort xs)) xss) @ ys)) = take k (sort (concat xss @ ys))"
proof (induction xss arbitrary: ys)
  case (Cons xs xss)
  have c: "sort (as @ bs) = sort (bs @ as)" for as bs :: "'a list"
    by (metis properties_for_sort mset_sort sorted_sort mset_append union_commute)
  have "take k (sort (concat (map (\<lambda>xs. take k (sort xs)) (xs # xss)) @ ys))
      = take k (sort (take k (sort xs) @ concat (map (\<lambda>xs. take k (sort xs)) xss) @ ys))" by simp
  also have "\<dots> = take k (sort (xs @ concat (map (\<lambda>xs. take k (sort xs)) xss) @ ys))" by (rule take_sort_pruned)
  also have "\<dots> = take k (sort (concat (map (\<lambda>xs. take k (sort xs)) xss) @ ys @ xs))"
    using c[of xs "concat (map (\<lambda>xs. take k (sort xs)) xss) @ ys"] by simp
  also have "\<dots> = take k (sort (concat xss @ ys @ xs))" by (rule Cons.IH)
  also have "\<dots> = take k (sort (concat (xs # xss) @ ys))" using c[of xs "concat xss @ ys"] by simp
  finally show ?case .
qed simp

lemma map_sort_key: "map f (sort_key f xs) = sort (map f xs)"
  by (metis mset_map mset_sort properties_for_sort sorted_sort_key)

lemma sort_map_mono:
  fixes g :: "'a::linorder \<Rightarrow> 'b::linorder"
  assumes "mono g"
  shows "sort (map g xs) = map g (sort xs)"
proof (rule properties_for_sort)
  show "sorted (map g (sort xs))"
    unfolding sorted_map by (rule sorted_wrt_mono_rel[OF _ sorted_sort]) (use assms in \<open>auto dest: monoD\<close>)
qed simp

subsection \<open>One node\<close>

type_synonym hit_rank = "rat \<times> string \<times> string"

definition rank_of :: "string \<Rightarrow> search_hit \<Rightarrow> hit_rank" where
  "rank_of node h = (- sh_score h, node, sh_path h)"

definition merged_rank :: "merged_hit \<Rightarrow> hit_rank" where
  "merged_rank h = (- mh_score h, mh_node h, mh_path h)"

lemma rank_of_best: "map (rank_of node) (take k (sort_key hit_key hs)) = take k (sort (map (rank_of node) hs))"
proof -
  let ?g = "\<lambda>(a :: rat, b :: string). (a, node, b)"
  have g: "rank_of node = ?g \<circ> hit_key" by (auto simp: rank_of_def hit_key_def)
  have m: "mono ?g" by (auto simp: mono_def less_eq_prod_def)
  have "map (rank_of node) (sort_key hit_key hs) = map ?g (sort (map hit_key hs))"
    by (simp add: g map_sort_key[symmetric])
  also have "\<dots> = sort (map (rank_of node) hs)" by (simp add: g sort_map_mono[OF m, symmetric])
  finally show ?thesis by (simp add: take_map[symmetric])
qed

definition node_hits :: "rat list \<Rightarrow> string \<Rightarrow> int \<Rightarrow> 'e file_index \<Rightarrow> search_hit list" where
  "node_hits u q n idx = take (nat n) (sort_key hit_key (map (hit_of u (remdups (tokenize (py_strip q)))) (fi_documents idx)))"

lemma index_search_best:
  assumes "index_ok idx" "fi_indexed_at idx \<noteq> None" "py_strip q \<noteq> []" "1 \<le> n" "n \<le> 20"
    and "fi_documents idx \<noteq> [] \<Longrightarrow> embedq (fi_embedder idx) (py_strip q) = (Inr v, e)
      \<and> length v = fi_embedding_dimensions idx \<and> normalise sqroot v = Inr u"
  shows "index_search embedq sqroot idx q n = Inr (map hit_dict (node_hits u q n idx))"
proof (cases "fi_documents idx = []")
  case True
  then show ?thesis using assms(2-5)
    by (auto simp: index_search_def search_index_def node_hits_def rmap_def MAX_RESULT_LIMIT_def Let_def)
next
  case False
  then show ?thesis
    using search_index_result[OF assms(1,3,4) _ False, of embedq v e sqroot u] assms(5) assms(6)[OF False]
    by (simp add: index_search_def node_hits_def rmap_def MAX_RESULT_LIMIT_def)
qed

lemma hit_entries: "rmapM (\<lambda>hit. rbind (dict_get hit ''path'') (\<lambda>path.
      Inr (JObj (AList.update ''source'' (JStr (n @ CHR '':'' # json_str path)) (AList.update ''node_id'' (JStr n) hit)))))
    (map hit_dict hs) = Inr (map (hit_entry n) hs)"
  by (induction hs) (auto simp: hit_entry_def hit_dict_def dict_get_def)

definition search_payload :: "string \<Rightarrow> int \<Rightarrow> (string, json) dict" where
  "search_payload q n = [(''query'', JStr q), (''limit'', JInt n)]"

definition reply_value :: "string \<Rightarrow> string \<Rightarrow> string \<Rightarrow> job_request \<Rightarrow> search_hit list \<Rightarrow> json" where
  "reply_value node mid q rq hs = JObj [(''node_id'', JStr node), (''shard_index'', JInt (jf_shard_index (rq_fields rq))),
     (''shard_count'', JInt (jf_shard_count (rq_fields rq))), (''query'', JStr q), (''embedding_model'', JStr mid),
     (''hits'', JList (map (hit_entry node) hs))]"

lemma node_search_value:
  assumes "authenticated_agent frepr now (local_request rq) ag = Inr ()" "jf_kind (rq_fields rq) = ''search''"
    and "jf_payload (rq_fields rq) = search_payload q n" "py_strip q \<noteq> []"
    and "index_search embedq sqroot idx q n = Inr (map hit_dict hs)"
  shows "request_outcome (node_search frepr now embedq model_id sqroot idx ag rq)
    = Inr (reply_value (np_id (na_profile ag)) (model_id (fi_embedder idx)) q rq hs)"
proof -
  have l: "lj_fields (local_request rq) = rq_fields rq" by (simp add: local_request_def)
  have k: "require_kind ''search'' (local_request rq) = Inr ()" using assms(2) by (simp add: require_kind_def l)
  have "search frepr now (model_id (fi_embedder idx)) (index_search embedq sqroot idx) (local_request rq) ag
    = Inr [(''ok'', JBool True), (''result'', reply_value (np_id (na_profile ag)) (model_id (fi_embedder idx)) q rq hs)]"
    using assms(3-5) by (simp add: search_def assms(1) k l Let_def search_payload_def jget_def hit_entries
        job_reply_def dict_of_def reply_value_def)
  then show ?thesis by (simp add: node_search_def rmap_def http_answer_def request_outcome_def raise_for_status_def reply_value_def)
qed

lemma shard_contribution_reply:
  assumes "mid \<noteq> []"
  shows "\<exists>ms. shard_contribution (shard_json i node (reply_value node mid q rq hs)) = (node, [mid], ms)
    \<and> map merged_rank ms = map (rank_of node) hs"
proof -
  have "merge_hit node j (hit_entry node h) = Some \<lparr>mh_score = sh_score h, mh_node = node, mh_path = sh_path h,
      mh_json = mh_json (the (merge_hit node j (hit_entry node h)))\<rparr>" for j h
    by (simp add: merge_hit_def hit_entry_def hit_dict_def jget_def)
  then have "\<exists>ms. List.map_filter (merge_hit node j) (map (hit_entry node) hs) = ms
      \<and> map merged_rank ms = map (rank_of node) hs" for j
    by (induction hs) (auto simp: List.map_filter_simps merged_rank_def rank_of_def split: option.split, (metis merged_hit.select_convs option.inject option.distinct(1))+)
  then show ?thesis using assms
    by (simp add: shard_contribution_def shard_json_def reply_value_def jget_def)
qed

lemma request_authenticated:
  assumes "build_request frepr issued jq jb profile i k payload = Inr rq" "jb_id jb \<noteq> []"
    and "jb_kind jb = ''search''" "0 \<le> i" "1 \<le> k" "0 \<le> issued" "\<bar>now - issued\<bar> \<le> 30"
    and "na_pool_secret ag = jq_pool_secret jq"
  shows "authenticated_agent frepr now (local_request rq) ag = Inr ()
    \<and> jf_kind (rq_fields rq) = ''search'' \<and> jf_payload (rq_fields rq) = payload"
proof -
  let ?f = "\<lparr>jf_job_id = jb_id jb, jf_kind = jb_kind jb, jf_payload = payload, jf_shard_index = i,
        jf_shard_count = k, jf_issued_at = issued\<rparr>"
  obtain sig where sig: "sign_job_request frepr (jq_pool_secret jq) ?f = Inr sig" "rq_fields rq = ?f" "rq_signature rq = sig"
    using assms(1) by (auto simp: build_request_def Let_def res_simps)
  have v: "verify_job_request frepr (jq_pool_secret jq) ?f sig now = Inr True" and l: "length sig = 64"
    using sig(1) assms(7) by (auto simp: verify_job_request_def sign_job_request_def JOB_AUTH_MAX_AGE_S_def
        compare_digest_def ascii_hexdigest length_hexdigest length_hmac_sha256 split: if_splits)
  have "local_request_valid (local_request rq)"
    using assms(2-6) l sig by (simp add: local_request_valid_def local_request_def)
  then show ?thesis using v sig assms(3,8) by (simp add: authenticated_agent_def local_request_def)
qed

subsection \<open>The pool\<close>

lemma merged_reply:
  assumes "mid \<noteq> []" and "0 < n"
    and "\<And>i. i < k \<Longrightarrow> vals i = reply_value (node i) mid q (rq i) (hs i)"
    and "\<And>i. i < k \<Longrightarrow> map (rank_of (node i)) (hs i) = take (nat n) (sort (R i))"
  shows "\<exists>m ms. merge_search_results (search_payload q n) (map (\<lambda>i. shard_json i (node i) (vals i)) [0..<k]) = Inr m
    \<and> map_of m ''hits'' = Some (JList (map (\<lambda>h. JObj (mh_json h)) ms))
    \<and> map merged_rank ms = take (nat n) (sort (concat (map R [0..<k])))"
proof -
  let ?rs = "map (\<lambda>i. shard_json i (node i) (vals i)) [0..<k]"
  let ?c = "\<lambda>r. snd (snd (shard_contribution r))"
  have c: "fst (snd (shard_contribution (shard_json i (node i) (vals i)))) = [mid]"
    "map merged_rank (?c (shard_json i (node i) (vals i))) = take (nat n) (sort (R i))" if "i < k" for i
    using shard_contribution_reply[OF assms(1), of i "node i" q "rq i" "hs i"] assms(3,4)[OF that] by auto
  have "length (remdups (concat (map (\<lambda>r. fst (snd (shard_contribution r))) ?rs))) \<le> 1"
  proof -
    have sub: "set (concat (map (\<lambda>r. fst (snd (shard_contribution r))) ?rs)) \<subseteq> {mid}" using c(1) by auto
    have "card (set (concat (map (\<lambda>r. fst (snd (shard_contribution r))) ?rs))) \<le> 1"
      using card_mono[OF _ sub] by simp
    then show ?thesis by (simp only: length_remdups_card_conv)
  qed
  then obtain m where m: "merge_search_results (search_payload q n) ?rs = Inr m"
    "map_of m ''hits'' = Some (JList (map (\<lambda>h. JObj (mh_json h)) (take (search_limit (search_payload q n)) (sorted_hits ?rs))))"
    by (auto simp: merge_search_results_def Let_def)
  have l: "search_limit (search_payload q n) = nat n" using assms(2) by (simp add: search_limit_def search_payload_def)
  have "map merged_rank (sorted_hits ?rs) = sort (map merged_rank (concat (map ?c ?rs)))"
    unfolding sorted_hits_def merged_rank_def by (rule map_sort_key)
  also have "map merged_rank (concat (map ?c ?rs)) = concat (map (\<lambda>i. take (nat n) (sort (R i))) [0..<k])"
    by (auto simp: map_concat comp_def c(2) intro!: arg_cong[where f = concat])
  finally have "map merged_rank (take (nat n) (sorted_hits ?rs))
      = take (nat n) (sort (concat (map (\<lambda>xs. take (nat n) (sort xs)) (map R [0..<k]))))"
    by (simp add: take_map[symmetric] comp_def)
  also have "\<dots> = take (nat n) (sort (concat (map R [0..<k])))"
    using take_sort_concat[of "nat n" "map R [0..<k]" "[]"] by simp
  finally show ?thesis using m l by (intro exI[of _ m] exI[of _ "take (nat n) (sorted_hits ?rs)"]) simp
qed

text \<open>
  C29. A pooled search is exact. Take a search job whose shards were sent to \<open>k\<close> nodes of the same secret
  and the same embedding model, each with an index that some history of refreshes and searches built and
  a request the queue built that arrives within its thirty seconds. Then every node accepts its request
  and answers, the queue reads every answer as a result, and the merged answer ranks the documents of
  the whole pool: its hits are the first \<open>limit\<close> of all documents of all nodes by falling score, then
  node and path, although each node sent at most \<open>limit\<close> hits.
\<close>

theorem pooled_search_exact:
  assumes "py_strip q \<noteq> []" "1 \<le> n" "n \<le> 20" "jb_kind jb = ''search''" "jb_id jb \<noteq> []" "mid \<noteq> []"
    and "\<And>i. i < k \<Longrightarrow> build_request frepr (issued i) jq jb (profile i) (int i) (int k) (search_payload q n) = Inr (rq i)
      \<and> 0 \<le> issued i \<and> \<bar>now i - issued i\<bar> \<le> 30 \<and> na_pool_secret (ag i) = jq_pool_secret jq"
    and "\<And>i. i < k \<Longrightarrow> index_reach docs embedq model_id sqroot views max_files max_bytes (idx i)
      \<and> fi_indexed_at (idx i) \<noteq> None \<and> model_id (fi_embedder (idx i)) = mid"
    and "\<And>i. i < k \<Longrightarrow> fi_documents (idx i) \<noteq> [] \<Longrightarrow>
      embedq (fi_embedder (idx i)) (py_strip q) = (Inr v, e i) \<and> length v = fi_embedding_dimensions (idx i)"
    and "normalise sqroot v = Inr u"
  shows "\<exists>vals m ms. (\<forall>i < k. request_outcome (node_search frepr (now i) embedq model_id sqroot (idx i) (ag i) (rq i))
        = Inr (vals i))
    \<and> merge_search_results (search_payload q n)
        (map (\<lambda>i. shard_json i (np_id (na_profile (ag i))) (vals i)) [0..<k]) = Inr m
    \<and> map_of m ''hits'' = Some (JList (map (\<lambda>h. JObj (mh_json h)) ms))
    \<and> map merged_rank ms = take (nat n) (sort (concat (map (\<lambda>i. map (\<lambda>d.
        rank_of (np_id (na_profile (ag i))) (hit_of u (remdups (tokenize (py_strip q))) d)) (fi_documents (idx i))) [0..<k])))"
proof -
  let ?node = "\<lambda>i. np_id (na_profile (ag i))" and ?hs = "\<lambda>i. node_hits u q n (idx i)"
  let ?vals = "\<lambda>i. reply_value (?node i) mid q (rq i) (?hs i)"
  let ?R = "\<lambda>i. map (\<lambda>d. rank_of (?node i) (hit_of u (remdups (tokenize (py_strip q))) d)) (fi_documents (idx i))"
  have v: "request_outcome (node_search frepr (now i) embedq model_id sqroot (idx i) (ag i) (rq i)) = Inr (?vals i)"
    if i: "i < k" for i
  proof -
    have a: "authenticated_agent frepr (now i) (local_request (rq i)) (ag i) = Inr ()"
      "jf_kind (rq_fields (rq i)) = ''search''" "jf_payload (rq_fields (rq i)) = search_payload q n"
      using request_authenticated[of frepr "issued i" jq jb "profile i" "int i" "int k" "search_payload q n" "rq i" "now i" "ag i"]
        assms(4,5) assms(7)[OF i] i by auto
    have "index_search embedq sqroot (idx i) q n = Inr (map hit_dict (?hs i))"
      using index_search_best[of "idx i" q n embedq v "e i" sqroot u] reach_ok assms(1-3,10) assms(8,9)[OF i] by blast
    from node_search_value[OF a assms(1) this] show ?thesis using assms(8)[OF i] by simp
  qed
  have r: "map (rank_of (?node i)) (?hs i) = take (nat n) (sort (?R i))" for i
    by (simp add: node_hits_def rank_of_best comp_def)
  have "0 < n" using assms(2) by simp
  from merged_reply[where node = ?node and R = ?R and k = k and q = q and rq = rq and vals = ?vals and hs = ?hs,
      OF assms(6) this refl r]
  obtain m ms where "merge_search_results (search_payload q n) (map (\<lambda>i. shard_json i (?node i) (?vals i)) [0..<k]) = Inr m
      \<and> map_of m ''hits'' = Some (JList (map (\<lambda>h. JObj (mh_json h)) ms))
      \<and> map merged_rank ms = take (nat n) (sort (concat (map ?R [0..<k])))"
    by (elim exE)
  with v show ?thesis by (intro exI[of _ ?vals] exI[of _ m] exI[of _ ms]) simp
qed

definition search_job :: job where
  "search_job = sample_job\<lparr>jb_kind := ''search''\<rparr>"

definition pool_node :: "nat \<Rightarrow> string" where
  "pool_node i = (if i = 0 then ''a'' else ''b'')"

definition pool_agent :: "nat \<Rightarrow> node_agent" where
  "pool_agent i = sample_agent\<lparr>na_profile := sample_profile (pool_node i) ''10.0.0.1''\<rparr>"

definition pool_request :: "nat \<Rightarrow> job_request" where
  "pool_request i = projr (build_request frac_text 100 sample_queue search_job (sample_profile (pool_node i) ''10.0.0.1'')
     (int i) (int 2) (search_payload ''gpu'' 3))"

lemma sample_queue_parts: "jq_pool_secret sample_queue = ''pool''"
  "map_of (jq_endpoint_by_kind sample_queue) ''search'' \<noteq> None"
  by code_simp+

lemma pool_request_built: "build_request frac_text 100 sample_queue search_job (sample_profile (pool_node i) ''10.0.0.1'')
     (int i) (int 2) (search_payload ''gpu'' 3) = Inr (pool_request i)"
  using sample_queue_parts
  by (auto simp: pool_request_def build_request_def Let_def sign_job_request_def dict_get_def search_job_def)

lemma sample_query: "sample_ask (fi_embedder sample_index) (py_strip ''gpu'') = (Inr [3, 4], fi_embedder sample_index)"
  "py_strip ''gpu'' \<noteq> []" "normalise sample_sqroot [3, 4] = Inr [3/5, 4/5]"
  "fi_indexed_at sample_index \<noteq> None" "le_model_id (fi_embedder sample_index) = DEFAULT_EMBED_MODEL"
  by code_simp+

lemma sample_pool_ranks: "take 3 (sort (concat (map (\<lambda>i. map (\<lambda>d. rank_of (np_id (na_profile (pool_agent i)))
      (hit_of [3/5, 4/5] (remdups (tokenize (py_strip ''gpu''))) d)) (fi_documents sample_index)) [0..<2])))
    = [(-1, ''a'', ''b.txt''), (-1, ''b'', ''b.txt''), (-24/25, ''a'', ''a.md'')]"
  by code_simp

theorem pooled_search_exact_witness:
  "\<exists>vals m ms. (\<forall>i < 2. request_outcome (node_search frac_text 110 sample_ask le_model_id sample_sqroot sample_index
        (pool_agent i) (pool_request i)) = Inr (vals i))
    \<and> merge_search_results (search_payload ''gpu'' 3)
        (map (\<lambda>i. shard_json i (np_id (na_profile (pool_agent i))) (vals i)) [0..<2]) = Inr m
    \<and> map_of m ''hits'' = Some (JList (map (\<lambda>h. JObj (mh_json h)) ms))
    \<and> map merged_rank ms = [(-1, ''a'', ''b.txt''), (-1, ''b'', ''b.txt''), (-24/25, ''a'', ''a.md'')]"
proof -
  have n: "nat 3 = 3" by simp
  show ?thesis
  proof (rule pooled_search_exact[where q = "''gpu''" and n = 3 and k = 2 and jb = search_job and jq = sample_queue
      and frepr = frac_text and issued = "\<lambda>i. 100" and now = "\<lambda>i. 110" and rq = pool_request and ag = pool_agent
      and idx = "\<lambda>i. sample_index" and v = "[3, 4]" and u = "[3/5, 4/5]" and mid = DEFAULT_EMBED_MODEL
      and profile = "\<lambda>i. sample_profile (pool_node i) ''10.0.0.1''" and e = "\<lambda>i. fi_embedder sample_index",
      unfolded sample_pool_ranks n])
    show "build_request frac_text 100 sample_queue search_job (sample_profile (pool_node i) ''10.0.0.1'') (int i) (int 2)
        (search_payload ''gpu'' 3) = Inr (pool_request i) \<and> (0 :: int) \<le> 100 \<and> \<bar>110 - 100 :: int\<bar> \<le> 30
        \<and> na_pool_secret (pool_agent i) = jq_pool_secret sample_queue" for i
      using pool_request_built[of i] by (simp add: pool_agent_def sample_agent_def configure_def sample_queue_parts)
    show "index_reach sample_docs sample_ask le_model_id sample_sqroot {sample_view} 10 100 sample_index
        \<and> fi_indexed_at sample_index \<noteq> None \<and> le_model_id (fi_embedder sample_index) = DEFAULT_EMBED_MODEL"
      using sample_index_reach sample_query by blast
  qed (use sample_query sample_index_documents in \<open>auto simp: search_job_def sample_job_def DEFAULT_EMBED_MODEL_def\<close>)
qed

end
