(* ===== verification/Dynamic.thy ===== *)
theory Dynamic
  imports Json
begin

text \<open>
  Python's dynamically typed operations on parsed JSON, as the agent uses them on whatever the control
  plane and the nodes answered: \<open>x or y\<close>, \<open>x.get(k)\<close>, iteration, \<open>x[0]\<close> and membership in a set of
  texts, each with the exception an unsuitable value raises. Texts of values (\<open>str\<close>, one decimal place)
  take the text of a float as the parameter \<open>frepr\<close>; the text of a container is its JSON text, where
  Python prints single quotes, and only words messages.
\<close>

definition jor :: "json \<Rightarrow> json \<Rightarrow> json" where
  "jor x y = (if jtruthy x then x else y)"

definition jtype :: "json \<Rightarrow> string" where
  "jtype j = (case j of JNull \<Rightarrow> ''NoneType'' | JBool _ \<Rightarrow> ''bool'' | JInt _ \<Rightarrow> ''int'' | JFloat _ \<Rightarrow> ''float''
     | JStr _ \<Rightarrow> ''str'' | JList _ \<Rightarrow> ''list'' | JObj _ \<Rightarrow> ''dict'')"

definition as_object :: "json \<Rightarrow> (string, json) dict res" where
  "as_object j = (case j of JObj d \<Rightarrow> Inr d
     | _ \<Rightarrow> Inl (AttributeError (py_repr (jtype j) @ '' object has no attribute '' @ py_repr ''get'')))"

definition jattr :: "json \<Rightarrow> string \<Rightarrow> json res" where
  "jattr j k = rbind (as_object j) (\<lambda>d. Inr (jget d k))"

definition jiter :: "json \<Rightarrow> json list res" where
  "jiter j = (case j of JList xs \<Rightarrow> Inr xs | JObj d \<Rightarrow> Inr (map JStr (keys d))
     | JStr s \<Rightarrow> Inr (map (\<lambda>c. JStr [c]) s)
     | _ \<Rightarrow> Inl (TypeError (py_repr (jtype j) @ '' object is not iterable'')))"

definition jlen :: "json \<Rightarrow> nat res" where
  "jlen j = (case j of JList xs \<Rightarrow> Inr (length xs) | JObj d \<Rightarrow> Inr (length d) | JStr s \<Rightarrow> Inr (length s)
     | _ \<Rightarrow> Inl (TypeError (''object of type '' @ py_repr (jtype j) @ '' has no len()'')))"

definition jhead :: "json \<Rightarrow> json res" where
  "jhead j = (case j of
       JList (x # _) \<Rightarrow> Inr x | JList [] \<Rightarrow> Inl (IndexError ''list index out of range'')
     | JStr (c # _) \<Rightarrow> Inr (JStr [c]) | JStr [] \<Rightarrow> Inl (IndexError ''string index out of range'')
     | JObj _ \<Rightarrow> Inl (KeyError ''0'')
     | _ \<Rightarrow> Inl (TypeError (py_repr (jtype j) @ '' object is not subscriptable'')))"

text \<open>\<open>x in names\<close> hashes \<open>x\<close> first.\<close>

definition hashable :: "json \<Rightarrow> bool" where
  "hashable j = (case j of JList _ \<Rightarrow> False | JObj _ \<Rightarrow> False | _ \<Rightarrow> True)"

definition jmember :: "json \<Rightarrow> string list \<Rightarrow> bool res" where
  "jmember j names =
     (if \<not> hashable j then Inl (TypeError (''unhashable type: '' @ py_repr (jtype j)))
      else Inr (case j of JStr s \<Rightarrow> s \<in> set names | _ \<Rightarrow> False))"

definition py_str :: "(rat \<Rightarrow> string) \<Rightarrow> json \<Rightarrow> string" where
  "py_str frepr j = (case j of JStr s \<Rightarrow> s | JNull \<Rightarrow> ''None'' | JBool b \<Rightarrow> (if b then ''True'' else ''False'')
     | JInt i \<Rightarrow> str_int i | JFloat x \<Rightarrow> frepr x | _ \<Rightarrow> json_text frepr j)"

definition get_or :: "(string, json) dict \<Rightarrow> string \<Rightarrow> json \<Rightarrow> json" where
  "get_or d k v = (case map_of d k of None \<Rightarrow> v | Some x \<Rightarrow> x)"

text \<open>\<open>f"{x:.1f}"\<close>.\<close>

definition fixed1 :: "rat \<Rightarrow> string" where
  "fixed1 x = (let n = nat (py_round (\<bar>x\<bar> * 10)) in
     (if x < 0 then ''-'' else []) @ str_nat (n div 10) @ ''.'' @ str_nat (n mod 10))"

lemma as_object_Inr [res_simps]: "as_object j = Inr d \<longleftrightarrow> j = JObj d"
  by (cases j) (auto simp: as_object_def)

lemma jiter_JList [simp]: "jiter (JList xs) = Inr xs"
  by (simp add: jiter_def)

lemma jattr_JObj [simp]: "jattr (JObj d) k = Inr (jget d k)"
  by (simp add: jattr_def as_object_def)

lemma jmember_JStr [simp]: "jmember (JStr s) names = Inr (s \<in> set names)"
  by (simp add: jmember_def hashable_def)

lemma jor_JNull [simp]: "jor JNull y = y"
  by (simp add: jor_def)

end
