(* ===== verification/Agent_Client.thy ===== *)
theory Agent_Client
  imports Job_Queue Dynamic
begin

text \<open>
  The agent's HTTP transport to the control plane, \<open>agent/client.py\<close>. Each method is the function that
  turns the reply of the control plane (\<open>http_reply\<close>) into a result or a \<open>DainError\<close>; a transport error
  carries \<open>type(exc).__name__: exc\<close>. Opening and closing the \<open>httpx\<close> client are not modelled.
  \<open>submit_and_wait\<close> is given what it meets: the reply to its POST, the reply to its \<open>k\<close>-th poll, and the
  clock when the deadline is set and after each poll.
\<close>

subsection \<open>Settings\<close>

definition DEFAULT_CTL :: string where
  "DEFAULT_CTL = ''127.0.0.1:8000''"

definition DEFAULT_POLL_INTERVAL_S :: rat where
  "DEFAULT_POLL_INTERVAL_S = 1 / 4"

definition UNAVAILABLE_STATES :: "string list" where
  "UNAVAILABLE_STATES = [''joining'', ''offline'']"

definition POLL_MARGIN_S :: rat where
  "POLL_MARGIN_S = 30"

definition UNKNOWN_KIND_DEADLINE_S :: rat where
  "UNKNOWN_KIND_DEADLINE_S = 60"

definition job_deadline_s :: "string \<Rightarrow> rat" where
  "job_deadline_s kind =
     (case map_of DEFAULT_TIMEOUTS_S kind of None \<Rightarrow> UNKNOWN_KIND_DEADLINE_S | Some t \<Rightarrow> t) + POLL_MARGIN_S"

definition normalise_api_base :: "string \<Rightarrow> string res" where
  "normalise_api_base ctl =
     (let stripped = rstrip_while (\<lambda>c. c = CHR ''/'') (py_strip ctl) in
      if stripped = [] then Inl (ValueError ''control-plane address must not be empty'')
      else
        let base = (if starts_with ''http://'' stripped \<or> starts_with ''https://'' stripped then stripped
                    else ''http://'' @ stripped)
        in Inr (if ends_with ''/api'' base then base else base @ ''/api''))"

record dain_client =
  dc_ctl :: string
  dc_api_base :: string
  dc_poll_interval_s :: rat

definition new_client :: "string \<Rightarrow> rat \<Rightarrow> dain_client res" where
  "new_client ctl poll_interval_s =
     (if poll_interval_s \<le> 0 then Inl (ValueError ''poll_interval_s must be greater than zero'')
      else rbind (normalise_api_base ctl) (\<lambda>base.
        Inr \<lparr>dc_ctl = ctl, dc_api_base = base, dc_poll_interval_s = poll_interval_s\<rparr>))"

definition client_from_environment :: "(string, string) dict \<Rightarrow> dain_client res" where
  "client_from_environment env =
     (let ctl = py_strip (case map_of env ''DAIN_CTL'' of Some c \<Rightarrow> c | None \<Rightarrow> DEFAULT_CTL)
      in new_client (if ctl = [] then DEFAULT_CTL else ctl) DEFAULT_POLL_INTERVAL_S)"

subsection \<open>Replies\<close>

definition body_text :: "string \<Rightarrow> string" where
  "body_text t = (if py_strip t = [] then ''no detail'' else py_strip t)"

definition error_detail :: "string \<Rightarrow> json option \<Rightarrow> string" where
  "error_detail t body =
     (case body of
        Some (JObj d) \<Rightarrow> (case jget d ''detail'' of JNull \<Rightarrow> body_text t | v \<Rightarrow> json_str v)
      | _ \<Rightarrow> body_text t)"

definition client_request :: "dain_client \<Rightarrow> string \<Rightarrow> string \<Rightarrow> http_reply \<Rightarrow> json res" where
  "client_request dc meth path reply =
     (case reply of
        Transport_error m \<Rightarrow> Inl (DainError (''control plane at '' @ dc_ctl dc @ '' is unreachable: '' @ m))
      | Reply status t body \<Rightarrow>
          if status \<ge> 400 then
            Inl (DainError (meth @ '' '' @ path @ '' returned '' @ str_int status @ '': '' @ error_detail t body))
          else (case body of
              None \<Rightarrow> Inl (DainError (meth @ '' '' @ path @ '' returned a non-JSON body''))
            | Some j \<Rightarrow> Inr j))"

subsection \<open>Reads\<close>

definition client_nodes :: "dain_client \<Rightarrow> http_reply \<Rightarrow> json list res" where
  "client_nodes dc reply =
     rbind (client_request dc ''GET'' ''/nodes'' reply) (\<lambda>body.
       Inr (case body of JList xs \<Rightarrow> xs | _ \<Rightarrow> []))"

text \<open>The condition of the comprehension, in its order; the value kept is \<open>node["id"]\<close>.\<close>

definition node_available :: "json \<Rightarrow> bool res" where
  "node_available node =
     (case node of
        JObj d \<Rightarrow>
          if \<not> jtruthy (jget d ''id'') then Inr False
          else rbind (jmember (jget d ''state'') UNAVAILABLE_STATES) (\<lambda>b. Inr (\<not> b))
      | _ \<Rightarrow> Inr False)"

definition node_id_of :: "json \<Rightarrow> json" where
  "node_id_of node = (case node of JObj d \<Rightarrow> jget d ''id'' | _ \<Rightarrow> JNull)"

definition available_nodes :: "dain_client \<Rightarrow> http_reply \<Rightarrow> json list res" where
  "available_nodes dc reply =
     rbind (client_nodes dc reply) (\<lambda>nodes.
     rbind (rfilterM node_available nodes) (\<lambda>ns. Inr (map node_id_of ns)))"

definition client_metrics :: "dain_client \<Rightarrow> http_reply \<Rightarrow> (string, json) dict res" where
  "client_metrics dc reply =
     rbind (client_request dc ''GET'' ''/metrics'' reply) (\<lambda>body.
       Inr (case body of JObj d \<Rightarrow> d | _ \<Rightarrow> []))"

definition client_plan :: "dain_client \<Rightarrow> http_reply \<Rightarrow> json res" where
  "client_plan dc reply = client_request dc ''GET'' ''/plan'' reply"

definition client_job :: "dain_client \<Rightarrow> string \<Rightarrow> http_reply \<Rightarrow> json res" where
  "client_job dc job_id reply = client_request dc ''GET'' (''/jobs/'' @ job_id) reply"

subsection \<open>Jobs\<close>

definition submit_body :: "string \<Rightarrow> (string, json) dict \<Rightarrow> int \<Rightarrow> json \<Rightarrow> json" where
  "submit_body kind payload fanout node_id =
     JObj [(''kind'', JStr kind), (''payload'', JObj payload), (''fanout'', JInt fanout), (''node_id'', node_id)]"

record job_world =
  jw_submit :: "json \<Rightarrow> http_reply"
  jw_job :: "string \<Rightarrow> nat \<Rightarrow> http_reply"
  jw_start :: rat
  jw_now :: "nat \<Rightarrow> rat"

definition client_submit :: "dain_client \<Rightarrow> job_world \<Rightarrow> string \<Rightarrow> (string, json) dict \<Rightarrow> int \<Rightarrow> json \<Rightarrow> json res" where
  "client_submit dc w kind payload fanout node_id =
     client_request dc ''POST'' ''/jobs'' (jw_submit w (submit_body kind payload fanout node_id))"

definition still_running :: "string \<Rightarrow> string \<Rightarrow> (string, json) dict \<Rightarrow> rat \<Rightarrow> py_error" where
  "still_running kind job_id job deadline_s =
     DainError (kind @ '' job '' @ job_id @ '' was still '' @ json_str (get_or job ''status'' (JStr ''running''))
       @ '' after '' @ str_int (py_round deadline_s) @ ''s'')"

partial_function (option) wait_loop ::
  "dain_client \<Rightarrow> job_world \<Rightarrow> string \<Rightarrow> string \<Rightarrow> rat \<Rightarrow> nat \<Rightarrow> (string, json) dict res option" where
  "wait_loop dc w kind job_id deadline_s k =
     (case rbind (client_job dc job_id (jw_job w job_id k)) as_object of
        Inl e \<Rightarrow> Some (Inl e)
      | Inr job \<Rightarrow>
          (case jmember (jget job ''status'') [''done'', ''failed''] of
             Inl e \<Rightarrow> Some (Inl e)
           | Inr settled \<Rightarrow>
               if settled then Some (Inr job)
               else if jw_now w k \<ge> jw_start w + deadline_s
                 then Some (Inl (still_running kind job_id job deadline_s))
               else wait_loop dc w kind job_id deadline_s (Suc k)))"

definition submit_and_wait :: "dain_client \<Rightarrow> job_world \<Rightarrow> string \<Rightarrow> (string, json) dict \<Rightarrow> int \<Rightarrow> json
    \<Rightarrow> rat option \<Rightarrow> (string, json) dict res option" where
  "submit_and_wait dc w kind payload fanout node_id timeout_s =
     (case rbind (client_submit dc w kind payload fanout node_id) (\<lambda>job. jattr job ''id'') of
        Inl e \<Rightarrow> Some (Inl e)
      | Inr v \<Rightarrow>
          (case v of
             JStr (c # cs) \<Rightarrow>
               wait_loop dc w kind (c # cs) (case timeout_s of None \<Rightarrow> job_deadline_s kind | Some t \<Rightarrow> t) 0
           | _ \<Rightarrow> Some (Inl (DainError (''ctl accepted the '' @ kind @ '' job but returned no id'')))))"

end
