(* ===== verification/Agent_Fanout.thy ===== *)
theory Agent_Fanout
  imports Agent_Client
begin

text \<open>
  One prompt per machine, \<open>agent/fanout.py\<close>, over the operations of the client that the agent's tools
  use. \<open>dain_ops\<close> holds what those operations return during one tool call; \<open>do_wait\<close> is told which of
  the call's jobs it is, because two equal jobs may end differently. \<open>client_ops\<close> builds it from the
  client and the replies of the control plane.
\<close>

record dain_ops =
  do_nodes :: "json list res"
  do_available :: "json list res"
  do_metrics :: "(string, json) dict res"
  do_plan :: "string \<Rightarrow> int \<Rightarrow> int \<Rightarrow> json res"
  do_wait :: "nat \<Rightarrow> string \<Rightarrow> (string, json) dict \<Rightarrow> int \<Rightarrow> json \<Rightarrow> (string, json) dict res"

record client_world =
  cw_nodes :: http_reply
  cw_metrics :: http_reply
  cw_plan :: "string \<Rightarrow> int \<Rightarrow> int \<Rightarrow> http_reply"
  cw_job :: "nat \<Rightarrow> job_world"

definition client_ops :: "dain_client \<Rightarrow> client_world \<Rightarrow> dain_ops" where
  "client_ops dc w =
     \<lparr>do_nodes = client_nodes dc (cw_nodes w), do_available = available_nodes dc (cw_nodes w),
      do_metrics = client_metrics dc (cw_metrics w),
      do_plan = (\<lambda>model context slots. client_plan dc (cw_plan w model context slots)),
      do_wait = (\<lambda>i kind payload fanout node_id.
        the (submit_and_wait dc (cw_job w i) kind payload fanout node_id None))\<rparr>"

definition FANOUT_MAX_TOKENS :: int where
  "FANOUT_MAX_TOKENS = 256"

record pool_answer =
  pa_node_id :: json
  pa_prompt :: string
  pa_text :: string
  pa_tok_s :: json
  pa_error :: "string option"

definition answer_ok :: "pool_answer \<Rightarrow> bool" where
  "answer_ok a \<longleftrightarrow> pa_error a = None"

definition failed_answer :: "json \<Rightarrow> string \<Rightarrow> string \<Rightarrow> pool_answer" where
  "failed_answer node prompt m =
     \<lparr>pa_node_id = node, pa_prompt = prompt, pa_text = [], pa_tok_s = JNull, pa_error = Some m\<rparr>"

definition first_shard_result :: "(string, json) dict \<Rightarrow> (string, json) dict res" where
  "first_shard_result job =
     rbind (jattr (jor (jget job ''result'') (JObj [])) ''shards'') (\<lambda>s.
       let shards = jor s (JList []) in
       if \<not> jtruthy shards then Inr []
       else rbind (jhead shards) (\<lambda>x.
         Inr (case x of
                JObj shard \<Rightarrow> (case jget shard ''result'' of JObj inner \<Rightarrow> inner | _ \<Rightarrow> [])
              | _ \<Rightarrow> [])))"

fun first_error :: "json list \<Rightarrow> string option" where
  "first_error [] = None"
| "first_error (e # es) =
     (case e of
        JObj d \<Rightarrow> if jtruthy (jget d ''error'') then Some (json_str (jget d ''error'')) else first_error es
      | _ \<Rightarrow> first_error es)"

definition shard_error :: "(string, json) dict \<Rightarrow> string res" where
  "shard_error job =
     rbind (jattr (jor (jget job ''result'') (JObj [])) ''errors'') (\<lambda>es.
     rbind (jiter (jor es (JList []))) (\<lambda>errors.
       Inr (case first_error errors of
              Some m \<Rightarrow> m
            | None \<Rightarrow> ''job '' @ json_str (get_or job ''id'' (JStr ''?'')) @ '' ''
                @ json_str (get_or job ''status'' (JStr ''failed'')) @ '' without a reason'')))"

definition ask_one :: "dain_ops \<Rightarrow> nat \<Rightarrow> json \<Rightarrow> string \<Rightarrow> int \<Rightarrow> pool_answer res" where
  "ask_one ops i node_id prompt max_tokens =
     (case do_wait ops i ''infer'' [(''prompt'', JStr prompt), (''max_tokens'', JInt max_tokens)] 1 node_id of
        Inl (DainError m) \<Rightarrow> Inr (failed_answer node_id prompt m)
      | Inl e \<Rightarrow> Inl e
      | Inr job \<Rightarrow>
          if jget job ''status'' \<noteq> JStr ''done''
          then rbind (shard_error job) (\<lambda>m. Inr (failed_answer node_id prompt m))
          else rbind (first_shard_result job) (\<lambda>payload.
            Inr \<lparr>pa_node_id = node_id, pa_prompt = prompt,
                 pa_text = json_str (jor (jget payload ''text'') (JStr [])),
                 pa_tok_s = (if jnumber (jget payload ''tok_s'') \<noteq> None then jget payload ''tok_s'' else JNull),
                 pa_error = None\<rparr>))"

definition no_nodes_reason :: string where
  "no_nodes_reason = ''no nodes are available to answer; the pool is empty or all offline''"

text \<open>\<open>ask_pool\<close>: the jobs run at once and are gathered in the order of the prompts.\<close>

definition run_pool :: "dain_ops \<Rightarrow> string list \<Rightarrow> int \<Rightarrow> pool_answer list res" where
  "run_pool ops prompts max_tokens =
     (if prompts = [] then Inr []
      else case do_available ops of
        Inl (DainError m) \<Rightarrow> Inr (map (\<lambda>p. failed_answer (JStr []) p m) prompts)
      | Inl e \<Rightarrow> Inl e
      | Inr nodes \<Rightarrow>
          if nodes = [] then Inr (map (\<lambda>p. failed_answer (JStr []) p no_nodes_reason) prompts)
          else rmapM (\<lambda>(i, p). ask_one ops i (nodes ! (i mod length nodes)) p max_tokens)
                 (zip [0 ..< length prompts] prompts))"

end
