(* ===== verification/Agent_Tools.thy ===== *)
theory Agent_Tools
  imports Agent_Fanout Sandbox Model_Spec
begin

text \<open>
  The tools the language model is given, \<open>agent/tools.py\<close>: their schemas, what each does with its
  arguments and what the control plane answers, and \<open>call_tool\<close>, which turns every failure into text.
  A tool is a function from the client's operations (\<open>dain_ops\<close>) and the arguments to text or an
  exception. \<open>frepr\<close> is the text of a float.
\<close>

subsection \<open>Texts\<close>

definition MIB_PER_GIB :: rat where
  "MIB_PER_GIB = 1024"

definition DEFAULT_SEARCH_LIMIT :: int where
  "DEFAULT_SEARCH_LIMIT = 5"

definition MAX_FANOUT :: int where
  "MAX_FANOUT = 16"

definition ALLOWED_PROGRAMS :: string where
  "ALLOWED_PROGRAMS = str_join '', '' (sort DEFAULT_ALLOWLIST)"

definition gib :: "json \<Rightarrow> string" where
  "gib mib = (case mib of JInt i \<Rightarrow> fixed1 (of_int i / MIB_PER_GIB) @ ''GiB''
     | JFloat x \<Rightarrow> fixed1 (x / MIB_PER_GIB) @ ''GiB'' | _ \<Rightarrow> ''unknown'')"

text \<open>
  One line per node. \<open>metric\<close> is the node's telemetry sample, \<open>[]\<close> when there is none; an empty sample
  is as good as none to the code too.
\<close>

definition node_line :: "(rat \<Rightarrow> string) \<Rightarrow> (string, json) dict \<Rightarrow> (string, json) dict \<Rightarrow> string" where
  "node_line frepr profile metric =
     (let txt = (\<lambda>d k. py_str frepr (get_or d k (JStr ''unknown'')));
          live = (metric \<noteq> []);
          ram_free = (if live then jget metric ''ram_free_mb'' else jget profile ''ram_free_mb'');
          vram_total = jor (jget profile ''vram_total_mb'') (JInt 0);
          vram_free = (if live then jget metric ''vram_free_mb'' else JNull);
          decode = jget profile ''tg_tok_s''
      in txt profile ''id'' @ '': '' @ str_join '' ''
        ([''state='' @ txt profile ''state'', ''backend='' @ txt profile ''backend'',
          ''cores='' @ txt profile ''cores'',
          ''ram_free='' @ gib ram_free @ ''/'' @ gib (jget profile ''ram_total_mb'')]
         @ [if jtruthy vram_total
            then ''vram_free='' @ (if vram_free \<noteq> JNull then gib vram_free else ''unknown'') @ ''/'' @ gib vram_total
            else ''vram=none'']
         @ (if live then [''cpu='' @ txt metric ''cpu_percent'' @ ''%''] else [])
         @ (if live \<and> jget metric ''gpu_percent'' \<noteq> JNull
            then [''gpu='' @ py_str frepr (jget metric ''gpu_percent'') @ ''%''] else [])
         @ [case jnumber decode of
              Some x \<Rightarrow> if x > 0 then ''decode='' @ py_str frepr decode @ ''tok/s'' else ''decode=uncalibrated''
            | None \<Rightarrow> ''decode=uncalibrated'']
         @ [if live then ''jobs_running='' @ py_str frepr (get_or metric ''jobs_running'' (JInt 0))
            else ''(no live telemetry; figures are from join time)'']))"

subsection \<open>cluster_status\<close>

text \<open>The dict comprehension over the samples hashes every node id it meets.\<close>

definition metric_samples :: "json list \<Rightarrow> (json \<times> (string, json) dict) list res" where
  "metric_samples samples =
     rbind (rmapM (\<lambda>s. case s of
         JObj d \<Rightarrow> (case map_of d ''node_id'' of
             None \<Rightarrow> Inr []
           | Some n \<Rightarrow> rbind (jmember n []) (\<lambda>_. Inr [(n, d)]))
       | _ \<Rightarrow> Inr []) samples) (\<lambda>parts. Inr (concat parts))"

definition sample_for :: "(json, (string, json) dict) dict \<Rightarrow> (string, json) dict \<Rightarrow> (string, json) dict res" where
  "sample_for by_node p =
     rbind (jmember (jget p ''id'') []) (\<lambda>_.
       Inr (case map_of by_node (jget p ''id'') of None \<Rightarrow> [] | Some d \<Rightarrow> d))"

fun count_states :: "string list \<Rightarrow> (string, int) dict \<Rightarrow> (string, int) dict" where
  "count_states [] d = d"
| "count_states (s # ss) d =
     count_states ss (AList.update s ((case map_of d s of None \<Rightarrow> 0 | Some n \<Rightarrow> n) + 1) d)"

definition newline_text :: string where
  "newline_text = [CHR 0x0A]"

definition cluster_status :: "(rat \<Rightarrow> string) \<Rightarrow> dain_ops \<Rightarrow> string res" where
  "cluster_status frepr ops =
     rbind (do_nodes ops) (\<lambda>nodes. rbind (do_metrics ops) (\<lambda>metrics.
     if nodes = [] then Inr (''The pool has no nodes registered. Either no node agent has joined ''
         @ ''yet, or ctl was restarted (its registry is in memory).'')
     else
       rbind (jiter (get_or metrics ''nodes'' (JList []))) (\<lambda>samples.
       rbind (metric_samples samples) (\<lambda>pairs.
       rbind (rmapM as_object nodes) (\<lambda>profiles.
       let states = count_states (map (\<lambda>p. py_str frepr (get_or p ''state'' (JStr ''unknown''))) profiles) [];
           summary = str_join '', '' (map (\<lambda>(s, n). str_int n @ '' '' @ s) (sort_key fst states))
       in rbind (rmapM (\<lambda>p. rbind (sample_for (dict_of pairs) p) (\<lambda>m. Inr (node_line frepr p m))) profiles) (\<lambda>rows.
         let errors = (case jget metrics ''errors'' of JObj d \<Rightarrow> d | _ \<Rightarrow> [])
         in Inr (str_join newline_text
              ([str_int (int (length nodes)) @ '' node(s) registered: '' @ summary @ ''.'', []]
               @ rows
               @ (if errors = [] then []
                  else [[], ''Telemetry scrape errors:'']
                    @ map (\<lambda>(n, r). ''  '' @ n @ '': '' @ py_str frepr r) errors)))))))))"

subsection \<open>plan_placement\<close>

text \<open>\<open>int(x)\<close>: \<open>None\<close> for the \<open>TypeError\<close> or \<open>ValueError\<close>, which the caller answers alike.\<close>

definition int_argument :: "json \<Rightarrow> int option" where
  "int_argument j = (case j of JInt i \<Rightarrow> Some i | JBool b \<Rightarrow> Some (if b then 1 else 0) | JFloat x \<Rightarrow> Some (py_int x)
     | JStr s \<Rightarrow> py_int_of_text s | _ \<Rightarrow> None)"

definition valid_model_keys :: "string list \<Rightarrow> string" where
  "valid_model_keys models = ''Valid model keys are: '' @ str_join '', '' models"

definition placement_text :: "(rat \<Rightarrow> string) \<Rightarrow> (string, json) dict \<Rightarrow> string" where
  "placement_text frepr layers =
     str_join '', '' (concat (map (\<lambda>(n, bounds). case bounds of
         JList [a, b] \<Rightarrow> [n @ '' layers '' @ py_str frepr a @ ''-'' @ py_str frepr b] | _ \<Rightarrow> []) layers))"

definition plan_text :: "(rat \<Rightarrow> string) \<Rightarrow> string \<Rightarrow> json \<Rightarrow> string res" where
  "plan_text frepr model answer =
     rbind (as_object answer) (\<lambda>p.
     rbind (case jor (jget p ''layers'') (JObj []) of JObj d \<Rightarrow> Inr d
            | j \<Rightarrow> Inl (AttributeError (py_repr (jtype j) @ '' object has no attribute '' @ py_repr ''items''))) (\<lambda>layers.
       let placement = placement_text frepr layers
       in Inr (''Plan for '' @ py_str frepr (get_or p ''model_id'' (JStr model)) @ '': ''
            @ (if placement = [] then ''no layers assigned'' else placement) @ ''.'' @ newline_text
            @ ''Predicted throughput '' @ py_str frepr (get_or p ''predicted_tok_s'' (JStr ''unknown'')) @ '' tok/s.''
            @ newline_text @ ''Reasoning: '' @ py_str frepr (get_or p ''rationale'' (JStr ''none given'')))))"

text \<open>
  \<open>models\<close> is \<open>known_models()\<close>: importing the module has called it once, so the ladder is cached and it
  no longer raises.
\<close>

definition plan_placement :: "(rat \<Rightarrow> string) \<Rightarrow> string list \<Rightarrow> dain_ops \<Rightarrow> (string, json) dict \<Rightarrow> string res" where
  "plan_placement frepr models ops arguments =
     (let whole = ''plan_placement needs '' @ py_repr ''context'' @ '' and '' @ py_repr ''slots'' @ '' to be whole numbers.'';
          model = (case jget arguments ''model'' of JStr m \<Rightarrow> m | _ \<Rightarrow> [])
      in if py_strip model = [] then
           Inr (''plan_placement needs a '' @ py_repr ''model'' @ '' argument. '' @ valid_model_keys models)
         else
           (case (int_argument (get_or arguments ''context'' (JInt 8192)), int_argument (get_or arguments ''slots'' (JInt 1))) of
              (Some context, Some slots) \<Rightarrow>
                (case do_plan ops (py_strip model) context slots of
                   Inl e \<Rightarrow>
                     (case e of
                        DainError m \<Rightarrow> Inr (if py_in ''404'' m then m @ newline_text @ valid_model_keys models else m)
                      | TypeError m \<Rightarrow> Inr whole
                      | ValueError m \<Rightarrow> Inr whole
                      | _ \<Rightarrow> Inl e)
                 | Inr answer \<Rightarrow> plan_text frepr model answer)
            | _ \<Rightarrow> Inr whole))"

subsection \<open>search_files\<close>

definition job_errors :: "(string, json) dict \<Rightarrow> string list res" where
  "job_errors job =
     rbind (jattr (jor (jget job ''result'') (JObj [])) ''errors'') (\<lambda>es.
     rbind (jiter (jor es (JList []))) (\<lambda>entries.
       Inr (concat (map (\<lambda>e. case e of
           JObj d \<Rightarrow> (if jtruthy (jget d ''error'') then [json_str (jget d ''error'')] else [])
         | _ \<Rightarrow> []) entries))))"

definition hit_line :: "(rat \<Rightarrow> string) \<Rightarrow> (string, json) dict \<Rightarrow> string res" where
  "hit_line frepr hit =
     (case jor (jget hit ''snippet'') (JStr []) of
        JStr snippet \<Rightarrow>
          Inr (''  '' @ py_str frepr (get_or hit ''source'' (JStr ''unknown'')) @ '' (score ''
            @ py_str frepr (get_or hit ''score'' (JStr ''?'')) @ ''): '' @ take 200 (py_strip snippet))
      | j \<Rightarrow> Inl (AttributeError (py_repr (jtype j) @ '' object has no attribute '' @ py_repr ''strip'')))"

definition hit_lines :: "(rat \<Rightarrow> string) \<Rightarrow> json list \<Rightarrow> string list res" where
  "hit_lines frepr hits =
     rbind (rmapM (\<lambda>h. case h of JObj d \<Rightarrow> rbind (hit_line frepr d) (\<lambda>l. Inr [l]) | _ \<Rightarrow> Inr []) hits)
       (\<lambda>ls. Inr (concat ls))"

definition search_text :: "(rat \<Rightarrow> string) \<Rightarrow> string \<Rightarrow> (string, json) dict \<Rightarrow> string res" where
  "search_text frepr query job =
     (let result = jor (jget job ''result'') (JObj []) in
      rbind (jattr result ''hits'') (\<lambda>h. rbind (jattr result ''nodes_searched'') (\<lambda>s.
      let hits = jor h (JList []); searched = jor s (JList []) in
      rbind (job_errors job) (\<lambda>errors.
      rbind (if jtruthy hits
             then rbind (jlen hits) (\<lambda>n. rbind (jlen searched) (\<lambda>m. rbind (jiter hits) (\<lambda>hs.
                    rbind (hit_lines frepr hs) (\<lambda>ls.
                      Inr ((str_int (int n) @ '' hit(s) across '' @ str_int (int m) @ '' node(s):'') # ls)))))
             else Inr [''No files matched '' @ py_repr query @ ''.'']) (\<lambda>body.
        Inr (str_join newline_text (body @ (if errors = [] then []
          else [[], ''Some nodes could not search:''] @ map (\<lambda>e. ''  '' @ e) errors))))))))"

definition tool_search_limit :: "json \<Rightarrow> int" where
  "tool_search_limit v = (case v of JInt i \<Rightarrow> if i < 1 then DEFAULT_SEARCH_LIMIT else i | _ \<Rightarrow> DEFAULT_SEARCH_LIMIT)"

definition search_files :: "(rat \<Rightarrow> string) \<Rightarrow> dain_ops \<Rightarrow> (string, json) dict \<Rightarrow> string res" where
  "search_files frepr ops arguments =
     (let query = (case jget arguments ''query'' of JStr q \<Rightarrow> py_strip q | _ \<Rightarrow> []) in
      if query = [] then Inr (''search_files needs a '' @ py_repr ''query'' @ '' argument: the text to search for.'')
      else
        rbind (do_available ops) (\<lambda>nodes.
        if nodes = [] then Inr ''No nodes are available to search.''
        else
          rbind (do_wait ops 0 ''search''
                   [(''query'', JStr query),
                    (''limit'', JInt (tool_search_limit (get_or arguments ''limit'' (JInt DEFAULT_SEARCH_LIMIT))))]
                   (min (int (length nodes)) MAX_FANOUT) JNull)
            (search_text frepr query)))"

subsection \<open>run_command\<close>

definition strings_of :: "json list \<Rightarrow> string list option" where
  "strings_of vs = (if list_all (\<lambda>v. case v of JStr _ \<Rightarrow> True | _ \<Rightarrow> False) vs then Some (map json_str vs) else None)"

text \<open>\<open>(x or "").strip()\<close>.\<close>

definition strip_of :: "json \<Rightarrow> string res" where
  "strip_of v = (case jor v (JStr []) of JStr s \<Rightarrow> Inr (py_strip s)
     | j \<Rightarrow> Inl (AttributeError (py_repr (jtype j) @ '' object has no attribute '' @ py_repr ''strip'')))"

definition command_text :: "(rat \<Rightarrow> string) \<Rightarrow> (string, json) dict \<Rightarrow> string res" where
  "command_text frepr job =
     rbind (job_errors job) (\<lambda>errors.
     if errors \<noteq> [] then Inr (''The command failed: '' @ hd errors)
     else
       rbind (jattr (jor (jget job ''result'') (JObj [])) ''shards'') (\<lambda>s.
       let shards = jor s (JList []) in
       rbind (if jtruthy shards then jhead shards else Inr JNull) (\<lambda>first_shard.
       case first_shard of
         JObj shard \<Rightarrow>
           rbind (as_object (jor (jget shard ''result'') (JObj []))) (\<lambda>outcome.
           rbind (strip_of (jget outcome ''stdout'')) (\<lambda>out.
           rbind (strip_of (jget outcome ''stderr'')) (\<lambda>err.
             Inr (str_join newline_text
               ([''Ran on '' @ py_str frepr (get_or shard ''node_id'' (JStr ''an unknown node'')) @ '', exit ''
                  @ py_str frepr (get_or outcome ''exit_code'' (JStr ''?'')) @ ''.'']
                @ (if out = [] then [] else [out])
                @ (if err = [] then [] else [''stderr: '' @ err])
                @ (if jtruthy (jget outcome ''timed_out'') then [''The command hit its timeout and was killed.''] else []))))))
       | _ \<Rightarrow> Inr ''The command returned no output.'')))"

definition argv_of :: "json \<Rightarrow> string list option" where
  "argv_of v = (case v of JList (x # xs) \<Rightarrow> strings_of (x # xs) | _ \<Rightarrow> None)"

definition run_command :: "(rat \<Rightarrow> string) \<Rightarrow> dain_ops \<Rightarrow> (string, json) dict \<Rightarrow> string res" where
  "run_command frepr ops arguments =
     (case argv_of (jget arguments ''argv'') of
        None \<Rightarrow> Inr (''run_command needs '' @ py_repr ''argv'' @ '': a list of strings, the program first. ''
                 @ ''Allowed programs: '' @ ALLOWED_PROGRAMS @ ''.'')
      | Some argv \<Rightarrow>
          if hd argv \<notin> set DEFAULT_ALLOWLIST then
            Inr (py_repr (hd argv) @ '' is not on the sandbox allowlist, so it will not run. ''
                 @ ''Allowed programs: '' @ ALLOWED_PROGRAMS @ ''.'')
          else
            rbind (do_wait ops 0 ''exec'' [(''argv'', JList (map JStr argv))] 1
                     (case jget arguments ''node'' of
                        JStr node \<Rightarrow> if py_strip node = [] then JNull else JStr node
                      | _ \<Rightarrow> JNull))
              (command_text frepr))"

subsection \<open>ask_pool\<close>

definition answer_text :: "(rat \<Rightarrow> string) \<Rightarrow> pool_answer \<Rightarrow> string" where
  "answer_text frepr a =
     (case pa_error a of
        None \<Rightarrow> ''['' @ py_str frepr (pa_node_id a)
          @ (if jtruthy (pa_tok_s a) then '' at '' @ py_str frepr (pa_tok_s a) @ '' tok/s'' else []) @ ''] ''
          @ py_strip (pa_text a)
      | Some m \<Rightarrow> ''['' @ py_str frepr (jor (pa_node_id a) (JStr ''the pool'')) @ ''] failed: '' @ m)"

definition prompts_of :: "json list \<Rightarrow> string list option" where
  "prompts_of vs = (case strings_of vs of
       Some ps \<Rightarrow> if list_all (\<lambda>p. py_strip p \<noteq> []) ps then Some (map py_strip ps) else None
     | None \<Rightarrow> None)"

definition ask_pool :: "(rat \<Rightarrow> string) \<Rightarrow> dain_ops \<Rightarrow> (string, json) dict \<Rightarrow> string res" where
  "ask_pool frepr ops arguments =
     (case jget arguments ''prompts'' of
        JList (v # vs) \<Rightarrow>
          (case prompts_of (v # vs) of
             None \<Rightarrow> Inr (''Every entry in '' @ py_repr ''prompts'' @ '' must be a non-empty string.'')
           | Some prompts \<Rightarrow>
               rbind (run_pool ops prompts FANOUT_MAX_TOKENS) (\<lambda>answers.
                 Inr (str_join (newline_text @ newline_text) (map (answer_text frepr) answers))))
      | _ \<Rightarrow> Inr (''ask_pool needs '' @ py_repr ''prompts'' @ '': a list of strings, one task per entry.''))"

subsection \<open>The table of tools\<close>

text \<open>The dash of a description stands at its code page 1252 place.\<close>

definition cluster_status_description :: string where
  "cluster_status_description =
     ''Live state of every machine in the pool: free RAM and VRAM, CPU and GPU load, ''
     @ ''measured decode speed, and how many jobs each is running. Use this for any question ''
     @ ''about what the cluster has, what it is doing, or which machine is best for ''
     @ ''something. The figures are measured now, not estimated.''"

definition cluster_status_parameters :: "json" where
  "cluster_status_parameters =
     JObj [(''type'', JStr ''object''),
      (''properties'', JObj []),
      (''required'', JList [])]"

definition plan_placement_description :: string where
  "plan_placement_description =
     ''Ask the scheduler how it would split a model across the pool: which layers land on ''
     @ ''which machine, and the predicted throughput. Use this for ''
     @ [CHR 0x27]
     @ ''could we run X''
     @ [CHR 0x27]
     @ '' or ''
     @ [CHR 0x27]
     @ ''how would X be split''
     @ [CHR 0x27]
     @ '' questions. This plans only; it does not start anything.''"

definition plan_placement_parameters :: "string list \<Rightarrow> json" where
  "plan_placement_parameters models =
     JObj [(''type'', JStr ''object''),
      (''properties'', JObj [(''model'', JObj [(''type'', JStr ''string''), (''description'', JStr ''Model key from models.toml.''), (''enum'', JList (map JStr models))]), (''context'', JObj [(''type'', JStr ''integer''), (''description'', JStr ''Context length in tokens. Default 8192.'')]), (''slots'', JObj [(''type'', JStr ''integer''), (''description'', JStr ''Concurrent sessions to size the KV cache for. Default 1.'')])]),
      (''required'', JList [JStr ''model''])]"

definition search_files_description :: string where
  "search_files_description =
     ''Search the files on every machine in the pool at once, by meaning rather than exact ''
     @ ''wording. Each machine searches its own disk and the results are merged, so hits are ''
     @ ''labelled node:path. Use this to find documents, notes or code anywhere in the pool.''"

definition search_files_parameters :: "json" where
  "search_files_parameters =
     JObj [(''type'', JStr ''object''),
      (''properties'', JObj [(''query'', JObj [(''type'', JStr ''string''), (''description'', JStr ''What to look for, in plain language.'')]), (''limit'', JObj [(''type'', JStr ''integer''), (''description'', JStr ''Maximum hits to return. Default 5.'')])]),
      (''required'', JList [JStr ''query''])]"

definition run_command_description :: string where
  "run_command_description =
     ''Run a read-only shell command on one machine, sandboxed. Only these programs are ''
     @ ''permitted: ''
     @ ALLOWED_PROGRAMS
     @ ''. Nothing that writes files, opens a network connection, or starts another program ''
     @ ''will run. Name a machine with ''
     @ [CHR 0x27]
     @ ''node''
     @ [CHR 0x27]
     @ '', or omit it and the least busy one is chosen.''"

definition run_command_parameters :: "json" where
  "run_command_parameters =
     JObj [(''type'', JStr ''object''),
      (''properties'', JObj [(''argv'', JObj [(''type'', JStr ''array''), (''items'', JObj [(''type'', JStr ''string'')]), (''description'', JStr ''Command and arguments, program first.'')]), (''node'', JObj [(''type'', JStr ''string''), (''description'', JStr ''Node id to run on. Optional.'')])]),
      (''required'', JList [JStr ''argv''])]"

definition ask_pool_description :: string where
  "ask_pool_description =
     ''Send several independent prompts to several machines at once, one prompt per ''
     @ ''machine, and get every answer back. Use this to split a job into parts that do not ''
     @ ''depend on each other. Do not use it for a single question ''
     @ [CHR 0x97]
     @ '' answer that yourself.''"

definition ask_pool_parameters :: "json" where
  "ask_pool_parameters =
     JObj [(''type'', JStr ''object''),
      (''properties'', JObj [(''prompts'', JObj [(''type'', JStr ''array''), (''items'', JObj [(''type'', JStr ''string'')]), (''description'', JStr ''One self-contained task per entry.'')])]),
      (''required'', JList [JStr ''prompts''])]"

record tool =
  tl_name :: string
  tl_description :: string
  tl_parameters :: json
  tl_run :: "dain_ops \<Rightarrow> (string, json) dict \<Rightarrow> string res"

definition tool_schema :: "tool \<Rightarrow> json" where
  "tool_schema t = JObj [(''type'', JStr ''function''),
     (''function'', JObj [(''name'', JStr (tl_name t)), (''description'', JStr (tl_description t)),
        (''parameters'', tl_parameters t)])]"

definition TOOLS :: "(rat \<Rightarrow> string) \<Rightarrow> string list \<Rightarrow> tool list" where
  "TOOLS frepr models =
     [\<lparr>tl_name = ''cluster_status'', tl_description = cluster_status_description,
       tl_parameters = cluster_status_parameters, tl_run = (\<lambda>ops args. cluster_status frepr ops)\<rparr>,
      \<lparr>tl_name = ''plan_placement'', tl_description = plan_placement_description,
       tl_parameters = plan_placement_parameters models, tl_run = plan_placement frepr models\<rparr>,
      \<lparr>tl_name = ''search_files'', tl_description = search_files_description,
       tl_parameters = search_files_parameters, tl_run = search_files frepr\<rparr>,
      \<lparr>tl_name = ''run_command'', tl_description = run_command_description,
       tl_parameters = run_command_parameters, tl_run = run_command frepr\<rparr>,
      \<lparr>tl_name = ''ask_pool'', tl_description = ask_pool_description,
       tl_parameters = ask_pool_parameters, tl_run = ask_pool frepr\<rparr>]"

definition tool_schemas :: "(rat \<Rightarrow> string) \<Rightarrow> string list \<Rightarrow> json list" where
  "tool_schemas frepr models = map tool_schema (TOOLS frepr models)"

definition tool_named :: "(rat \<Rightarrow> string) \<Rightarrow> string list \<Rightarrow> string \<Rightarrow> tool option" where
  "tool_named frepr models name = find (\<lambda>t. tl_name t = name) (TOOLS frepr models)"

text \<open>\<open>call_tool\<close>: every exception but a cancellation becomes text.\<close>

definition call_tool :: "(rat \<Rightarrow> string) \<Rightarrow> string list \<Rightarrow> dain_ops \<Rightarrow> string \<Rightarrow> (string, json) dict \<Rightarrow> string" where
  "call_tool frepr models ops name arguments =
     (case tool_named frepr models name of
        None \<Rightarrow> ''There is no tool called '' @ py_repr name @ ''. Available tools: ''
          @ str_join '', '' (sort (map tl_name (TOOLS frepr models)))
      | Some t \<Rightarrow>
          (case tl_run t ops arguments of
             Inr answer \<Rightarrow> answer
           | Inl (DainError m) \<Rightarrow> m
           | Inl e \<Rightarrow> ''The '' @ name @ '' tool failed unexpectedly: '' @ err_name e @ '': '' @ err_text e))"

text \<open>
  Whether the tool reaches its first request to the control plane: a call that does not is answered
  without giving up the event loop.
\<close>

definition tool_requests :: "string \<Rightarrow> (string, json) dict \<Rightarrow> bool" where
  "tool_requests name arguments \<longleftrightarrow>
     name = ''cluster_status''
     \<or> name = ''plan_placement'' \<and> (case jget arguments ''model'' of JStr m \<Rightarrow> py_strip m \<noteq> [] | _ \<Rightarrow> False)
        \<and> int_argument (get_or arguments ''context'' (JInt 8192)) \<noteq> None \<and> int_argument (get_or arguments ''slots'' (JInt 1)) \<noteq> None
     \<or> name = ''search_files'' \<and> (case jget arguments ''query'' of JStr q \<Rightarrow> py_strip q \<noteq> [] | _ \<Rightarrow> False)
     \<or> name = ''run_command'' \<and> (case argv_of (jget arguments ''argv'') of
         Some argv \<Rightarrow> hd argv \<in> set DEFAULT_ALLOWLIST | None \<Rightarrow> False)
     \<or> name = ''ask_pool'' \<and> (case jget arguments ''prompts'' of
         JList (v # vs) \<Rightarrow> prompts_of (v # vs) \<noteq> None | _ \<Rightarrow> False)"

end
