(* ===== verification/Agent_Loop.thy ===== *)
theory Agent_Loop
  imports Agent_Tools
begin

text \<open>
  The conversation loop, \<open>agent/loop.py\<close>: \<open>Agent.ask\<close>, \<open>_complete\<close> and \<open>_dispatch\<close>.

  Parameters: \<open>llm\<close> is what the OpenAI client returns for the \<open>n\<close>-th request of one \<open>ask\<close>, given the
  messages and the tool schemas; \<open>loads\<close> is \<open>json.loads\<close> (\<open>None\<close> for its \<open>ValueError\<close>); \<open>world k\<close> is what
  the \<open>k\<close>-th tool call meets at the control plane; \<open>order k\<close> is the order in which the calls of the
  batch starting with call \<open>k\<close> finish, among those that had to wait. A message of the model is typed as
  the client returns it: an optional text and tool calls with an id, a name and the arguments' text.
\<close>

subsection \<open>Messages\<close>

record tool_request =
  tr_id :: string
  tr_name :: string
  tr_arguments :: string

datatype chat_message =
    Earlier "(string, json) dict"
  | User string
  | Assistant "string option" "tool_request list"
  | Tool_reply string string

definition request_json :: "tool_request \<Rightarrow> json" where
  "request_json r = JObj [(''id'', JStr (tr_id r)),
     (''function'', JObj [(''arguments'', JStr (tr_arguments r)), (''name'', JStr (tr_name r))]),
     (''type'', JStr ''function'')]"

definition message_dict :: "chat_message \<Rightarrow> (string, json) dict" where
  "message_dict m =
     (case m of
        Earlier d \<Rightarrow> d
      | User prompt \<Rightarrow> [(''role'', JStr ''user''), (''content'', JStr prompt)]
      | Assistant content calls \<Rightarrow>
          (case content of None \<Rightarrow> [] | Some c \<Rightarrow> [(''content'', JStr c)])
          @ [(''role'', JStr ''assistant'')]
          @ (if calls = [] then [] else [(''tool_calls'', JList (map request_json calls))])
      | Tool_reply i content \<Rightarrow>
          [(''role'', JStr ''tool''), (''tool_call_id'', JStr i), (''content'', JStr content)])"

record tool_call =
  tc_name :: string
  tc_arguments :: "(string, json) dict"
  tc_result :: string

record agent_reply =
  rp_text :: string
  rp_tool_calls :: "tool_call list"
  rp_turns :: nat
  rp_hit_turn_cap :: bool
  rp_messages :: "chat_message list"

subsection \<open>The agent\<close>

definition AGENT_ENDPOINT :: string where
  "AGENT_ENDPOINT = ''127.0.0.1:8080''"

definition AGENT_MODEL :: string where
  "AGENT_MODEL = ''local''"

definition MAX_TURNS :: int where
  "MAX_TURNS = 6"

definition GAVE_UP :: "int \<Rightarrow> string" where
  "GAVE_UP turns = ''I could not determine that. I used all '' @ str_int turns @ '' of my tool-calling turns ''
     @ ''without reaching an answer, so rather than guess: try asking for one specific thing at a time.''"

definition SYSTEM_PROMPT :: string where
  "SYSTEM_PROMPT = str_join newline_text
     [''You are the operator interface to DAIN: a pool of ordinary computers that act ''
        @ ''as one machine. You have tools that read the live state of that pool.'',
      [], ''Rules:'',
      ''- Never guess a fact about the cluster. Call a tool. Your training data knows ''
        @ ''nothing about these specific machines, and the tools read what is true now.'',
      ''- Report measured numbers as measured. If a tool says a value is uncalibrated ''
        @ ''or unavailable, say so plainly rather than filling the gap with an estimate.'',
      ''- If a tool returns an error, tell the user what it said and what would fix it. ''
        @ ''Errors here are usually normal: nodes calibrate, models load, indexes go cold.'',
      ''- Be brief. Two or three sentences unless the user asks for detail.'']"

record agent =
  ag_endpoint :: string
  ag_model :: string
  ag_max_turns :: int

definition new_agent :: "string \<Rightarrow> string \<Rightarrow> int \<Rightarrow> agent res" where
  "new_agent endpoint model max_turns =
     (if max_turns < 1 then Inl (ValueError ''max_turns must be at least one'')
      else Inr \<lparr>ag_endpoint = endpoint, ag_model = model, ag_max_turns = max_turns\<rparr>)"

text \<open>The environment, and the keyword arguments that replace what it says.\<close>

definition agent_from_environment :: "(string, string) dict \<Rightarrow> string option \<Rightarrow> string option \<Rightarrow> int option
    \<Rightarrow> agent res" where
  "agent_from_environment env endpoint model max_turns =
     (let setting = (\<lambda>name fallback. let v = py_strip (case map_of env name of Some s \<Rightarrow> s | None \<Rightarrow> fallback)
                                     in if v = [] then fallback else v)
      in new_agent (case endpoint of Some e \<Rightarrow> e | None \<Rightarrow> setting ''DAIN_AGENT_ENDPOINT'' AGENT_ENDPOINT)
           (case model of Some m \<Rightarrow> m | None \<Rightarrow> setting ''DAIN_AGENT_MODEL'' AGENT_MODEL)
           (case max_turns of Some n \<Rightarrow> n | None \<Rightarrow> MAX_TURNS))"

text \<open>\<open>_complete\<close>: \<open>response.choices[0].message\<close> of the client's answer.\<close>

datatype llm_reply =
    Connection_failed
  | Status_failed int string
  | Choices "(string option \<times> tool_request list) list"

type_synonym llm = "nat \<Rightarrow> json list \<Rightarrow> json list \<Rightarrow> llm_reply"

definition complete_chat :: "agent \<Rightarrow> llm \<Rightarrow> json list \<Rightarrow> nat \<Rightarrow> chat_message list
    \<Rightarrow> (string option \<times> tool_request list) res" where
  "complete_chat ag llm schemas turn conversation =
     (case llm turn (JObj [(''role'', JStr ''system''), (''content'', JStr SYSTEM_PROMPT)]
                     # map (\<lambda>m. JObj (message_dict m)) conversation) schemas of
        Connection_failed \<Rightarrow> Inl (RuntimeError
          (''no llama-server answering at '' @ ag_endpoint ag
           @ ''. Start the head with ./scripts/serve_head.py --model castoff, or point ''
           @ ''$DAIN_AGENT_ENDPOINT somewhere else.''))
      | Status_failed code m \<Rightarrow> Inl (RuntimeError
          (''llama-server at '' @ ag_endpoint ag @ '' returned '' @ str_int code @ '': '' @ m))
      | Choices [] \<Rightarrow> Inl (IndexError ''list index out of range'')
      | Choices (c # cs) \<Rightarrow> Inr c)"

subsection \<open>Dispatching the calls of one message\<close>

type_synonym call_key = "string \<times> string"

text \<open>The name and the arguments of a call, or the text that says what is wrong with them.\<close>

definition call_name :: "tool_request \<Rightarrow> string" where
  "call_name r = (if tr_name r = [] then ''unknown'' else tr_name r)"

definition read_arguments :: "(string \<Rightarrow> json option) \<Rightarrow> tool_request \<Rightarrow> string + (string, json) dict" where
  "read_arguments loads r =
     (let raw = (if tr_arguments r = [] then ''{}'' else tr_arguments r); name = call_name r in
      case (if py_strip raw = [] then Some (JObj []) else loads raw) of
        None \<Rightarrow> Inl (''The arguments you sent to '' @ name @ '' are not valid JSON: '' @ py_repr raw @ ''. ''
          @ ''Send a JSON object, for example {} for no arguments.'')
      | Some (JObj d) \<Rightarrow> Inr d
      | Some _ \<Rightarrow> Inl (name @ '' takes a JSON object of arguments, not '' @ py_repr raw @ ''.''))"

definition repeat_text :: "string \<Rightarrow> string \<Rightarrow> string" where
  "repeat_text name earlier = ''You already called '' @ name @ '' with these arguments this turn. ''
     @ ''The result has not changed:'' @ newline_text @ newline_text @ earlier"

text \<open>
  A call when its coroutine is first run: it is over, or it waits for the control plane and its result
  will be entered under its key later. \<open>k\<close> is the number of the call within the \<open>ask\<close>.
\<close>

datatype started = Over tool_call | Waiting call_key tool_call

definition start_call :: "(string \<Rightarrow> json option) \<Rightarrow> (rat \<Rightarrow> string) \<Rightarrow> string list \<Rightarrow> dain_ops
    \<Rightarrow> (call_key, string) dict \<Rightarrow> tool_request \<Rightarrow> started \<times> (call_key, string) dict" where
  "start_call loads frepr models ops seen r =
     (let name = call_name r in
      case read_arguments loads r of
        Inl m \<Rightarrow> (Over \<lparr>tc_name = name, tc_arguments = [], tc_result = m\<rparr>, seen)
      | Inr arguments \<Rightarrow>
          let key = (name, json_dumps frepr (JObj arguments)) in
          (case map_of seen key of
             Some earlier \<Rightarrow>
               (Over \<lparr>tc_name = name, tc_arguments = arguments, tc_result = repeat_text name earlier\<rparr>, seen)
           | None \<Rightarrow>
               let call = \<lparr>tc_name = name, tc_arguments = arguments,
                           tc_result = call_tool frepr models ops name arguments\<rparr>
               in if tool_requests name arguments then (Waiting key call, seen)
                  else (Over call, AList.update key (tc_result call) seen)))"

fun start_batch :: "(string \<Rightarrow> json option) \<Rightarrow> (rat \<Rightarrow> string) \<Rightarrow> string list \<Rightarrow> (nat \<Rightarrow> dain_ops) \<Rightarrow> nat
    \<Rightarrow> (call_key, string) dict \<Rightarrow> tool_request list \<Rightarrow> started list \<times> (call_key, string) dict" where
  "start_batch loads frepr models world k seen [] = ([], seen)"
| "start_batch loads frepr models world k seen (r # rs) =
     (let (s, seen1) = start_call loads frepr models (world k) seen r;
          (ss, seen2) = start_batch loads frepr models world (Suc k) seen1 rs
      in (s # ss, seen2))"

definition outcome_of :: "started \<Rightarrow> tool_call" where
  "outcome_of s = (case s of Over c \<Rightarrow> c | Waiting key c \<Rightarrow> c)"

definition waiting_results :: "started list \<Rightarrow> (call_key \<times> string) list" where
  "waiting_results ss = concat (map (\<lambda>s. case s of Waiting key c \<Rightarrow> [(key, tc_result c)] | Over c \<Rightarrow> []) ss)"

text \<open>\<open>asyncio.gather\<close>: all calls start in order, the waiting ones enter their results as they finish.\<close>

type_synonym finish_order = "nat \<Rightarrow> (call_key \<times> string) list \<Rightarrow> (call_key \<times> string) list"

definition run_batch :: "(string \<Rightarrow> json option) \<Rightarrow> (rat \<Rightarrow> string) \<Rightarrow> string list \<Rightarrow> (nat \<Rightarrow> dain_ops) \<Rightarrow> finish_order
    \<Rightarrow> nat \<Rightarrow> (call_key, string) dict \<Rightarrow> tool_request list \<Rightarrow> tool_call list \<times> (call_key, string) dict" where
  "run_batch loads frepr models world order k seen calls =
     (let (ss, seen1) = start_batch loads frepr models world k seen calls
      in (map outcome_of ss,
          fold (\<lambda>(key, res) d. AList.update key res d) (order k (waiting_results ss)) seen1))"

subsection \<open>ask\<close>

text \<open>The loop over the turns: \<open>left\<close> turns remain, \<open>turn\<close> is the number of the next one.\<close>

primrec ask_loop :: "agent \<Rightarrow> llm \<Rightarrow> (string \<Rightarrow> json option) \<Rightarrow> (rat \<Rightarrow> string) \<Rightarrow> string list \<Rightarrow> (nat \<Rightarrow> dain_ops)
    \<Rightarrow> finish_order \<Rightarrow> nat \<Rightarrow> nat \<Rightarrow> chat_message list \<Rightarrow> tool_call list \<Rightarrow> (call_key, string) dict
    \<Rightarrow> agent_reply res" where
  "ask_loop ag llm loads frepr models world order 0 turn conversation performed seen =
     Inr \<lparr>rp_text = GAVE_UP (ag_max_turns ag), rp_tool_calls = performed, rp_turns = nat (ag_max_turns ag),
          rp_hit_turn_cap = True, rp_messages = conversation\<rparr>"
| "ask_loop ag llm loads frepr models world order (Suc left) turn conversation performed seen =
     rbind (complete_chat ag llm (tool_schemas frepr models) turn conversation) (\<lambda>(content, calls).
       let conversation1 = conversation @ [Assistant content calls] in
       if calls = [] then
         Inr \<lparr>rp_text = (case content of None \<Rightarrow> [] | Some c \<Rightarrow> c), rp_tool_calls = performed,
              rp_turns = turn, rp_hit_turn_cap = False, rp_messages = conversation1\<rparr>
       else
         let (results, seen1) = run_batch loads frepr models world order (length performed) seen calls
         in ask_loop ag llm loads frepr models world order left (Suc turn)
              (conversation1 @ map (\<lambda>(r, c). Tool_reply (tr_id r) (tc_result c)) (zip calls results))
              (performed @ results) seen1)"

definition ask :: "agent \<Rightarrow> llm \<Rightarrow> (string \<Rightarrow> json option) \<Rightarrow> (rat \<Rightarrow> string) \<Rightarrow> string list \<Rightarrow> (nat \<Rightarrow> dain_ops)
    \<Rightarrow> finish_order \<Rightarrow> string \<Rightarrow> (string, json) dict list \<Rightarrow> agent_reply res" where
  "ask ag llm loads frepr models world order prompt history =
     ask_loop ag llm loads frepr models world order (nat (ag_max_turns ag)) 1
       (map Earlier history @ [User prompt]) [] []"

end
