(* ===== verification/Agent_Service.thy ===== *)
theory Agent_Service
  imports Agent_Loop
begin

text \<open>
  The HTTP service in front of the loop, \<open>agent/service.py\<close>: the request model, \<open>sanitise_history\<close> and
  the three routes. The service keeps nothing between requests; the configured agent and the client
  are arguments. Building the app, CORS and \<open>uvicorn\<close> are not modelled.
\<close>

definition MAX_HISTORY_MESSAGES :: nat where
  "MAX_HISTORY_MESSAGES = 40"

definition CHAT_MAX_PROMPT_CHARS :: int where
  "CHAT_MAX_PROMPT_CHARS = 8000"

definition VALID_ROLES :: "string list" where
  "VALID_ROLES = [''system'', ''user'', ''assistant'', ''tool'']"

record chat_request =
  cr_prompt :: string
  cr_history :: "json list"

text \<open>What pydantic accepts; it answers 422 itself for the rest.\<close>

definition chat_request_valid :: "chat_request \<Rightarrow> bool" where
  "chat_request_valid rq \<longleftrightarrow> 1 \<le> length (cr_prompt rq) \<and> int (length (cr_prompt rq)) \<le> CHAT_MAX_PROMPT_CHARS"

definition last_n :: "nat \<Rightarrow> 'a list \<Rightarrow> 'a list" where
  "last_n n xs = drop (length xs - n) xs"

definition valid_message :: "json \<Rightarrow> bool res" where
  "valid_message m = (case m of JObj d \<Rightarrow> jmember (jget d ''role'') VALID_ROLES | _ \<Rightarrow> Inr False)"

definition sanitise_history :: "json list \<Rightarrow> (string, json) dict list res" where
  "sanitise_history history =
     rbind (rfilterM valid_message history) (\<lambda>kept.
     rbind (rmapM as_object (last_n MAX_HISTORY_MESSAGES kept)) Inr)"

definition current_agent :: "agent option \<Rightarrow> agent res" where
  "current_agent slot =
     (case slot of None \<Rightarrow> Inl (HTTPException 503 ''agent is not configured'') | Some ag \<Rightarrow> Inr ag)"

definition service_health :: "agent option \<Rightarrow> dain_client \<Rightarrow> json res" where
  "service_health slot dc =
     rbind (current_agent slot) (\<lambda>ag.
       Inr (JObj [(''status'', JStr ''ok''), (''endpoint'', JStr (ag_endpoint ag)), (''ctl'', JStr (dc_ctl dc)),
         (''model'', JStr (ag_model ag)), (''max_turns'', JInt (ag_max_turns ag))]))"

definition service_tools :: "(rat \<Rightarrow> string) \<Rightarrow> string list \<Rightarrow> json" where
  "service_tools frepr models = JObj [(''tools'', JList (map (\<lambda>t. JObj
     [(''name'', JStr (tl_name t)), (''description'', JStr (tl_description t)),
      (''required'', (case tl_parameters t of JObj d \<Rightarrow> get_or d ''required'' (JList []) | _ \<Rightarrow> JList []))])
     (TOOLS frepr models)))]"

definition call_json :: "tool_call \<Rightarrow> json" where
  "call_json c = JObj [(''name'', JStr (tc_name c)), (''arguments'', JObj (tc_arguments c)), (''result'', JStr (tc_result c))]"

definition chat_answer :: "agent_reply \<Rightarrow> (string, json) dict" where
  "chat_answer reply =
     [(''text'', JStr (rp_text reply)), (''tool_calls'', JList (map call_json (rp_tool_calls reply))),
      (''turns'', JInt (int (rp_turns reply))), (''hit_turn_cap'', JBool (rp_hit_turn_cap reply)),
      (''messages'', JList (map (\<lambda>m. JObj (message_dict m)) (rp_messages reply)))]"

definition invalid_chat :: py_error where
  "invalid_chat = HTTPException 422 ''validation error''"

definition chat :: "agent option \<Rightarrow> llm \<Rightarrow> (string \<Rightarrow> json option) \<Rightarrow> (rat \<Rightarrow> string) \<Rightarrow> string list
    \<Rightarrow> (nat \<Rightarrow> dain_ops) \<Rightarrow> finish_order \<Rightarrow> chat_request \<Rightarrow> (string, json) dict res" where
  "chat slot llm loads frepr models world order rq =
     (if \<not> chat_request_valid rq then Inl invalid_chat
      else if py_strip (cr_prompt rq) = [] then Inl (HTTPException 422 ''prompt must not be blank'')
      else
        rbind (current_agent slot) (\<lambda>ag.
          case rbind (sanitise_history (cr_history rq))
                 (ask ag llm loads frepr models world order (py_strip (cr_prompt rq))) of
            Inl e \<Rightarrow> Inl (if is_runtime_error e then HTTPException 503 (err_text e) else e)
          | Inr reply \<Rightarrow> Inr (chat_answer reply)))"

end
