(* ===== verification/Agent_Loop_Properties.thy ===== *)
theory Agent_Loop_Properties
  imports Agent_Service
begin

text \<open>
  What the conversation loop guarantees: tools never raise, a batch answers every call in order, and
  \<open>ask\<close> ends within its turns with a well-formed conversation in which no call is run again in a later
  turn (C5). The service's history filter and its statuses follow.
\<close>

subsection \<open>Tool calls\<close>

lemma tool_named_cases:
  "tool_named frepr models name = (if name = ''cluster_status'' then Some (TOOLS frepr models ! 0)
     else if name = ''plan_placement'' then Some (TOOLS frepr models ! 1)
     else if name = ''search_files'' then Some (TOOLS frepr models ! 2)
     else if name = ''run_command'' then Some (TOOLS frepr models ! 3)
     else if name = ''ask_pool'' then Some (TOOLS frepr models ! 4) else None)"
  unfolding tool_named_def TOOLS_def by (simp add: eq_commute[of _ name])

text \<open>A call that makes no request is answered the same whatever the control plane is like.\<close>

lemma call_without_request:
  assumes "\<not> tool_requests name args"
  shows "call_tool frepr models ops name args = call_tool frepr models ops' name args"
proof -
  have "tl_run t ops args = tl_run t ops' args" if "tool_named frepr models name = Some t" for t
  proof -
    have plan: "plan_placement frepr models ops args = plan_placement frepr models ops' args" if p: "name = ''plan_placement''"
    proof -
      define model where "model = (case jget args ''model'' of JStr m \<Rightarrow> m | _ \<Rightarrow> [])"
      have "py_strip [] = []" by (simp add: py_strip_def rstrip_while_def)
      then have "py_strip model = [] \<or> int_argument (get_or args ''context'' (JInt 8192)) = None
          \<or> int_argument (get_or args ''slots'' (JInt 1)) = None"
        using assms p unfolding tool_requests_def model_def by (cases "jget args ''model''") auto
      then show ?thesis unfolding plan_placement_def Let_def model_def[symmetric]
        by (auto split: option.split)
    qed
    have search: "search_files frepr ops args = search_files frepr ops' args" if "name = ''search_files''"
      using assms that unfolding tool_requests_def search_files_def Let_def by (auto split: json.splits)
    have run: "run_command frepr ops args = run_command frepr ops' args" if "name = ''run_command''"
      using assms that unfolding tool_requests_def run_command_def by (auto split: option.splits)
    have pool: "ask_pool frepr ops args = ask_pool frepr ops' args" if "name = ''ask_pool''"
      using assms that unfolding tool_requests_def ask_pool_def by (auto split: json.splits list.splits option.splits)
    have "name \<noteq> ''cluster_status''" using assms by (auto simp: tool_requests_def)
    with that plan search run pool show ?thesis
      unfolding tool_named_cases by (auto simp: TOOLS_def split: if_splits)
  qed
  then show ?thesis by (simp add: call_tool_def split: option.split)
qed

subsection \<open>One batch of calls\<close>

definition request_key :: "(string \<Rightarrow> json option) \<Rightarrow> (rat \<Rightarrow> string) \<Rightarrow> tool_request \<Rightarrow> call_key option" where
  "request_key loads frepr r = (case read_arguments loads r of Inl m \<Rightarrow> None
     | Inr args \<Rightarrow> Some (call_name r, json_dumps frepr (JObj args)))"

definition seen_keys :: "(call_key, string) dict \<Rightarrow> call_key set" where
  "seen_keys seen = set (keys seen)"

lemma seen_keys_update [simp]: "seen_keys (AList.update k v d) = insert k (seen_keys d)"
  unfolding seen_keys_def by (simp add: set_keys_update del: set_map)

lemma seen_keys_None: "map_of seen k = None \<longleftrightarrow> k \<notin> seen_keys seen"
  unfolding seen_keys_def by (simp add: map_of_eq_None_iff)

lemma start_call_cases:
  obtains (bad) m where "request_key loads frepr r = None"
      "start_call loads frepr models ops seen r = (Over \<lparr>tc_name = call_name r, tc_arguments = [], tc_result = m\<rparr>, seen)"
  | (again) key x args where "request_key loads frepr r = Some key" "key \<in> seen_keys seen"
      "start_call loads frepr models ops seen r =
         (Over \<lparr>tc_name = call_name r, tc_arguments = args, tc_result = repeat_text (call_name r) x\<rparr>, seen)"
  | (quick) key c where "request_key loads frepr r = Some key" "key \<notin> seen_keys seen" "tc_name c = call_name r"
      "start_call loads frepr models ops seen r = (Over c, AList.update key (tc_result c) seen)"
  | (slow) key c where "request_key loads frepr r = Some key" "key \<notin> seen_keys seen" "tc_name c = call_name r"
      "start_call loads frepr models ops seen r = (Waiting key c, seen)"
proof (cases "read_arguments loads r")
  case (Inl m)
  then show ?thesis by (intro bad[of m]) (simp_all add: request_key_def start_call_def)
next
  case (Inr args)
  let ?key = "(call_name r, json_dumps frepr (JObj args))"
  let ?c = "\<lparr>tc_name = call_name r, tc_arguments = args, tc_result = call_tool frepr models ops (call_name r) args\<rparr>"
  have k: "request_key loads frepr r = Some ?key" using Inr by (simp add: request_key_def)
  show ?thesis
  proof (cases "map_of seen ?key")
    case None
    then have n: "?key \<notin> seen_keys seen" by (simp add: seen_keys_None)
    show ?thesis
    proof (cases "tool_requests (call_name r) args")
      case True
      with Inr None k n show ?thesis by (intro slow[of ?key ?c]) (simp_all add: start_call_def Let_def)
    next
      case False
      with Inr None k n show ?thesis by (intro quick[of ?key ?c]) (simp_all add: start_call_def Let_def)
    qed
  next
    case (Some x)
    then have "?key \<in> seen_keys seen" using seen_keys_None[of seen ?key] by simp
    with Inr Some k show ?thesis by (intro again[of ?key args x]) (simp_all add: start_call_def Let_def)
  qed
qed

text \<open>
  What a batch's start leaves: one outcome per call under the call's name; the keys of its calls are
  entered or will be when they finish; a call whose key was known before the batch is not run.
\<close>

definition repeat_answered :: "(string \<Rightarrow> json option) \<Rightarrow> (rat \<Rightarrow> string) \<Rightarrow> call_key set \<Rightarrow> tool_request \<Rightarrow> tool_call \<Rightarrow> bool" where
  "repeat_answered loads frepr K r c \<longleftrightarrow> tc_name c = call_name r
     \<and> (\<forall>key \<in> K. request_key loads frepr r = Some key \<longrightarrow> (\<exists>x. tc_result c = repeat_text (call_name r) x))"

lemma start_call_ok:
  assumes "start_call loads frepr models ops seen r = (s, seen1)"
  shows "repeat_answered loads frepr (seen_keys seen) r (outcome_of s) \<and> seen_keys seen \<subseteq> seen_keys seen1
    \<and> set_option (request_key loads frepr r) \<subseteq> seen_keys seen1 \<union> fst ` set (waiting_results [s])"
  by (cases rule: start_call_cases[of loads frepr r models ops seen])
    (use assms in \<open>auto simp: repeat_answered_def outcome_of_def waiting_results_def\<close>)

lemma repeat_answered_mono: "repeat_answered loads frepr K' r c \<Longrightarrow> K \<subseteq> K' \<Longrightarrow> repeat_answered loads frepr K r c"
  by (auto simp: repeat_answered_def)

definition batch_keys :: "(string \<Rightarrow> json option) \<Rightarrow> (rat \<Rightarrow> string) \<Rightarrow> tool_request list \<Rightarrow> call_key set" where
  "batch_keys loads frepr calls = (\<Union>r \<in> set calls. set_option (request_key loads frepr r))"

lemma start_batch_ok:
  assumes "start_batch loads frepr models world k seen calls = (ss, seen1)"
  shows "list_all2 (repeat_answered loads frepr (seen_keys seen)) calls (map outcome_of ss)
    \<and> seen_keys seen \<subseteq> seen_keys seen1
    \<and> batch_keys loads frepr calls \<subseteq> seen_keys seen1 \<union> fst ` set (waiting_results ss)"
  using assms
proof (induction calls arbitrary: k seen ss seen1)
  case Nil
  then show ?case by (simp add: batch_keys_def)
next
  case (Cons r calls)
  obtain s seen0 where s: "start_call loads frepr models (world k) seen r = (s, seen0)"
    by (cases "start_call loads frepr models (world k) seen r")
  obtain ss' seen2 where ss': "start_batch loads frepr models world (Suc k) seen0 calls = (ss', seen2)"
    by (cases "start_batch loads frepr models world (Suc k) seen0 calls")
  have eq: "ss = s # ss'" "seen1 = seen2" using Cons.prems s ss' by auto
  have w: "waiting_results (s # ss') = waiting_results [s] @ waiting_results ss'"
    by (simp add: waiting_results_def)
  note one = start_call_ok[OF s] and rest = Cons.IH[OF ss']
  have "list_all2 (repeat_answered loads frepr (seen_keys seen)) calls (map outcome_of ss')"
    by (rule list_all2_mono[of "repeat_answered loads frepr (seen_keys seen0)"])
      (use rest one repeat_answered_mono in blast)+
  with one rest show ?case unfolding eq w by (auto simp: batch_keys_def)
qed

definition permutes :: "finish_order \<Rightarrow> bool" where
  "permutes order \<longleftrightarrow> (\<forall>k xs. mset (order k xs) = mset xs)"

lemma fold_update_keys:
  "seen_keys (fold (\<lambda>(key, res) d. AList.update key res d) xs d) = fst ` set xs \<union> seen_keys d"
  by (induction xs arbitrary: d) auto

lemma run_batch_ok:
  assumes "permutes order" and "run_batch loads frepr models world order k seen calls = (results, seen1)"
  shows "list_all2 (repeat_answered loads frepr (seen_keys seen)) calls results
    \<and> seen_keys seen \<union> batch_keys loads frepr calls \<subseteq> seen_keys seen1"
proof -
  obtain ss seen0 where ss: "start_batch loads frepr models world k seen calls = (ss, seen0)"
    by (cases "start_batch loads frepr models world k seen calls")
  have "set (order k (waiting_results ss)) = set (waiting_results ss)"
    using assms(1) unfolding permutes_def by (metis set_mset_mset)
  with assms(2) ss start_batch_ok[OF ss] show ?thesis
    by (auto simp: run_batch_def fold_update_keys)
qed

subsection \<open>ask\<close>

text \<open>
  A round is one message of the model with tool calls and the calls' outcomes. \<open>rounds_ok K\<close>: every
  call of every round has its outcome, under its name; a call whose key is in \<open>K\<close> or occurred in an
  earlier round is answered with the earlier result and not run.
\<close>

type_synonym tool_round = "string option \<times> tool_request list \<times> tool_call list"

definition round_messages :: "tool_round \<Rightarrow> chat_message list" where
  "round_messages rd = (case rd of (content, calls, results) \<Rightarrow>
     Assistant content calls # map (\<lambda>(r, c). Tool_reply (tr_id r) (tc_result c)) (zip calls results))"

definition round_results :: "tool_round \<Rightarrow> tool_call list" where
  "round_results rd = snd (snd rd)"

fun rounds_ok :: "(string \<Rightarrow> json option) \<Rightarrow> (rat \<Rightarrow> string) \<Rightarrow> call_key set \<Rightarrow> tool_round list \<Rightarrow> bool" where
  "rounds_ok loads frepr K [] = True"
| "rounds_ok loads frepr K ((content, calls, results) # rds) =
     (calls \<noteq> [] \<and> list_all2 (repeat_answered loads frepr K) calls results
      \<and> rounds_ok loads frepr (K \<union> batch_keys loads frepr calls) rds)"

lemma rounds_ok_mono: "rounds_ok loads frepr K' rds \<Longrightarrow> K \<subseteq> K' \<Longrightarrow> rounds_ok loads frepr K rds"
proof (induction rds arbitrary: K K')
  case Nil
  then show ?case by simp
next
  case (Cons rd rds)
  obtain content calls results where rd: "rd = (content, calls, results)" by (cases rd)
  have "list_all2 (repeat_answered loads frepr K) calls results"
    by (rule list_all2_mono[of "repeat_answered loads frepr K'"])
      (use Cons.prems rd repeat_answered_mono in \<open>auto\<close>)
  moreover have "rounds_ok loads frepr (K \<union> batch_keys loads frepr calls) rds"
    by (rule Cons.IH[of "K' \<union> batch_keys loads frepr calls"]) (use Cons.prems rd in auto)
  ultimately show ?case using Cons.prems(1) rd by simp
qed

text \<open>How the loop ends: with the model's last message, or at the cap.\<close>

definition loop_end :: "agent \<Rightarrow> nat \<Rightarrow> nat \<Rightarrow> tool_round list \<Rightarrow> chat_message list \<Rightarrow> agent_reply \<Rightarrow> bool" where
  "loop_end ag left turn rds final reply \<longleftrightarrow>
     (if rp_hit_turn_cap reply
      then length rds = left \<and> final = [] \<and> rp_turns reply = nat (ag_max_turns ag)
           \<and> rp_text reply = GAVE_UP (ag_max_turns ag)
      else length rds < left \<and> rp_turns reply = turn + length rds
           \<and> (\<exists>content. final = [Assistant content []] \<and> rp_text reply = (case content of None \<Rightarrow> [] | Some c \<Rightarrow> c)))"

definition loop_shape :: "agent \<Rightarrow> (string \<Rightarrow> json option) \<Rightarrow> (rat \<Rightarrow> string) \<Rightarrow> call_key set \<Rightarrow> nat \<Rightarrow> nat
    \<Rightarrow> chat_message list \<Rightarrow> tool_call list \<Rightarrow> agent_reply \<Rightarrow> bool" where
  "loop_shape ag loads frepr K left turn conversation performed reply \<longleftrightarrow>
     (\<exists>rds final. rp_messages reply = conversation @ concat (map round_messages rds) @ final
        \<and> rp_tool_calls reply = performed @ concat (map round_results rds)
        \<and> rounds_ok loads frepr K rds \<and> loop_end ag left turn rds final reply)"

lemma loop_shape_step:
  assumes "loop_shape ag loads frepr K' left (Suc turn)
      (conversation @ [Assistant content calls] @ map (\<lambda>(r, c). Tool_reply (tr_id r) (tc_result c)) (zip calls results))
      (performed @ results) reply"
    and "calls \<noteq> []" and "list_all2 (repeat_answered loads frepr K) calls results"
    and "K \<union> batch_keys loads frepr calls \<subseteq> K'"
  shows "loop_shape ag loads frepr K (Suc left) turn conversation performed reply"
proof -
  let ?rd = "(content, calls, results)"
  obtain rds final where r: "rp_messages reply = (conversation @ [Assistant content calls]
      @ map (\<lambda>(r, c). Tool_reply (tr_id r) (tc_result c)) (zip calls results)) @ concat (map round_messages rds) @ final"
      "rp_tool_calls reply = (performed @ results) @ concat (map round_results rds)"
      "rounds_ok loads frepr K' rds" "loop_end ag left (Suc turn) rds final reply"
    using assms(1) unfolding loop_shape_def by blast
  have "rp_messages reply = conversation @ concat (map round_messages (?rd # rds)) @ final"
    "rp_tool_calls reply = performed @ concat (map round_results (?rd # rds))"
    using r(1,2) by (simp_all add: round_messages_def round_results_def)
  moreover have "rounds_ok loads frepr K (?rd # rds)"
    using assms(2-4) rounds_ok_mono[OF r(3)] by simp
  moreover have "loop_end ag (Suc left) turn (?rd # rds) final reply"
    using r(4) by (auto simp: loop_end_def split: if_splits)
  ultimately show ?thesis unfolding loop_shape_def by blast
qed

lemma ask_loop_shape:
  assumes "permutes order"
    and "ask_loop ag llm loads frepr models world order left turn conversation performed seen = Inr reply"
  shows "loop_shape ag loads frepr (seen_keys seen) left turn conversation performed reply"
  using assms(2)
proof (induction left arbitrary: turn conversation performed seen)
  case 0
  then have "reply = \<lparr>rp_text = GAVE_UP (ag_max_turns ag), rp_tool_calls = performed,
      rp_turns = nat (ag_max_turns ag), rp_hit_turn_cap = True, rp_messages = conversation\<rparr>" by simp
  then show ?case unfolding loop_shape_def
    by (intro exI[of _ "[]"]) (simp add: loop_end_def)
next
  case (Suc left)
  then obtain content calls where c: "complete_chat ag llm (tool_schemas frepr models) turn conversation = Inr (content, calls)"
    by (auto simp: rbind_eq_Inr)
  show ?case
  proof (cases "calls = []")
    case True
    with Suc.prems c have "reply = \<lparr>rp_text = (case content of None \<Rightarrow> [] | Some c \<Rightarrow> c), rp_tool_calls = performed,
        rp_turns = turn, rp_hit_turn_cap = False, rp_messages = conversation @ [Assistant content calls]\<rparr>" by simp
    with True show ?thesis unfolding loop_shape_def
      by (intro exI[of _ "[]"] exI[of _ "[Assistant content []]"]) (simp add: loop_end_def)
  next
    case False
    obtain results seen1 where b: "run_batch loads frepr models world order (length performed) seen calls = (results, seen1)"
      by (cases "run_batch loads frepr models world order (length performed) seen calls")
    note ok = run_batch_ok[OF assms(1) b]
    have "ask_loop ag llm loads frepr models world order left (Suc turn)
        (conversation @ [Assistant content calls] @ map (\<lambda>(r, c). Tool_reply (tr_id r) (tc_result c)) (zip calls results))
        (performed @ results) seen1 = Inr reply"
      using Suc.prems c b False by simp
    from Suc.IH[OF this] False ok show ?thesis by (intro loop_shape_step) blast+
  qed
qed








subsection \<open>The service\<close>

definition valid_role :: "(string, json) dict \<Rightarrow> bool" where
  "valid_role d \<longleftrightarrow> (\<exists>r \<in> set VALID_ROLES. jget d ''role'' = JStr r)"

lemma last_n_length: "length (last_n n xs) \<le> n"
  by (simp add: last_n_def)

lemma last_n_set: "set (last_n n xs) \<subseteq> set xs"
  by (simp add: last_n_def set_drop_subset)

lemma last_n_short: "length xs \<le> n \<Longrightarrow> last_n n xs = xs"
  by (simp add: last_n_def)

lemma rmapM_as_object: "rmapM as_object (map JObj ds) = Inr ds"
  by (induction ds) (simp_all add: as_object_def)

lemma sanitise_valid:
  assumes "\<forall>d \<in> set ds. valid_role d"
  shows "sanitise_history (map JObj ds) = Inr (last_n MAX_HISTORY_MESSAGES ds)"
proof -
  have "rfilterM valid_message (map JObj ds) = Inr (filter (\<lambda>_. True) (map JObj ds))"
    by (rule rfilterM_ok) (use assms in \<open>auto simp: valid_message_def valid_role_def\<close>)
  then have "rfilterM valid_message (map JObj ds) = Inr (map JObj ds)" by simp
  moreover have "last_n k (map JObj ds) = map JObj (last_n k ds)" for k
    by (simp add: last_n_def drop_map)
  ultimately show ?thesis by (simp add: sanitise_history_def rmapM_as_object)
qed

lemma rfilterM_valid: "rfilterM valid_message hs = Inr ks \<Longrightarrow> \<forall>k \<in> set ks. \<exists>d. k = JObj d \<and> valid_role d"
proof (induction hs arbitrary: ks)
  case Nil
  then show ?case by simp
next
  case (Cons h hs)
  then obtain b ls where b: "valid_message h = Inr b" "rfilterM valid_message hs = Inr ls" "ks = (if b then h # ls else ls)"
    by (auto simp: rbind_eq_Inr)
  have "\<exists>d. h = JObj d \<and> valid_role d" if b
    using b(1) that
    by (cases h) (auto simp: valid_message_def valid_role_def jmember_def hashable_def split: json.splits if_splits)
  with b(3) Cons.IH[OF b(2)] show ?case by auto
qed

text \<open>What is kept is bounded, has valid roles, and is kept again.\<close>

lemma sanitise_history_ok:
  assumes "sanitise_history hs = Inr ms"
  shows "length ms \<le> 40 \<and> (\<forall>d \<in> set ms. valid_role d) \<and> sanitise_history (map JObj ms) = Inr ms"
proof -
  obtain ks where ks: "rfilterM valid_message hs = Inr ks" "rmapM as_object (last_n MAX_HISTORY_MESSAGES ks) = Inr ms"
    using assms by (auto simp: sanitise_history_def res_simps)
  note v = rfilterM_valid[OF ks(1)]
  have "\<exists>ds. ks = map JObj ds \<and> (\<forall>d \<in> set ds. valid_role d)"
    using v by (induction ks) (simp, metis list.set_intros insert_iff list.simps(9) set_ConsD list.set_intros)
  then obtain ds where ds: "ks = map JObj ds" "\<forall>d \<in> set ds. valid_role d" by blast
  have ms: "ms = last_n MAX_HISTORY_MESSAGES ds"
    using ks(2) ds(1) rmapM_as_object[of "last_n MAX_HISTORY_MESSAGES ds"] by (simp add: last_n_def drop_map)
  then have l: "length ms \<le> 40" using last_n_length[of 40 ds] by (simp add: MAX_HISTORY_MESSAGES_def)
  have r: "\<forall>d \<in> set ms. valid_role d" using ms ds(2) last_n_set[of MAX_HISTORY_MESSAGES ds] by blast
  from sanitise_valid[OF r] l r show ?thesis by (simp add: last_n_short MAX_HISTORY_MESSAGES_def)
qed

lemma message_dict_role: "(\<forall>d. m = Earlier d \<longrightarrow> valid_role d) \<Longrightarrow> valid_role (message_dict m)"
  by (cases m) (auto simp: message_dict_def valid_role_def VALID_ROLES_def jget_def split: option.split)

text \<open>An entry of the history whose role is a list or an object is not dropped: the filter raises.\<close>

lemma history_role_raises: "sanitise_history [JObj [(''role'', JList [])]] = Inl (TypeError (''unhashable type: '' @ py_repr ''list''))"
  by (simp add: sanitise_history_def valid_message_def jget_def jmember_def hashable_def jtype_def)

lemma chat_blank: "chat_request_valid rq \<Longrightarrow> py_strip (cr_prompt rq) = [] \<Longrightarrow>
    chat slot llm loads frepr models world order rq = Inl (HTTPException 422 ''prompt must not be blank'')"
  by (simp add: chat_def)

lemma chat_Inr:
  assumes "chat slot llm loads frepr models world order rq = Inr d"
  obtains ag hs reply where "sanitise_history (cr_history rq) = Inr hs"
    "ask ag llm loads frepr models world order (py_strip (cr_prompt rq)) hs = Inr reply" "d = chat_answer reply"
proof -
  have v: "chat_request_valid rq" "py_strip (cr_prompt rq) \<noteq> []"
    using assms unfolding chat_def by (meson Inl_Inr_False)+
  obtain ag where ag: "(case rbind (sanitise_history (cr_history rq))
        (ask ag llm loads frepr models world order (py_strip (cr_prompt rq))) of
      Inl e \<Rightarrow> Inl (if is_runtime_error e then HTTPException 503 (err_text e) else e)
    | Inr reply \<Rightarrow> Inr (chat_answer reply)) = Inr d"
    using assms v unfolding chat_def by (cases "current_agent slot") simp_all
  then obtain reply where r: "rbind (sanitise_history (cr_history rq))
      (ask ag llm loads frepr models world order (py_strip (cr_prompt rq))) = Inr reply" "d = chat_answer reply"
    by (cases "rbind (sanitise_history (cr_history rq))
      (ask ag llm loads frepr models world order (py_strip (cr_prompt rq)))") simp_all
  from r(1) obtain hs where "sanitise_history (cr_history rq) = Inr hs"
      "ask ag llm loads frepr models world order (py_strip (cr_prompt rq)) hs = Inr reply"
    unfolding rbind_eq_Inr by blast
  from this r(2) show thesis by (rule that)
qed

text \<open>
  The browser's round trip: the messages of an answer, sent back as the next history, are all accepted,
  trimmed to the last forty.
\<close>

lemma chat_history_accepted:
  assumes "permutes order" and "chat slot llm loads frepr models world order rq = Inr d"
  shows "\<exists>ms. jget d ''messages'' = JList (map JObj ms)
    \<and> sanitise_history (map JObj ms) = Inr (last_n MAX_HISTORY_MESSAGES ms)"
proof -
  obtain ag hs reply where h: "sanitise_history (cr_history rq) = Inr hs"
      "ask ag llm loads frepr models world order (py_strip (cr_prompt rq)) hs = Inr reply" "d = chat_answer reply"
    using assms(2) by (rule chat_Inr)
  obtain rds final where r: "rp_messages reply = (map Earlier hs @ [User (py_strip (cr_prompt rq))])
      @ concat (map round_messages rds) @ final" "loop_end ag (nat (ag_max_turns ag)) 1 rds final reply"
    using ask_loop_shape[OF assms(1) h(2)[unfolded ask_def]] unfolding loop_shape_def by blast
  have "\<forall>m \<in> set (rp_messages reply). \<forall>e. m = Earlier e \<longrightarrow> valid_role e"
    using sanitise_history_ok[OF h(1)] r
    by (auto simp: round_messages_def loop_end_def split: prod.splits if_splits)
  then have "\<forall>e \<in> set (map message_dict (rp_messages reply)). valid_role e"
    using message_dict_role by auto
  from sanitise_valid[OF this] h(3) show ?thesis
    by (intro exI[of _ "map message_dict (rp_messages reply)"]) (simp add: chat_answer_def jget_def comp_def)
qed

end
