(* ===== verification/Agent_Plane.thy ===== *)
theory Agent_Plane
  imports Agent_Service Http_Answer
begin

text \<open>
  The agent's client over the control plane of \<open>ctl/main.py\<close>: the handlers' results as HTTP replies,
  the JSON of a job, the decoding of \<open>POST /jobs\<close>, and the client's world made of them. \<open>cp\<close> is the
  control plane when a tool call asks for the nodes, \<open>posts i\<close> the one its \<open>i\<close>-th job is submitted to,
  \<open>polled i k\<close> the one the \<open>k\<close>-th poll of its \<open>i\<close>-th
  job reaches; \<open>lat i k\<close> is what each poll takes beyond the poll interval.
\<close>

definition opt_json :: "('a \<Rightarrow> json) \<Rightarrow> 'a option \<Rightarrow> json" where
  "opt_json f x = (case x of None \<Rightarrow> JNull | Some v \<Rightarrow> f v)"

definition response_json :: "job_response \<Rightarrow> json" where
  "response_json r = (let jb = jr_job r in JObj
     [(''id'', JStr (jb_id jb)), (''kind'', JStr (jb_kind jb)), (''payload'', JObj (jb_payload jb)),
      (''node_id'', opt_json JStr (jb_node_id jb)), (''status'', JStr (status_name (jb_status jb))),
      (''result'', opt_json JObj (jb_result jb)), (''started_at'', opt_json JFloat (jb_started_at jb)),
      (''finished_at'', opt_json JFloat (jb_finished_at jb)), (''fanout'', JInt (jr_fanout r)),
      (''assigned_nodes'', JList (map JStr (jr_assigned_nodes r)))])"

text \<open>The body of \<open>POST /jobs\<close> as \<open>JobRequest\<close> reads it; 422 for a body of another shape.\<close>

definition decode_job_request :: "json \<Rightarrow> (string \<times> (string, json) dict \<times> int \<times> string option) res" where
  "decode_job_request body =
     (case body of
        JObj d \<Rightarrow>
          (case (jget d ''kind'', jget d ''payload'', jget d ''fanout'', jget d ''node_id'') of
             (JStr kind, JObj payload, JInt fanout, JStr n) \<Rightarrow> Inr (kind, payload, fanout, Some n)
           | (JStr kind, JObj payload, JInt fanout, JNull) \<Rightarrow> Inr (kind, payload, fanout, None)
           | _ \<Rightarrow> Inl invalid_request)
      | _ \<Rightarrow> Inl invalid_request)"

definition plane_submit :: "(int \<Rightarrow> rat) \<Rightarrow> string \<Rightarrow> control_plane \<Rightarrow> json \<Rightarrow> http_reply" where
  "plane_submit wall uuid cp body =
     http_answer (rbind (decode_job_request body) (\<lambda>(kind, payload, fanout, node_id).
       rmap response_json (fst (create_job wall uuid kind payload fanout node_id cp))))"

definition plane_job :: "control_plane \<Rightarrow> string \<Rightarrow> http_reply" where
  "plane_job cp job_id = http_answer (rmap response_json (get_job job_id cp))"

definition plane_nodes :: "control_plane \<Rightarrow> http_reply" where
  "plane_nodes cp = http_answer (Inr (JList (map JObj (get_nodes cp))))"

text \<open>The clock after poll \<open>k\<close>: every further poll comes at least a poll interval later.\<close>

fun poll_clock :: "rat \<Rightarrow> (nat \<Rightarrow> rat) \<Rightarrow> nat \<Rightarrow> rat" where
  "poll_clock interval lat 0 = \<bar>lat 0\<bar>"
| "poll_clock interval lat (Suc k) = poll_clock interval lat k + interval + \<bar>lat (Suc k)\<bar>"

definition plane_world :: "dain_client \<Rightarrow> (int \<Rightarrow> rat) \<Rightarrow> (nat \<Rightarrow> string) \<Rightarrow> control_plane \<Rightarrow> (nat \<Rightarrow> control_plane)
    \<Rightarrow> (nat \<Rightarrow> nat \<Rightarrow> control_plane) \<Rightarrow> (nat \<Rightarrow> nat \<Rightarrow> rat) \<Rightarrow> http_reply
    \<Rightarrow> (string \<Rightarrow> int \<Rightarrow> int \<Rightarrow> http_reply) \<Rightarrow> client_world" where
  "plane_world dc wall uuid cp posts polled lat metrics plans =
     \<lparr>cw_nodes = plane_nodes cp, cw_metrics = metrics, cw_plan = plans,
      cw_job = (\<lambda>i. \<lparr>jw_submit = plane_submit wall (uuid i) (posts i),
                     jw_job = (\<lambda>job_id k. plane_job (polled i k) job_id),
                     jw_start = 0, jw_now = poll_clock (dc_poll_interval_s dc) (lat i)\<rparr>)\<rparr>"

end
