(* ===== verification/Agent_Client_Properties.thy ===== *)
theory Agent_Client_Properties
  imports Agent_Plane Job_Queue_Properties
begin

text \<open>
  What the agent's client guarantees: the addresses it builds, deadlines that outlast the queue's
  request timeouts, polling that ends, and the interface the tools rely on (\<open>job_client\<close>), which the
  client provides over the control plane's handlers.
\<close>

subsection \<open>Addresses and deadlines\<close>

lemma ends_with_append: "ends_with p (s @ p)"
  by (simp add: ends_with_def)

lemma starts_with_append: "starts_with p s \<Longrightarrow> starts_with p (s @ t)"
  by (auto simp: starts_with_def take_append) (metis append_Nil2 diff_is_0_eq length_take min_def nle_le take0)

lemma api_base_shape:
  assumes "normalise_api_base ctl = Inr b"
  shows "ends_with ''/api'' b \<and> (starts_with ''http://'' b \<or> starts_with ''https://'' b)"
proof -
  define base where "base = (let stripped = rstrip_while (\<lambda>c. c = CHR ''/'') (py_strip ctl) in
      if starts_with ''http://'' stripped \<or> starts_with ''https://'' stripped then stripped
      else ''http://'' @ stripped)"
  have b: "b = (if ends_with ''/api'' base then base else base @ ''/api'')"
    using assms unfolding normalise_api_base_def base_def Let_def by (simp only: sum.inject split: if_splits) simp_all
  have "starts_with ''http://'' base \<or> starts_with ''https://'' base"
    unfolding base_def Let_def by (simp add: starts_with_def)
  then show ?thesis unfolding b using ends_with_append[of "''/api''" base] starts_with_append[of _ base "''/api''"]
    by (simp only: split: if_splits) blast
qed

text \<open>The agent keeps polling longer than the queue waits for one request to a node.\<close>

lemma deadline_outlasts_request:
  "map_of DEFAULT_TIMEOUTS_S kind = Some t \<Longrightarrow> job_deadline_s kind = t + 30"
  by (simp add: job_deadline_s_def POLL_MARGIN_S_def)

text \<open>
  It does not outlast a job: the queue tries a shard twice on a node, so a job whose first request
  times out can still succeed after the agent has given up.
\<close>

lemma deadline_below_two_requests:
  assumes "map_of DEFAULT_TIMEOUTS_S kind = Some t" and "30 \<le> t"
  shows "job_deadline_s kind \<le> 2 * t"
  using assms by (simp add: deadline_outlasts_request)

subsection \<open>Polling\<close>

lemma wait_loop_returns:
  assumes "\<And>k. jw_now w k + c \<le> jw_now w (Suc k)" and "0 < c"
  shows "jw_start w + deadline - jw_now w k \<le> of_nat n * c \<Longrightarrow> \<exists>r. wait_loop dc w kind jid deadline k = Some r"
proof (induction n arbitrary: k)
  case 0
  then show ?case by (subst wait_loop.simps) (auto split: sum.split)
next
  case (Suc n)
  have "jw_start w + deadline - jw_now w (Suc k) \<le> of_nat n * c"
    using Suc.prems assms(1)[of k] by (simp add: field_simps)
  then show ?case using Suc.IH[of "Suc k"] by (subst wait_loop.simps) (auto split: sum.split)
qed

lemma submit_and_wait_returns:
  assumes "\<And>k. jw_now w k + c \<le> jw_now w (Suc k)" and "0 < c"
  shows "\<exists>r. submit_and_wait dc w kind payload fanout node t = Some r"
proof -
  have "\<exists>r. wait_loop dc w kind jid deadline 0 = Some r" for jid deadline
  proof -
    obtain n :: nat where "(jw_start w + deadline - jw_now w 0) / c \<le> of_nat n" by (meson real_arch_simple)
    then have "jw_start w + deadline - jw_now w 0 \<le> of_nat n * c" using assms(2) by (simp add: field_simps)
    then show ?thesis by (rule wait_loop_returns[OF assms])
  qed
  then show ?thesis by (auto simp: submit_and_wait_def split: sum.split json.split list.split)
qed

definition settled :: "(string, json) dict \<Rightarrow> bool" where
  "settled job \<longleftrightarrow> jget job ''status'' = JStr ''done'' \<or> jget job ''status'' = JStr ''failed''"

lemma jmember_True: "jmember j names = Inr True \<longleftrightarrow> (\<exists>s \<in> set names. j = JStr s)"
  by (cases j) (auto simp: jmember_def hashable_def)

text \<open>What a poll that ends the loop has seen: the shape of every answer carries over to the result.\<close>

definition polls_shaped :: "((string, json) dict \<Rightarrow> bool) \<Rightarrow> dain_client \<Rightarrow> job_world \<Rightarrow> string \<Rightarrow> bool" where
  "polls_shaped P dc w jid \<longleftrightarrow> (\<forall>k d. client_job dc jid (jw_job w jid k) = Inr d \<longrightarrow>
     (\<exists>s job. d = JObj job \<and> jget job ''status'' = JStr s \<and> P job))"

lemma wait_loop_result_aux:
  assumes "wait_loop dc w kind jid deadline k = Some r"
  shows "polls_shaped P dc w jid \<longrightarrow> (case r of Inl e \<Rightarrow> \<exists>m. e = DainError m | Inr job \<Rightarrow> settled job \<and> P job)"
proof (rule wait_loop.raw_induct[where P = "\<lambda>dc w kind jid deadline k r. polls_shaped P dc w jid \<longrightarrow>
    (case r of Inl e \<Rightarrow> \<exists>m. e = DainError m | Inr job \<Rightarrow> settled job \<and> P job)", OF _ assms], rule impI)
  fix loop :: "dain_client \<Rightarrow> job_world \<Rightarrow> string \<Rightarrow> string \<Rightarrow> rat \<Rightarrow> nat \<Rightarrow> (string, json) dict res option"
    and dc w kind jid deadline k r
  assume ih: "\<And>dc w kind jid deadline k r. loop dc w kind jid deadline k = Some r \<Longrightarrow> polls_shaped P dc w jid \<longrightarrow>
      (case r of Inl e \<Rightarrow> \<exists>m. e = DainError m | Inr job \<Rightarrow> settled job \<and> P job)"
    and body: "(case rbind (client_job dc jid (jw_job w jid k)) as_object of
      Inl e \<Rightarrow> Some (Inl e)
      | Inr job \<Rightarrow>
          case jmember (jget job ''status'') [''done'', ''failed''] of
          Inl e \<Rightarrow> Some (Inl e)
          | Inr b \<Rightarrow>
              if b then Some (Inr job)
              else if jw_start w + deadline \<le> jw_now w k
                   then Some (Inl (still_running kind jid job deadline))
                   else loop dc w kind jid deadline (Suc k)) = Some r"
    and shaped: "polls_shaped P dc w jid"
  show "case r of Inl e \<Rightarrow> \<exists>m. e = DainError m | Inr job \<Rightarrow> settled job \<and> P job"
  proof (cases "client_job dc jid (jw_job w jid k)")
    case (Inl e)
    then have "\<exists>m. e = DainError m"
      by (auto simp: client_job_def client_request_def split: http_reply.splits if_splits option.splits)
    with body Inl show ?thesis by auto
  next
    case (Inr d)
    with shaped obtain s job where d: "d = JObj job" "jget job ''status'' = JStr s" "P job"
      unfolding polls_shaped_def by blast
    show ?thesis
    proof (cases "s = ''done'' \<or> s = ''failed''")
      case True
      with body Inr d show ?thesis by (auto simp: as_object_def settled_def)
    next
      case False
      with body Inr d have "(if jw_start w + deadline \<le> jw_now w k
          then Some (Inl (still_running kind jid job deadline)) else loop dc w kind jid deadline (Suc k)) = Some r"
        by (simp add: as_object_def)
      with ih[of dc w kind jid deadline "Suc k" r] shaped show ?thesis
        by (auto simp: still_running_def split: if_splits)
    qed
  qed
qed

lemma wait_loop_result:
  assumes "wait_loop dc w kind jid deadline k = Some r" and "polls_shaped P dc w jid"
  shows "case r of Inl e \<Rightarrow> \<exists>m. e = DainError m | Inr job \<Rightarrow> settled job \<and> P job"
  using wait_loop_result_aux[OF assms(1)] assms(2) by simp

lemma client_request_error: "client_request dc meth path reply = Inl e \<Longrightarrow> \<exists>m. e = DainError m"
  by (auto simp: client_request_def split: http_reply.splits if_splits option.splits)

subsection \<open>What the tools rely on\<close>

text \<open>A settled job as the queue leaves it: no result, or one whose two lists are lists.\<close>

definition list_field :: "(string, json) dict \<Rightarrow> string \<Rightarrow> bool" where
  "list_field d k \<longleftrightarrow> jget d k = JNull \<or> (\<exists>xs. jget d k = JList xs)"

definition job_shape :: "(string, json) dict \<Rightarrow> bool" where
  "job_shape job \<longleftrightarrow> jget job ''result'' = JNull
     \<or> (\<exists>r. jget job ''result'' = JObj r \<and> list_field r ''shards'' \<and> list_field r ''errors'')"

locale job_client =
  fixes wait :: "'c \<Rightarrow> nat \<Rightarrow> string \<Rightarrow> (string, json) dict \<Rightarrow> int \<Rightarrow> json \<Rightarrow> (string, json) dict res"
    and available :: "'c \<Rightarrow> json list res"
    and inv :: "'c \<Rightarrow> bool"
  assumes wait_error: "inv c \<Longrightarrow> wait c i kind payload fanout node = Inl e \<Longrightarrow> \<exists>m. e = DainError m"
    and wait_settled: "inv c \<Longrightarrow> wait c i kind payload fanout node = Inr job \<Longrightarrow> settled job \<and> job_shape job"
    and available_error: "inv c \<Longrightarrow> available c = Inl e \<Longrightarrow> \<exists>m. e = DainError m"

text \<open>A world the client can work in: its clock advances and its answers have the expected shapes.\<close>

definition world_ok :: "dain_client \<Rightarrow> client_world \<Rightarrow> bool" where
  "world_ok dc w \<longleftrightarrow>
     (\<exists>c > 0. \<forall>i k. jw_now (cw_job w i) k + c \<le> jw_now (cw_job w i) (Suc k))
     \<and> (\<forall>i body j. client_request dc ''POST'' ''/jobs'' (jw_submit (cw_job w i) body) = Inr j \<longrightarrow> (\<exists>d. j = JObj d))
     \<and> (\<forall>i jid k j. client_job dc jid (jw_job (cw_job w i) jid k) = Inr j \<longrightarrow>
          (\<exists>s d. j = JObj d \<and> jget d ''status'' = JStr s \<and> job_shape d))
     \<and> (\<forall>ns. client_nodes dc (cw_nodes w) = Inr ns \<longrightarrow>
          (\<forall>d. JObj d \<in> set ns \<longrightarrow> hashable (jget d ''state'')))"

lemma wait_outcome:
  assumes "world_ok dc w"
  shows "case do_wait (client_ops dc w) i kind payload fanout node of
    Inl e \<Rightarrow> \<exists>m. e = DainError m | Inr job \<Rightarrow> settled job \<and> job_shape job"
proof -
  let ?w = "cw_job w i"
  obtain r where r: "submit_and_wait dc ?w kind payload fanout node None = Some r"
    using submit_and_wait_returns[of ?w _ dc kind payload fanout node None] assms unfolding world_ok_def by metis
  have jobs: "polls_shaped job_shape dc ?w jid" for jid
    using assms unfolding world_ok_def polls_shaped_def by metis
  have "case r of Inl e \<Rightarrow> \<exists>m. e = DainError m | Inr job \<Rightarrow> settled job \<and> job_shape job"
  proof (cases "client_submit dc ?w kind payload fanout node")
    case (Inl e)
    with r client_request_error show ?thesis by (auto simp: submit_and_wait_def client_submit_def)
  next
    case (Inr j)
    then obtain d where "j = JObj d"
      using assms unfolding world_ok_def client_submit_def by blast
    with r Inr show ?thesis
      by (auto simp: submit_and_wait_def dest!: wait_loop_result[OF _ jobs] split: json.splits list.splits)
  qed
  with r show ?thesis by (simp add: client_ops_def)
qed

lemma available_outcome:
  assumes "world_ok dc w" and "available_nodes dc (cw_nodes w) = Inl e"
  shows "\<exists>m. e = DainError m"
proof (cases "client_nodes dc (cw_nodes w)")
  case (Inl x)
  with assms(2) client_request_error show ?thesis
    by (auto simp: available_nodes_def client_nodes_def res_simps)
next
  case (Inr ns)
  have "\<exists>b. node_available n = Inr b" if "n \<in> set ns" for n
    using assms(1) Inr that unfolding world_ok_def
    by (cases n) (auto simp: node_available_def jmember_def)
  then have "rfilterM node_available ns = Inr (filter (\<lambda>n. projr (node_available n)) ns)"
    by (intro rfilterM_ok) force
  with Inr assms(2) show ?thesis by (simp add: available_nodes_def)
qed

interpretation client: job_client "\<lambda>(dc, w). do_wait (client_ops dc w)" "\<lambda>(dc, w). do_available (client_ops dc w)"
    "\<lambda>(dc, w). world_ok dc w"
proof
  fix c :: "dain_client \<times> client_world" and i kind payload fanout node e job
  assume c: "case c of (dc, w) \<Rightarrow> world_ok dc w"
  obtain dc w where dw: "c = (dc, w)" by (cases c)
  with c have ok: "world_ok dc w" by simp
  show "(case c of (dc, w) \<Rightarrow> do_wait (client_ops dc w)) i kind payload fanout node = Inl e \<Longrightarrow> \<exists>m. e = DainError m"
    using wait_outcome[OF ok, of i kind payload fanout node] dw by simp
  show "(case c of (dc, w) \<Rightarrow> do_wait (client_ops dc w)) i kind payload fanout node = Inr job \<Longrightarrow> settled job \<and> job_shape job"
    using wait_outcome[OF ok, of i kind payload fanout node] dw by simp
  show "(case c of (dc, w) \<Rightarrow> do_available (client_ops dc w)) = Inl e \<Longrightarrow> \<exists>m. e = DainError m"
    using available_outcome[OF ok] dw by (simp add: client_ops_def)
qed

end
