(* ===== verification/Agent_Pool_Properties.thy ===== *)
theory Agent_Pool_Properties
  imports Agent_Client_Properties
begin

text \<open>
  The agent over the control plane: the shape of the results the queue leaves, the world the handlers
  make (\<open>plane_world_ok\<close>), the width of a pool-wide search (C7) and one answer per prompt (C24).
\<close>

subsection \<open>Answers of the pool, on the client's interface\<close>

lemma list_fieldE:
  assumes "list_field d k"
  obtains xs where "jor (jget d k) (JList []) = JList xs"
proof (cases "jtruthy (jget d k)")
  case True
  with assms obtain xs where "jget d k = JList xs" by (auto simp: list_field_def)
  with True show ?thesis by (intro that[of xs]) (simp add: jor_def)
next
  case False
  then show ?thesis by (intro that[of "[]"]) (simp add: jor_def)
qed

lemma job_shape_lists:
  assumes "job_shape job"
  obtains r xs es where "jor (jget job ''result'') (JObj []) = JObj r"
    "jor (jget r ''shards'') (JList []) = JList xs" "jor (jget r ''errors'') (JList []) = JList es"
proof (cases "jtruthy (jget job ''result'')")
  case True
  with assms obtain r where r: "jget job ''result'' = JObj r" "list_field r ''shards''" "list_field r ''errors''"
    by (auto simp: job_shape_def)
  obtain xs es where "jor (jget r ''shards'') (JList []) = JList xs" "jor (jget r ''errors'') (JList []) = JList es"
    using r(2,3) by (metis list_fieldE)
  with r True show ?thesis by (intro that[of r]) (simp_all add: jor_def)
next
  case False
  then show ?thesis by (intro that[of "[]" "[]" "[]"]) (simp_all add: jor_def jget_def)
qed

lemma shard_error_total: assumes "job_shape job" shows "\<exists>m. shard_error job = Inr m"
  by (rule job_shape_lists[OF assms]) (simp add: shard_error_def)

lemma first_shard_result_total: assumes "job_shape job" shows "\<exists>d. first_shard_result job = Inr d"
proof -
  obtain r xs where "jor (jget job ''result'') (JObj []) = JObj r" "jor (jget r ''shards'') (JList []) = JList xs"
    using job_shape_lists[OF assms] by metis
  then show ?thesis by (cases xs) (simp_all add: first_shard_result_def Let_def jhead_def)
qed

context job_client begin

lemma ask_one_outcome:
  assumes "inv c" and "do_wait ops = wait c"
  shows "\<exists>a. ask_one ops i node p mt = Inr a \<and> pa_node_id a = node \<and> pa_prompt a = p
    \<and> (answer_ok a \<longleftrightarrow> (\<exists>job. wait c i ''infer'' [(''prompt'', JStr p), (''max_tokens'', JInt mt)] 1 node = Inr job
          \<and> jget job ''status'' = JStr ''done''))"
proof (cases "wait c i ''infer'' [(''prompt'', JStr p), (''max_tokens'', JInt mt)] 1 node")
  case (Inl e)
  with wait_error[OF assms(1) Inl] assms(2) show ?thesis
    by (auto simp: ask_one_def failed_answer_def answer_ok_def)
next
  case (Inr job)
  have shape: "job_shape job" using wait_settled[OF assms(1) Inr] by blast
  obtain m d where "shard_error job = Inr m" "first_shard_result job = Inr d"
    using shard_error_total[OF shape] first_shard_result_total[OF shape] by blast
  with Inr assms(2) show ?thesis
    by (auto simp: ask_one_def failed_answer_def answer_ok_def)
qed

lemma available_cases:
  assumes "inv c"
  obtains (down) m where "available c = Inl (DainError m)" | (up) nodes where "available c = Inr nodes"
  using available_error[OF assms] by (cases "available c") blast+

lemma run_pool_answers:
  assumes "inv c" and "do_wait ops = wait c" and "do_available ops = available c"
  shows "\<exists>answers. run_pool ops prompts mt = Inr answers \<and> map pa_prompt answers = prompts
    \<and> (\<forall>nodes. available c = Inr nodes \<longrightarrow> nodes \<noteq> [] \<longrightarrow> (\<forall>i < length prompts.
         pa_node_id (answers ! i) = nodes ! (i mod length nodes)
         \<and> ask_one ops i (nodes ! (i mod length nodes)) (prompts ! i) mt = Inr (answers ! i)))"
proof (cases rule: available_cases[OF assms(1)])
  case (1 m)
  then show ?thesis using assms(3)
    by (cases "prompts = []") (auto simp: run_pool_def failed_answer_def comp_def)
next
  case (2 nodes)
  show ?thesis
  proof (cases "prompts = [] \<or> nodes = []")
    case True
    with 2 assms(3) show ?thesis by (auto simp: run_pool_def failed_answer_def comp_def)
  next
    case False
    let ?n = "\<lambda>i. nodes ! (i mod length nodes)"
    define g where "g = (\<lambda>(i, p). projr (ask_one ops i (?n i) p mt))"
    have one: "ask_one ops i (?n i) p mt = Inr (g (i, p)) \<and> pa_node_id (g (i, p)) = ?n i \<and> pa_prompt (g (i, p)) = p" for i p
      using ask_one_outcome[OF assms(1,2), of i "?n i" p mt] by (auto simp: g_def)
    have "rmapM (\<lambda>(i, p). ask_one ops i (?n i) p mt) (zip [0 ..< length prompts] prompts)
        = Inr (map g (zip [0 ..< length prompts] prompts))"
      by (rule rmapM_ok) (use one in auto)
    with 2 False assms(3) have run: "run_pool ops prompts mt = Inr (map g (zip [0 ..< length prompts] prompts))"
      by (simp add: run_pool_def)
    have "map pa_prompt (map g (zip [0 ..< length prompts] prompts)) = prompts"
      by (rule nth_equalityI) (use one in auto)
    with run one 2 show ?thesis by auto
  qed
qed

end

subsection \<open>What the queue leaves in a job\<close>

definition result_shaped :: "job \<Rightarrow> bool" where
  "result_shaped jb \<longleftrightarrow> (case jb_result jb of None \<Rightarrow> True
     | Some r \<Rightarrow> \<exists>ss es. jget r ''shards'' = JList ss \<and> jget r ''errors'' = JList es)"

definition jobs_shaped :: "job_queue \<Rightarrow> bool" where
  "jobs_shaped q \<longleftrightarrow> (\<forall>jid jb. map_of (jq_jobs q) jid = Some jb \<longrightarrow> result_shaped jb)"

lemma jobs_shaped_update:
  "jobs_shaped q \<Longrightarrow> result_shaped jb \<Longrightarrow> jq_jobs q' = AList.update k jb (jq_jobs q) \<Longrightarrow> jobs_shaped q'"
  by (auto simp: jobs_shaped_def update_conv' split: if_splits)

lemma jobs_shaped_same: "jq_jobs q' = jq_jobs q \<Longrightarrow> jobs_shaped q' = jobs_shaped q"
  by (simp add: jobs_shaped_def)

lemma finish_job_jobs:
  "\<exists>st t r. jq_jobs (finish_job now wall jb tk q) = AList.update (jb_id jb)
      (jb\<lparr>jb_status := st, jb_finished_at := t, jb_result := Some r\<rparr>) (jq_jobs q)
    \<and> (\<exists>ss es. jget r ''shards'' = JList ss \<and> jget r ''errors'' = JList es)"
proof -
  obtain results errors0 where c: "collect_outcomes 0 (shard_results tk) = (results, errors0)"
    by (cases "collect_outcomes 0 (shard_results tk)")
  obtain merged errors where m: "(if jb_kind jb = ''search''
      then (case merge_search_results (jb_payload jb) results of
          Inr m \<Rightarrow> (m, errors0) | Inl e \<Rightarrow> ([], errors0 @ [(JNull, err_text e)]))
      else ([], errors0)) = (merged, errors)" by (metis surj_pair)
  show ?thesis
    by (rule exI, rule exI, rule exI[of _ "[(''shards'', JList results), (''errors'', JList (map error_json errors))] @ merged"],
        rule conjI, simp only: finish_job_def c m Let_def prod.case set_task_def, simp add: set_job_def, simp add: jget_def)
qed

lemma dispatch_jobs:
  assumes inv: "jq_inv q" and at: "map_of (jq_tasks q) jid = Some tk" "map_of (jq_jobs q) jid = Some jb"
  shows "jq_jobs (dispatch_shard wall reg jb tk i q) = jq_jobs q"
proof (cases "queue_profile reg (sh_node (rt_shards tk ! i))")
  case (Inl e)
  let ?q0 = "q\<lparr>jq_semaphores := AList.update (sh_node (rt_shards tk ! i)) (permits q (sh_node (rt_shards tk ! i))) (jq_semaphores q)\<rparr>"
  have "books_ok q" using inv by (simp add: jq_inv_def)
  then have "map_of (jq_assigned_nodes ?q0) (jb_id jb) \<noteq> None" using books_facts(3)[OF _ at] by simp
  from shard_failed_shape(5)[OF this, of wall reg tk i e] Inl show ?thesis by (simp add: dispatch_shard_def Let_def)
next
  case (Inr p)
  then show ?thesis by (simp add: dispatch_shard_def Let_def set_shard_def)
qed

lemma resume_jobs:
  assumes inv: "jq_inv q" and at: "map_of (jq_tasks q) jid = Some tk" "map_of (jq_jobs q) jid = Some jb"
  shows "jq_jobs (resume_shard wall reg jb tk i reply q) = jq_jobs q"
proof (cases "request_outcome reply")
  case (Inl e)
  have "books_ok q" using inv by (simp add: jq_inv_def)
  then have "map_of (jq_assigned_nodes (release_node (sh_node (rt_shards tk ! i)) q)) (jb_id jb) \<noteq> None"
    using books_facts(3)[OF _ at] by simp
  from shard_failed_shape(5)[OF this, of wall reg tk i e] Inl show ?thesis by (simp add: resume_shard_def Let_def)
next
  case (Inr p)
  then show ?thesis by (simp add: resume_shard_def Let_def set_shard_def)
qed

lemma jobs_shaped_step:
  assumes "jq_step q q'" and "jq_inv q" and "jobs_shaped q"
  shows "jobs_shaped q'"
  using assms
proof (induction rule: jq_step.induct)
  case (submit wall uuid reg kind payload fanout node_id q jb q')
  then have "jb_result jb = None \<and> jq_jobs q' = AList.update uuid jb (jq_jobs q)"
    using submit_Inr[OF submit(1)] by (auto simp: set_task_def)
  with submit show ?case by (auto simp: jobs_shaped_def result_shaped_def update_conv')
next
  case (start q jid tk jb now wall)
  then have "result_shaped jb" by (auto simp: jobs_shaped_def)
  then have "result_shaped (jb\<lparr>jb_status := Running, jb_started_at := Some now\<rparr>)" by (simp add: result_shaped_def)
  then show ?case by (rule jobs_shaped_update[OF start(5)]) (simp add: start_job_def Let_def set_task_def set_job_def)
next
  case (dispatch q jid tk jb i wall reg)
  then show ?case using jobs_shaped_same[OF dispatch_jobs[of q jid tk jb wall reg i]] by simp
next
  case (resume q jid tk jb i wall reg reply)
  then show ?case using jobs_shaped_same[OF resume_jobs[of q jid tk jb wall reg i reply]] by simp
next
  case (finish q jid tk jb now wall)
  obtain st t r where "jq_jobs (finish_job now wall jb tk q) = AList.update (jb_id jb)
      (jb\<lparr>jb_status := st, jb_finished_at := t, jb_result := Some r\<rparr>) (jq_jobs q)"
      "\<exists>ss es. jget r ''shards'' = JList ss \<and> jget r ''errors'' = JList es"
    using finish_job_jobs[of now wall jb tk q] by blast
  then show ?case by (intro jobs_shaped_update[OF finish(6)]) (auto simp: result_shaped_def)
next
  case (cancel q jid tk jb now wall)
  have "jq_jobs (cancel_job now wall jb tk q) = jq_jobs q
    \<or> (\<exists>jb1. result_shaped jb1 \<and> jq_jobs (cancel_job now wall jb tk q) = AList.update (jb_id jb1) jb1 (jq_jobs q))"
    by (auto simp: cancel_job_def Let_def set_task_def set_job_def result_shaped_def jget_def split: task_state.split
        intro!: exI[of _ "jb\<lparr>jb_status := Failed, jb_finished_at := Some now, jb_result := r\<rparr>" for r])
  then show ?case
  proof (elim disjE exE conjE)
    assume "jq_jobs (cancel_job now wall jb tk q) = jq_jobs q"
    then show ?thesis using cancel(5) by (simp add: jobs_shaped_def)
  next
    fix jb1 assume "result_shaped jb1" "jq_jobs (cancel_job now wall jb tk q) = AList.update (jb_id jb1) jb1 (jq_jobs q)"
    then show ?thesis by (rule jobs_shaped_update[OF cancel(5)])
  qed
next
  case (finished q jid tk jb now wall)
  have "jq_jobs (task_finished now wall jb tk q) = jq_jobs q
    \<or> (\<exists>jb1. result_shaped jb1 \<and> jq_jobs (task_finished now wall jb tk q) = AList.update (jb_id jb1) jb1 (jq_jobs q))"
    by (auto simp: task_finished_def Let_def set_job_def result_shaped_def jget_def split: task_state.split option.split
        intro!: exI[of _ "jb\<lparr>jb_status := Failed, jb_finished_at := Some now, jb_result := r\<rparr>" for r])
  then show ?case
  proof (elim disjE exE conjE)
    assume "jq_jobs (task_finished now wall jb tk q) = jq_jobs q"
    then show ?thesis using finished(5) by (simp add: jobs_shaped_def)
  next
    fix jb1 assume "result_shaped jb1" "jq_jobs (task_finished now wall jb tk q) = AList.update (jb_id jb1) jb1 (jq_jobs q)"
    then show ?thesis by (rule jobs_shaped_update[OF finished(5)])
  qed
next
  case (close q)
  then show ?case by (simp add: close_queue_def jobs_shaped_def)
qed

lemma jobs_shaped_reachable: "jq_reachable q \<Longrightarrow> jobs_shaped q"
proof (induction rule: jq_reachable.induct)
  case (new secret t it lim port eps tos q)
  then show ?case by (auto simp: new_queue_def jobs_shaped_def split: if_splits)
next
  case (step q q')
  then show ?case using jobs_shaped_step jq_reachable_inv by blast
qed


subsection \<open>The world the control plane makes\<close>

lemma response_json_shape:
  assumes "result_shaped (jr_job r)"
  shows "\<exists>s d. response_json r = JObj d \<and> jget d ''status'' = JStr s \<and> job_shape d"
proof -
  obtain d where d: "response_json r = JObj d" "jget d ''status'' = JStr (status_name (jb_status (jr_job r)))"
      "jget d ''result'' = opt_json JObj (jb_result (jr_job r))"
    by (auto simp: response_json_def Let_def jget_def)
  have "job_shape d"
    using assms by (cases "jb_result (jr_job r)")
      (auto simp: job_shape_def d(3) opt_json_def result_shaped_def list_field_def)
  with d show ?thesis by blast
qed

text \<open>Exceptions the handlers answer with: a status of 400 or more, or a 500.\<close>

definition refusal :: "py_error \<Rightarrow> bool" where
  "refusal e \<longleftrightarrow> (\<forall>code m. e = HTTPException code m \<longrightarrow> 400 \<le> code)"

lemma client_request_answer:
  assumes "client_request dc meth path (http_answer r) = Inr j" and "\<And>e. r = Inl e \<Longrightarrow> refusal e"
  shows "r = Inr j"
proof (cases r)
  case (Inl e)
  with assms have "refusal e" by blast
  with assms(1) Inl show ?thesis
    by (cases e) (auto simp: client_request_def http_answer_def refusal_def)
next
  case (Inr x)
  with assms(1) show ?thesis by (simp add: client_request_def http_answer_def)
qed

lemma submit_error: "submit wall uuid reg kind payload fanout node q = Inl e \<Longrightarrow>
    (\<exists>m. e = RuntimeError m) \<or> (\<exists>m. e = ValueError m) \<or> (\<exists>m. e = NodeUnavailableError m)"
  by (auto simp: submit_def Let_def res_simps select_nodes_def queue_profile_def split: if_splits option.splits)

lemma response_error: "response jid q = Inl e \<Longrightarrow> \<exists>k. e = KeyError k"
  by (auto simp: response_def dict_get_def res_simps split: option.splits)

lemma create_job_refusal:
  assumes "fst (create_job wall uuid kind payload fanout node cp) = Inl e"
  shows "refusal e"
proof (cases "kind \<notin> set JOB_KINDS \<or> fanout < 1 \<or> 16 < fanout")
  case True
  with assms show ?thesis by (auto simp: create_job_def invalid_request_def refusal_def)
next
  case False
  show ?thesis
  proof (cases "submit wall uuid (cp_registry cp) kind payload fanout node (cp_queue cp)")
    case (Inl x)
    from submit_error[OF Inl] False assms Inl show ?thesis
      by (auto simp: create_job_def refusal_def is_value_error_def is_runtime_error_def)
  next
    case (Inr p)
    obtain jb q where p: "p = (jb, q)" by (cases p)
    with False assms Inr have "(case response (jb_id jb) q of Inl e \<Rightarrow> Inl e
        | Inr None \<Rightarrow> Inl (HTTPException 500 ''job was not stored'') | Inr (Some resp) \<Rightarrow> Inr resp) = Inl e"
      by (simp add: create_job_def)
    then show ?thesis using response_error[of "jb_id jb" q]
      by (auto simp: refusal_def split: sum.splits option.splits)
  qed
qed

lemma get_job_refusal: "get_job jid cp = Inl e \<Longrightarrow> refusal e"
  using response_error[of jid "cp_queue cp"]
  by (auto simp: get_job_def refusal_def split: sum.splits option.splits)

lemma get_job_shaped:
  assumes "get_job jid cp = Inr r" and "jobs_shaped (cp_queue cp)"
  shows "result_shaped (jr_job r)"
  using assms by (auto simp: get_job_def response_def res_simps jobs_shaped_def split: sum.splits option.splits)

lemma plane_nodes_states:
  assumes "client_nodes dc (plane_nodes cp) = Inr ns"
  shows "ns = map (\<lambda>p. JObj (profile_dict p)) (list_profiles (cp_registry cp))"
  using assms by (auto simp: client_nodes_def plane_nodes_def client_request_def http_answer_def get_nodes_def)

lemma plane_world_ok:
  assumes "0 < dc_poll_interval_s dc" and "\<And>i k. jq_reachable (cp_queue (polled i k))"
  shows "world_ok dc (plane_world dc wall uuid cp posts polled lat metrics plans)"
  unfolding world_ok_def
proof (intro conjI)
  let ?w = "plane_world dc wall uuid cp posts polled lat metrics plans"
  have "poll_clock (dc_poll_interval_s dc) l k + dc_poll_interval_s dc \<le> poll_clock (dc_poll_interval_s dc) l (Suc k)" for l k
    by simp
  then show "\<exists>c > 0. \<forall>i k. jw_now (cw_job ?w i) k + c \<le> jw_now (cw_job ?w i) (Suc k)"
    using assms(1) by (intro exI[of _ "dc_poll_interval_s dc"]) (simp add: plane_world_def del: poll_clock.simps)
  show "\<forall>i body j. client_request dc ''POST'' ''/jobs'' (jw_submit (cw_job ?w i) body) = Inr j \<longrightarrow> (\<exists>d. j = JObj d)"
  proof (intro allI impI)
    fix i body j
    let ?r = "rbind (decode_job_request body) (\<lambda>(kind, payload, fanout, node_id).
       rmap response_json (fst (create_job wall (uuid i) kind payload fanout node_id (posts i))))"
    assume "client_request dc ''POST'' ''/jobs'' (jw_submit (cw_job ?w i) body) = Inr j"
    then have "client_request dc ''POST'' ''/jobs'' (http_answer ?r) = Inr j"
      by (simp add: plane_world_def plane_submit_def)
    moreover have "refusal e" if "?r = Inl e" for e
      using that create_job_refusal
      by (auto simp: res_simps rmap_def decode_job_request_def invalid_request_def refusal_def split: json.splits prod.splits)
    ultimately have "?r = Inr j" by (rule client_request_answer)
    then show "\<exists>d. j = JObj d" by (auto simp: res_simps rmap_def response_json_def Let_def split: prod.splits)
  qed
  show "\<forall>i jid k j. client_job dc jid (jw_job (cw_job ?w i) jid k) = Inr j \<longrightarrow>
      (\<exists>s d. j = JObj d \<and> jget d ''status'' = JStr s \<and> job_shape d)"
  proof (intro allI impI)
    fix i jid k j
    assume "client_job dc jid (jw_job (cw_job ?w i) jid k) = Inr j"
    then have "client_request dc ''GET'' (''/jobs/'' @ jid) (http_answer (rmap response_json (get_job jid (polled i k)))) = Inr j"
      by (simp add: plane_world_def plane_job_def client_job_def)
    moreover have "refusal e" if "rmap response_json (get_job jid (polled i k)) = Inl e" for e
      using that get_job_refusal by (auto simp: rmap_def res_simps)
    ultimately have "rmap response_json (get_job jid (polled i k)) = Inr j" by (rule client_request_answer)
    then obtain r where "get_job jid (polled i k) = Inr r" "j = response_json r" by (auto simp: rmap_def res_simps)
    with response_json_shape get_job_shaped jobs_shaped_reachable[OF assms(2)]
    show "\<exists>s d. j = JObj d \<and> jget d ''status'' = JStr s \<and> job_shape d" by metis
  qed
  show "\<forall>ns. client_nodes dc (cw_nodes ?w) = Inr ns \<longrightarrow> (\<forall>d. JObj d \<in> set ns \<longrightarrow> hashable (jget d ''state''))"
    using plane_nodes_states[of dc cp] by (auto simp: plane_world_def profile_dict_def jget_def hashable_def)
qed


subsection \<open>The nodes the agent counts\<close>

definition dispatchable :: "control_plane \<Rightarrow> node_profile list" where
  "dispatchable cp = filter (\<lambda>p. np_state p \<noteq> Joining \<and> np_state p \<noteq> Offline) (list_profiles (cp_registry cp))"

lemma node_available_profile:
  "node_available (JObj (profile_dict p)) = Inr (np_id p \<noteq> [] \<and> np_state p \<noteq> Joining \<and> np_state p \<noteq> Offline)"
  by (cases "np_state p") (auto simp: node_available_def profile_dict_def jget_def UNAVAILABLE_STATES_def)

lemma plane_available:
  "available_nodes dc (plane_nodes cp) = Inr (map (\<lambda>p. JStr (np_id p)) (filter (\<lambda>p. np_id p \<noteq> []) (dispatchable cp)))"
proof -
  have n: "client_nodes dc (plane_nodes cp) = Inr (map (\<lambda>p. JObj (profile_dict p)) (list_profiles (cp_registry cp)))"
    by (simp add: client_nodes_def plane_nodes_def client_request_def http_answer_def get_nodes_def)
  have f: "rfilterM node_available (map (\<lambda>p. JObj (profile_dict p)) ps) = Inr (map (\<lambda>p. JObj (profile_dict p))
      (filter (\<lambda>p. np_state p \<noteq> Joining \<and> np_state p \<noteq> Offline \<and> np_id p \<noteq> []) ps))" for ps
    by (induction ps) (auto simp: node_available_profile)
  have i: "node_id_of (JObj (profile_dict p)) = JStr (np_id p)" for p
    by (simp add: node_id_of_def profile_dict_def jget_def)
  show ?thesis by (simp add: available_nodes_def n f i dispatchable_def comp_def)
qed



lemma pool_answers:
  fixes dc wall uuid cp posts polled lat metrics plans prompts mt
  assumes "0 < dc_poll_interval_s dc" and "\<And>i k. jq_reachable (cp_queue (polled i k))"
  defines "w \<equiv> plane_world dc wall uuid cp posts polled lat metrics plans"
    and "nodes \<equiv> map np_id (filter (\<lambda>p. np_id p \<noteq> []) (dispatchable cp))"
  shows "\<exists>answers. run_pool (client_ops dc w) prompts mt = Inr answers \<and> map pa_prompt answers = prompts
    \<and> (nodes = [] \<longrightarrow> (\<forall>a \<in> set answers. pa_error a = Some no_nodes_reason))
    \<and> (nodes \<noteq> [] \<longrightarrow> (\<forall>i < length prompts.
         pa_node_id (answers ! i) = JStr (nodes ! (i mod length nodes))
         \<and> (answer_ok (answers ! i) \<longleftrightarrow> (\<exists>job. do_wait (client_ops dc w) i ''infer''
               [(''prompt'', JStr (prompts ! i)), (''max_tokens'', JInt mt)] 1 (JStr (nodes ! (i mod length nodes))) = Inr job
             \<and> jget job ''status'' = JStr ''done''))))"
proof -
  let ?ops = "client_ops dc w" and ?ns = "map JStr nodes"
  have inv: "case (dc, w) of (dc, w) \<Rightarrow> world_ok dc w"
    using plane_world_ok[OF assms(1,2)] by (simp add: w_def)
  have av: "do_available ?ops = Inr ?ns"
    by (simp add: w_def client_ops_def plane_world_def plane_available nodes_def comp_def)
  obtain answers where a: "run_pool ?ops prompts mt = Inr answers" "map pa_prompt answers = prompts"
      "?ns \<noteq> [] \<longrightarrow> (\<forall>i < length prompts. pa_node_id (answers ! i) = ?ns ! (i mod length ?ns)
         \<and> ask_one ?ops i (?ns ! (i mod length ?ns)) (prompts ! i) mt = Inr (answers ! i))"
    using client.run_pool_answers[OF inv, of ?ops prompts mt] av by auto
  have none: "\<forall>a \<in> set answers. pa_error a = Some no_nodes_reason" if "nodes = []"
    using a(1) av that by (cases "prompts = []") (auto simp: run_pool_def failed_answer_def)
  have "pa_node_id (answers ! i) = JStr (nodes ! (i mod length nodes))
      \<and> (answer_ok (answers ! i) \<longleftrightarrow> (\<exists>job. do_wait ?ops i ''infer''
            [(''prompt'', JStr (prompts ! i)), (''max_tokens'', JInt mt)] 1 (JStr (nodes ! (i mod length nodes))) = Inr job
          \<and> jget job ''status'' = JStr ''done''))" if "nodes \<noteq> []" "i < length prompts" for i
  proof -
    have n: "?ns ! (i mod length ?ns) = JStr (nodes ! (i mod length nodes))" using that(1) by simp
    have "ask_one ?ops i (JStr (nodes ! (i mod length nodes))) (prompts ! i) mt = Inr (answers ! i)"
      using a(3) that n by auto
    with client.ask_one_outcome[OF inv, of ?ops i "JStr (nodes ! (i mod length nodes))" "prompts ! i" mt]
    show ?thesis by auto
  qed
  with a(1,2) none show ?thesis by blast
qed


definition sample_pool :: "telemetry \<Rightarrow> control_plane" where
  "sample_pool tel = \<lparr>cp_registry = busy_registry, cp_auth = \<lparr>am_pool_secret = ''pool'', am_challenge_ttl_s = 30,
     am_token_ttl_s = 60, am_challenges = [], am_tokens = []\<rparr>, cp_telemetry = tel, cp_queue = sample_queue\<rparr>"

definition sample_client :: dain_client where
  "sample_client = \<lparr>dc_ctl = ''ctl'', dc_api_base = ''http://ctl/api'', dc_poll_interval_s = 1 / 4\<rparr>"

lemma sample_pool_dispatchable: "map np_id (dispatchable (sample_pool tel)) = [''a'', ''b'']"
proof -
  have "map np_id (filter (\<lambda>p. np_state p \<noteq> Joining \<and> np_state p \<noteq> Offline) (list_profiles busy_registry)) = [''a'', ''b'']"
    by code_simp
  then show ?thesis by (simp add: dispatchable_def sample_pool_def)
qed

lemma sample_pool_named: "filter (\<lambda>p. np_id p \<noteq> []) (dispatchable (sample_pool tel)) = dispatchable (sample_pool tel)"
proof -
  have "\<forall>n \<in> set (map np_id (dispatchable (sample_pool tel))). n \<noteq> []"
    unfolding sample_pool_dispatchable by simp
  then show ?thesis by (simp add: filter_id_conv)
qed


text \<open>
  C24. One answer per prompt. Over a control plane with a reachable queue, whatever each job meets,
  \<open>ask_pool\<close> returns one answer for every prompt, in order. With nodes available, prompt \<open>i\<close> is asked of
  node \<open>i mod n\<close>, and its answer counts as answered exactly if its own job was done: a node that fails
  or is refused costs its own answers only. With none, every answer says so.
\<close>

theorem pool_answers_every_prompt:
  assumes "0 < dc_poll_interval_s dc" and "\<And>i k. jq_reachable (cp_queue (polled i k))"
  shows "let w = plane_world dc wall uuid cp posts polled lat metrics plans;
         nodes = map np_id (filter (\<lambda>p. np_id p \<noteq> []) (dispatchable cp)) in
    \<exists>answers. run_pool (client_ops dc w) prompts mt = Inr answers \<and> map pa_prompt answers = prompts
    \<and> (nodes = [] \<longrightarrow> (\<forall>a \<in> set answers. pa_error a = Some no_nodes_reason))
    \<and> (nodes \<noteq> [] \<longrightarrow> (\<forall>i < length prompts.
         pa_node_id (answers ! i) = JStr (nodes ! (i mod length nodes))
         \<and> (answer_ok (answers ! i) \<longleftrightarrow> (\<exists>job. do_wait (client_ops dc w) i ''infer''
               [(''prompt'', JStr (prompts ! i)), (''max_tokens'', JInt mt)] 1 (JStr (nodes ! (i mod length nodes))) = Inr job
             \<and> jget job ''status'' = JStr ''done''))))"
  unfolding Let_def by (rule pool_answers[OF assms])

lemma answers_nodes:
  "\<exists>x. A x \<and> B x \<and> (n \<longrightarrow> C x) \<and> (m \<longrightarrow> (\<forall>i < k. D x i \<and> E x i)) \<Longrightarrow> m \<Longrightarrow> \<exists>x. A x \<and> B x \<and> (\<forall>i < (k :: nat). D x i)"
  by blast

theorem pool_answers_every_prompt_witness:
  "\<forall>tel. \<exists>answers. run_pool (client_ops sample_client (plane_world sample_client of_int (\<lambda>i. ''j'')
        (sample_pool tel) (\<lambda>i. sample_pool tel) (\<lambda>i k. sample_pool tel) (\<lambda>i k. 0) (Reply 200 [] None)
        (\<lambda>m c s. Reply 200 [] None))) [''p'', ''q'', ''r''] 256 = Inr answers
      \<and> map pa_node_id answers = [JStr ''a'', JStr ''b'', JStr ''a'']"
proof
  fix tel
  let ?w = "plane_world sample_client of_int (\<lambda>i. ''j'') (sample_pool tel) (\<lambda>i. sample_pool tel)
    (\<lambda>i k. sample_pool tel) (\<lambda>i k. 0) (Reply 200 [] None) (\<lambda>m c s. Reply 200 [] None)"
  have h: "0 < dc_poll_interval_s sample_client" "jq_reachable (cp_queue (sample_pool tel))"
    using jq_reachable.new[OF sample_queue_new] by (simp_all add: sample_client_def sample_pool_def)
  note t = pool_answers_every_prompt[where dc = sample_client and polled = "\<lambda>i k. sample_pool tel"
      and cp = "sample_pool tel" and prompts = "[''p'', ''q'', ''r'']" and mt = 256
      and wall = of_int and uuid = "\<lambda>i. ''j''" and posts = "\<lambda>i. sample_pool tel" and lat = "\<lambda>i k. 0"
      and metrics = "Reply 200 [] None" and plans = "\<lambda>m c s. Reply 200 [] None", OF h,
      unfolded Let_def sample_pool_named sample_pool_dispatchable]
  have ne: "[''a'', ''b''] \<noteq> []" by simp
  have "\<exists>answers. run_pool (client_ops sample_client ?w) [''p'', ''q'', ''r''] 256 = Inr answers
      \<and> map pa_prompt answers = [''p'', ''q'', ''r'']
      \<and> (\<forall>i < length [''p'', ''q'', ''r'']. pa_node_id (answers ! i) = JStr ([''a'', ''b''] ! (i mod length [''a'', ''b''])))"
    by (rule answers_nodes[OF t ne])
  then obtain answers where a: "run_pool (client_ops sample_client ?w) [''p'', ''q'', ''r''] 256 = Inr answers"
      "map pa_prompt answers = [''p'', ''q'', ''r'']"
      "\<forall>i < length [''p'', ''q'', ''r'']. pa_node_id (answers ! i) = JStr ([''a'', ''b''] ! (i mod length [''a'', ''b'']))"
    by (elim exE conjE) (rule that)
  have len: "length answers = length [''p'', ''q'', ''r'']" using a(2) by (metis length_map)
  have ids: "map pa_node_id answers = [JStr ''a'', JStr ''b'', JStr ''a'']"
  proof (rule nth_equalityI)
    show "length (map pa_node_id answers) = length [JStr ''a'', JStr ''b'', JStr ''a'']" using len by simp
    fix i assume "i < length (map pa_node_id answers)"
    then have i: "i < length [''p'', ''q'', ''r'']" using len by simp
    then have "i = 0 \<or> i = 1 \<or> i = 2" by auto
    then have "JStr ([''a'', ''b''] ! (i mod length [''a'', ''b''])) = [JStr ''a'', JStr ''b'', JStr ''a''] ! i"
      by (elim disjE) (simp_all add: numeral_2_eq_2)
    moreover have "pa_node_id (answers ! i) = JStr ([''a'', ''b''] ! (i mod length [''a'', ''b'']))"
      using a(3) i by blast
    ultimately show "map pa_node_id answers ! i = [JStr ''a'', JStr ''b'', JStr ''a''] ! i"
      using i len by (metis nth_map)
  qed
  show "\<exists>answers. run_pool (client_ops sample_client ?w) [''p'', ''q'', ''r''] 256 = Inr answers
      \<and> map pa_node_id answers = [JStr ''a'', JStr ''b'', JStr ''a'']"
    by (rule exI, rule conjI, rule a(1), rule ids)
qed

end
