(* ===== verification/Mock_Data.thy ===== *)
theory Mock_Data
  imports Control_Plane
begin

text \<open>
  The demo data: \<open>ctl/mock.py\<close>, with the four fixture nodes and the in-memory control plane of the first
  dashboard, and the calibrated pool of \<open>sched/mock.py\<close>. Clocks and identifiers are arguments.
\<close>

subsection \<open>The fixture nodes\<close>

definition gpu_01 :: node_profile where
  "gpu_01 = \<lparr>np_id = ''gpu-01'', np_host = ''192.168.50.10'', np_cpu = ''Intel Core i7'', np_cores = 4,
     np_ram_total_mb = 64 * 1024, np_ram_free_mb = 46 * 1024, np_gpu = Some ''NVIDIA GeForce RTX 5070 Ti'',
     np_vram_total_mb = 16 * 1024, np_backend = ''cuda'', np_mem_bandwidth_gbs = 0, np_tg_tok_s = 0,
     np_pp_tok_s = 0, np_rtt_ms = 0, np_state = Idle\<rparr>"

definition office_01 :: node_profile where
  "office_01 = \<lparr>np_id = ''office-01'', np_host = ''192.168.50.11'', np_cpu = ''Intel Core i7 vPro'', np_cores = 4,
     np_ram_total_mb = 8 * 1024, np_ram_free_mb = 6 * 1024, np_gpu = Some ''Intel integrated graphics'',
     np_vram_total_mb = 0, np_backend = ''cpu'', np_mem_bandwidth_gbs = 0, np_tg_tok_s = 0,
     np_pp_tok_s = 0, np_rtt_ms = 4 / 10, np_state = Idle\<rparr>"

definition office_02 :: node_profile where
  "office_02 = \<lparr>np_id = ''office-02'', np_host = ''192.168.50.12'', np_cpu = ''Intel Core i7 vPro'', np_cores = 4,
     np_ram_total_mb = 8 * 1024, np_ram_free_mb = 6 * 1024, np_gpu = Some ''Intel integrated graphics'',
     np_vram_total_mb = 0, np_backend = ''cpu'', np_mem_bandwidth_gbs = 0, np_tg_tok_s = 0,
     np_pp_tok_s = 0, np_rtt_ms = 4 / 10, np_state = Idle\<rparr>"

definition mac_01 :: node_profile where
  "mac_01 = \<lparr>np_id = ''mac-01'', np_host = ''192.168.50.13'', np_cpu = ''Apple M5 Pro'', np_cores = 12,
     np_ram_total_mb = 24 * 1024, np_ram_free_mb = 18 * 1024, np_gpu = Some ''Apple M5 Pro integrated GPU'',
     np_vram_total_mb = 24 * 1024, np_backend = ''metal'', np_mem_bandwidth_gbs = 0, np_tg_tok_s = 0,
     np_pp_tok_s = 0, np_rtt_ms = 5 / 10, np_state = Idle\<rparr>"

definition MOCK_NODES :: "node_profile list" where
  "MOCK_NODES = [gpu_01, office_01, office_02, mac_01]"

text \<open>\<open>int(n * 0.75)\<close> of a size in MiB.\<close>

definition three_quarters :: "int \<Rightarrow> int" where
  "three_quarters n = py_int (of_int n * 3 / 4)"

definition mock_sample :: "rat \<Rightarrow> int \<Rightarrow> int \<Rightarrow> node_profile \<Rightarrow> node_metrics" where
  "mock_sample timestamp counter index node =
     (let step = (counter + index) mod 10;
          uses_gpu = np_backend node \<in> set [''cuda'', ''vulkan'', ''metal''];
          has_separate_vram = uses_gpu \<and> np_backend node \<noteq> ''metal''
      in \<lparr>nm_node_id = np_id node, nm_timestamp = timestamp, nm_cpu_percent = of_int (15 + index * 5 + step),
          nm_ram_free_mb = max 0 (three_quarters (np_ram_total_mb node) - step * 32),
          nm_gpu_percent = (if uses_gpu then Some (of_int (30 + index * 5 + step)) else None),
          nm_vram_free_mb = (if has_separate_vram then Some (max 0 (three_quarters (np_vram_total_mb node) - step * 32))
                             else None),
          nm_jobs_running = (if (counter + index) mod 3 = 0 then 1 else 0)\<rparr>)"

definition make_mock_metrics :: "rat \<Rightarrow> int \<Rightarrow> node_profile list \<Rightarrow> node_metrics list" where
  "make_mock_metrics timestamp counter nodes =
     map (\<lambda>(index, node). mock_sample timestamp counter (int index) node)
       (enumerate 0 (if nodes = [] then MOCK_NODES else nodes))"

subsection \<open>The mock control plane\<close>

record mock_state =
  mk_nodes :: "(string, node_profile) dict"
  mk_jobs :: "(string, job) dict"
  mk_job_fanout :: "(string, int) dict"
  mk_job_assignments :: "(string, string list) dict"
  mk_metrics_counter :: int

definition mock_reset :: mock_state where
  "mock_reset = \<lparr>mk_nodes = dict_of (map (\<lambda>n. (np_id n, n)) MOCK_NODES), mk_jobs = [], mk_job_fanout = [],
     mk_job_assignments = [], mk_metrics_counter = 0\<rparr>"

definition mock_list_nodes :: "mock_state \<Rightarrow> node_profile list" where
  "mock_list_nodes ms = sort_key np_id (map snd (mk_nodes ms))"

definition mock_join :: "node_profile \<Rightarrow> mock_state \<Rightarrow> node_profile \<times> mock_state" where
  "mock_join profile ms = (profile, ms\<lparr>mk_nodes := AList.update (np_id profile) profile (mk_nodes ms)\<rparr>)"

definition mock_remove :: "string \<Rightarrow> mock_state \<Rightarrow> bool \<times> mock_state" where
  "mock_remove node_id ms =
     (map_of (mk_nodes ms) node_id \<noteq> None, ms\<lparr>mk_nodes := AList.delete node_id (mk_nodes ms)\<rparr>)"

definition mock_metrics :: "rat \<Rightarrow> mock_state \<Rightarrow> node_metrics list \<times> mock_state" where
  "mock_metrics timestamp ms =
     (make_mock_metrics timestamp (mk_metrics_counter ms) (mock_list_nodes ms),
      ms\<lparr>mk_metrics_counter := mk_metrics_counter ms + 1\<rparr>)"

text \<open>\<open>xs[:n]\<close>; a negative \<open>n\<close> counts from the end.\<close>

definition py_prefix :: "int \<Rightarrow> 'a list \<Rightarrow> 'a list" where
  "py_prefix n xs = (if n < 0 then take (length xs - nat (- n)) xs else take (nat n) xs)"

definition mock_create_job :: "string \<Rightarrow> string \<Rightarrow> (string, json) dict \<Rightarrow> int \<Rightarrow> string option \<Rightarrow> mock_state
    \<Rightarrow> job res \<times> mock_state" where
  "mock_create_job uuid kind payload fanout node_id ms =
     (let available = map np_id (filter (\<lambda>n. np_state n \<noteq> Offline) (mock_list_nodes ms));
          assigned = (case node_id of Some n \<Rightarrow> [n] | None \<Rightarrow> py_prefix fanout available);
          jb = \<lparr>jb_id = uuid, jb_kind = kind, jb_payload = payload, jb_node_id = node_id, jb_status = Queued,
                jb_result = None, jb_started_at = None, jb_finished_at = None\<rparr>
      in if (case node_id of None \<Rightarrow> False | Some n \<Rightarrow> map_of (mk_nodes ms) n = None)
         then (Inl (KeyError (the node_id)), ms)
         else (Inr jb, ms\<lparr>mk_jobs := AList.update uuid jb (mk_jobs ms),
                          mk_job_fanout := AList.update uuid fanout (mk_job_fanout ms),
                          mk_job_assignments := AList.update uuid assigned (mk_job_assignments ms)\<rparr>))"

definition mock_get_job :: "string \<Rightarrow> mock_state \<Rightarrow> job option" where
  "mock_get_job job_id ms = map_of (mk_jobs ms) job_id"

definition mock_job_response :: "job \<Rightarrow> mock_state \<Rightarrow> job_response res" where
  "mock_job_response jb ms =
     rbind (dict_get (mk_job_fanout ms) (jb_id jb)) (\<lambda>fanout.
     rbind (dict_get (mk_job_assignments ms) (jb_id jb)) (\<lambda>assigned.
       Inr \<lparr>jr_job = jb, jr_fanout = fanout, jr_assigned_nodes = assigned\<rparr>))"

text \<open>The loop of \<open>plan\<close>: the first \<open>remainder\<close> nodes get one layer more.\<close>

fun mock_layers :: "int \<Rightarrow> int \<Rightarrow> int \<Rightarrow> int \<Rightarrow> node_profile list \<Rightarrow> (string, layer_range) dict
    \<Rightarrow> (string, layer_range) dict" where
  "mock_layers base_layers remainder index first_layer [] layers = layers"
| "mock_layers base_layers remainder index first_layer (node # nodes) layers =
     (let layer_count = base_layers + (if index < remainder then 1 else 0);
          last_layer = first_layer + layer_count - 1
      in mock_layers base_layers remainder (index + 1) (last_layer + 1) nodes
           (AList.update (np_id node) (first_layer, last_layer) layers))"

definition mock_plan :: "string \<Rightarrow> mock_state \<Rightarrow> assignment res" where
  "mock_plan model_id ms =
     (let nodes = mock_list_nodes ms; n = int (length nodes);
          total_memory = (\<Sum>p\<leftarrow>nodes. np_ram_total_mb p)
      in if nodes = [] then Inl (RuntimeError ''no nodes are available'')
         else if total_memory = 0 then Inl ZeroDivisionError
         else Inr \<lparr>as_model_id = model_id,
                   as_layers = mock_layers (48 div n) (48 mod n) 0 0 nodes [],
                   as_n_cpu_moe = dict_of (map (\<lambda>p. (np_id p, if np_backend p \<in> set [''cuda'', ''metal''] then 0 else 4)) nodes),
                   as_tensor_split = map (\<lambda>p. py_round_n 4 (of_int (np_ram_total_mb p) / of_int total_memory)) nodes,
                   as_predicted_tok_s = 25 / 2,
                   as_rationale = ''Mock plan: layers are distributed evenly, with the split weighted ''
                     @ ''by each node'' @ [CHR 0x27] @ ''s memory capacity.''\<rparr>)"

definition race_speedup :: "string \<Rightarrow> int \<Rightarrow> rat" where
  "race_speedup mode node_count =
     (if mode = ''serial'' then 1
      else case map_of [(1, 1), (2, 19/10), (3, 26/10), (4, 33/10)] node_count of None \<Rightarrow> 33/10 | Some s \<Rightarrow> s)"

definition mock_race :: "string \<Rightarrow> string \<Rightarrow> string \<Rightarrow> mock_state \<Rightarrow> (string, json) dict" where
  "mock_race uuid task mode ms =
     (let node_count = max 1 (int (length (mk_nodes ms))); speedup = race_speedup mode node_count in
      [(''race_id'', JStr uuid), (''task'', JStr task), (''mode'', JStr mode),
       (''nodes_used'', JInt (if mode = ''serial'' then 1 else node_count)), (''speedup'', JFloat speedup),
       (''estimated_seconds'', JFloat (py_round_n 2 (44 / speedup))), (''status'', JStr ''completed'')])"

definition event_frame :: "rat \<Rightarrow> (string, json) dict" where
  "event_frame timestamp =
     [(''type'', JStr ''event''), (''timestamp'', JFloat timestamp), (''level'', JStr ''info''),
      (''event'', JStr ''node.joined''), (''node_id'', JStr ''mac-01''),
      (''message'', JStr ''mac-01 joined the mock pool'')]"

definition flow_frame :: "rat \<Rightarrow> mock_state \<Rightarrow> (string, json) dict res" where
  "flow_frame timestamp ms =
     rbind (if mk_jobs ms = [] then Inr (''gpu-01'', ''demo-job'', ''infer'')
            else let jb = snd (last (mk_jobs ms)) in
              rbind (dict_get (mk_job_assignments ms) (jb_id jb)) (\<lambda>assigned.
                Inr (hd (if assigned = [] then [''gpu-01''] else assigned), jb_id jb, jb_kind jb)))
       (\<lambda>(target, job_id, label).
         Inr [(''type'', JStr ''flow''), (''timestamp'', JFloat timestamp), (''job_id'', JStr job_id),
              (''source'', JStr ''ctl''), (''target'', JStr target), (''status'', JStr ''running''), (''label'', JStr label)])"

subsection \<open>The fixed answers of \<open>ctl/main.py\<close>\<close>

definition read_root :: "(string, json) dict" where
  "read_root = [(''service'', JStr ''DAIN mock control plane''), (''docs'', JStr ''/docs'')]"

definition check_health :: "(string, json) dict" where
  "check_health = [(''status'', JStr ''ok'')]"

definition run_race :: "string \<Rightarrow> string \<Rightarrow> string \<Rightarrow> mock_state \<Rightarrow> (string, json) dict res" where
  "run_race uuid task mode ms =
     (if task = [] \<or> mode \<notin> set [''serial'', ''fanout''] then Inl invalid_request else Inr (mock_race uuid task mode ms))"

text \<open>\<open>DAIN_MOCK_NODES\<close>: the registry seeded from the fixture.\<close>

definition seed_mock :: "rat \<Rightarrow> (int \<Rightarrow> rat) \<Rightarrow> rat \<Rightarrow> mock_state \<Rightarrow> control_plane \<Rightarrow> control_plane res \<times> mock_state" where
  "seed_mock now wall timestamp ms cp =
     (case mock_metrics timestamp ms of
        (metrics, ms') \<Rightarrow> (seed_registry now wall (mock_list_nodes ms') metrics cp, ms'))"

subsection \<open>The calibrated pool of \<open>sched/mock.py\<close>\<close>

definition MOCK_PROFILES :: "node_profile list" where
  "MOCK_PROFILES =
     [gpu_01\<lparr>np_cores := 12, np_mem_bandwidth_gbs := 650, np_tg_tok_s := 45, np_pp_tok_s := 180, np_rtt_ms := 3/10\<rparr>,
      office_01\<lparr>np_cores := 8, np_mem_bandwidth_gbs := 38, np_tg_tok_s := 9, np_pp_tok_s := 65\<rparr>,
      office_02\<lparr>np_cores := 8, np_mem_bandwidth_gbs := 19, np_tg_tok_s := 9/2, np_pp_tok_s := 33\<rparr>,
      mac_01\<lparr>np_mem_bandwidth_gbs := 270, np_tg_tok_s := 22, np_pp_tok_s := 110\<rparr>]"

definition MOCK_METRICS :: "node_metrics list" where
  "MOCK_METRICS =
     [\<lparr>nm_node_id = ''gpu-01'', nm_timestamp = 0, nm_cpu_percent = 18, nm_ram_free_mb = 48 * 1024,
       nm_gpu_percent = Some 25, nm_vram_free_mb = Some (12 * 1024), nm_jobs_running = 0\<rparr>,
      \<lparr>nm_node_id = ''office-01'', nm_timestamp = 0, nm_cpu_percent = 22, nm_ram_free_mb = 6 * 1024,
       nm_gpu_percent = None, nm_vram_free_mb = None, nm_jobs_running = 0\<rparr>,
      \<lparr>nm_node_id = ''office-02'', nm_timestamp = 0, nm_cpu_percent = 20, nm_ram_free_mb = 6 * 1024,
       nm_gpu_percent = None, nm_vram_free_mb = None, nm_jobs_running = 0\<rparr>,
      \<lparr>nm_node_id = ''mac-01'', nm_timestamp = 0, nm_cpu_percent = 15, nm_ram_free_mb = 14 * 1024,
       nm_gpu_percent = Some 10, nm_vram_free_mb = None, nm_jobs_running = 0\<rparr>]"

definition MOCK_MODEL_SPEC :: model_spec where
  "MOCK_MODEL_SPEC = \<lparr>ms_model_id = ''qwen3.6-35b-a3b'', ms_total_layers = 40, ms_file_size_mb = 20 * 1024,
     ms_kv_mb_per_layer = 8\<rparr>"

text \<open>What \<open>run_example\<close> computes and prints: the plan, its footprints, whether it fits, and the plan without office-02.\<close>

definition run_example :: "(assignment \<times> (string \<times> rat) list \<times> bool \<times> assignment) res" where
  "run_example =
     rbind (plan MOCK_PROFILES MOCK_METRICS MOCK_MODEL_SPEC) (\<lambda>a.
     rbind (rmapM (\<lambda>n. rbind (node_footprint_mb a MOCK_MODEL_SPEC n) (\<lambda>mb. Inr (n, mb))) (keys (as_layers a))) (\<lambda>footprints.
     rbind (fits a MOCK_PROFILES MOCK_METRICS MOCK_MODEL_SPEC) (\<lambda>ok.
     rbind (plan (filter (\<lambda>p. np_id p \<noteq> ''office-02'') MOCK_PROFILES)
                 (filter (\<lambda>m. nm_node_id m \<noteq> ''office-02'') MOCK_METRICS) MOCK_MODEL_SPEC) (\<lambda>replanned.
       Inr (a, footprints, ok, replanned)))))"

end
