(* ===== verification/Mock_Data_Properties.thy ===== *)
theory Mock_Data_Properties
  imports Mock_Data
begin

text \<open>The demo data is consistent: the mock plan places every layer once, the example of the scheduler runs.\<close>

definition layer_span :: "(string \<times> layer_range) list \<Rightarrow> int list" where
  "layer_span layers = concat (map (\<lambda>(_, lo, hi). [lo..hi]) layers)"

lemma upto_join: "0 \<le> a \<Longrightarrow> a \<le> b + 1 \<Longrightarrow> [0..a - 1] @ [a..b] = [0..b :: int]"
  using upto_split1[of 0 a b] by (cases "a = b + 1") auto

lemma mock_layers_span:
  assumes "distinct (keys layers @ map np_id nodes)" "0 \<le> base" "0 \<le> first" "layer_span layers = [0..first - 1]"
  shows "layer_span (mock_layers base rem index first nodes layers)
      = [0..first - 1 + base * int (length nodes) + max 0 (min (rem - index) (int (length nodes)))]
    \<and> keys (mock_layers base rem index first nodes layers) = keys layers @ map np_id nodes"
  using assms
proof (induction nodes arbitrary: index first layers)
  case (Cons node nodes)
  let ?n = "base + (if index < rem then 1 else 0)" and ?r = "\<lambda>n. (np_id node, first, first + n - 1)"
  have u: "AList.update (np_id node) r layers = layers @ [(np_id node, r)]" for r
    using Cons.prems(1) by (intro update_new) auto
  have s: "layer_span (layers @ [?r ?n]) = [0..(first + ?n) - 1]"
    using Cons.prems(2-4) upto_join[of first "first + ?n - 1"]
    by (simp add: layer_span_def)
  have d: "distinct (keys (layers @ [?r ?n]) @ map np_id nodes)" using Cons.prems(1) by auto
  from Cons.IH[OF d Cons.prems(2) _ s, of "index + 1"] Cons.prems(2,3) show ?case
    by (simp add: Let_def u algebra_simps) (auto simp: max_def min_def algebra_simps)
qed auto

text \<open>The mock plan of a pool with memory places the layers 0 to 47, each once, in the order of the nodes.\<close>

lemma mock_plan_span:
  assumes "mock_plan model_id ms = Inr a" "distinct (map np_id (mock_list_nodes ms))"
  shows "layer_span (as_layers a) = [0..47] \<and> keys (as_layers a) = map np_id (mock_list_nodes ms)"
proof -
  let ?ns = "mock_list_nodes ms" and ?n = "int (length (mock_list_nodes ms))"
  have a: "?ns \<noteq> []" "as_layers a = mock_layers (48 div ?n) (48 mod ?n) 0 0 ?ns []"
    using assms(1) by (auto simp: mock_plan_def Let_def split: if_splits)
  then have n: "0 < ?n" by simp
  have "max 0 (min (48 mod ?n) ?n) = 48 mod ?n" using n pos_mod_bound[OF n, of 48] pos_mod_sign[OF n, of 48] by linarith
  moreover have "48 div ?n * ?n + 48 mod ?n = 48" by simp
  ultimately show ?thesis
    using mock_layers_span[of "[]" ?ns "48 div ?n" 0 "48 mod ?n" 0] assms(2) n a(2)
    by (simp add: layer_span_def pos_imp_zdiv_nonneg_iff algebra_simps)
qed

lemma mock_fixture: "distinct (map np_id (mock_list_nodes mock_reset))" "length (mock_list_nodes mock_reset) = 4"
  by code_simp+

text \<open>The example of \<open>sched/mock.py\<close> plans, fits and plans again without office-02.\<close>

lemma run_example_fits:
  "case run_example of Inl _ \<Rightarrow> False
   | Inr (a, footprints, ok, replanned) \<Rightarrow> ok \<and> keys (as_layers a) = [''gpu-01'', ''mac-01'', ''office-01'', ''office-02'']
       \<and> keys (as_layers replanned) = [''gpu-01'', ''mac-01'', ''office-01'']"
  by code_simp

end
