(* ===== verification/State_Fetcher.thy ===== *)
theory State_Fetcher
  imports Agent_Plane Join_Plane
begin

text \<open>
  \<open>sched/profile.py\<close>: \<open>ClusterStateFetcher\<close>, which reads the profiles and the metrics that \<open>plan\<close> needs
  from a control plane. Its dataclasses keep the values of the JSON as they are, so a fetched profile is
  the list of its fields with their JSON. The two routes it reads are those of \<open>ctl/main.py\<close>; what it
  fetches from them decodes to the profiles and the metrics the control plane holds.
\<close>

record state_fetcher =
  sf_ctl_base_url :: string
  sf_timeout :: rat

definition new_fetcher :: "string \<Rightarrow> state_fetcher" where
  "new_fetcher ctl_base_url =
     \<lparr>sf_ctl_base_url = rstrip_while (\<lambda>c. c = CHR ''/'') ctl_base_url, sf_timeout = 5\<rparr>"

text \<open>\<open>data["k"]\<close>.\<close>

definition jsubscript :: "json \<Rightarrow> string \<Rightarrow> json res" where
  "jsubscript data k =
     (case data of
        JObj d \<Rightarrow> dict_get d k
      | JList _ \<Rightarrow> Inl (TypeError ''list indices must be integers or slices, not str'')
      | JStr _ \<Rightarrow> Inl (TypeError ''string indices must be integers, not str'')
      | _ \<Rightarrow> Inl (TypeError (py_repr (jtype data) @ '' object is not subscriptable'')))"

text \<open>A field with its value, in the order the constructor's arguments are evaluated.\<close>

definition required_field :: "json \<Rightarrow> string \<Rightarrow> (string \<times> json) res" where
  "required_field data k = rbind (jsubscript data k) (\<lambda>v. Inr (k, v))"

definition optional_field :: "json \<Rightarrow> string \<Rightarrow> json \<Rightarrow> (string \<times> json) res" where
  "optional_field data k v = rbind (as_object data) (\<lambda>d. Inr (k, get_or d k v))"

definition to_node_profile :: "json \<Rightarrow> (string, json) dict res" where
  "to_node_profile data =
     rbind (rmapM (required_field data)
        [''id'', ''host'', ''cpu'', ''cores'', ''ram_total_mb'', ''ram_free_mb'']) (\<lambda>first.
     rbind (optional_field data ''gpu'' JNull) (\<lambda>gpu.
     rbind (rmapM (required_field data)
        [''vram_total_mb'', ''backend'', ''mem_bandwidth_gbs'', ''tg_tok_s'', ''pp_tok_s'', ''rtt_ms'']) (\<lambda>rest.
     rbind (optional_field data ''state'' (JStr ''idle'')) (\<lambda>state.
     Inr (first @ [gpu] @ rest @ [state])))))"

definition to_node_metrics :: "json \<Rightarrow> (string, json) dict res" where
  "to_node_metrics data =
     rbind (rmapM (required_field data) [''node_id'', ''timestamp'', ''cpu_percent'', ''ram_free_mb'']) (\<lambda>first.
     rbind (optional_field data ''gpu_percent'' JNull) (\<lambda>gpu.
     rbind (optional_field data ''vram_free_mb'' JNull) (\<lambda>vram.
     rbind (optional_field data ''jobs_running'' (JInt 0)) (\<lambda>jobs.
     Inr (first @ [gpu, vram, jobs])))))"

text \<open>The body of a reply: a transport error, a failed status and a text that is no JSON raise.\<close>

definition fetch_body :: "http_reply \<Rightarrow> json res" where
  "fetch_body reply =
     (case reply of
        Transport_error m \<Rightarrow> Inl (HTTPError m)
      | Reply status _ body \<Rightarrow>
          rbind (raise_for_status status) (\<lambda>_.
          (case body of None \<Rightarrow> Inl (ValueError ''invalid JSON'') | Some j \<Rightarrow> Inr j)))"

text \<open>\<open>get url\<close> answers \<open>client.get\<close>.\<close>

definition get_profiles :: "(string \<Rightarrow> http_reply) \<Rightarrow> state_fetcher \<Rightarrow> (string, json) dict list res" where
  "get_profiles get sf =
     rbind (fetch_body (get (sf_ctl_base_url sf @ ''/api/nodes''))) (\<lambda>body.
     rbind (jiter body) (rmapM to_node_profile))"

definition fetch_metrics :: "(string \<Rightarrow> http_reply) \<Rightarrow> state_fetcher \<Rightarrow> (string, json) dict list res" where
  "fetch_metrics get sf =
     rbind (fetch_body (get (sf_ctl_base_url sf @ ''/api/metrics''))) (\<lambda>body.
     rbind (jsubscript body ''nodes'') (\<lambda>nodes.
     rbind (jiter nodes) (rmapM to_node_metrics)))"

text \<open>The two requests in their order: \<open>get\<close> answers the first, \<open>get'\<close> the second.\<close>

definition get_cluster_state :: "(string \<Rightarrow> http_reply) \<Rightarrow> (string \<Rightarrow> http_reply) \<Rightarrow> state_fetcher
    \<Rightarrow> ((string, json) dict list \<times> (string, json) dict list) res" where
  "get_cluster_state get get' sf =
     rbind (get_profiles get sf) (\<lambda>profiles.
     rbind (fetch_metrics get' sf) (\<lambda>metrics. Inr (profiles, metrics)))"

subsection \<open>The control plane it reads\<close>

text \<open>The dictionary \<open>Telemetry.frame\<close> returns.\<close>

definition frame_json :: "metrics_frame \<Rightarrow> json" where
  "frame_json f = JObj
     [(''type'', JStr ''metrics''),
      (''nodes'', JList (map metrics_json (fr_nodes f))),
      (''history'', JObj (map (\<lambda>(n, samples). (n, JList (map metrics_json samples))) (fr_history f))),
      (''llama'', JObj (map (\<lambda>(k, v). (k, JFloat v)) (fr_llama f))),
      (''llama_history'', JList (map (\<lambda>s. JObj (map (\<lambda>(k, v). (k, JFloat v)) s)) (fr_llama_history f))),
      (''errors'', JObj (map (\<lambda>(k, v). (k, JStr v)) (fr_errors f)))]"

definition plane_metrics :: "control_plane \<Rightarrow> http_reply" where
  "plane_metrics cp = http_answer (rmap frame_json (get_metrics cp))"

definition plane_get :: "string \<Rightarrow> control_plane \<Rightarrow> string \<Rightarrow> http_reply" where
  "plane_get base cp url =
     (if url = base @ ''/api/nodes'' then plane_nodes cp
      else if url = base @ ''/api/metrics'' then plane_metrics cp
      else http_answer (Inl (HTTPException 404 ''Not Found'')))"

subsection \<open>What is fetched\<close>

lemma to_node_profile_dict: "to_node_profile (JObj (profile_dict p)) = Inr (profile_dict p)"
  by (cases "np_gpu p")
    (simp_all add: to_node_profile_def required_field_def optional_field_def jsubscript_def dict_get_def
      as_object_def get_or_def profile_dict_def)

lemma to_node_metrics_json: "rmap JObj (to_node_metrics (metrics_json m)) = Inr (metrics_json m)"
  by (cases "nm_gpu_percent m"; cases "nm_vram_free_mb m")
    (simp_all add: to_node_metrics_def required_field_def optional_field_def jsubscript_def dict_get_def
      as_object_def get_or_def metrics_json_def rmap_def)

text \<open>A profile without an identifier is an error, never a node without a name.\<close>

lemma profile_needs_id: "map_of d ''id'' = None \<Longrightarrow> \<exists>e. to_node_profile (JObj d) = Inl e"
  by (simp add: to_node_profile_def required_field_def jsubscript_def dict_get_def)

lemma rmapM_rmap_JObj:
  assumes "\<forall>m. rmap JObj (f (g m)) = Inr (g m)"
  shows "\<exists>ds. rmapM f (map g ms) = Inr ds \<and> map JObj ds = map g ms"
proof (induction ms)
  case (Cons m ms)
  then obtain ds where ds: "rmapM f (map g ms) = Inr ds" "map JObj ds = map g ms" by auto
  from assms obtain d where d: "f (g m) = Inr d" "JObj d = g m"
    by (cases "f (g m)") (metis rmap_def rbind.simps Inl_Inr_False Inr_inject)+
  show ?case by (rule exI[of _ "d # ds"]) (simp add: ds d)
qed simp

lemma get_profiles_of_plane:
  "get_profiles (plane_get (sf_ctl_base_url sf) cp) sf = Inr (map profile_dict (list_profiles (cp_registry cp)))"
proof -
  have "rmapM to_node_profile (map JObj (map profile_dict ps)) = Inr (map profile_dict ps)" for ps
    by (induction ps) (simp_all add: to_node_profile_dict)
  then show ?thesis
    by (simp add: get_profiles_def plane_get_def plane_nodes_def http_answer_def fetch_body_def
        raise_for_status_def jiter_def get_nodes_def)
qed

lemma fetch_metrics_of_plane:
  assumes "get_metrics cp = Inr f"
  shows "\<exists>ms. fetch_metrics (plane_get (sf_ctl_base_url sf) cp) sf = Inr ms \<and> map JObj ms = map metrics_json (fr_nodes f)"
proof -
  obtain ms where ms: "rmapM to_node_metrics (map metrics_json (fr_nodes f)) = Inr ms"
      "map JObj ms = map metrics_json (fr_nodes f)"
    using rmapM_rmap_JObj[of to_node_metrics metrics_json "fr_nodes f"] to_node_metrics_json by blast
  have "jsubscript (frame_json f) ''nodes'' = Inr (JList (map metrics_json (fr_nodes f)))"
    by (simp add: frame_json_def jsubscript_def dict_get_def)
  then have "fetch_metrics (plane_get (sf_ctl_base_url sf) cp) sf = Inr ms"
    by (simp add: fetch_metrics_def plane_get_def plane_metrics_def assms http_answer_def fetch_body_def
        raise_for_status_def jiter_def ms(1) rmap_def)
  with ms(2) show ?thesis by blast
qed

text \<open>
  What the fetcher returns decodes to what the control plane holds, so planning over the network sees
  the profiles and the metrics that planning in the process sees.
\<close>

lemma fetched_cluster_state:
  assumes "get_metrics cp' = Inr f"
  shows "\<exists>ps ms. get_cluster_state (plane_get (sf_ctl_base_url sf) cp) (plane_get (sf_ctl_base_url sf) cp') sf = Inr (ps, ms)
    \<and> map (\<lambda>p. decode_profile (JObj p)) ps = map Some (list_profiles (cp_registry cp))
    \<and> map (\<lambda>m. decode_metrics (JObj m)) ms = map Some (fr_nodes f)"
proof -
  obtain ms where ms: "fetch_metrics (plane_get (sf_ctl_base_url sf) cp') sf = Inr ms"
      "map JObj ms = map metrics_json (fr_nodes f)"
    using fetch_metrics_of_plane[OF assms] by blast
  have "map (\<lambda>m. decode_metrics (JObj m)) ms = map decode_metrics (map JObj ms)" by simp
  also have "\<dots> = map Some (fr_nodes f)" by (simp only: ms(2)) (simp add: o_def)
  finally have m: "map (\<lambda>m. decode_metrics (JObj m)) ms = map Some (fr_nodes f)" .
  show ?thesis
    by (rule exI[of _ "map profile_dict (list_profiles (cp_registry cp))"], rule exI[of _ ms])
      (simp add: get_cluster_state_def get_profiles_of_plane ms(1) m o_def)
qed

end
