(* ===== verification/Text_Layout.thy ===== *)
theory Text_Layout
  imports Dynamic
begin

text \<open>Format specifications of f-strings: \<open>:<n\<close>, \<open>:>n\<close>, \<open>:.2f\<close> and \<open>:.0f\<close>.\<close>

text \<open>Characters of a text: every UTF-8 byte but the continuation bytes.\<close>

definition continuation_byte :: "char \<Rightarrow> bool" where
  "continuation_byte c \<longleftrightarrow> of_char c div 64 = (2 :: int)"

definition text_width :: "string \<Rightarrow> nat" where
  "text_width s = length (filter (\<lambda>c. \<not> continuation_byte c) s)"

text \<open>\<open>s[:n]\<close>.\<close>

fun take_chars :: "nat \<Rightarrow> string \<Rightarrow> string" where
  "take_chars n [] = []"
| "take_chars n (c # s) =
     (if continuation_byte c then c # take_chars n s else if n = 0 then [] else c # take_chars (n - 1) s)"

definition pad_right :: "nat \<Rightarrow> string \<Rightarrow> string" where
  "pad_right n s = s @ replicate (n - text_width s) (CHR 0x20)"

definition pad_left :: "nat \<Rightarrow> string \<Rightarrow> string" where
  "pad_left n s = replicate (n - text_width s) (CHR 0x20) @ s"

definition fixed0 :: "rat \<Rightarrow> string" where
  "fixed0 x = (if x < 0 then ''-'' else []) @ str_int (py_round \<bar>x\<bar>)"

definition fixed2 :: "rat \<Rightarrow> string" where
  "fixed2 x = (let n = nat (py_round (\<bar>x\<bar> * 100)) in
     (if x < 0 then ''-'' else []) @ str_nat (n div 100) @ ''.'' @ str_nat (n mod 100 div 10) @ str_nat (n mod 10))"

lemma text_width_append: "text_width (a @ b) = text_width a + text_width b"
  by (simp add: text_width_def)

lemma text_width_spaces: "text_width (replicate n (CHR 0x20)) = n"
  by (induction n) (simp_all add: text_width_def continuation_byte_def)

lemma take_chars_width: "text_width (take_chars n s) = min n (text_width s)"
  by (induction n s rule: take_chars.induct) (auto simp: text_width_def)

lemma pad_width: "text_width (pad_right n s) = max n (text_width s)" "text_width (pad_left n s) = max n (text_width s)"
  by (simp_all add: pad_right_def pad_left_def text_width_append text_width_spaces)

end
