(* ===== verification/Model_Fetch.thy ===== *)
theory Model_Fetch
  imports Model_Ladder Text_Layout Sha256
begin

text \<open>
  \<open>scripts/fetch_models.py\<close> and the printed ladder of \<open>infer/models.py\<close>: which models are fetched, in
  which order, what stops a fetch and what the manifest records. The disk and the \<open>hf\<close> program are
  parameters; a run is what it prints, the commands it ran, the manifest it wrote and its exit code. A
  text of the output is what one \<open>print\<close> writes.
\<close>

subsection \<open>The printed ladder\<close>

definition SLOW_LINK_MBPS :: rat where "SLOW_LINK_MBPS = 20"
definition FAST_LINK_MBPS :: rat where "FAST_LINK_MBPS = 200"

definition ladder_header :: string where
  "ladder_header = pad_left 3 ''PRI'' @ ''  '' @ pad_right 14 ''MODEL'' @ '' '' @ pad_right 18 ''ROLE'' @ '' ''
     @ pad_left 6 ''GB'' @ '' '' @ pad_left 7 ''CUM'' @ '' '' @ pad_left 7 ''@20Mb'' @ '' '' @ pad_left 7 ''@200Mb'' @ ''  REPO''"

definition ladder_row :: "rat \<Rightarrow> ladder_spec \<Rightarrow> string res" where
  "ladder_row cumulative s =
     rbind (estimate_hours cumulative SLOW_LINK_MBPS) (\<lambda>slow.
     rbind (estimate_hours cumulative FAST_LINK_MBPS) (\<lambda>fast.
     Inr (pad_left 3 (str_int (ls_priority s)) @ ''  '' @ pad_right 14 (ls_model_id s) @ '' ''
       @ pad_right 18 (ls_role s) @ '' '' @ pad_left 6 (fixed1 (ls_size_gb s)) @ '' ''
       @ pad_left 7 (fixed1 cumulative) @ '' '' @ pad_left 6 (fixed1 slow) @ ''h ''
       @ pad_left 6 (fixed1 fast) @ ''h  '' @ ls_repo s)))"

fun ladder_rows :: "rat \<Rightarrow> ladder_spec list \<Rightarrow> (string list \<times> rat) res" where
  "ladder_rows cumulative [] = Inr ([], cumulative)"
| "ladder_rows cumulative (s # ss) =
     rbind (ladder_row (cumulative + ls_size_gb s) s) (\<lambda>row.
     rbind (ladder_rows (cumulative + ls_size_gb s) ss) (\<lambda>(rows, c). Inr (row # rows, c)))"

definition format_ladder :: "ladder_spec list \<Rightarrow> string res" where
  "format_ladder specs =
     rbind (ladder_rows 0 specs) (\<lambda>(rows, cumulative).
     let rule = replicate (length ladder_header) (CHR ''-'') in
     Inr (str_join [CHR 0x0A] ([ladder_header, rule] @ rows @ [rule,
       pad_left 3 [] @ ''  '' @ pad_right 14 ''TOTAL'' @ '' '' @ pad_right 18 [] @ '' '' @ pad_left 6 (fixed1 cumulative)])))"

subsection \<open>The disk\<close>

definition DISK_SAFETY_MARGIN_GB :: rat where "DISK_SAFETY_MARGIN_GB = 10"
definition MANIFEST_NAME :: string where "MANIFEST_NAME = ''manifest.json''"

text \<open>\<open>free\<close> is \<open>shutil.disk_usage(dest).free\<close> after \<open>mkdir\<close>, or the \<open>OSError\<close> of either.\<close>

definition check_disk_space :: "string \<Rightarrow> int res \<Rightarrow> rat \<Rightarrow> string res" where
  "check_disk_space dest free needed_gb =
     rbind free (\<lambda>bytes.
     let free_gb = of_int bytes / of_int BYTES_PER_GB; required = needed_gb + DISK_SAFETY_MARGIN_GB in
     if free_gb < required
     then Inl (RuntimeError (dest @ '' has '' @ fixed1 free_gb @ '' GB free; need '' @ fixed1 required @ '' GB (''
       @ fixed1 needed_gb @ '' GB of models + '' @ fixed0 DISK_SAFETY_MARGIN_GB
       @ '' GB margin). Free space, or pass --dest on a larger volume.''))
     else Inr (''  disk: '' @ fixed1 free_gb @ '' GB free at '' @ dest @ '', need '' @ fixed1 required @ '' GB -- ok''))"

text \<open>
  A directory is its entries with their paths below it: files with their bytes, and directories with
  the size \<open>stat\<close> reports; \<open>None\<close> is a path that is no directory.
\<close>

datatype tree_entry = Tree_file string | Tree_folder int

type_synonym dir_tree = "(string list \<times> tree_entry) list"

definition entry_bytes :: "tree_entry \<Rightarrow> int" where
  "entry_bytes e = (case e of Tree_file bytes \<Rightarrow> int (length bytes) | Tree_folder n \<Rightarrow> n)"

definition directory_size_bytes :: "dir_tree option \<Rightarrow> int" where
  "directory_size_bytes tree =
     (case tree of None \<Rightarrow> 0
      | Some t \<Rightarrow> \<Sum>(p, e)\<leftarrow>filter (\<lambda>(p, e). case e of Tree_file _ \<Rightarrow> True | _ \<Rightarrow> False) t. entry_bytes e)"

text \<open>What successive \<open>read(chunk_bytes)\<close> give until the first empty one; a negative size reads all.\<close>

function read_chunks :: "int \<Rightarrow> string \<Rightarrow> string list" where
  "read_chunks chunk_bytes bytes =
     (if bytes = [] \<or> chunk_bytes = 0 then []
      else if chunk_bytes < 0 then [bytes]
      else take (nat chunk_bytes) bytes # read_chunks chunk_bytes (drop (nat chunk_bytes) bytes))"
  by auto
termination by (relation "measure (\<lambda>(n, s). length s)") auto

declare read_chunks.simps [simp del]

text \<open>\<open>digest.update\<close> appends to the bytes hashed.\<close>

definition sha256_of :: "int \<Rightarrow> tree_entry \<Rightarrow> string res" where
  "sha256_of chunk_bytes e =
     (case e of Tree_folder _ \<Rightarrow> Inl (OSError ''Is a directory'')
      | Tree_file bytes \<Rightarrow> Inr (hexdigest (sha256 (foldl (@) [] (read_chunks chunk_bytes bytes)))))"

definition describe_file :: "bool \<Rightarrow> string list \<times> tree_entry \<Rightarrow> json res" where
  "describe_file checksum item =
     (let record = [(''name'', JStr (last (fst item))), (''size_bytes'', JInt (entry_bytes (snd item)))] in
      if checksum then rbind (sha256_of (2 ^ 20) (snd item)) (\<lambda>d. Inr (JObj (record @ [(''sha256'', JStr d)])))
      else Inr (JObj record))"

definition describe_files :: "bool \<Rightarrow> dir_tree option \<Rightarrow> json list res" where
  "describe_files checksum tree =
     (case tree of None \<Rightarrow> Inr []
      | Some t \<Rightarrow> rmapM (describe_file checksum)
          (sort_key fst (filter (\<lambda>(p, e). p \<noteq> [] \<and> ends_with ''.gguf'' (last p)) t)))"

definition manifest_entry :: "bool \<Rightarrow> (string \<Rightarrow> dir_tree option) \<Rightarrow> ladder_spec \<Rightarrow> json res" where
  "manifest_entry checksum tree s =
     rbind (describe_files checksum (tree (ls_model_id s))) (\<lambda>files.
     Inr (JObj [(''model_id'', JStr (ls_model_id s)), (''role'', JStr (ls_role s)), (''repo'', JStr (ls_repo s)),
       (''expected_gb'', JFloat (ls_size_gb s)),
       (''actual_bytes'', JInt (directory_size_bytes (tree (ls_model_id s)))), (''files'', JList files)]))"

text \<open>The document written to \<open>manifest.json\<close>; \<open>tree\<close> gives the directory \<open>dest / model_id\<close>.\<close>

definition manifest_payload :: "string \<Rightarrow> string \<Rightarrow> (string \<Rightarrow> dir_tree option) \<Rightarrow> ladder_spec list \<Rightarrow> bool \<Rightarrow> json res" where
  "manifest_payload fetched_at dest tree specs checksum =
     rbind (rmapM (manifest_entry checksum tree) specs) (\<lambda>models.
     Inr (JObj [(''fetched_at'', JStr fetched_at), (''dest'', JStr dest), (''models'', JList models)]))"

subsection \<open>What is fetched\<close>

definition wanted_names :: "string \<Rightarrow> string list" where
  "wanted_names only = filter (\<lambda>n. n \<noteq> []) (map py_strip (py_split (CHR '','') only))"

definition select_only :: "ladder_spec list \<Rightarrow> string option \<Rightarrow> ladder_spec list res" where
  "select_only specs only =
     (case only of
        Some names \<Rightarrow>
          if names = [] then Inr specs
          else
            let wanted = wanted_names names; known = map ls_model_id specs;
                unknown = filter (\<lambda>n. n \<notin> set known) wanted
            in if unknown \<noteq> []
               then Inl (ValueError (''unknown model id(s): '' @ str_join '', '' (sort (remdups unknown))
                  @ ''. Known: '' @ str_join '', '' (sort (remdups known))))
               else Inr (filter (\<lambda>s. ls_model_id s \<in> set wanted) specs)
      | None \<Rightarrow> Inr specs)"

definition select_specs :: "ladder_spec list \<Rightarrow> string option \<Rightarrow> int option \<Rightarrow> ladder_spec list res" where
  "select_specs specs only max_priority =
     rbind (select_only specs only) (\<lambda>chosen.
     let chosen' = (case max_priority of None \<Rightarrow> chosen | Some m \<Rightarrow> filter (\<lambda>s. ls_priority s \<le> m) chosen) in
     if chosen' = [] then Inl (ValueError ''selection matched no models'') else Inr chosen')"

text \<open>\<open>dest / model_id\<close>; an absolute name replaces the directory.\<close>

definition target_dir :: "string \<Rightarrow> ladder_spec \<Rightarrow> string" where
  "target_dir dest s = (if starts_with ''/'' (ls_model_id s) then path_norm (ls_model_id s)
     else path_child dest (ls_model_id s))"

definition hf_command :: "string \<Rightarrow> ladder_spec \<Rightarrow> string list" where
  "hf_command dest s = [''hf'', ''download'', ls_repo s, ''--include'', ls_include s, ''--local-dir'', target_dir dest s]"

text \<open>
  \<open>run\<close> answers a command with its exit code and the minutes it took, or the \<open>OSError\<close> of a program
  that is not there; \<open>tree\<close> is the disk after the commands run so far, \<open>written\<close> the \<open>OSError\<close> of
  writing the manifest.
\<close>

record fetch_world =
  fw_free :: "int res"
  fw_run :: "string list \<Rightarrow> (int \<times> rat) res"
  fw_tree :: "string list list \<Rightarrow> string \<Rightarrow> dir_tree option"
  fw_fetched_at :: string
  fw_written :: "py_error option"

record fetch_run =
  ft_out :: "string list"
  ft_commands :: "string list list"
  ft_manifest :: "json option"
  ft_result :: "int res"
  ft_err :: "string list"

definition download_notice :: "string \<Rightarrow> ladder_spec \<Rightarrow> string list" where
  "download_notice dest s =
     [[CHR 0x0A] @ ''['' @ str_int (ls_priority s) @ ''] '' @ ls_model_id s @ ''  '' @ fixed1 (ls_size_gb s)
        @ '' GB  <- '' @ ls_repo s]
     @ (if ls_claim s = [] then [] else [''      '' @ hd (splitlines (ls_claim s))])
     @ [''      $ '' @ str_join '' '' (hf_command dest s)]"

text \<open>What is printed, the commands run by then, and the exception if there is one.\<close>

definition download :: "fetch_world \<Rightarrow> bool \<Rightarrow> string \<Rightarrow> string list list \<Rightarrow> ladder_spec
    \<Rightarrow> string list \<times> string list list \<times> unit res" where
  "download w dry_run dest done s =
     (let notice = download_notice dest s; command = hf_command dest s; done' = done @ [command] in
      if dry_run then (notice, done, Inr ())
      else (case fw_run w command of
         Inl e \<Rightarrow> (notice, done', Inl e)
       | Inr (code, minutes) \<Rightarrow>
           if code \<noteq> 0
           then (notice, done', Inl (RuntimeError (ls_model_id s @ '' failed (exit '' @ str_int code @ '') after ''
                  @ fixed1 minutes @ '' min. Re-run this script '' @ [CHR 0xE2, CHR 0x80, CHR 0x94]
                  @ '' the download resumes.'')))
           else (notice @ [''      done: ''
                  @ fixed1 (of_int (directory_size_bytes (fw_tree w done' (ls_model_id s))) / of_int BYTES_PER_GB)
                  @ '' GB in '' @ fixed1 minutes @ '' min''], done', Inr ())))"

fun download_all :: "fetch_world \<Rightarrow> bool \<Rightarrow> string \<Rightarrow> string list list \<Rightarrow> ladder_spec list
    \<Rightarrow> string list \<times> string list list \<times> unit res" where
  "download_all w dry_run dest done [] = ([], done, Inr ())"
| "download_all w dry_run dest done (s # ss) =
     (case download w dry_run dest done s of
        (out, done', Inl e) \<Rightarrow> (out, done', Inl e)
      | (out, done', Inr _) \<Rightarrow>
          (case download_all w dry_run dest done' ss of (out', done'', r) \<Rightarrow> (out @ out', done'', r)))"

subsection \<open>The program\<close>

record fetch_args =
  fa_dest :: "string option"
  fa_list :: bool
  fa_max_priority :: "int option"
  fa_only :: "string option"
  fa_dry_run :: bool
  fa_checksum :: bool

definition fetch_stop :: "string list \<Rightarrow> string list list \<Rightarrow> int res \<Rightarrow> fetch_run" where
  "fetch_stop out done r = \<lparr>ft_out = out, ft_commands = done, ft_manifest = None, ft_result = r, ft_err = []\<rparr>"

definition finish_fetch :: "fetch_world \<Rightarrow> fetch_args \<Rightarrow> string \<Rightarrow> ladder_spec list \<Rightarrow> string list \<Rightarrow> string list list \<Rightarrow> fetch_run" where
  "finish_fetch w args dest chosen out done =
     (if fa_dry_run args then fetch_stop out done (Inr 0)
      else
        let out' = out @ (if fa_checksum args
               then [[CHR 0x0A] @ ''checksumming (this takes a while on 60 GB files)...''] else [])
        in (case manifest_payload (fw_fetched_at w) dest (fw_tree w done) chosen (fa_checksum args) of
              Inl e \<Rightarrow> fetch_stop out' done (Inl e)
            | Inr payload \<Rightarrow>
                (case fw_written w of
                   Some e \<Rightarrow> fetch_stop out' done (Inl e)
                 | None \<Rightarrow> (fetch_stop (out' @ [[CHR 0x0A] @ ''manifest: '' @ path_child dest MANIFEST_NAME]) done (Inr 0))
                     \<lparr>ft_manifest := Some payload\<rparr>)))"

text \<open>The body of the \<open>try\<close>.\<close>

definition fetch_chosen :: "fetch_world \<Rightarrow> fetch_args \<Rightarrow> string \<Rightarrow> ladder_spec list \<Rightarrow> fetch_run" where
  "fetch_chosen w args dest specs =
     (case select_specs specs (fa_only args) (fa_max_priority args) of
        Inl e \<Rightarrow> fetch_stop [] [] (Inl e)
      | Inr chosen \<Rightarrow>
          let total_gb = (\<Sum>s\<leftarrow>chosen. ls_size_gb s);
              start = ''Fetching '' @ str_nat (length chosen) @ '' model(s), '' @ fixed1 total_gb @ '' GB total, into '' @ dest
          in (case (if fa_dry_run args then Inr [] else rbind (check_disk_space dest (fw_free w) total_gb) (\<lambda>l. Inr [l])) of
                Inl e \<Rightarrow> fetch_stop [start] [] (Inl e)
              | Inr lines \<Rightarrow>
                  (case download_all w (fa_dry_run args) dest [] chosen of
                     (out, done, Inl e) \<Rightarrow> fetch_stop (start # lines @ out) done (Inl e)
                   | (out, done, Inr _) \<Rightarrow> finish_fetch w args dest chosen (start # lines @ out) done)))"

definition is_os_error :: "py_error \<Rightarrow> bool" where
  "is_os_error e \<longleftrightarrow> (case e of OSError _ \<Rightarrow> True | _ \<Rightarrow> False)"

definition fetch_main :: "fetch_world \<Rightarrow> toml_file \<Rightarrow> fetch_args \<Rightarrow> fetch_run" where
  "fetch_main w file args =
     (case load_ladder file of
        Inl e \<Rightarrow>
          if is_os_error e \<or> is_value_error e
          then (fetch_stop [] [] (Inr 2))\<lparr>ft_err := [''error: '' @ err_text e]\<rparr>
          else fetch_stop [] [] (Inl e)
      | Inr specs \<Rightarrow>
          if fa_list args
          then (case format_ladder specs of Inl e \<Rightarrow> fetch_stop [] [] (Inl e) | Inr t \<Rightarrow> fetch_stop [t] [] (Inr 0))
          else (case fa_dest args of
              None \<Rightarrow> (fetch_stop [] [] (Inr 2))\<lparr>ft_err := [''error: --dest is required unless --list is given'']\<rparr>
            | Some dest \<Rightarrow>
                let r = fetch_chosen w args dest specs in
                (case ft_result r of
                   Inl e \<Rightarrow>
                     if is_os_error e \<or> is_runtime_error e \<or> is_value_error e
                     then r\<lparr>ft_result := Inr 1, ft_err := [[CHR 0x0A] @ ''error: '' @ err_text e]\<rparr>
                     else r
                 | Inr _ \<Rightarrow> r)))"

subsection \<open>What holds\<close>

text \<open>The streamed digest is the digest of the file, whatever the size of the chunks.\<close>

lemma concat_read_chunks: "chunk_bytes \<noteq> 0 \<Longrightarrow> concat (read_chunks chunk_bytes bytes) = bytes"
  by (induction chunk_bytes bytes rule: read_chunks.induct) (subst read_chunks.simps, auto)

lemma foldl_append: "foldl (@) acc xss = acc @ concat xss"
  by (induction xss arbitrary: acc) simp_all

lemma sha256_of_whole: "chunk_bytes \<noteq> 0 \<Longrightarrow> sha256_of chunk_bytes (Tree_file bytes) = Inr (hexdigest (sha256 bytes))"
  by (simp add: sha256_of_def foldl_append concat_read_chunks)

text \<open>The ladder always prints: a positive link speed is built in.\<close>

lemma format_ladder_total: "\<exists>t. format_ladder specs = Inr t"
proof -
  have row: "\<exists>row. ladder_row c s = Inr row" for c s
    by (simp add: ladder_row_def estimate_hours_def SLOW_LINK_MBPS_def FAST_LINK_MBPS_def)
  have "\<exists>rows c. ladder_rows cumulative specs = Inr (rows, c)" for cumulative
  proof (induction specs arbitrary: cumulative)
    case (Cons s specs)
    obtain x where x: "ladder_row (cumulative + ls_size_gb s) s = Inr x" using row by blast
    obtain rows c where "ladder_rows (cumulative + ls_size_gb s) specs = Inr (rows, c)" using Cons by blast
    with x show ?case by simp
  qed simp
  then obtain rows c where "ladder_rows 0 specs = Inr (rows, c)" by blast
  then show ?thesis by (simp add: format_ladder_def Let_def)
qed

text \<open>A selection keeps the order of the ladder and is not empty.\<close>

lemma select_specs_ok:
  assumes "select_specs specs only max_priority = Inr chosen"
  shows "chosen \<noteq> [] \<and> (\<exists>P. chosen = filter P specs)
    \<and> (\<forall>m. max_priority = Some m \<longrightarrow> (\<forall>s \<in> set chosen. ls_priority s \<le> m))"
proof -
  obtain c where c: "select_only specs only = Inr c" using assms by (auto simp: select_specs_def res_simps)
  have "\<exists>P. c = filter P specs"
    using c by (auto simp: select_only_def Let_def split: option.splits if_splits intro: exI[of _ "\<lambda>_. True"])
  then obtain P where P: "c = filter P specs" by blast
  have "\<exists>Q. chosen = filter Q specs"
    using assms c P by (cases max_priority) (auto simp: select_specs_def Let_def split: if_splits)
  moreover have "chosen \<noteq> []" "\<forall>m. max_priority = Some m \<longrightarrow> (\<forall>s \<in> set chosen. ls_priority s \<le> m)"
    using assms c by (auto simp: select_specs_def Let_def split: if_splits option.splits)
  ultimately show ?thesis by blast
qed

text \<open>
  The commands run are those of a prefix of the selection; all but the last of them succeeded, and
  the loop reports success exactly when every command ran and succeeded.
\<close>

definition fetched :: "fetch_world \<Rightarrow> string \<Rightarrow> ladder_spec \<Rightarrow> bool" where
  "fetched w dest s \<longleftrightarrow> (case fw_run w (hf_command dest s) of Inr (code, _) \<Rightarrow> code = 0 | Inl _ \<Rightarrow> False)"

lemma download_cases:
  "download w False dest done s = (out, done', r) \<Longrightarrow>
     done' = done @ [hf_command dest s] \<and> (r = Inr () \<longleftrightarrow> fetched w dest s)"
  by (auto simp: download_def Let_def fetched_def split: sum.splits if_splits)

lemma download_all_prefix:
  "download_all w False dest done ss = (out, done', r) \<Longrightarrow>
     \<exists>k \<le> length ss. done' = done @ map (hf_command dest) (take k ss)
       \<and> list_all (fetched w dest) (take (k - 1) ss)
       \<and> (r = Inr () \<longleftrightarrow> k = length ss \<and> list_all (fetched w dest) ss)"
proof (induction ss arbitrary: "done" out done' r)
  case (Cons s ss)
  obtain out1 d1 r1 where d: "download w False dest done s = (out1, d1, r1)" by (cases "download w False dest done s") auto
  note f = download_cases[OF d]
  show ?case
  proof (cases r1)
    case (Inl e)
    with Cons.prems d have "done' = d1" "r = Inl e" by auto
    with f Inl show ?thesis by (intro exI[of _ 1]) auto
  next
    case (Inr u)
    obtain out2 where "download_all w False dest d1 ss = (out2, done', r)"
      using Cons.prems d Inr by (auto split: prod.splits)
    from Cons.IH[OF this] obtain k where k: "k \<le> length ss" "done' = d1 @ map (hf_command dest) (take k ss)"
      "list_all (fetched w dest) (take (k - 1) ss)"
      "r = Inr () \<longleftrightarrow> k = length ss \<and> list_all (fetched w dest) ss" by blast
    have "list_all (fetched w dest) (take k (s # ss)) \<longleftrightarrow> k = 0 \<or> list_all (fetched w dest) (take (k - 1) ss)"
      using f Inr by (cases k) auto
    with k f Inr show ?thesis by (intro exI[of _ "Suc k"]) auto
  qed
qed auto

lemma download_all_dry: "\<exists>out. download_all w True dest done ss = (out, done, Inr ())"
  by (induction ss) (auto simp: download_def Let_def)

text \<open>
  A fetch that is not a dry run: the commands go down the ladder in strictly ascending priority, the
  first failure ends them, the manifest is written after all of them succeeded, and the exit code is 0
  only then.
\<close>

lemma finish_fetch_manifest:
  "ft_commands (finish_fetch w args dest chosen out done) = done"
  by (simp add: finish_fetch_def Let_def fetch_stop_def split: sum.splits option.splits)

lemma fetch_main_in_order:
  assumes "load_ladder (Some (Inr raw)) = Inr specs" and "\<not> fa_list args" and "fa_dest args = Some dest"
    and "\<not> fa_dry_run args" and "fetch_main w (Some (Inr raw)) args = r"
  shows "ft_commands r = [] \<and> ft_result r \<noteq> Inr 0 \<and> ft_manifest r = None
    \<or> (\<exists>chosen k. sorted_wrt (<) (map ls_priority chosen) \<and> set chosen \<subseteq> set specs \<and> chosen \<noteq> [] \<and> k \<le> length chosen
        \<and> ft_commands r = map (hf_command dest) (take k chosen)
        \<and> list_all (fetched w dest) (take (k - 1) chosen)
        \<and> (ft_result r = Inr 0 \<or> ft_manifest r \<noteq> None \<longrightarrow> k = length chosen \<and> list_all (fetched w dest) chosen))"
proof -
  define b where "b = fetch_chosen w args dest specs"
  have r: "ft_commands r = ft_commands b" "ft_manifest r = ft_manifest b" "ft_result r = Inr 0 \<longleftrightarrow> ft_result b = Inr 0"
    using assms by (auto simp: fetch_main_def Let_def b_def[symmetric] split: sum.splits if_splits)
  show ?thesis
  proof (cases "select_specs specs (fa_only args) (fa_max_priority args)")
    case (Inl e)
    then have "b = fetch_stop [] [] (Inl e)" by (simp add: b_def fetch_chosen_def)
    with r show ?thesis by (simp add: fetch_stop_def)
  next
    case (Inr chosen)
    obtain out done' res where d: "download_all w False dest [] chosen = (out, done', res)"
      by (cases "download_all w False dest [] chosen") auto
    from download_all_prefix[OF d] obtain k where k: "k \<le> length chosen"
      "done' = map (hf_command dest) (take k chosen)" "list_all (fetched w dest) (take (k - 1) chosen)"
      "res = Inr () \<longleftrightarrow> k = length chosen \<and> list_all (fetched w dest) chosen" by auto
    from select_specs_ok[OF Inr] obtain P where P: "chosen = filter P specs" "chosen \<noteq> []" by blast
    obtain models where "sorted_wrt (<) (map ls_priority specs)" by (rule load_ladder_ok[OF assms(1)])
    then have s: "sorted_wrt (<) (map ls_priority chosen)" "set chosen \<subseteq> set specs"
      unfolding P(1) sorted_wrt_map by (auto intro: sorted_wrt_filter)
    have "ft_commands b = [] \<and> (\<exists>e. ft_result b = Inl e) \<and> ft_manifest b = None
      \<or> ft_commands b = done' \<and> (ft_result b = Inr 0 \<or> ft_manifest b \<noteq> None \<longrightarrow> res = Inr ())"
      using assms(4) Inr d by (cases res; cases "check_disk_space dest (fw_free w) (\<Sum>s\<leftarrow>chosen. ls_size_gb s)")
        (simp_all add: b_def fetch_chosen_def Let_def fetch_stop_def finish_fetch_manifest)
    with r k s P(2) show ?thesis by auto
  qed
qed

end
