(* ===== verification/Fabric_Check.thy ===== *)
theory Fabric_Check
  imports Launch Text_Layout
begin

text \<open>
  \<open>scripts/check_fabric.py\<close>: the check of the network before a pool is started. Sockets, clocks and the
  download are parameters: the datagrams received before a deadline, the connections that open, the bytes
  read. A function that prints gives the texts it prints with its exit code.
\<close>

definition RTT_WARN_MS :: rat where "RTT_WARN_MS = 2"
definition PROBE_MAGIC :: string where "PROBE_MAGIC = ''DAIN-FABRIC-PROBE''"
definition SPEEDTEST_BYTES :: int where "SPEEDTEST_BYTES = 25000000"
definition DRIVE_THRESHOLD_HOURS :: rat where "DRIVE_THRESHOLD_HOURS = 2"

definition fabric_dash :: string where "fabric_dash = [CHR 0xE2, CHR 0x80, CHR 0x94]"

record peer =
  pe_host :: string
  pe_name :: string
  pe_rtt_ms :: "rat option"
  pe_rpc_open :: bool

subsection \<open>The interface\<close>

definition load_discovery :: "toml_file \<Rightarrow> json res" where
  "load_discovery file =
     (case file of
        None \<Rightarrow> Inl (OSError ''cluster file not found'')
      | Some loaded \<Rightarrow> rbind loaded (\<lambda>raw.
          (case map_of raw ''discovery'' of
             None \<Rightarrow> Inl (ValueError ''cluster.toml is missing the [discovery] section'')
           | Some v \<Rightarrow> Inr v)))"

text \<open>
  \<open>resolved\<close> are the addresses of \<open>getaddrinfo\<close>, none for a \<open>gaierror\<close>; \<open>probed\<close> the address of the probing
  socket, \<open>None\<close> for an \<open>OSError\<close>.
\<close>

definition local_addresses :: "string list \<Rightarrow> string option \<Rightarrow> string list" where
  "local_addresses resolved probed =
     (let found = sort (remdups (filter (\<lambda>a. \<not> starts_with ''127.'' a) resolved)) in
      if found \<noteq> [] then found else (case probed of None \<Rightarrow> [] | Some a \<Rightarrow> [a]))"

definition list_repr :: "string list \<Rightarrow> string" where
  "list_repr xs = ''['' @ str_join '', '' (map py_repr xs) @ '']''"

definition resolve_bind :: "string option \<Rightarrow> string list \<Rightarrow> string option \<Rightarrow> (string list \<times> string) res" where
  "resolve_bind explicit resolved probed =
     (case explicit of
        Some (c # a) \<Rightarrow> Inr ([], c # a)
      | _ \<Rightarrow>
          (case local_addresses resolved probed of
             [] \<Rightarrow> Inl (RuntimeError ''no non-loopback IPv4 address found. Is the fabric NIC up?'')
           | [a] \<Rightarrow> Inr ([], a)
           | a # as \<Rightarrow> Inr ([''note: several addresses '' @ list_repr (a # as) @ ''; using '' @ a
               @ ''. Override with --bind.''], a)))"

subsection \<open>Probing\<close>

text \<open>A datagram with the address of its sender; \<open>None\<close> is a receive that timed out.\<close>

type_synonym received = "(string \<times> string) option"

text \<open>Answering until interrupted: the datagrams sent back, each with its addressee.\<close>

definition listen_answers :: "string \<Rightarrow> (string \<times> string) list \<Rightarrow> (string \<times> string) list" where
  "listen_answers hostname datagrams =
     map (\<lambda>(payload, sender). (PROBE_MAGIC @ ''|'' @ hostname, sender))
       (filter (\<lambda>(payload, sender). starts_with PROBE_MAGIC payload) datagrams)"

text \<open>\<open>payload.split(b"|", 1)[-1]\<close>.\<close>

definition after_bar :: "string \<Rightarrow> string" where
  "after_bar payload = (case dropWhile (\<lambda>c. c \<noteq> CHR ''|'') payload of [] \<Rightarrow> payload | _ # r \<Rightarrow> r)"

definition probe_step :: "(string \<Rightarrow> string) \<Rightarrow> string \<Rightarrow> received \<Rightarrow> (string, string) dict \<Rightarrow> (string, string) dict" where
  "probe_step decode bind_address r peers =
     (case r of
        None \<Rightarrow> peers
      | Some (payload, sender) \<Rightarrow>
          if starts_with PROBE_MAGIC payload \<and> sender \<noteq> bind_address
          then AList.update sender (decode (after_bar payload)) peers else peers)"

text \<open>\<open>decode\<close> is \<open>bytes.decode(errors="replace")\<close>; the receives are those that begin before the deadline.\<close>

definition probe :: "(string \<Rightarrow> string) \<Rightarrow> string \<Rightarrow> received list \<Rightarrow> peer list" where
  "probe decode bind_address receives =
     map (\<lambda>(host, name). \<lparr>pe_host = host, pe_name = name, pe_rtt_ms = None, pe_rpc_open = False\<rparr>)
       (sort_key fst (fold (probe_step decode bind_address) receives []))"

text \<open>\<open>connect host port\<close> says whether a connection opened, and the seconds either way.\<close>

definition measure_peer :: "(string \<Rightarrow> int \<Rightarrow> bool \<times> rat) \<Rightarrow> int \<Rightarrow> peer \<Rightarrow> peer" where
  "measure_peer connect rpc_port p =
     (case connect (pe_host p) rpc_port of (reachable, seconds) \<Rightarrow>
        \<lparr>pe_host = pe_host p, pe_name = pe_name p, pe_rtt_ms = (if reachable then Some (seconds * 1000) else None),
         pe_rpc_open = reachable\<rparr>)"

subsection \<open>The report\<close>

definition no_peers_text :: "string list" where
  "no_peers_text =
     [[CHR 0x0A] @ ''NO PEERS ANSWERED.'',
      ''  Multicast is not crossing the switch, or nothing is in `listen` mode.'',
      ''  This is exactly what breaks mDNS join. Check, in order:'',
      ''    - gpu-02 on WSL'' @ [CHR 0x27] @ ''s default NAT: multicast does not cross the'',
      ''      virtual switch. Needs networkingMode=mirrored in .wslconfig,'',
      ''      plus Set-NetFirewallHyperVVMSetting -DefaultInboundAction Allow'',
      ''    - a host firewall blocking UDP 45454 or 5353 on the LAN subnet'',
      ''    - a Wi-Fi adapter still up and stealing the route -- disable it'',
      ''    - IGMP snooping on a managed switch with no querier'']"

definition peer_lines :: "peer \<Rightarrow> string list" where
  "peer_lines p =
     (let rtt = (case pe_rtt_ms p of None \<Rightarrow> ''  --'' | Some x \<Rightarrow> fixed2 x @ '' ms'');
          slow = (case pe_rtt_ms p of None \<Rightarrow> False | Some x \<Rightarrow> x \<noteq> 0 \<and> x > RTT_WARN_MS)
      in [pad_right 16 (pe_host p) @ '' '' @ pad_right 20 (pe_name p) @ '' '' @ pad_left 9 rtt @ ''   ''
            @ (if pe_rpc_open p then ''open'' else ''CLOSED'')]
         @ (if pe_rpc_open p \<and> slow
            then [''    slow ('' @ fixed2 (the (pe_rtt_ms p)) @ '' ms). Sub-millisecond is normal on gigabit '' @ fabric_dash,
                  ''    this smells like Wi-Fi or a second hop.''] else []))"

definition report :: "peer list \<Rightarrow> int \<Rightarrow> string list \<times> int" where
  "report peers rpc_port =
     (if peers = [] then (no_peers_text, 1)
      else
        let header = [CHR 0x0A] @ pad_right 16 ''PEER'' @ '' '' @ pad_right 20 ''NAME'' @ '' '' @ pad_left 9 ''RTT''
              @ ''   RPC :'' @ str_int rpc_port;
            closed = length (filter (\<lambda>p. \<not> pe_rpc_open p) peers);
            rows = header # concat (map peer_lines peers)
        in if closed \<noteq> 0
           then (rows @ [[CHR 0x0A] @ str_nat closed @ '' peer(s) discoverable but not accepting RPC on '' @ str_int rpc_port @ ''.'',
                  ''  The node is reachable, so this is rpc-server not running, or a firewall rule.'',
                  ''  Multicast working while TCP fails is the good case: discovery is fine.''], 1)
           else (rows @ [[CHR 0x0A] @ ''Fabric is healthy: multicast crosses the switch and every peer accepts RPC.''], 0))"

subsection \<open>The speed test\<close>

text \<open>
  \<open>read\<close> gives the lengths of the chunks, or the \<open>OSError\<close> of the connection; a clock that did not
  move divides by zero. The result carries the texts printed and those on the error stream.
\<close>

definition speed_report :: "toml_file \<Rightarrow> int \<Rightarrow> rat \<Rightarrow> string list res" where
  "speed_report file downloaded elapsed =
     (if elapsed = 0 then Inl ZeroDivisionError
      else
        let mbps = of_int (downloaded * 8) / elapsed / 1000000 in
        rbind (load_ladder file) (\<lambda>specs.
        let demo_gb = (\<Sum>s\<leftarrow>filter (\<lambda>s. ls_priority s \<le> 4) specs. ls_size_gb s);
            total_gb = (\<Sum>s\<leftarrow>specs. ls_size_gb s)
        in rbind (estimate_hours demo_gb mbps) (\<lambda>demo_hours.
           rbind (estimate_hours total_gb mbps) (\<lambda>total_hours.
           Inr [''  '' @ fixed0 (of_int downloaded / 1000000) @ '' MB in '' @ fixed1 elapsed @ ''s = '' @ fixed1 mbps
                  @ '' Mbps'' @ [CHR 0x0A],
                ''  demo set (priority 1-4, '' @ fixed1 demo_gb @ '' GB): '' @ fixed1 demo_hours @ '' h'',
                ''  full ladder ('' @ fixed1 total_gb @ '' GB):          '' @ fixed1 total_hours @ '' h'',
                [CHR 0x0A] @ (if demo_hours > DRIVE_THRESHOLD_HOURS
                  then ''  Over '' @ fixed0 DRIVE_THRESHOLD_HOURS @ '' h for the demo set '' @ fabric_dash @ '' use the external drive.''
                  else ''  Fast enough to pull the demo set here. Still take the drive for the headline.'')]))))"

definition speedtest :: "toml_file \<Rightarrow> int list res \<Rightarrow> rat \<Rightarrow> (string list \<times> string list \<times> int) res" where
  "speedtest file read elapsed =
     (let start = ''downloading '' @ fixed0 (of_int SPEEDTEST_BYTES / 1000000) @ '' MB from speed.cloudflare.com ...'' in
      case read of
        Inl e \<Rightarrow> (case e of OSError m \<Rightarrow> Inr ([start], [''speedtest failed: '' @ m], 1) | _ \<Rightarrow> Inl e)
      | Inr chunks \<Rightarrow> rbind (speed_report file (sum_list chunks) elapsed) (\<lambda>lines. Inr (start # lines, [], 0)))"

subsection \<open>The program\<close>

datatype fabric_mode = Probe_mode | Listen_mode | Speedtest_mode

record fabric_world =
  fb_cluster :: toml_file
  fb_ladder :: toml_file
  fb_resolved :: "string list"
  fb_probed :: "string option"
  fb_hostname :: string
  fb_heard :: "(string \<times> string) list"
  fb_received :: "received list"
  fb_decode :: "string \<Rightarrow> string"
  fb_connect :: "string \<Rightarrow> int \<Rightarrow> bool \<times> rat"
  fb_read :: "int list res"
  fb_elapsed :: rat

text \<open>\<open>discovery["rpc_port"]\<close> where the section is a table.\<close>

definition rpc_port_of :: "json \<Rightarrow> int res" where
  "rpc_port_of discovery =
     (case discovery of
        JObj d \<Rightarrow> rbind (dict_get d ''rpc_port'') int_of
      | _ \<Rightarrow> Inl (TypeError ''object is not subscriptable by a text''))"

definition fabric_run :: "fabric_world \<Rightarrow> fabric_mode \<Rightarrow> string option \<Rightarrow> (string list \<times> string list \<times> int) res" where
  "fabric_run w mode explicit =
     (if mode = Speedtest_mode then speedtest (fb_ladder w) (fb_read w) (fb_elapsed w)
      else
        rbind (load_discovery (fb_cluster w)) (\<lambda>discovery.
        rbind (rpc_port_of discovery) (\<lambda>rpc_port.
        rbind (resolve_bind explicit (fb_resolved w) (fb_probed w)) (\<lambda>(notes, bind_address).
        let start = notes @ [''fabric interface: '' @ bind_address] in
        if mode = Listen_mode
        then Inr (start @ [''listening on 224.0.0.251:45454 via '' @ bind_address @ ''  (ctrl-c to stop)'']
               @ map (\<lambda>(_, sender). ''  answered '' @ sender) (listen_answers (fb_hostname w) (fb_heard w))
               @ [[CHR 0x0A] @ ''stopped''], [], 0)
        else
          let peers = map (measure_peer (fb_connect w) rpc_port) (probe (fb_decode w) bind_address (fb_received w))
          in (case report peers rpc_port of (lines, code) \<Rightarrow> Inr (start @ lines, [], code))))))"

text \<open>
  The exceptions \<open>main\<close> answers with exit code 2. What was printed before one is raised is not kept.
\<close>

definition fabric_main :: "fabric_world \<Rightarrow> fabric_mode \<Rightarrow> string option \<Rightarrow> (string list \<times> string list \<times> int) res" where
  "fabric_main w mode explicit =
     rcatch (fabric_run w mode explicit) (\<lambda>e.
       if is_runtime_error e \<or> is_value_error e \<or> (case e of OSError _ \<Rightarrow> True | KeyError _ \<Rightarrow> True | _ \<Rightarrow> False)
       then Inr ([], [''error: '' @ err_text e], 2) else Inl e)"

subsection \<open>What holds\<close>

text \<open>A listener's answer is a probe's peer, under the listener's name.\<close>

lemma after_bar_answer: "after_bar (PROBE_MAGIC @ ''|'' @ hostname) = hostname"
  by (simp add: after_bar_def PROBE_MAGIC_def)

lemma probe_step_keys:
  "distinct (keys ps) \<Longrightarrow> distinct (keys (fold (probe_step decode b) rs ps))"
  by (induction rs arbitrary: ps) (auto simp: probe_step_def distinct_update split: option.splits)

lemma probe_keeps:
  "set (keys (fold (probe_step decode b) rs ps)) = set (keys ps)
     \<union> {s. \<exists>p. Some (p, s) \<in> set rs \<and> starts_with PROBE_MAGIC p \<and> s \<noteq> b}"
proof (induction rs arbitrary: ps)
  case (Cons r rs)
  have "set (keys (probe_step decode b r ps)) = set (keys ps)
     \<union> {s. \<exists>p. r = Some (p, s) \<and> starts_with PROBE_MAGIC p \<and> s \<noteq> b}"
    by (auto simp: probe_step_def set_keys_update simp del: set_map split: option.splits)
  then show ?case using Cons[of "probe_step decode b r ps"] by auto
qed simp

text \<open>
  The peers are the other machines that answered, each once and in the order of their addresses.
\<close>

lemma probe_peers:
  "sorted_wrt (<) (map pe_host (probe decode b rs)) \<and> b \<notin> set (map pe_host (probe decode b rs))
   \<and> set (map pe_host (probe decode b rs)) = {s. \<exists>p. Some (p, s) \<in> set rs \<and> starts_with PROBE_MAGIC p \<and> s \<noteq> b}"
proof -
  let ?d = "fold (probe_step decode b) rs []"
  have h: "map pe_host (probe decode b rs) = sort (keys ?d)"
    by (simp add: probe_def map_sort_key_eq[symmetric] split_def o_def)
  have "distinct (keys ?d)" by (rule probe_step_keys) simp
  then have "sorted_wrt (<) (sort (keys ?d))" by (simp add: strict_sorted_iff)
  moreover have "set (keys ?d) = {s. \<exists>p. Some (p, s) \<in> set rs \<and> starts_with PROBE_MAGIC p \<and> s \<noteq> b}"
    by (simp only: probe_keeps) simp
  ultimately show ?thesis unfolding h by auto
qed

text \<open>The exit code is 0 exactly when some machine answered and every one of them accepts connections.\<close>

lemma report_code: "snd (report peers rpc_port) = 0 \<longleftrightarrow> peers \<noteq> [] \<and> list_all pe_rpc_open peers"
  by (auto simp: report_def Let_def list_all_iff filter_empty_conv)

lemma healthy_fabric:
  assumes "fabric_main w Probe_mode explicit = Inr (out, err, 0)"
  shows "\<exists>port b notes. resolve_bind explicit (fb_resolved w) (fb_probed w) = Inr (notes, b)
    \<and> (\<exists>p s. Some (p, s) \<in> set (fb_received w) \<and> starts_with PROBE_MAGIC p \<and> s \<noteq> b)
    \<and> (\<forall>p s. Some (p, s) \<in> set (fb_received w) \<and> starts_with PROBE_MAGIC p \<and> s \<noteq> b \<longrightarrow> fst (fb_connect w s port))"
proof -
  obtain port said b where r: "resolve_bind explicit (fb_resolved w) (fb_probed w) = Inr (said, b)"
    and c: "snd (report (map (measure_peer (fb_connect w) port) (probe (fb_decode w) b (fb_received w))) port) = 0"
    using assms unfolding fabric_main_def fabric_run_def
    by (auto simp: res_simps Let_def split: if_splits prod.splits) (metis snd_conv)
  let ?ps = "probe (fb_decode w) b (fb_received w)"
  have o: "pe_rpc_open (measure_peer (fb_connect w) port p) = fst (fb_connect w (pe_host p) port)" for p
    by (simp add: measure_peer_def split: prod.splits)
  define H where "H = {s. \<exists>p. Some (p, s) \<in> set (fb_received w) \<and> starts_with PROBE_MAGIC p \<and> s \<noteq> b}"
  have H: "set (map pe_host ?ps) = H" unfolding H_def using probe_peers by blast
  from c have "?ps \<noteq> []" "\<forall>p \<in> set ?ps. fst (fb_connect w (pe_host p) port)"
    by (auto simp: report_code list_all_iff o)
  then have "H \<noteq> {}" "\<forall>h \<in> H. fst (fb_connect w h port)" unfolding H[symmetric] by simp_all
  then show ?thesis unfolding H_def using r by (intro exI[of _ port] exI[of _ b] exI[of _ said]) auto
qed

end
