(* ===== verification/Head_Run.thy ===== *)
theory Head_Run
  imports Launch Text_Layout
begin

text \<open>
  The \<open>main\<close> of \<open>scripts/serve_head.py\<close>: the start of the head, its watch loop turn by turn, and the
  signal handler that runs in between. Python runs a handler while the program sleeps and then sleeps
  on, so a signal shows in the turn it falls into: during the sleep, or during the planning of a restart.
\<close>

subsection \<open>The control plane's node list\<close>

text \<open>\<open>fetch_nodes\<close>: \<open>HeadError\<close> is a \<open>RuntimeError\<close>; a body that is no JSON raises \<open>ValueError\<close>.\<close>

definition fetch_nodes :: "string \<Rightarrow> http_reply \<Rightarrow> json res" where
  "fetch_nodes ctl reply =
     (let unreachable = (\<lambda>m. Inl (RuntimeError (''cannot reach the control plane at '' @ ctl @ '': '' @ m))) in
      case reply of
        Transport_error m \<Rightarrow> unreachable m
      | Reply status _ body \<Rightarrow>
          (case raise_for_status status of
             Inl e \<Rightarrow> unreachable (err_text e)
           | Inr _ \<Rightarrow> (case body of None \<Rightarrow> Inl (ValueError ''invalid JSON'') | Some j \<Rightarrow> Inr j)))"

subsection \<open>Stopping a process\<close>

datatype process_call = Polled | Terminated | Waited | Killed

text \<open>
  \<open>stop_head\<close>, and \<open>stop_rpc_server\<close> of the node: what is called on the process. \<open>exited\<close> is what its
  poll tells, \<open>quits\<close> whether it ends within the time given.
\<close>

definition stop_process :: "bool option \<Rightarrow> bool \<Rightarrow> process_call list" where
  "stop_process exited quits =
     (case exited of
        None \<Rightarrow> []
      | Some True \<Rightarrow> [Polled]
      | Some False \<Rightarrow> [Polled, Terminated, Waited] @ (if quits then [] else [Killed]))"

lemma stop_process_ends:
  "exited = Some False \<Longrightarrow> Terminated \<in> set (stop_process exited quits) \<and> (quits \<or> last (stop_process exited quits) = Killed)"
  by (simp add: stop_process_def)

subsection \<open>The watch loop\<close>

record head_turn =
  ht_exit :: "int option"
  ht_signal_asleep :: bool
  ht_first :: head_world
  ht_now :: rat
  ht_second :: head_world
  ht_signal_planning :: bool

record head_run =
  hr_watch :: watch_state
  hr_command :: "string list"
  hr_alive :: bool
  hr_stopping :: bool

datatype head_exit = Goes_on | Returns int | Raises py_error

definition head_started :: "string list \<Rightarrow> head_member list \<Rightarrow> head_run" where
  "head_started command members =
     \<lparr>hr_watch = \<lparr>ws_current = membership_key members, ws_changed_at = None\<rparr>, hr_command = command,
      hr_alive = True, hr_stopping = False\<rparr>"

text \<open>A turn that gets as far as \<open>stop_head(proc)\<close>.\<close>

definition restart_due :: "head_args \<Rightarrow> cluster \<Rightarrow> head_turn \<Rightarrow> watch_state \<Rightarrow> bool" where
  "restart_due args cl t ws =
     (case live_members args (ht_first t) of
        Inl _ \<Rightarrow> False
      | Inr latest \<Rightarrow> membership_key latest \<noteq> ws_current ws
          \<and> (case ws_changed_at ws of None \<Rightarrow> False | Some c \<Rightarrow> \<not> ht_now t - c < cl_replan_debounce_s cl))"

definition head_step :: "head_args \<Rightarrow> cluster \<Rightarrow> head_turn \<Rightarrow> head_run \<Rightarrow> head_exit \<times> head_run" where
  "head_step args cl t st =
     (case ht_exit t of
        Some code \<Rightarrow> (Returns code, st\<lparr>hr_alive := False\<rparr>)
      | None \<Rightarrow>
          let st1 = (if ht_signal_asleep t then st\<lparr>hr_alive := False, hr_stopping := True\<rparr> else st);
              due = restart_due args cl t (hr_watch st);
              st2 = (if due then st1\<lparr>hr_alive := False, hr_stopping := hr_stopping st1 \<or> ht_signal_planning t\<rparr> else st1)
          in (case watch_turn args cl (ht_now t) (ht_first t) (ht_second t) (hr_watch st) of
                Inl e \<Rightarrow> (Raises e, st2)
              | Inr (Keep, ws) \<Rightarrow> (Goes_on, st2\<lparr>hr_watch := ws\<rparr>)
              | Inr (Give_up e, ws) \<Rightarrow> (Returns 2, st2)
              | Inr (Restart command, ws) \<Rightarrow> (Goes_on, st2\<lparr>hr_watch := ws, hr_command := command, hr_alive := True\<rparr>)))"

text \<open>\<open>while not stopping\<close>; the list holds the turns that come about.\<close>

fun watch_loop :: "head_args \<Rightarrow> cluster \<Rightarrow> head_turn list \<Rightarrow> head_run \<Rightarrow> head_exit \<times> head_run" where
  "watch_loop args cl [] st = (if hr_stopping st then (Returns 0, st) else (Goes_on, st))"
| "watch_loop args cl (t # ts) st =
     (if hr_stopping st then (Returns 0, st)
      else case head_step args cl t st of
        (Goes_on, st1) \<Rightarrow> watch_loop args cl ts st1
      | r \<Rightarrow> r)"

subsection \<open>The program\<close>

record head_result =
  hd_out :: "string list"
  hd_err :: "string list"
  hd_exit :: head_exit
  hd_run :: "head_run option"

definition head_notice :: "cluster \<Rightarrow> head_member list \<Rightarrow> string" where
  "head_notice cl members =
     (case members of
        [] \<Rightarrow> []
      | h # ws \<Rightarrow> ''head '' @ hm_node_id h @ '' ('' @ hm_host h @ '':'' @ str_int (cl_llama_port cl) @ '') + ''
          @ str_nat (length ws) @ '' worker(s): ''
          @ (let names = str_join '', '' (map hm_node_id ws) in if names = [] then ''none'' else names))"

definition unverified_warning :: string where
  "unverified_warning = ''warning: cluster.toml pinned_commit is UNVERIFIED '' @ [CHR 0xE2, CHR 0x80, CHR 0x94]
     @ '' mismatched llama.cpp builds hang over RPC rather than erroring''"

text \<open>
  \<open>waited\<close> is the exit code of the process when the program only waits for it. The \<open>OSError\<close> of
  planning is the missing cluster file.
\<close>

definition head_main :: "head_args \<Rightarrow> bool \<Rightarrow> bool \<Rightarrow> head_world \<Rightarrow> int \<Rightarrow> head_turn list \<Rightarrow> head_result" where
  "head_main args dry_run watch w waited turns =
     (case rbind (load_cluster (hw_cluster_file w)) (\<lambda>cl. rbind (plan_command args cl w) (\<lambda>p. Inr (cl, p))) of
        Inl e \<Rightarrow>
          if (case e of RuntimeError _ \<Rightarrow> True | ValueError _ \<Rightarrow> True | OSError _ \<Rightarrow> True | KeyError _ \<Rightarrow> True | _ \<Rightarrow> False)
          then \<lparr>hd_out = [], hd_err = [''error: '' @ err_text e], hd_exit = Returns 2, hd_run = None\<rparr>
          else \<lparr>hd_out = [], hd_err = [], hd_exit = Raises e, hd_run = None\<rparr>
      | Inr (cl, command, members) \<Rightarrow>
          let notice = [head_notice cl members];
              warning = (if cl_pinned_commit cl = ''UNVERIFIED'' then [unverified_warning] else []);
              started = head_started command members; err = notice @ warning @ [str_join '' '' command]
          in if dry_run
             then \<lparr>hd_out = [str_join '' '' command], hd_err = notice, hd_exit = Returns 0, hd_run = None\<rparr>
             else if \<not> watch
             then \<lparr>hd_out = [], hd_err = err, hd_exit = Returns waited, hd_run = Some (started\<lparr>hr_alive := False\<rparr>)\<rparr>
             else (case watch_loop args cl turns started of
                (r, st) \<Rightarrow> \<lparr>hd_out = [], hd_err = err @ [''watching membership every 2s; debounce ''
                    @ fixed0 (cl_replan_debounce_s cl) @ ''s''], hd_exit = r, hd_run = Some st\<rparr>))"

subsection \<open>What holds\<close>

text \<open>
  The command of the head was planned together with the membership that later ones are compared with.
\<close>

definition head_planned :: "head_args \<Rightarrow> cluster \<Rightarrow> head_run \<Rightarrow> bool" where
  "head_planned args cl st \<longleftrightarrow> (\<exists>w members. plan_command args cl w = Inr (hr_command st, members)
     \<and> ws_current (hr_watch st) = membership_key members)"

lemma restart_planned:
  assumes "watch_turn args cl now w w2 ws = Inr (Restart command, ws')"
  shows "\<exists>members. plan_command args cl w2 = Inr (command, members) \<and> ws' = \<lparr>ws_current = membership_key members, ws_changed_at = None\<rparr>"
  using assms unfolding watch_turn_def
  by (auto split: sum.splits if_splits option.splits py_error.splits prod.splits)

lemma keep_current:
  "watch_turn args cl now w w2 ws = Inr (Keep, ws') \<Longrightarrow> ws_current ws' = ws_current ws"
  unfolding watch_turn_def by (auto split: sum.splits if_splits option.splits py_error.splits prod.splits)

lemma watch_turn_due:
  assumes "watch_turn args cl (ht_now t) (ht_first t) (ht_second t) ws = Inr (a, ws')"
  shows "restart_due args cl t ws \<longleftrightarrow> a \<noteq> Keep"
  using assms unfolding watch_turn_def restart_due_def
  by (auto split: sum.splits if_splits option.splits py_error.splits prod.splits)

lemma head_step_frame:
  assumes "head_step args cl t st = (r, st')"
  shows "hr_command st' = hr_command st \<and> ws_current (hr_watch st') = ws_current (hr_watch st) \<or> head_planned args cl st'"
proof (cases "watch_turn args cl (ht_now t) (ht_first t) (ht_second t) (hr_watch st)")
  case (Inl e)
  with assms show ?thesis by (auto simp: head_step_def Let_def split: option.splits if_splits)
next
  case (Inr p)
  then obtain a ws where w: "watch_turn args cl (ht_now t) (ht_first t) (ht_second t) (hr_watch st) = Inr (a, ws)"
    by (cases p) auto
  show ?thesis
  proof (cases a)
    case Keep
    with w assms keep_current[of args cl "ht_now t" "ht_first t" "ht_second t" "hr_watch st" ws] show ?thesis
      by (auto simp: head_step_def Let_def split: option.splits if_splits)
  next
    case (Give_up e)
    with w assms show ?thesis by (auto simp: head_step_def Let_def split: option.splits if_splits)
  next
    case (Restart command)
    from restart_planned[OF w[unfolded Restart]] obtain ms where ms:
      "plan_command args cl (ht_second t) = Inr (command, ms)" "ws_current ws = membership_key ms" by auto
    show ?thesis
    proof (cases "ht_exit t")
      case None
      with w Restart assms have "hr_command st' = command" "hr_watch st' = ws" by (auto simp: head_step_def Let_def)
      with ms show ?thesis unfolding head_planned_def by blast
    next
      case (Some c)
      with assms show ?thesis by (auto simp: head_step_def)
    qed
  qed
qed

lemma head_step_planned:
  "head_planned args cl st \<Longrightarrow> head_step args cl t st = (r, st') \<Longrightarrow> head_planned args cl st'"
  using head_step_frame[of args cl t st r st'] unfolding head_planned_def by metis

lemma watch_loop_planned:
  "head_planned args cl st \<Longrightarrow> watch_loop args cl ts st = (r, st') \<Longrightarrow> head_planned args cl st'"
proof (induction ts arbitrary: st)
  case (Cons t ts)
  obtain r1 st1 where s: "head_step args cl t st = (r1, st1)" by (cases "head_step args cl t st") auto
  have "head_planned args cl st1" using Cons.prems(1) s by (rule head_step_planned)
  with Cons s show ?case by (cases r1) (auto split: if_splits)
qed (auto split: if_splits)

text \<open>What one turn leaves of a running head.\<close>

lemma head_step_cases:
  assumes "head_step args cl t st = (r, st')" and "hr_alive st" and "\<not> hr_stopping st"
  shows "case r of
      Goes_on \<Rightarrow> ht_exit t = None
        \<and> (hr_stopping st' \<longleftrightarrow> ht_signal_asleep t \<or> ht_signal_planning t \<and> restart_due args cl t (hr_watch st))
        \<and> (hr_alive st' \<longleftrightarrow> \<not> hr_stopping st' \<or> restart_due args cl t (hr_watch st))
    | Returns code \<Rightarrow> \<not> hr_alive st' \<and> (code = 0 \<longrightarrow> ht_exit t = Some 0)
    | Raises _ \<Rightarrow> True"
proof (cases "ht_exit t")
  case (Some code)
  with assms show ?thesis by (auto simp: head_step_def)
next
  case None
  show ?thesis
  proof (cases "watch_turn args cl (ht_now t) (ht_first t) (ht_second t) (hr_watch st)")
    case (Inl e)
    with None assms show ?thesis by (auto simp: head_step_def Let_def)
  next
    case (Inr p)
    then obtain a ws where w: "watch_turn args cl (ht_now t) (ht_first t) (ht_second t) (hr_watch st) = Inr (a, ws)"
      by (cases p) auto
    from watch_turn_due[OF this] have "restart_due args cl t (hr_watch st) \<longleftrightarrow> a \<noteq> Keep" .
    with None w assms show ?thesis by (cases a) (auto simp: head_step_def Let_def split: if_splits)
  qed
qed

lemma watch_loop_left_running:
  assumes "watch_loop args cl ts st = (Returns code, st')" and "hr_alive st" and "\<not> hr_stopping st"
  shows "hr_alive st' \<longleftrightarrow> code = 0 \<and> (\<exists>us t vs st0. ts = us @ t # vs \<and> watch_loop args cl us st = (Goes_on, st0)
    \<and> ht_exit t = None \<and> (ht_signal_asleep t \<or> ht_signal_planning t) \<and> restart_due args cl t (hr_watch st0))"
  using assms
proof (induction ts arbitrary: st)
  case (Cons t ts)
  obtain r1 st1 where s: "head_step args cl t st = (r1, st1)" by (cases "head_step args cl t st") auto
  note c = head_step_cases[OF s Cons.prems(2,3)]
  let ?E = "\<lambda>ts st us t vs st0. ts = us @ t # vs \<and> watch_loop args cl us st = (Goes_on, st0)
    \<and> ht_exit t = None \<and> (ht_signal_asleep t \<or> ht_signal_planning t) \<and> restart_due args cl t (hr_watch st0)"
  have split: "(\<exists>us t' vs st0. ?E (t # ts) st us t' vs st0) \<longleftrightarrow>
      ht_exit t = None \<and> (ht_signal_asleep t \<or> ht_signal_planning t) \<and> restart_due args cl t (hr_watch st)
      \<or> r1 = Goes_on \<and> (\<exists>us t' vs st0. ?E ts st1 us t' vs st0)" (is "?L \<longleftrightarrow> ?now \<or> ?later")
  proof
    assume ?L
    then obtain us t' vs st0 where E: "?E (t # ts) st us t' vs st0" by blast
    show "?now \<or> ?later"
    proof (cases us)
      case Nil
      with E Cons.prems(3) show ?thesis by auto
    next
      case (Cons u us')
      with E s \<open>\<not> hr_stopping st\<close> have "r1 = Goes_on \<and> ?E ts st1 us' t' vs st0" by (cases r1) auto
      then show ?thesis by blast
    qed
  next
    assume "?now \<or> ?later"
    then show ?L
    proof
      assume ?now
      with Cons.prems(3) have "?E (t # ts) st [] t ts st" by simp
      then show ?L by blast
    next
      assume ?later
      then obtain us t' vs st0 where "r1 = Goes_on" "?E ts st1 us t' vs st0" by blast
      with s Cons.prems(3) have "?E (t # ts) st (t # us) t' vs st0" by simp
      then show ?L by blast
    qed
  qed
  show ?case
  proof (cases r1)
    case (Returns k)
    with s Cons.prems c show ?thesis unfolding split by auto
  next
    case (Raises e)
    with s Cons.prems show ?thesis by auto
  next
    case Goes_on
    with s Cons.prems have l: "watch_loop args cl ts st1 = (Returns code, st')" by simp
    show ?thesis
    proof (cases "hr_stopping st1")
      case True
      have over: "watch_loop args cl us st1 = (Returns 0, st1)" for us using True by (cases us) auto
      with l c Goes_on True show ?thesis unfolding split by auto
    next
      case False
      with c Goes_on have "hr_alive st1" "\<not> (ht_signal_asleep t \<or> ht_signal_planning t \<and> restart_due args cl t (hr_watch st))"
        by auto
      with Cons.IH[OF l _ False] Goes_on show ?thesis unfolding split by auto
    qed
  qed
qed auto

end
