(* ===== verification/Head_Run_Properties.thy ===== *)
theory Head_Run_Properties
  imports Head_Run Launch_Properties
begin

text \<open>The watched head of \<open>scripts/serve_head.py\<close> over every course of turns and signals (C6).\<close>


subsection \<open>A signal during a restart\<close>








end
