(* ===== verification/Discovery.thy ===== *)
theory Discovery
  imports Contracts
begin

text \<open>
  mDNS discovery, \<open>node/discovery.py\<close>. The zeroconf library is a parameter: what registering a service
  answers, and the service records a browser reports before the wait ends. An environment is a
  dictionary of texts.
\<close>

definition SERVICE_TYPE :: string where "SERVICE_TYPE = ''_dain._tcp.local.''"
definition DEFAULT_CTL_PORT :: int where "DEFAULT_CTL_PORT = 8000"
definition ADVERTISED_NODE_PORT :: int where "ADVERTISED_NODE_PORT = 9100"

definition discovery_disabled :: "(string, string) dict \<Rightarrow> bool" where
  "discovery_disabled env \<longleftrightarrow>
     py_lower (case map_of env ''DAIN_MDNS_DISABLED'' of None \<Rightarrow> [] | Some s \<Rightarrow> s) \<in> set [''1'', ''true'', ''yes'']"

text \<open>\<open>probed\<close> is the address the probing socket reports, \<open>None\<close> for an \<open>OSError\<close>.\<close>

definition local_ipv4 :: "(string, string) dict \<Rightarrow> string option \<Rightarrow> string res" where
  "local_ipv4 env probed =
     (let override = (case map_of env ''DAIN_CTL_ADVERTISE_HOST'' of None \<Rightarrow> [] | Some s \<Rightarrow> s);
          address = (case probed of None \<Rightarrow> [] | Some a \<Rightarrow> a)
      in if override \<noteq> [] then Inr override
         else if address = [] \<or> address = ''0.0.0.0''
         then Inl (RuntimeError ''could not detect the mDNS address; set DAIN_CTL_ADVERTISE_HOST'')
         else Inr address)"

subsection \<open>Advertising\<close>

record service_info =
  si_type :: string
  si_name :: string
  si_port :: int
  si_properties :: "(string, string) dict"
  si_addresses :: "string list"
  si_server :: string

record advertisement =
  ad_info :: service_info
  ad_closed :: bool

text \<open>
  \<open>register\<close> is \<open>None\<close> when \<open>register_service\<close> succeeds and its exception otherwise. The flag of the
  result says whether the zeroconf object is still open.
\<close>

definition advertise :: "(service_info \<Rightarrow> py_error option) \<Rightarrow> string \<Rightarrow> string \<Rightarrow> int \<Rightarrow> (string, string) dict
    \<Rightarrow> advertisement res \<times> bool" where
  "advertise register instance_name host port properties =
     (if host = [] \<or> host \<in> set [''0.0.0.0'', ''::'']
      then (Inl (ValueError ''mDNS advertisement requires one concrete host address''), False)
      else if \<not> (1 \<le> port \<and> port \<le> 65535)
      then (Inl (ValueError ''mDNS advertisement port must be between 1 and 65535''), False)
      else
        let info = \<lparr>si_type = SERVICE_TYPE, si_name = instance_name @ ''.'' @ SERVICE_TYPE, si_port = port,
                    si_properties = properties, si_addresses = [host], si_server = instance_name @ ''.local.''\<rparr>
        in (case register info of
              Some e \<Rightarrow> (Inl e, False)
            | None \<Rightarrow> (Inr \<lparr>ad_info = info, ad_closed = False\<rparr>, True)))"

text \<open>\<open>host or os.getenv(...) or local_ipv4()\<close>; \<open>None\<close> when discovery is switched off.\<close>

definition advertise_control_plane :: "(service_info \<Rightarrow> py_error option) \<Rightarrow> (string, string) dict \<Rightarrow> string option
    \<Rightarrow> string option \<Rightarrow> int \<Rightarrow> advertisement option res" where
  "advertise_control_plane register env probed host port =
     (if discovery_disabled env then Inr None
      else
        rbind (case host of
                 Some h \<Rightarrow> if h = [] then local_ipv4 env probed else Inr h
               | None \<Rightarrow> local_ipv4 env probed) (\<lambda>address.
        rbind (fst (advertise register ''dain-control-plane'' address port
                 [(''role'', ''control-plane''), (''version'', ''1'')])) (\<lambda>ad. Inr (Some ad))))"

definition advertise_node :: "(service_info \<Rightarrow> py_error option) \<Rightarrow> (string, string) dict \<Rightarrow> node_profile \<Rightarrow> int
    \<Rightarrow> advertisement option res" where
  "advertise_node register env profile port =
     (if discovery_disabled env then Inr None
      else
        rbind (fst (advertise register (np_id profile) (np_host profile) port
                 [(''role'', ''node''), (''node_id'', np_id profile), (''ram_mb'', str_int (np_ram_total_mb profile)),
                  (''backend'', np_backend profile), (''version'', ''1'')])) (\<lambda>ad. Inr (Some ad)))"

text \<open>
  \<open>close\<close> unregisters once and closes the zeroconf object even if that fails; the numbers count the
  two calls.
\<close>

definition close_advertisement :: "py_error option \<Rightarrow> advertisement \<Rightarrow> (unit res \<times> nat \<times> nat) \<times> advertisement" where
  "close_advertisement unregister ad =
     (if ad_closed ad then ((Inr (), 0, 0), ad)
      else ((case unregister of None \<Rightarrow> Inr () | Some e \<Rightarrow> Inl e, 1, 1), ad\<lparr>ad_closed := True\<rparr>))"

subsection \<open>Discovering\<close>

text \<open>What \<open>get_service_info\<close> answers, as far as the listener reads it.\<close>

record found_service =
  fo_role :: "string option"
  fo_addresses :: "string list"
  fo_server :: "string option"
  fo_port :: "int option"

definition endpoint_of :: "found_service \<Rightarrow> string option" where
  "endpoint_of info =
     (let host = (case fo_addresses info of
            a # _ \<Rightarrow> a
          | [] \<Rightarrow> rstrip_while (\<lambda>c. c = CHR ''.'') (case fo_server info of None \<Rightarrow> [] | Some s \<Rightarrow> s))
      in if fo_role info \<noteq> Some ''control-plane'' then None
         else if host = [] then None
         else map_option (\<lambda>port. host @ '':'' @ str_int port) (fo_port info))"

text \<open>\<open>_consider\<close>, for a service that was added or updated; \<open>None\<close> is a service without a record.\<close>

definition consider_service :: "string option \<Rightarrow> found_service option \<Rightarrow> string option" where
  "consider_service endpoint info =
     (if endpoint = None then Option.bind info endpoint_of else endpoint)"

definition discover_control_plane :: "(string, string) dict \<Rightarrow> rat \<Rightarrow> found_service option list \<Rightarrow> string option res" where
  "discover_control_plane env timeout_s reported =
     (if discovery_disabled env then Inr None
      else if timeout_s \<le> 0 then Inl (ValueError ''timeout_s must be greater than zero'')
      else Inr (foldl consider_service None reported))"

subsection \<open>What holds\<close>

text \<open>The first control plane wins; later reports, also of the same service, change nothing.\<close>

lemma consider_first:
  "foldl consider_service None reported = Option.bind
     (find (\<lambda>i. Option.bind i endpoint_of \<noteq> None) reported) (\<lambda>i. Option.bind i endpoint_of)"
proof (induction reported)
  case (Cons i reported)
  have kept: "foldl consider_service (Some e) xs = Some e" for e xs
    by (induction xs) (auto simp: consider_service_def)
  have fresh: "consider_service None i = Option.bind i endpoint_of"
    by (simp add: consider_service_def)
  show ?case
    by (cases "Option.bind i endpoint_of") (simp_all add: Cons kept fresh)
qed simp

text \<open>A control plane is found where it advertises itself.\<close>

definition seen_as :: "service_info \<Rightarrow> found_service" where
  "seen_as info = \<lparr>fo_role = map_of (si_properties info) ''role'', fo_addresses = si_addresses info,
     fo_server = Some (si_server info), fo_port = Some (si_port info)\<rparr>"

lemma advertised_is_found:
  assumes "advertise_control_plane register env probed host port = Inr (Some ad)" and "0 < timeout_s"
  shows "\<exists>address. discover_control_plane env timeout_s [Some (seen_as (ad_info ad))] = Inr (Some (address @ '':'' @ str_int port))
    \<and> address \<noteq> [] \<and> address \<notin> set [''0.0.0.0'', ''::''] \<and> 1 \<le> port \<and> port \<le> 65535"
  using assms
  by (auto simp: advertise_control_plane_def advertise_def discover_control_plane_def Let_def res_simps seen_as_def
      consider_service_def endpoint_of_def split: if_splits option.splits)

text \<open>A node that advertises itself is never taken for a control plane.\<close>

lemma node_is_no_control_plane:
  "advertise_node register env profile port = Inr (Some ad) \<Longrightarrow> endpoint_of (seen_as (ad_info ad)) = None"
  by (auto simp: advertise_node_def advertise_def Let_def res_simps seen_as_def endpoint_of_def split: if_splits option.splits)

lemma close_twice: "close_advertisement u2 (snd (close_advertisement u1 ad)) = ((Inr (), 0, 0), snd (close_advertisement u1 ad))"
  by (simp add: close_advertisement_def)

end
