(* ===== verification/Lifecycle.thy ===== *)
theory Lifecycle
  imports Discovery Node_Agent Node_Bench Inference Head_Run
begin

text \<open>
  Starting and stopping the two services: \<open>main\<close> and \<open>lifespan\<close> of \<open>node/dain_node.py\<close> and \<open>lifespan\<close> of
  \<open>ctl/main.py\<close>. A lifespan is what it does before and after the service answers requests, in order;
  processes, tasks and the mDNS library answer through the world it runs in.
\<close>

subsection \<open>The node agent\<close>

datatype node_step =
    Rpc_started "string list"
  | Inference_started
  | Beat_started
  | Mdns_unavailable string
  | Beat_cancelled
  | Rpc_stopped "process_call list"
  | Inference_stopped "stop_signal list"
  | Client_closed
  | Mdns_closed

text \<open>
  \<open>nl_beat\<close> is the exception the heartbeat task has died of by the end, \<open>None\<close> while it runs;
  \<open>nl_popen\<close> is \<open>Popen\<close> of the rpc-server, \<open>nl_unregister\<close> the exception of closing the advertisement.
\<close>

record node_world =
  nl_binary :: "string option"
  nl_popen :: "string list \<Rightarrow> unit res"
  nl_files :: host_files
  nl_polls :: "int \<Rightarrow> int option"
  nl_infer_popen :: "string list \<Rightarrow> int res"
  nl_env :: "(string, string) dict"
  nl_register :: "service_info \<Rightarrow> py_error option"
  nl_beat :: "py_error option"
  nl_rpc_exited :: bool
  nl_rpc_quits :: bool
  nl_infer_ends :: "int \<Rightarrow> bool"
  nl_unregister :: "py_error option"

record node_service =
  ns_rpc :: "string list option"
  ns_inference :: local_inference
  ns_advertisement :: "advertisement option"

definition mdns_error :: "py_error \<Rightarrow> bool" where
  "mdns_error e \<longleftrightarrow> is_runtime_error e \<or> is_value_error e \<or> (case e of OSError _ \<Rightarrow> True | _ \<Rightarrow> False)"

text \<open>Up to \<open>yield\<close>: the steps taken and the service, or the exception that ends it.\<close>

definition node_startup :: "node_world \<Rightarrow> node_agent \<Rightarrow> local_inference \<Rightarrow> node_step list \<times> node_service res" where
  "node_startup w ag li =
     (case rbind (start_rpc_server (nl_binary w) (np_host (na_profile ag)) (na_rpc_port ag)) (\<lambda>command.
             case command of None \<Rightarrow> Inr None | Some c \<Rightarrow> rbind (nl_popen w c) (\<lambda>_. Inr (Some c))) of
        Inl e \<Rightarrow> ([], Inl e)
      | Inr rpc \<Rightarrow>
          let started = (case rpc of None \<Rightarrow> [] | Some c \<Rightarrow> [Rpc_started c]) in
          (case infer_start (nl_files w) (nl_polls w) (nl_infer_popen w) li of
             (Inl e, _) \<Rightarrow> (started, Inl e)
           | (Inr _, li1) \<Rightarrow>
               let running = started @ [Inference_started, Beat_started];
                   service = (\<lambda>ad. \<lparr>ns_rpc = rpc, ns_inference = li1, ns_advertisement = ad\<rparr>)
               in (case advertise_node (nl_register w) (nl_env w) (na_profile ag) (na_node_port ag) of
                     Inr ad \<Rightarrow> (running, Inr (service ad))
                   | Inl e \<Rightarrow> if mdns_error e then (running @ [Mdns_unavailable (err_text e)], Inr (service None))
                              else (running, Inl e))))"

text \<open>The \<open>finally\<close>: a heartbeat task that died raises at \<open>await beat\<close>, and the rest is skipped.\<close>

definition node_shutdown :: "node_world \<Rightarrow> node_service \<Rightarrow> node_step list \<times> unit res" where
  "node_shutdown w ns =
     (case nl_beat w of
        Some e \<Rightarrow> ([Beat_cancelled], Inl e)
      | None \<Rightarrow>
          let stopped = [Beat_cancelled,
                Rpc_stopped (stop_process (map_option (\<lambda>_. nl_rpc_exited w) (ns_rpc ns)) (nl_rpc_quits w)),
                Inference_stopped (fst (infer_stop (nl_polls w) (nl_infer_ends w) (ns_inference ns))), Client_closed]
          in (case ns_advertisement ns of
                None \<Rightarrow> (stopped, Inr ())
              | Some ad \<Rightarrow> (stopped @ [Mdns_closed], fst (fst (close_advertisement (nl_unregister w) ad)))))"

subsection \<open>Starting the node\<close>

record node_args =
  no_ctl :: string
  no_port :: int
  no_rpc_port :: int
  no_node_id :: "string option"
  no_no_calibrate :: bool

text \<open>
  The machine \<open>main\<close> runs on: the environment, the services a discovery hears of, the network
  interfaces with the families and addresses psutil lists, the address the probing socket reports
  (\<open>None\<close> for an \<open>OSError\<close>), and what is profiled.
\<close>

datatype address_family = Inet4 | Other_family

record machine =
  mc_env :: "(string, string) dict"
  mc_heard :: "found_service option list"
  mc_interfaces :: "(string, (address_family \<times> string) list) dict"
  mc_route :: "string \<Rightarrow> string option"
  mc_hostname :: string
  mc_cpuinfo :: "string option"
  mc_processor :: string
  mc_machine :: string
  mc_cpu_count :: "int option"
  mc_memory_total :: int
  mc_memory_available :: int
  mc_files :: host_files
  mc_exec :: "string list \<Rightarrow> process_outcome"
  mc_bench :: local_bench
  mc_sandbox :: sandbox

definition interface_ipv4 :: "(string, (address_family \<times> string) list) dict \<Rightarrow> string \<Rightarrow> string option" where
  "interface_ipv4 interfaces iface =
     (case map_of interfaces iface of None \<Rightarrow> None
      | Some addrs \<Rightarrow> map_option snd (find (\<lambda>a. fst a = Inet4) addrs))"

text \<open>\<open>ctl.rsplit(":", 1)[0]\<close>.\<close>

definition before_last_colon :: "string \<Rightarrow> string" where
  "before_last_colon s =
     (case dropWhile (\<lambda>c. c \<noteq> CHR '':'') (rev s) of [] \<Rightarrow> s | _ # r \<Rightarrow> rev r)"

definition profile_machine :: "machine \<Rightarrow> string \<Rightarrow> string \<Rightarrow> node_profile res" where
  "profile_machine mc node_id fabric_ip =
     rbind (read_cpu_model (mc_cpuinfo mc) (mc_processor mc) (mc_machine mc)) (\<lambda>cpu.
     Inr (build_local_profile node_id fabric_ip cpu (mc_cpu_count mc) (mc_memory_total mc) (mc_memory_available mc)))"

text \<open>\<open>Inl code\<close> is an exit before the server runs; else the agent and the address it is served on.\<close>

definition node_main :: "machine \<Rightarrow> node_args \<Rightarrow> (int + node_agent \<times> string) res" where
  "node_main mc args =
     rbind (if no_ctl args \<noteq> [] then Inr (Some (no_ctl args)) else discover_control_plane (mc_env mc) 3 (mc_heard mc)) (\<lambda>found.
     let ctl = (case found of None \<Rightarrow> [] | Some c \<Rightarrow> c);
         pool_secret = (case map_of (mc_env mc) ''DAIN_POOL_SECRET'' of None \<Rightarrow> [] | Some s \<Rightarrow> s)
     in if ctl = [] \<or> pool_secret = [] then Inr (Inl 2)
        else
          let fabric_ip = detect_fabric_ip (map_of (mc_env mc) ''DAIN_FABRIC_IFACE'') (interface_ipv4 (mc_interfaces mc))
                (mc_route mc) (before_last_colon ctl);
              node_id = (case no_node_id args of None \<Rightarrow> mc_hostname mc | Some i \<Rightarrow> if i = [] then mc_hostname mc else i)
          in rbind (profile_machine mc node_id fabric_ip) (\<lambda>p.
             rbind (if no_no_calibrate args then Inr p else calibrate_with_bench (mc_files mc) (mc_exec mc) (mc_bench mc) p) (\<lambda>profile.
             Inr (Inr (configure profile ctl pool_secret (no_port args) (no_rpc_port args) (mc_sandbox mc), fabric_ip)))))"

subsection \<open>The control plane\<close>

datatype ctl_step =
    Monitor_started
  | Telemetry_started
  | Mdns_missing string
  | Monitor_cancelled
  | Telemetry_closed
  | Queue_closed
  | Advertisement_closed

definition ctl_startup :: "(service_info \<Rightarrow> py_error option) \<Rightarrow> (string, string) dict \<Rightarrow> string option
    \<Rightarrow> ctl_step list \<times> advertisement option res" where
  "ctl_startup publish env probed =
     (let started = [Monitor_started, Telemetry_started] in
      case advertise_control_plane publish env probed None DEFAULT_CTL_PORT of
        Inr ad \<Rightarrow> (started, Inr ad)
      | Inl e \<Rightarrow> if mdns_error e then (started @ [Mdns_missing (err_text e)], Inr None) else (started, Inl e))"

text \<open>\<open>monitor\<close> is the exception the sweeping task has died of, \<open>None\<close> while it runs.\<close>

definition ctl_shutdown :: "py_error option \<Rightarrow> py_error option \<Rightarrow> advertisement option \<Rightarrow> ctl_step list \<times> unit res" where
  "ctl_shutdown monitor unregister advertised =
     (case monitor of
        Some e \<Rightarrow> ([Monitor_cancelled], Inl e)
      | None \<Rightarrow>
          let stopped = [Monitor_cancelled, Telemetry_closed, Queue_closed] in
          (case advertised of
             None \<Rightarrow> (stopped, Inr ())
           | Some ad \<Rightarrow> (stopped @ [Advertisement_closed], fst (fst (close_advertisement unregister ad)))))"

subsection \<open>What holds\<close>

text \<open>
  A node that starts serves on the address of its profile, which is never a wildcard: the rpc-server it
  starts is bound to that address, and a failed advertisement does not keep it from serving.
\<close>

lemma detect_fabric_ip_cases:
  "detect_fabric_ip iface_env interface route host = LOOPBACK
   \<or> (\<exists>i. interface i = Some (detect_fabric_ip iface_env interface route host)) \<or> route host = Some (detect_fabric_ip iface_env interface route host)"
  by (auto simp: detect_fabric_ip_def Let_def split: option.splits)

lemma calibrate_keeps_host:
  "calibrate_with_bench fs exec lb p = Inr q \<Longrightarrow> np_host q = np_host p \<and> np_id q = np_id p"
  by (auto simp: calibrate_with_bench_def calibrate_profile_def split: sum.splits if_splits option.splits)

lemma node_main_serves:
  assumes "node_main mc args = Inr (Inr (ag, fabric_ip))"
  shows "np_host (na_profile ag) = fabric_ip \<and> na_ctl ag \<noteq> [] \<and> na_pool_secret ag \<noteq> [] \<and> na_bearer_token ag = None"
  using assms
  by (auto simp: node_main_def profile_machine_def build_local_profile_def configure_def res_simps Let_def
      dest!: calibrate_keeps_host split: if_splits)

lemma node_startup_bind:
  assumes "node_startup w ag li = (steps, r)" and "Rpc_started c \<in> set steps"
  shows "np_host (na_profile ag) \<notin> set WILDCARD_ADDRESSES \<and> c ! 2 = np_host (na_profile ag)"
proof -
  have "start_rpc_server (nl_binary w) (np_host (na_profile ag)) (na_rpc_port ag) = Inr (Some c)"
    using assms by (auto simp: node_startup_def Let_def res_simps split: sum.splits option.splits prod.splits if_splits)
  then show ?thesis by (auto simp: start_rpc_server_def split: if_splits)
qed

text \<open>
  Shutting down while the heartbeats run stops the rpc-server and the inference server; after the
  heartbeat task has died it stops nothing, and the processes outlive the agent.
\<close>

lemma node_shutdown_complete:
  assumes "nl_beat w = None"
  shows "\<exists>calls signals. {Beat_cancelled, Rpc_stopped calls, Inference_stopped signals, Client_closed} \<subseteq> set (fst (node_shutdown w ns))
    \<and> (ns_rpc ns \<noteq> None \<and> \<not> nl_rpc_exited w \<longrightarrow> Terminated \<in> set calls)
    \<and> (\<forall>pid. li_proc (ns_inference ns) = Some pid \<and> nl_polls w pid = None \<longrightarrow> Terminate pid \<in> set signals)"
  using assms
  by (intro exI[of _ "stop_process (map_option (\<lambda>_. nl_rpc_exited w) (ns_rpc ns)) (nl_rpc_quits w)"]
      exI[of _ "fst (infer_stop (nl_polls w) (nl_infer_ends w) (ns_inference ns))"])
    (auto simp: node_shutdown_def Let_def stop_process_def infer_stop_def split: option.splits)

lemma node_shutdown_after_dead_heartbeat:
  "nl_beat w = Some e \<Longrightarrow> node_shutdown w ns = ([Beat_cancelled], Inl e)"
  by (simp add: node_shutdown_def)

lemma ctl_lifecycle:
  assumes "ctl_startup publish env probed = (steps, Inr ad)"
  shows "{Monitor_started, Telemetry_started} \<subseteq> set steps
    \<and> (fst (ctl_shutdown None u ad) = [Monitor_cancelled, Telemetry_closed, Queue_closed] @ (if ad = None then [] else [Advertisement_closed]))"
  using assms by (auto simp: ctl_startup_def ctl_shutdown_def Let_def split: sum.splits if_splits option.splits)

end
