(* ===== verification/Operator.thy ===== *)
theory Operator
  imports Agent_Loop Text_Layout
begin

text \<open>
  The operator's scripts around the agent and the index: \<open>scripts/run_agent.py\<close>, a conversation on the
  terminal, and \<open>scripts/fetch_embed_model.py\<close>, which caches the embedding model. What is printed is a
  list of texts, each with its stream; \<open>show\<close> is how Python prints a dictionary.
\<close>

datatype printed = Out string | Err string

subsection \<open>\<open>run_agent.py\<close>\<close>

definition SUMMARY_WIDTH :: nat where "SUMMARY_WIDTH = 100"

definition required_of :: "tool \<Rightarrow> string list" where
  "required_of t =
     (case tl_parameters t of
        JObj d \<Rightarrow> (case jget d ''required'' of JList xs \<Rightarrow> map json_str xs | _ \<Rightarrow> [])
      | _ \<Rightarrow> [])"

definition print_tools :: "(rat \<Rightarrow> string) \<Rightarrow> string list \<Rightarrow> printed list" where
  "print_tools frepr models =
     concat (map (\<lambda>t. [Out (tl_name t @ ''('' @ (if required_of t = [] then ''no arguments'' else str_join '', '' (required_of t)) @ '')''),
                       Out (''    '' @ tl_description t), Out []]) (TOOLS frepr models))"

definition render_call :: "((string, json) dict \<Rightarrow> string) \<Rightarrow> tool_call \<Rightarrow> printed list" where
  "render_call show c =
     [Err (''  [tool] '' @ tc_name c @ '' '' @ (if tc_arguments c = [] then [] else show (tc_arguments c))),
      Err (''         -> '' @ take_chars SUMMARY_WIDTH (if tc_result c = [] then [] else hd (splitlines (tc_result c))))]"

definition render :: "((string, json) dict \<Rightarrow> string) \<Rightarrow> bool \<Rightarrow> agent_reply \<Rightarrow> printed list" where
  "render show show_work reply =
     (if show_work then concat (map (render_call show) (rp_tool_calls reply)) else [])
     @ [Out (rp_text reply)]
     @ (if rp_hit_turn_cap reply then [Err (''  (stopped after '' @ str_nat (rp_turns reply) @ '' turns)'')] else [])"

text \<open>
  \<open>reply k prompt history\<close> answers the \<open>k\<close>-th question; a line is \<open>None\<close> for the end of the input or an
  interrupt. The result is the exit code, \<open>None\<close> while the conversation waits for a line.
\<close>

type_synonym conversation = "(string, json) dict list"

fun interactive_loop :: "(nat \<Rightarrow> string \<Rightarrow> conversation \<Rightarrow> agent_reply res) \<Rightarrow> ((string, json) dict \<Rightarrow> string) \<Rightarrow> bool
    \<Rightarrow> nat \<Rightarrow> conversation \<Rightarrow> string option list \<Rightarrow> printed list \<times> conversation \<times> int option res" where
  "interactive_loop reply show show_work k history [] = ([], history, Inr None)"
| "interactive_loop reply show show_work k history (None # lines) = ([Err []], history, Inr (Some 0))"
| "interactive_loop reply show show_work k history (Some line # lines) =
     (let prompt = py_strip line in
      if prompt = [] then interactive_loop reply show show_work k history lines
      else if prompt \<in> set [''exit'', ''quit''] then ([], history, Inr (Some 0))
      else case reply k prompt history of
        Inl e \<Rightarrow>
          if is_runtime_error e
          then (case interactive_loop reply show show_work (k + 1) history lines of
                  (out, h, r) \<Rightarrow> (Err (''error: '' @ err_text e) # out, h, r))
          else ([], history, Inl e)
      | Inr a \<Rightarrow>
          (case interactive_loop reply show show_work (k + 1) (map message_dict (rp_messages a)) lines of
             (out, h, r) \<Rightarrow> (render show show_work a @ out, h, r)))"

text \<open>\<open>--once\<close>.\<close>

definition ask_once :: "(string \<Rightarrow> agent_reply res) \<Rightarrow> ((string, json) dict \<Rightarrow> string) \<Rightarrow> bool \<Rightarrow> string
    \<Rightarrow> (printed list \<times> int) res" where
  "ask_once reply show show_work question =
     (case reply question of
        Inr a \<Rightarrow> Inr (render show show_work a, 0)
      | Inl e \<Rightarrow> if is_runtime_error e then Inr ([Err (''error: '' @ err_text e)], 1) else Inl e)"

record operator_args =
  op_tools :: bool
  op_once :: "string option"
  op_quiet :: bool
  op_endpoint :: "string option"
  op_model :: "string option"
  op_max_turns :: int

text \<open>An empty option counts as not given.\<close>

definition given :: "string option \<Rightarrow> string option" where
  "given x = (case x of Some (c # s) \<Rightarrow> Some (c # s) | _ \<Rightarrow> None)"

text \<open>
  \<open>reply ag k\<close> answers the \<open>k\<close>-th question with the agent \<open>ag\<close>, \<open>ctl\<close> is the address of the client.
\<close>

definition operator_main :: "(rat \<Rightarrow> string) \<Rightarrow> string list \<Rightarrow> (string, string) dict \<Rightarrow> string res
    \<Rightarrow> (agent \<Rightarrow> nat \<Rightarrow> string \<Rightarrow> conversation \<Rightarrow> agent_reply res) \<Rightarrow> ((string, json) dict \<Rightarrow> string)
    \<Rightarrow> operator_args \<Rightarrow> string option list \<Rightarrow> printed list \<times> int option res" where
  "operator_main frepr models env ctl reply show args lines =
     (if op_tools args then (print_tools frepr models, Inr (Some 0))
      else case rbind ctl (\<lambda>c. rbind (agent_from_environment env (given (op_endpoint args)) (given (op_model args))
              (Some (op_max_turns args))) (\<lambda>ag. Inr (c, ag))) of
        Inl e \<Rightarrow> ([], Inl e)
      | Inr (c, ag) \<Rightarrow>
          (case given (op_once args) of
             Some question \<Rightarrow>
               (case ask_once (\<lambda>p. reply ag 0 p []) show (\<not> op_quiet args) question of
                  Inl e \<Rightarrow> ([], Inl e) | Inr (out, code) \<Rightarrow> (out, Inr (Some code)))
           | None \<Rightarrow>
               (case interactive_loop (reply ag) show (\<not> op_quiet args) 0 [] lines of
                  (out, _, r) \<Rightarrow> (Err (''Thinking on '' @ ag_endpoint ag @ ''; tools act through '' @ c @ ''. Ctrl-D to quit.'') # out, r))))"

subsection \<open>\<open>fetch_embed_model.py\<close>\<close>

text \<open>
  \<open>load k local_only\<close> is the outcome of the \<open>k\<close>-th time FastEmbed loads the model: the class name and
  the message of its exception, if it raises one.
\<close>

definition fetch_embed_main :: "bool \<Rightarrow> (nat \<Rightarrow> bool \<Rightarrow> (string \<times> string) option) \<Rightarrow> string \<Rightarrow> string option \<Rightarrow> bool
    \<Rightarrow> printed list \<times> int" where
  "fetch_embed_main installed load model_id cache check =
     (let cache_dir = given cache;
          start = [Out (''model: '' @ model_id),
                   Out (''cache: '' @ (case cache_dir of None \<Rightarrow> ''the FastEmbed default cache'' | Some c \<Rightarrow> c))];
          dash = [CHR 0xE2, CHR 0x80, CHR 0x94]
      in if \<not> installed
         then ([Err (''fastembed is not installed in this environment.'' @ [CHR 0x0A]
                 @ ''Run this on the node that serves /index, inside its venv.'')], 1)
         else case load 0 True of
           None \<Rightarrow> (start @ [Out (''already cached '' @ dash @ '' /index can load it offline'')], 0)
         | Some (kind, _) \<Rightarrow>
             if check then (start @ [Out (''NOT CACHED '' @ dash @ '' /index would return 503 ('' @ kind @ '')'')], 1)
             else
               let tried = start @ [Out ''not cached locally; downloading...''] in
               (case load 1 False of
                  Some (k, m) \<Rightarrow> (tried @ [Err (''download failed: '' @ k @ '': '' @ m)], 1)
                | None \<Rightarrow>
                    (case load 2 True of
                       Some (_, m) \<Rightarrow> (tried @ [Err (''downloaded, but still will not load offline: '' @ m)], 1)
                     | None \<Rightarrow> (tried @ [Out (''cached and verified offline '' @ dash @ '' /index will work on this node'')]
                         @ (case cache_dir of None \<Rightarrow> []
                            | Some c \<Rightarrow> [Out ([CHR 0x0A] @ ''Set on the node so it finds the same cache:''),
                                Out (''  export DAIN_EMBED_CACHE='' @ c)]), 0))))"

subsection \<open>What holds\<close>

text \<open>Exit code 0 means that the last load was offline and succeeded; \<open>--check\<close> never goes online.\<close>

lemma fetch_embed_verified:
  "snd (fetch_embed_main installed load model_id cache check) = 0 \<longleftrightarrow>
     installed \<and> (load 0 True = None \<or> \<not> check \<and> load 1 False = None \<and> load 2 True = None)"
  by (auto simp: fetch_embed_main_def Let_def split: option.splits)

lemma fetch_embed_check_offline:
  "(\<And>k. load k True = load' k True) \<Longrightarrow>
     fetch_embed_main installed load model_id cache True = fetch_embed_main installed load' model_id cache True"
  by (auto simp: fetch_embed_main_def Let_def split: option.splits)

text \<open>The answer alone goes to the standard output.\<close>

lemma render_out: "[x. Out x \<leftarrow> render show w reply] = [rp_text reply]"
proof -
  have "[x. Out x \<leftarrow> concat (map (render_call show) cs)] = []" for cs
    by (induction cs) (simp_all add: render_call_def)
  then show ?thesis by (simp add: render_def)
qed

text \<open>A reply carries the conversation it was asked with and goes on from there.\<close>

lemma ask_loop_extends:
  "ask_loop ag llm loads frepr models world order left turn conv performed seen = Inr r \<Longrightarrow>
     \<exists>more. rp_messages r = conv @ more"
proof (induction left arbitrary: turn conv performed seen)
  case (Suc left)
  then obtain content calls where c: "complete_chat ag llm (tool_schemas frepr models) turn conv = Inr (content, calls)"
    by (auto simp: res_simps)
  show ?case
  proof (cases "calls = []")
    case True
    with Suc.prems c show ?thesis by auto
  next
    case False
    with Suc.prems c show ?thesis by (auto simp: Let_def dest!: Suc.IH split: prod.splits)
  qed
qed auto

text \<open>
  The conversation on the terminal only ever grows: no question, however it fails, loses a message.
\<close>

lemma interactive_history_grows:
  assumes "\<And>k prompt history a. reply k prompt history = Inr a \<Longrightarrow> \<exists>more. map message_dict (rp_messages a) = history @ more"
    and "interactive_loop reply show w k history lines = (out, h, r)"
  shows "\<exists>more. h = history @ more"
  using assms(2)
proof (induction lines arbitrary: k history out)
  case (Cons l lines)
  show ?case
  proof (cases l)
    case (Some line)
    show ?thesis
    proof (cases "py_strip line = [] \<or> py_strip line \<in> set [''exit'', ''quit'']")
      case True
      with Cons Some show ?thesis by (auto simp: Let_def split: if_splits)
    next
      case False
      show ?thesis
      proof (cases "reply k (py_strip line) history")
        case (Inl e)
        with Cons Some False show ?thesis by (auto simp: Let_def split: if_splits prod.splits)
      next
        case (Inr a)
        from assms(1)[OF Inr] obtain more where m: "map message_dict (rp_messages a) = history @ more" by blast
        obtain out' where "interactive_loop reply show w (k + 1) (history @ more) lines = (out', h, r)"
          using Cons.prems Some False Inr m by (auto simp: Let_def split: prod.splits)
        from Cons.IH[OF this] show ?thesis by auto
      qed
    qed
  qed (use Cons.prems in auto)
qed auto

lemma ask_keeps_history:
  "ask ag llm loads frepr models world order prompt history = Inr a \<Longrightarrow>
     \<exists>more. map message_dict (rp_messages a) = history @ more"
  unfolding ask_def by (drule ask_loop_extends) (auto simp: message_dict_def o_def)

end
