(* ===== verification/Spec2Isabelle.thy ===== *)
theory Spec2Isabelle
  imports Plan_Properties Registry_Properties Auth_Properties Telemetry_Properties Job_Queue_Properties
    Job_Outcome_Properties Capacity_Properties Control_Plane_Properties Sandbox_Properties
    Node_Agent_Properties Launch_Properties File_Index_Properties Inference_Properties Node_Bench_Properties
    Bench_Record_Properties Join_Plane_Properties Search_Plane_Properties Agent_Loop_Properties Agent_Pool_Properties
    Mock_Data_Properties State_Fetcher Model_Fetch Fabric_Check Head_Run_Properties Lifecycle Operator
begin

text \<open>
  \<^bold>\<open>DAIN\<close> pools ordinary machines for local language models. A \<^emph>\<open>node agent\<close> on each machine
  (\<open>node/\<close>) profiles it, joins a \<^emph>\<open>control plane\<close> (\<open>ctl/\<close>), sends heartbeats, serves metrics and runs
  jobs. The control plane keeps the registry of nodes, authenticates joins, polls metrics, queues
  jobs and answers \<open>GET /api/plan\<close> with the \<^emph>\<open>scheduler\<close> (\<open>sched/\<close>), which divides the layers of a
  model over the live nodes. The \<^emph>\<open>head\<close> (\<open>infer/\<close>, \<open>scripts/serve_head.py\<close>) starts one llama-server
  over the members with the shares of that plan. All of this is Python; the theories follow its
  modules one by one.

  \<^bold>\<open>Conventions.\<close> A dataclass is a record with the source's fields behind a prefix, an exception a
  value of \<open>py_error\<close>, a fallible function returns \<open>py_error + 'a\<close>, a method takes the state and
  returns the new one. A dictionary is an association list in insertion order. Clocks, random
  tokens, sockets, files, processes and the HTTP client are arguments. A float is the rational it
  denotes: rounding of single operations, infinities and NaN are not modelled. A text is its UTF-8
  bytes. \<open>Dain_Prelude\<close> holds these conventions with Python's strings, numbers and dictionaries;
  \<open>Json\<close> the parsed documents and the canonical printing; \<open>Contracts\<close> the shared data types of
  \<open>contracts.py\<close>.

  \<^bold>\<open>Scheduler.\<close> \<open>Cost\<close> is \<open>sched/cost.py\<close> and \<open>Plan\<close> is \<open>sched/plan.py\<close>, function by function.
  \<open>Layer_Pool\<close> is the abstract contract of the repair loop as a locale, which \<open>Plan_Repair\<close>
  interprets on the real data; \<open>Plan_Correct\<close> puts the stages together. Repair runs with the bound on
  its turns that the source has; C3 shows that it never stops for that bound. C1, C2 and C4: the plan
  partitions the layers, respects memory, and succeeds where there is room; \<open>Plan_Properties\<close> adds the
  errors, the tensor shares, and what an uncalibrated or too small node does. \<open>State_Fetcher\<close> is
  \<open>sched/profile.py\<close> over the control plane it reads.

  \<^bold>\<open>Registry.\<close> \<open>Event_Log\<close> is the contract of a numbered log with a cursor, a locale interpreted on
  the registry and on the job queue. \<open>Registry\<close> is \<open>ctl/registry.py\<close>; \<open>Registry_Correct\<close> its invariant
  over every history of operations. C9 and C10: the log replays to the set of live nodes, a sweep marks
  exactly the silent nodes.

  \<^bold>\<open>Authentication.\<close> \<open>Sha256\<close> is the hash and HMAC the standard library provides, \<open>Join_Auth\<close> is
  \<open>node/auth.py\<close> and \<open>ctl/auth.py\<close>. C13, C14, C16, C18 and C19: a nonce admits one join, joins and tokens
  are accepted exactly when they should be, job signatures bind the request, and a non-ASCII signature
  escapes as an exception. \<open>Join_Plane\<close> puts the agent of a node on the routes of the control plane; C15
  is the whole way from the challenge to the first heartbeat.

  \<^bold>\<open>Telemetry.\<close> \<open>Telemetry\<close> is \<open>ctl/telemetry.py\<close> with its reader of metrics texts, \<open>Telemetry_Run\<close> its
  polling task. C20 to C22: frames are well formed, a polling cycle updates exactly the polled nodes,
  and a sample of a deleted node can stay.

  \<^bold>\<open>Job queue.\<close> \<open>Job_Queue\<close> is \<open>ctl/queue.py\<close>. A coroutine is data in the state and the code between two
  awaits one operation, so that the inductive relation \<open>jq_step\<close> covers every interleaving of jobs,
  shards, cancellations and replies. \<open>Job_Queue_Correct\<close> is the invariant. C25 to C28, C30 and C31:
  bounded requests per node, bounded attempts, jobs that only move forward, outcomes, requests the node
  accepts, and pinned jobs that move. \<open>Search_Plane\<close> runs a search through the queue and the indexes of
  its nodes; C29 shows that the merged answer is the exact best of all of them.

  \<^bold>\<open>Capacity.\<close> \<open>Model_Ladder\<close>, \<open>Capacity\<close> and \<open>Model_Spec\<close> are \<open>infer/models.py\<close>, \<open>infer/memory.py\<close> and
  \<open>infer/spec.py\<close>. C32 and C33: the scheduler plans for the memory the model needs, and the capacity
  report claims what its numbers show. \<open>Bench_Record\<close> is \<open>infer/bench.py\<close> over the text of its CSV file;
  C8: what is appended is loaded again.

  \<^bold>\<open>Control plane.\<close> \<open>Control_Plane\<close> is the handlers of \<open>ctl/main.py\<close> over one record of the four
  managers. A turn of \<open>/feed\<close> reads the state at four moments, since each send may suspend it. C34 to
  C36: plans answer 200, 404 or 503, the feed sends every event once and in order, a deleted node is
  locked out. \<open>Http_Answer\<close> turns a handler's result into the reply a client sees. \<open>Mock_Data\<close> is the demo
  data of \<open>ctl/mock.py\<close> and \<open>sched/mock.py\<close>, with the routes that only serve it.

  \<^bold>\<open>Node.\<close> \<open>Sandbox\<close> is \<open>node/sandbox.py\<close>, \<open>Node_Agent\<close> is \<open>node/dain_node.py\<close>, \<open>File_Index\<close>, \<open>Inference\<close> and
  \<open>Node_Bench\<close> are \<open>node/index.py\<close>, \<open>node/infer.py\<close> and \<open>node/bench.py\<close>. The waiting loop of an inference
  is a partial function over the clock of its turns; C17 includes that it returns.
  C11 and C12: the index is bounded and confined, and a search returns the best documents. C17: every
  completion ends in one of four ways. C23: calibration reads the decode speed, whatever the order of the
  rows. C37 to C39: the metrics text reads back as the sample, a failing command is retried by the queue,
  and the contract of a sandboxed execution. \<open>Discovery\<close> is \<open>node/discovery.py\<close>, with zeroconf as a
  parameter. \<open>Lifecycle\<close> is how the node agent and the control plane start and stop: what is started,
  and what a shutdown stops or leaves.

  \<^bold>\<open>Head.\<close> \<open>Launch\<close> is \<open>infer/launch.py\<close> and the planning of \<open>scripts/serve_head.py\<close>, \<open>Head_Run\<close> its
  \<open>main\<close>: the watch loop is a list of turns, each with the signals that fall into it. C40: the head's
  command line carries the plan of the control plane, member by member, or the head does not start. C6:
  the running head belongs to the membership it is compared with, and the one way in which the script
  ends while a head runs on.

  \<^bold>\<open>Agent.\<close> \<open>Dynamic\<close> is Python's operations on values of unknown type. \<open>Agent_Client\<close>, \<open>Agent_Fanout\<close>,
  \<open>Agent_Tools\<close>, \<open>Agent_Loop\<close> and \<open>Agent_Service\<close> are the modules of \<open>agent/\<close>, \<open>Agent_Plane\<close> the agent over
  the control plane. The language model is a parameter. Waiting for a job is a partial
  function over its polls, and C24 includes that it returns. C5: a conversation turn ends and is well formed. C7: a
  pool-wide search is accepted. C24: \<open>ask_pool\<close> answers every prompt.

  \<^bold>\<open>Scripts.\<close> \<open>Model_Fetch\<close> is \<open>scripts/fetch_models.py\<close>: models are fetched down the ladder, the first
  failure ends it, and the manifest is written only after all succeeded. \<open>Fabric_Check\<close> is
  \<open>scripts/check_fabric.py\<close>: its exit code says exactly whether some machine answered and all of them
  accept connections. \<open>Operator\<close> is \<open>scripts/run_agent.py\<close> and \<open>scripts/fetch_embed_model.py\<close>.
  \<open>Text_Layout\<close> and \<open>Number_Text\<close> hold the printing of columns and the reading of numbers.

  \<^bold>\<open>Not modelled.\<close> The declarations of the FastAPI applications and their CORS settings, uvicorn, the
  argument parsers (their results are records), log messages, the asyncio timers that only repeat a
  modelled step, and the dashboard and the installers, which are not Python. A width or a cut of a text
  counts characters where the source prints columns; elsewhere lengths are those of the UTF-8 bytes. The
  field size limit of the \<open>csv\<close> module, and the rounding of floats, are outside the model.
\<close>

end
